(* ===== verification/Prelude.thy ===== *)
theory Prelude
  imports Main "HOL-Library.AList"
begin

text \<open>
  What every component of the model shares.

  \<^item> The effect of a Python call: it reads and writes a state and then either returns a value
    or raises. An exception does not undo the writes made before it, so the state comes back in
    both cases: \<open>('s, 'e, 'a) py = 's \<Rightarrow> ('e + 'a) \<times> 's\<close>.
  \<^item> Partial correctness triples \<open>hoare P m Q E\<close> over such calls (\<open>Q\<close> after a return, \<open>E\<close> after
    a raise) with one rule per combinator, collected in \<open>hoare_rules\<close>.
  \<^item> Python's insertion-ordered dictionaries as association lists with distinct keys.
\<close>

named_theorems py_defs "definitions of the effect combinators"
named_theorems hoare_rules "introduction rules for triples"
named_theorems dict_simps "facts on insertion-ordered dictionaries"

section \<open>Calls with state and exceptions\<close>

type_synonym ('s, 'e, 'a) py = "'s \<Rightarrow> ('e + 'a) \<times> 's"

definition py_return :: "'a \<Rightarrow> ('s, 'e, 'a) py" where
  [py_defs]: "py_return x s = (Inr x, s)"

definition py_raise :: "'e \<Rightarrow> ('s, 'e, 'a) py" where
  [py_defs]: "py_raise e s = (Inl e, s)"

definition py_bind :: "('s, 'e, 'a) py \<Rightarrow> ('a \<Rightarrow> ('s, 'e, 'b) py) \<Rightarrow> ('s, 'e, 'b) py" where
  [py_defs]: "py_bind m f s =
     (case m s of (Inl e, t) \<Rightarrow> (Inl e, t) | (Inr x, t) \<Rightarrow> f x t)"

definition py_then :: "('s, 'e, 'a) py \<Rightarrow> ('s, 'e, 'b) py \<Rightarrow> ('s, 'e, 'b) py" where
  [py_defs]: "py_then m k = py_bind m (\<lambda>_. k)"

definition py_gets :: "('s \<Rightarrow> 'a) \<Rightarrow> ('s, 'e, 'a) py" where
  [py_defs]: "py_gets f s = (Inr (f s), s)"

definition py_modify :: "('s \<Rightarrow> 's) \<Rightarrow> ('s, 'e, unit) py" where
  [py_defs]: "py_modify f s = (Inr (), f s)"

text \<open>\<open>if bad: raise e\<close>\<close>

definition py_raise_if :: "bool \<Rightarrow> 'e \<Rightarrow> ('s, 'e, unit) py" where
  [py_defs]: "py_raise_if bad e = (if bad then py_raise e else py_return ())"

text \<open>A value or an exception that is computed without touching the state.\<close>

definition py_lift :: "'e + 'a \<Rightarrow> ('s, 'e, 'a) py" where
  [py_defs]: "py_lift r s = (r, s)"

text \<open>\<open>for x in xs: f(x)\<close>: the first exception ends the loop.\<close>

fun py_each :: "('x \<Rightarrow> ('s, 'e, 'a) py) \<Rightarrow> 'x list \<Rightarrow> ('s, 'e, unit) py" where
  "py_each f [] = py_return ()"
| "py_each f (x # xs) = py_then (f x) (py_each f xs)"

text \<open>A call on a part of the state: an attribute that holds another object.\<close>

definition py_zoom :: "('s \<Rightarrow> 't) \<Rightarrow> ('t \<Rightarrow> 's \<Rightarrow> 's) \<Rightarrow> ('t, 'e, 'a) py \<Rightarrow> ('s, 'e, 'a) py" where
  [py_defs]: "py_zoom get put m s = (case m (get s) of (r, t) \<Rightarrow> (r, put t s))"

lemma py_bind_Inr: "m s = (Inr x, t) \<Longrightarrow> py_bind m f s = f x t"
  by (simp add: py_bind_def)

lemma py_bind_Inl: "m s = (Inl e, t) \<Longrightarrow> py_bind m f s = (Inl e, t)"
  by (simp add: py_bind_def)

lemma py_bind_eq_Inr:
  "py_bind m f s = (Inr y, u) \<longleftrightarrow> (\<exists>x t. m s = (Inr x, t) \<and> f x t = (Inr y, u))"
  by (auto simp: py_bind_def split: prod.splits sum.splits)

lemma py_bind_eq_Inl:
  "py_bind m f s = (Inl e, u) \<longleftrightarrow>
     m s = (Inl e, u) \<or> (\<exists>x t. m s = (Inr x, t) \<and> f x t = (Inl e, u))"
  by (auto simp: py_bind_def split: prod.splits sum.splits)

lemma py_then_eq_Inr:
  "py_then m k s = (Inr y, u) \<longleftrightarrow> (\<exists>x t. m s = (Inr x, t) \<and> k t = (Inr y, u))"
  by (simp add: py_then_def py_bind_eq_Inr)

lemma py_then_eq_Inl:
  "py_then m k s = (Inl e, u) \<longleftrightarrow>
     m s = (Inl e, u) \<or> (\<exists>x t. m s = (Inr x, t) \<and> k t = (Inl e, u))"
  by (simp add: py_then_def py_bind_eq_Inl)

lemma py_return_eq [simp]: "py_return x s = (r, t) \<longleftrightarrow> r = Inr x \<and> t = s"
  by (auto simp: py_return_def)

lemma py_raise_eq [simp]: "py_raise e s = (r, t) \<longleftrightarrow> r = Inl e \<and> t = s"
  by (auto simp: py_raise_def)

lemma py_gets_eq [simp]: "py_gets f s = (r, t) \<longleftrightarrow> r = Inr (f s) \<and> t = s"
  by (auto simp: py_gets_def)

lemma py_modify_eq [simp]: "py_modify f s = (r, t) \<longleftrightarrow> r = Inr () \<and> t = f s"
  by (auto simp: py_modify_def)

lemma py_lift_eq [simp]: "py_lift x s = (r, t) \<longleftrightarrow> r = x \<and> t = s"
  by (auto simp: py_lift_def)

lemma py_raise_if_eq_Inr [simp]:
  "py_raise_if bad e s = (Inr u, t) \<longleftrightarrow> \<not> bad \<and> t = s"
  by (auto simp: py_raise_if_def)

lemma py_raise_if_eq_Inl [simp]:
  "py_raise_if bad e s = (Inl e', t) \<longleftrightarrow> bad \<and> e' = e \<and> t = s"
  by (auto simp: py_raise_if_def)

lemma py_zoom_eq:
  "py_zoom get put m s = (r, u) \<longleftrightarrow> (\<exists>t. m (get s) = (r, t) \<and> u = put t s)"
  by (auto simp: py_zoom_def split: prod.splits)

lemmas py_eqs = py_bind_eq_Inr py_bind_eq_Inl py_then_eq_Inr py_then_eq_Inl py_zoom_eq

section \<open>Triples\<close>

definition hoare ::
  "('s \<Rightarrow> bool) \<Rightarrow> ('s, 'e, 'a) py \<Rightarrow> ('a \<Rightarrow> 's \<Rightarrow> bool) \<Rightarrow> ('e \<Rightarrow> 's \<Rightarrow> bool) \<Rightarrow> bool" where
  "hoare P m Q E \<longleftrightarrow>
     (\<forall>s. P s \<longrightarrow> (case m s of (Inl e, t) \<Rightarrow> E e t | (Inr x, t) \<Rightarrow> Q x t))"

lemma hoareI:
  assumes "\<And>s x t. P s \<Longrightarrow> m s = (Inr x, t) \<Longrightarrow> Q x t"
    and "\<And>s e t. P s \<Longrightarrow> m s = (Inl e, t) \<Longrightarrow> E e t"
  shows "hoare P m Q E"
  using assms by (auto simp: hoare_def split: prod.splits sum.splits)

lemma hoare_Inr: "hoare P m Q E \<Longrightarrow> P s \<Longrightarrow> m s = (Inr x, t) \<Longrightarrow> Q x t"
  by (force simp: hoare_def)

lemma hoare_Inl: "hoare P m Q E \<Longrightarrow> P s \<Longrightarrow> m s = (Inl e, t) \<Longrightarrow> E e t"
  by (force simp: hoare_def)

lemma hoare_weaken:
  assumes "hoare P' m Q' E'" and "\<And>s. P s \<Longrightarrow> P' s"
    and "\<And>x s. Q' x s \<Longrightarrow> Q x s" and "\<And>e s. E' e s \<Longrightarrow> E e s"
  shows "hoare P m Q E"
  using assms by (fastforce intro!: hoareI dest: hoare_Inr hoare_Inl)

lemma hoare_bind [hoare_rules]:
  assumes "hoare P m R E" and "\<And>x. hoare (R x) (f x) Q E"
  shows "hoare P (py_bind m f) Q E"
  using assms by (fastforce intro!: hoareI simp: py_eqs dest: hoare_Inr hoare_Inl)

lemma hoare_then [hoare_rules]:
  assumes "hoare P m (\<lambda>_. R) E" and "hoare R k Q E"
  shows "hoare P (py_then m k) Q E"
  unfolding py_then_def using assms by (rule hoare_bind)

lemma hoare_return: "(\<And>s. P s \<Longrightarrow> Q x s) \<Longrightarrow> hoare P (py_return x) Q E"
  by (rule hoareI) auto

lemma hoare_raise: "(\<And>s. P s \<Longrightarrow> E e s) \<Longrightarrow> hoare P (py_raise e) Q E"
  by (rule hoareI) auto

lemma hoare_each [hoare_rules]:
  assumes "\<And>x. x \<in> set xs \<Longrightarrow> hoare P (f x) (\<lambda>_. P) E"
  shows "hoare P (py_each f xs) (\<lambda>_. P) E"
  using assms by (induction xs) (auto intro!: hoare_then hoare_return)

text \<open>A call that keeps an invariant whether it returns or raises.\<close>

definition keeps :: "('s \<Rightarrow> bool) \<Rightarrow> ('s, 'e, 'a) py \<Rightarrow> bool" where
  "keeps I m \<longleftrightarrow> hoare I m (\<lambda>_. I) (\<lambda>_. I)"

lemma keepsI: "(\<And>s r t. I s \<Longrightarrow> m s = (r, t) \<Longrightarrow> I t) \<Longrightarrow> keeps I m"
  by (auto simp: keeps_def intro!: hoareI)

lemma keepsD: "keeps I m \<Longrightarrow> I s \<Longrightarrow> m s = (r, t) \<Longrightarrow> I t"
  by (cases r) (auto simp: keeps_def dest: hoare_Inr hoare_Inl)

lemma keeps_return [hoare_rules]: "keeps I (py_return x)"
  by (rule keepsI) simp

lemma keeps_raise [hoare_rules]: "keeps I (py_raise e)"
  by (rule keepsI) simp

lemma keeps_gets [hoare_rules]: "keeps I (py_gets f)"
  by (rule keepsI) simp

lemma keeps_lift [hoare_rules]: "keeps I (py_lift r)"
  by (rule keepsI) simp

lemma keeps_raise_if [hoare_rules]: "keeps I (py_raise_if b e)"
  by (simp add: py_raise_if_def keeps_return keeps_raise)

lemma keeps_bind [hoare_rules]: "keeps I m \<Longrightarrow> (\<And>x. keeps I (f x)) \<Longrightarrow> keeps I (py_bind m f)"
  unfolding keeps_def by (rule hoare_bind)

lemma keeps_then [hoare_rules]: "keeps I m \<Longrightarrow> keeps I k \<Longrightarrow> keeps I (py_then m k)"
  unfolding keeps_def by (rule hoare_then)

lemma keeps_each [hoare_rules]: "(\<And>x. x \<in> set xs \<Longrightarrow> keeps I (f x)) \<Longrightarrow> keeps I (py_each f xs)"
  unfolding keeps_def by (rule hoare_each)

lemma keeps_if [hoare_rules]: "(b \<Longrightarrow> keeps I m) \<Longrightarrow> (\<not> b \<Longrightarrow> keeps I k) \<Longrightarrow> keeps I (if b then m else k)"
  by simp

text \<open>
  A call that keeps an invariant \<open>W\<close> and moves the state only along a preorder \<open>G\<close>, whether it
  returns or raises; from a state in \<open>P\<close> a returned value satisfies \<open>Q\<close>. This is what a critical
  section promises to the others that run before and after it.
\<close>

definition guarded ::
  "('s \<Rightarrow> bool) \<Rightarrow> ('s \<Rightarrow> 's \<Rightarrow> bool) \<Rightarrow> ('s \<Rightarrow> bool) \<Rightarrow> ('s, 'e, 'a) py \<Rightarrow> ('a \<Rightarrow> 's \<Rightarrow> bool) \<Rightarrow> bool" where
  "guarded W G P m Q \<longleftrightarrow>
     (\<forall>s r t. W s \<and> P s \<and> m s = (r, t) \<longrightarrow> W t \<and> G s t \<and> (\<forall>x. r = Inr x \<longrightarrow> Q x t))"

lemma guardedI:
  "(\<And>s r t. W s \<Longrightarrow> P s \<Longrightarrow> m s = (r, t) \<Longrightarrow> W t \<and> G s t \<and> (\<forall>x. r = Inr x \<longrightarrow> Q x t)) \<Longrightarrow>
     guarded W G P m Q"
  unfolding guarded_def by blast

lemma guardedD:
  assumes "guarded W G P m Q" and "W s" and "P s" and "m s = (r, t)"
  shows "W t" "G s t" "r = Inr x \<Longrightarrow> Q x t"
  using assms unfolding guarded_def by blast+

lemma guarded_pre: "guarded W G P' m Q \<Longrightarrow> (\<And>s. W s \<Longrightarrow> P s \<Longrightarrow> P' s) \<Longrightarrow> guarded W G P m Q"
  unfolding guarded_def by blast

lemma guarded_post: "guarded W G P m Q' \<Longrightarrow> (\<And>x s. W s \<Longrightarrow> Q' x s \<Longrightarrow> Q x s) \<Longrightarrow> guarded W G P m Q"
  unfolding guarded_def by blast

lemma guarded_bind:
  assumes "transp G" and "guarded W G P m R" and "\<And>x. guarded W G (R x) (f x) Q"
  shows "guarded W G P (py_bind m f) Q"
proof (rule guardedI)
  fix s r u
  assume s: "W s" "P s" and run: "py_bind m f s = (r, u)"
  show "W u \<and> G s u \<and> (\<forall>x. r = Inr x \<longrightarrow> Q x u)"
  proof (cases "m s")
    case (Pair x t)
    note first = guardedD [OF assms(2) s this]
    show ?thesis
    proof (cases x)
      case (Inl e)
      with run Pair first show ?thesis by (auto simp: py_bind_def)
    next
      case (Inr y)
      with run Pair have "f y t = (r, u)" by (simp add: py_bind_def)
      note second = guardedD [OF assms(3) first(1) first(3) [OF Inr] this]
      from second(3) have "\<forall>x. r = Inr x \<longrightarrow> Q x u" by blast
      with second(1) transpD [OF assms(1) first(2) second(2)] show ?thesis by blast
    qed
  qed
qed

lemma guarded_then:
  "transp G \<Longrightarrow> guarded W G P m (\<lambda>_. R) \<Longrightarrow> guarded W G R k Q \<Longrightarrow> guarded W G P (py_then m k) Q"
  unfolding py_then_def by (rule guarded_bind)

lemma guarded_return: "reflp G \<Longrightarrow> (\<And>s. P s \<Longrightarrow> Q x s) \<Longrightarrow> guarded W G P (py_return x) Q"
  by (rule guardedI) (auto dest: reflpD)

lemma guarded_raise: "reflp G \<Longrightarrow> guarded W G P (py_raise e) Q"
  by (rule guardedI) (auto dest: reflpD)

lemma guarded_gets: "reflp G \<Longrightarrow> (\<And>s. P s \<Longrightarrow> Q (f s) s) \<Longrightarrow> guarded W G P (py_gets f) Q"
  by (rule guardedI) (auto dest: reflpD)

lemma guarded_raise_if:
  "reflp G \<Longrightarrow> (\<And>s. P s \<Longrightarrow> \<not> b \<Longrightarrow> Q () s) \<Longrightarrow> guarded W G P (py_raise_if b e) Q"
  unfolding py_raise_if_def by (cases b) (simp_all add: guarded_raise guarded_return)

lemma guarded_if:
  "(b \<Longrightarrow> guarded W G P m Q) \<Longrightarrow> (\<not> b \<Longrightarrow> guarded W G P k Q) \<Longrightarrow> guarded W G P (if b then m else k) Q"
  by simp

lemma guarded_each:
  assumes "reflp G" and "transp G" and "\<And>x. x \<in> set xs \<Longrightarrow> guarded W G P (f x) (\<lambda>_. P)"
  shows "guarded W G P (py_each f xs) (\<lambda>_. P)"
  using assms(3) by (induction xs) (auto intro!: guarded_then guarded_return assms(1,2))

section \<open>Insertion-ordered dictionaries\<close>

text \<open>
  A Python dict is an association list with distinct keys, in insertion order. \<open>d.get(k)\<close> is
  \<open>map_of d k\<close>; \<open>d[k] = v\<close> is \<open>AList.update k v d\<close> (a present key keeps its place, a new one goes
  to the end); \<open>del d[k]\<close> of a present key is \<open>AList.delete k d\<close>.
\<close>

type_synonym ('k, 'v) dict = "('k \<times> 'v) list"

abbreviation dict_keys :: "('k, 'v) dict \<Rightarrow> 'k set" where
  "dict_keys d \<equiv> fst ` set d"

definition dict_ok :: "('k, 'v) dict \<Rightarrow> bool" where
  "dict_ok d \<longleftrightarrow> distinct (map fst d)"

lemma dict_ok_Nil [simp, dict_simps]: "dict_ok []"
  by (simp add: dict_ok_def)

lemma dict_ok_update [dict_simps]: "dict_ok d \<Longrightarrow> dict_ok (AList.update k v d)"
  by (simp add: dict_ok_def distinct_update)

lemma dict_ok_delete [dict_simps]: "dict_ok d \<Longrightarrow> dict_ok (AList.delete k d)"
  by (simp add: dict_ok_def distinct_delete)

lemma dict_get_update [dict_simps]:
  "map_of (AList.update k v d) k' = (if k' = k then Some v else map_of d k')"
  by (simp add: update_conv')

lemma dict_get_delete [dict_simps]:
  "map_of (AList.delete k d) k' = (if k' = k then None else map_of d k')"
  by (simp add: delete_conv')

lemma dict_in_iff [dict_simps]: "dict_ok d \<Longrightarrow> (k, v) \<in> set d \<longleftrightarrow> map_of d k = Some v"
  by (simp add: dict_ok_def)

lemma dict_key_iff: "k \<in> dict_keys d \<longleftrightarrow> map_of d k \<noteq> None"
  by (simp add: map_of_eq_None_iff)

section \<open>Decimal numerals\<close>

text \<open>\<open>str(n)\<close> of a nonnegative integer, \<open>s.isdecimal()\<close> and \<open>int(s)\<close> for ASCII digits.\<close>

definition digit_char :: "nat \<Rightarrow> char" where
  "digit_char d = char_of (48 + d)"

definition is_digit :: "char \<Rightarrow> bool" where
  "is_digit c \<longleftrightarrow> 48 \<le> (of_char c :: nat) \<and> (of_char c :: nat) \<le> 57"

definition digit_value :: "char \<Rightarrow> nat" where
  "digit_value c = of_char c - 48"

fun decimal :: "nat \<Rightarrow> string" where
  "decimal n = (if n < 10 then [digit_char n] else decimal (n div 10) @ [digit_char (n mod 10)])"

declare decimal.simps [simp del]

definition isdecimal :: "string \<Rightarrow> bool" where
  "isdecimal s \<longleftrightarrow> s \<noteq> [] \<and> list_all is_digit s"

definition parse_decimal :: "string \<Rightarrow> nat" where
  "parse_decimal s = foldl (\<lambda>n c. n * 10 + digit_value c) 0 s"

lemma digit_char_digit: "d < 10 \<Longrightarrow> is_digit (digit_char d) \<and> digit_value (digit_char d) = d"
  by (simp add: is_digit_def digit_char_def digit_value_def)

lemma decimal_isdecimal: "isdecimal (decimal n)"
proof (induction n rule: decimal.induct)
  case (1 n)
  then show ?case
    by (subst decimal.simps) (auto simp: isdecimal_def digit_char_digit)
qed

lemma parse_decimal_decimal [simp]: "parse_decimal (decimal n) = n"
proof (induction n rule: decimal.induct)
  case (1 n)
  then show ?case
    by (subst decimal.simps) (auto simp: parse_decimal_def digit_char_digit)
qed

lemma decimal_inject: "decimal m = decimal n \<longleftrightarrow> m = n"
  by (metis parse_decimal_decimal)

lemma is_digit_not_colon: "is_digit c \<Longrightarrow> c \<noteq> CHR '':''"
  by (auto simp: is_digit_def)

end
