(* ===== verification/Types.thy ===== *)
theory Types
  imports Prelude "HOL-Library.Word"
begin

unbundle bit_operations_syntax

text \<open>
  \<^verbatim>\<open>rdma101/types.py\<close>: the Python values that NativeEngine, ControlPlane and Engine share, and
  the exceptions of the package. A dataclass is a datatype or a record with the source's fields, an
  \<^verbatim>\<open>Enum\<close> a datatype, an \<^verbatim>\<open>IntFlag\<close> an integer with its bits. Python integers are \<open>int\<close>: nothing
  in these classes bounds them.
\<close>

type_synonym bytes = "8 word list"

section \<open>Error codes\<close>

datatype error_code =
  UNIMPLEMENTED | INVALID | BUSY | IO_ERROR | TIMEOUT | UNSUPPORTED | NO_MEMORY | INVALID_STATE
  | CANCELED

text \<open>\<open>for code in ErrorCode\<close> enumerates the members in definition order; \<open>code.name\<close>.\<close>

definition error_codes :: "error_code list" where
  "error_codes = [UNIMPLEMENTED, INVALID, BUSY, IO_ERROR, TIMEOUT, UNSUPPORTED, NO_MEMORY,
     INVALID_STATE, CANCELED]"

fun error_code_name :: "error_code \<Rightarrow> string" where
  "error_code_name UNIMPLEMENTED = ''UNIMPLEMENTED''"
| "error_code_name INVALID = ''INVALID''"
| "error_code_name BUSY = ''BUSY''"
| "error_code_name IO_ERROR = ''IO_ERROR''"
| "error_code_name TIMEOUT = ''TIMEOUT''"
| "error_code_name UNSUPPORTED = ''UNSUPPORTED''"
| "error_code_name NO_MEMORY = ''NO_MEMORY''"
| "error_code_name INVALID_STATE = ''INVALID_STATE''"
| "error_code_name CANCELED = ''CANCELED''"

lemma error_codes_complete: "c \<in> set error_codes"
  by (cases c) (simp_all add: error_codes_def)

section \<open>Exceptions\<close>

text \<open>
  A message is a format string and the values put into it: \<open>f"task {index}: ..."\<close> is
  \<open>Fmt ''task {}: ...'' [FInt index]\<close>. \<open>Aborted\<close> is no exception: the process ended inside a C function.
\<close>

datatype fmt_arg = FInt int | FStr string

datatype fmt = Fmt string "fmt_arg list"

abbreviation Msg :: "string \<Rightarrow> fmt" where
  "Msg s \<equiv> Fmt s []"

datatype exn =
    TypeError fmt
  | ValueError fmt
  | RuntimeError fmt
  | EngineError fmt error_code
  | KeyError
  | AttributeError string
  | AssertionError
  | OverflowError
  | OSError fmt
  | TimeoutError fmt
  | RpcError
  | Aborted

section \<open>Memory access flags\<close>

definition ACCESS_NONE :: int where "ACCESS_NONE = 0"
definition LOCAL_WRITE :: int where "LOCAL_WRITE = push_bit 0 1"
definition REMOTE_WRITE :: int where "REMOTE_WRITE = push_bit 1 1"
definition REMOTE_READ :: int where "REMOTE_READ = push_bit 2 1"
definition REMOTE_ATOMIC :: int where "REMOTE_ATOMIC = push_bit 3 1"

lemmas access_flag_defs =
  ACCESS_NONE_def LOCAL_WRITE_def REMOTE_WRITE_def REMOTE_READ_def REMOTE_ATOMIC_def

text \<open>Clearing the low bits of an integer.\<close>

lemma and_not_mask: "(x :: int) AND NOT (mask n) = x div 2 ^ n * 2 ^ n"
proof -
  have "x AND NOT (mask n) = push_bit n (drop_bit n x)"
    by (rule bit_eqI) (auto simp: bit_simps)
  then show ?thesis by (simp add: push_bit_eq_mult drop_bit_eq_div)
qed

section \<open>Configuration, requests and results\<close>

record config =
  config_device :: "string option"
  config_port :: int
  config_gid_index :: int

text \<open>\<open>Config()\<close> with the default of every field.\<close>

definition default_config :: config where
  "default_config = \<lparr>config_device = None, config_port = 1, config_gid_index = 0\<rparr>"

text \<open>
  The operations. The fields are \<open>remote_address\<close>, then \<open>immediate\<close> or \<open>compare\<close> and \<open>value\<close>, then
  \<open>inline_data\<close>, in the order of the dataclasses.
\<close>

datatype operation =
    Write int bool
  | Read int
  | Send bool
  | Recv
  | WriteImm int int bool
  | CompareSwap int int int
  | FetchAdd int int

text \<open>\<open>type(operation)\<close>; a value of a class outside the union has another type.\<close>

datatype op_type = WriteT | ReadT | SendT | RecvT | WriteImmT | CompareSwapT | FetchAddT

fun op_type_of :: "operation \<Rightarrow> op_type" where
  "op_type_of (Write _ _) = WriteT"
| "op_type_of (Read _) = ReadT"
| "op_type_of (Send _) = SendT"
| "op_type_of Recv = RecvT"
| "op_type_of (WriteImm _ _ _) = WriteImmT"
| "op_type_of (CompareSwap _ _ _) = CompareSwapT"
| "op_type_of (FetchAdd _ _) = FetchAddT"

text \<open>
  Annotations are not enforced at run time: the operation of a request may be any object, and
  so may the elements of a list of requests. \<open>OtherOp\<close> carries the name of its class.
\<close>

datatype any_op = Op operation | OtherOp string

record request =
  req_peer :: int
  req_local_address :: int
  req_length :: int
  req_operation :: any_op

datatype any_request = Request request | NotARequest

datatype receive_result = Message int | WriteNotice int

datatype transfer_status =
    Pending
  | Completed "receive_result option"
  | Failed error_code

definition is_Pending :: "transfer_status \<Rightarrow> bool" where
  "is_Pending s \<longleftrightarrow> (case s of Pending \<Rightarrow> True | _ \<Rightarrow> False)"

record peer_metadata =
  pm_peer :: int
  pm_metadata :: bytes

record memory_metadata =
  mm_memory :: int
  mm_metadata :: bytes

end
