(* ===== verification/Bindings.thy ===== *)
theory Bindings
  imports Types
begin

text \<open>
  \<^verbatim>\<open>rdma101/bindings.py\<close>: the CFFI view of \<^verbatim>\<open>transfer-engine/transfer_engine.h\<close>. The
  constants are the header's \<^verbatim>\<open>enum\<close> members and \<^verbatim>\<open>R101_ABI_VERSION\<close>; \<open>constants\<close> is the namespace
  built from every symbol with the prefix \<^verbatim>\<open>R101_\<close>, and \<open>FUNCTIONS\<close> lists the symbols
  \<^verbatim>\<open>library\<close> requires of a shared object.
\<close>

section \<open>The constants of the C header\<close>

definition R101_OK :: int where "R101_OK = 0"
definition R101_UNIMPLEMENTED :: int where "R101_UNIMPLEMENTED = - 1"
definition R101_INVALID :: int where "R101_INVALID = - 2"
definition R101_BUSY :: int where "R101_BUSY = - 3"
definition R101_IO_ERROR :: int where "R101_IO_ERROR = - 4"
definition R101_TIMEOUT :: int where "R101_TIMEOUT = - 5"
definition R101_UNSUPPORTED :: int where "R101_UNSUPPORTED = - 6"
definition R101_NO_MEMORY :: int where "R101_NO_MEMORY = - 7"
definition R101_INVALID_STATE :: int where "R101_INVALID_STATE = - 8"
definition R101_CANCELED :: int where "R101_CANCELED = - 9"
definition R101_LOCAL_WRITE :: int where "R101_LOCAL_WRITE = 1"
definition R101_REMOTE_WRITE :: int where "R101_REMOTE_WRITE = 2"
definition R101_REMOTE_READ :: int where "R101_REMOTE_READ = 4"
definition R101_REMOTE_ATOMIC :: int where "R101_REMOTE_ATOMIC = 8"
definition R101_PENDING :: int where "R101_PENDING = 0"
definition R101_COMPLETED :: int where "R101_COMPLETED = 1"
definition R101_FAILED :: int where "R101_FAILED = 2"
definition R101_RECV_MESSAGE :: int where "R101_RECV_MESSAGE = 1"
definition R101_RECV_WRITE_IMM :: int where "R101_RECV_WRITE_IMM = 2"
definition R101_WRITE :: int where "R101_WRITE = 1"
definition R101_READ :: int where "R101_READ = 2"
definition R101_SEND :: int where "R101_SEND = 3"
definition R101_RECV :: int where "R101_RECV = 4"
definition R101_WRITE_IMM :: int where "R101_WRITE_IMM = 5"
definition R101_COMPARE_SWAP :: int where "R101_COMPARE_SWAP = 6"
definition R101_FETCH_ADD :: int where "R101_FETCH_ADD = 7"
definition R101_INLINE :: int where "R101_INLINE = 1"
definition R101_ABI_VERSION :: int where "R101_ABI_VERSION = 1"

lemmas R101_defs =
  R101_ABI_VERSION_def
  R101_BUSY_def
  R101_CANCELED_def
  R101_COMPARE_SWAP_def
  R101_COMPLETED_def
  R101_FAILED_def
  R101_FETCH_ADD_def
  R101_INLINE_def
  R101_INVALID_def
  R101_INVALID_STATE_def
  R101_IO_ERROR_def
  R101_LOCAL_WRITE_def
  R101_NO_MEMORY_def
  R101_OK_def
  R101_PENDING_def
  R101_READ_def
  R101_RECV_def
  R101_RECV_MESSAGE_def
  R101_RECV_WRITE_IMM_def
  R101_REMOTE_ATOMIC_def
  R101_REMOTE_READ_def
  R101_REMOTE_WRITE_def
  R101_SEND_def
  R101_TIMEOUT_def
  R101_UNIMPLEMENTED_def
  R101_UNSUPPORTED_def
  R101_WRITE_def
  R101_WRITE_IMM_def

datatype symbol = Constant int | Function

text \<open>
  The symbols CFFI finds between the linkage guards of the header: \<open>dir(_symbols)\<close>, sorted.
\<close>

definition header_symbols :: "(string, symbol) dict" where
  "header_symbols =
    [(''R101_ABI_VERSION'', Constant R101_ABI_VERSION),
     (''R101_BUSY'', Constant R101_BUSY),
     (''R101_CANCELED'', Constant R101_CANCELED),
     (''R101_COMPARE_SWAP'', Constant R101_COMPARE_SWAP),
     (''R101_COMPLETED'', Constant R101_COMPLETED),
     (''R101_FAILED'', Constant R101_FAILED),
     (''R101_FETCH_ADD'', Constant R101_FETCH_ADD),
     (''R101_INLINE'', Constant R101_INLINE),
     (''R101_INVALID'', Constant R101_INVALID),
     (''R101_INVALID_STATE'', Constant R101_INVALID_STATE),
     (''R101_IO_ERROR'', Constant R101_IO_ERROR),
     (''R101_LOCAL_WRITE'', Constant R101_LOCAL_WRITE),
     (''R101_NO_MEMORY'', Constant R101_NO_MEMORY),
     (''R101_OK'', Constant R101_OK),
     (''R101_PENDING'', Constant R101_PENDING),
     (''R101_READ'', Constant R101_READ),
     (''R101_RECV'', Constant R101_RECV),
     (''R101_RECV_MESSAGE'', Constant R101_RECV_MESSAGE),
     (''R101_RECV_WRITE_IMM'', Constant R101_RECV_WRITE_IMM),
     (''R101_REMOTE_ATOMIC'', Constant R101_REMOTE_ATOMIC),
     (''R101_REMOTE_READ'', Constant R101_REMOTE_READ),
     (''R101_REMOTE_WRITE'', Constant R101_REMOTE_WRITE),
     (''R101_SEND'', Constant R101_SEND),
     (''R101_TIMEOUT'', Constant R101_TIMEOUT),
     (''R101_UNIMPLEMENTED'', Constant R101_UNIMPLEMENTED),
     (''R101_UNSUPPORTED'', Constant R101_UNSUPPORTED),
     (''R101_WRITE'', Constant R101_WRITE),
     (''R101_WRITE_IMM'', Constant R101_WRITE_IMM),
     (''r101_connect_peer'', Function),
     (''r101_create_engine'', Function),
     (''r101_create_peer'', Function),
     (''r101_deregister_local_memory'', Function),
     (''r101_destroy_engine'', Function),
     (''r101_destroy_peer'', Function),
     (''r101_free_batch'', Function),
     (''r101_get_transfer_statuses'', Function),
     (''r101_import_remote_memory'', Function),
     (''r101_register_local_memory'', Function),
     (''r101_remove_remote_memory'', Function),
     (''r101_submit_transfer'', Function)]"

section \<open>Building the namespace\<close>

text \<open>\<open>str.startswith\<close> and \<open>str.removeprefix\<close>.\<close>

fun startswith :: "string \<Rightarrow> string \<Rightarrow> bool" where
  "startswith s [] = True"
| "startswith [] (p # ps) = False"
| "startswith (c # cs) (p # ps) = (c = p \<and> startswith cs ps)"

definition removeprefix :: "string \<Rightarrow> string \<Rightarrow> string" where
  "removeprefix s p = (if startswith s p then drop (length p) s else s)"

text \<open>\<open>str.index\<close> and \<open>str.rindex\<close>, and the part of the header CFFI is given.\<close>

definition str_index :: "string \<Rightarrow> string \<Rightarrow> exn + nat" where
  "str_index s p = (case find (\<lambda>i. startswith (drop i s) p) [0..<Suc (length s)] of
     None \<Rightarrow> Inl (ValueError (Msg ''substring not found'')) | Some i \<Rightarrow> Inr i)"

definition str_rindex :: "string \<Rightarrow> string \<Rightarrow> exn + nat" where
  "str_rindex s p = (case find (\<lambda>i. startswith (drop i s) p) (rev [0..<Suc (length s)]) of
     None \<Rightarrow> Inl (ValueError (Msg ''substring not found'')) | Some i \<Rightarrow> Inr i)"

definition header_declarations :: "string \<Rightarrow> exn + string" where
  "header_declarations source = (case str_index source ''#define R101_ABI_VERSION'' of
     Inl e \<Rightarrow> Inl e
   | Inr i \<Rightarrow> (case str_rindex source ''#ifdef __cplusplus'' of
       Inl e \<Rightarrow> Inl e
     | Inr j \<Rightarrow> Inr (drop i (take j source))))"

text \<open>The comprehension over \<open>dir(_symbols)\<close>: \<open>getattr\<close> reads the value of a constant.\<close>

fun symbol_value :: "symbol \<Rightarrow> int option" where
  "symbol_value (Constant v) = Some v"
| "symbol_value Function = None"

definition constants_of :: "(string, symbol) dict \<Rightarrow> (string, int) dict" where
  "constants_of syms =
     fold (\<lambda>(name, sym) d. case symbol_value sym of
         Some v \<Rightarrow> AList.update (removeprefix name ''R101_'') v d
       | None \<Rightarrow> d)
       (filter (\<lambda>(name, _). startswith name ''R101_'') syms) []"

definition constants :: "(string, int) dict" where
  "constants = constants_of header_symbols"

definition FUNCTIONS :: "string list" where
  "FUNCTIONS = filter (\<lambda>name. startswith name ''r101_'') (map fst header_symbols)"

text \<open>\<open>R101.name\<close> and \<open>getattr(R101, name)\<close>.\<close>

definition R101_attr :: "string \<Rightarrow> exn + int" where
  "R101_attr name = (case map_of constants name of
     None \<Rightarrow> Inl (AttributeError name) | Some v \<Rightarrow> Inr v)"

text \<open>
  \<open>library(path)\<close>. Loading is CFFI's: \<open>dlopen\<close> gives the symbols the object exports, or raises.
  The loop reads every function, so that a missing one is found at load time.
\<close>

fun require_symbols :: "(string \<Rightarrow> bool) \<Rightarrow> string list \<Rightarrow> exn option" where
  "require_symbols exported [] = None"
| "require_symbols exported (name # names) =
     (if exported name then require_symbols exported names else Some (AttributeError name))"

definition library :: "(string \<Rightarrow> exn + (string \<Rightarrow> bool)) \<Rightarrow> string \<Rightarrow> exn + (string \<Rightarrow> bool)" where
  "library dlopen path = (case dlopen path of
     Inl e \<Rightarrow> Inl e
   | Inr lib \<Rightarrow> (case require_symbols lib FUNCTIONS of None \<Rightarrow> Inr lib | Some e \<Rightarrow> Inl e))"

section \<open>Facts\<close>

lemma constants_eval:
  "constants =
    [(''ABI_VERSION'', R101_ABI_VERSION),
     (''BUSY'', R101_BUSY),
     (''CANCELED'', R101_CANCELED),
     (''COMPARE_SWAP'', R101_COMPARE_SWAP),
     (''COMPLETED'', R101_COMPLETED),
     (''FAILED'', R101_FAILED),
     (''FETCH_ADD'', R101_FETCH_ADD),
     (''INLINE'', R101_INLINE),
     (''INVALID'', R101_INVALID),
     (''INVALID_STATE'', R101_INVALID_STATE),
     (''IO_ERROR'', R101_IO_ERROR),
     (''LOCAL_WRITE'', R101_LOCAL_WRITE),
     (''NO_MEMORY'', R101_NO_MEMORY),
     (''OK'', R101_OK),
     (''PENDING'', R101_PENDING),
     (''READ'', R101_READ),
     (''RECV'', R101_RECV),
     (''RECV_MESSAGE'', R101_RECV_MESSAGE),
     (''RECV_WRITE_IMM'', R101_RECV_WRITE_IMM),
     (''REMOTE_ATOMIC'', R101_REMOTE_ATOMIC),
     (''REMOTE_READ'', R101_REMOTE_READ),
     (''REMOTE_WRITE'', R101_REMOTE_WRITE),
     (''SEND'', R101_SEND),
     (''TIMEOUT'', R101_TIMEOUT),
     (''UNIMPLEMENTED'', R101_UNIMPLEMENTED),
     (''UNSUPPORTED'', R101_UNSUPPORTED),
     (''WRITE'', R101_WRITE),
     (''WRITE_IMM'', R101_WRITE_IMM)]"
  by (simp add: constants_def constants_of_def header_symbols_def removeprefix_def)

lemma R101_attr_known:
  shows "R101_attr ''ABI_VERSION'' = Inr R101_ABI_VERSION"
  and "R101_attr ''BUSY'' = Inr R101_BUSY"
  and "R101_attr ''CANCELED'' = Inr R101_CANCELED"
  and "R101_attr ''COMPARE_SWAP'' = Inr R101_COMPARE_SWAP"
  and "R101_attr ''COMPLETED'' = Inr R101_COMPLETED"
  and "R101_attr ''FAILED'' = Inr R101_FAILED"
  and "R101_attr ''FETCH_ADD'' = Inr R101_FETCH_ADD"
  and "R101_attr ''INLINE'' = Inr R101_INLINE"
  and "R101_attr ''INVALID'' = Inr R101_INVALID"
  and "R101_attr ''INVALID_STATE'' = Inr R101_INVALID_STATE"
  and "R101_attr ''IO_ERROR'' = Inr R101_IO_ERROR"
  and "R101_attr ''LOCAL_WRITE'' = Inr R101_LOCAL_WRITE"
  and "R101_attr ''NO_MEMORY'' = Inr R101_NO_MEMORY"
  and "R101_attr ''OK'' = Inr R101_OK"
  and "R101_attr ''PENDING'' = Inr R101_PENDING"
  and "R101_attr ''READ'' = Inr R101_READ"
  and "R101_attr ''RECV'' = Inr R101_RECV"
  and "R101_attr ''RECV_MESSAGE'' = Inr R101_RECV_MESSAGE"
  and "R101_attr ''RECV_WRITE_IMM'' = Inr R101_RECV_WRITE_IMM"
  and "R101_attr ''REMOTE_ATOMIC'' = Inr R101_REMOTE_ATOMIC"
  and "R101_attr ''REMOTE_READ'' = Inr R101_REMOTE_READ"
  and "R101_attr ''REMOTE_WRITE'' = Inr R101_REMOTE_WRITE"
  and "R101_attr ''SEND'' = Inr R101_SEND"
  and "R101_attr ''TIMEOUT'' = Inr R101_TIMEOUT"
  and "R101_attr ''UNIMPLEMENTED'' = Inr R101_UNIMPLEMENTED"
  and "R101_attr ''UNSUPPORTED'' = Inr R101_UNSUPPORTED"
  and "R101_attr ''WRITE'' = Inr R101_WRITE"
  and "R101_attr ''WRITE_IMM'' = Inr R101_WRITE_IMM"
  by (simp_all add: R101_attr_def constants_eval)

lemma FUNCTIONS_eval:
  "FUNCTIONS = [''r101_connect_peer'', ''r101_create_engine'', ''r101_create_peer'', ''r101_deregister_local_memory'', ''r101_destroy_engine'', ''r101_destroy_peer'', ''r101_free_batch'', ''r101_get_transfer_statuses'', ''r101_import_remote_memory'', ''r101_register_local_memory'', ''r101_remove_remote_memory'', ''r101_submit_transfer'']"
  by (simp add: FUNCTIONS_def header_symbols_def)

lemma require_symbols_None: "require_symbols exported names = None \<longleftrightarrow> (\<forall>n \<in> set names. exported n)"
  by (induction names) auto

lemma require_symbols_Some:
  "require_symbols exported names = Some e \<Longrightarrow>
     \<exists>n \<in> set names. \<not> exported n \<and> e = AttributeError n"
  by (induction names) (auto split: if_splits)

text \<open>
  The declarations start at the first mention of the version and stop before the last linkage guard.
\<close>

lemma startswith_iff: "startswith s p \<longleftrightarrow> (\<exists>rest. s = p @ rest)"
  by (induction s p rule: startswith.induct) auto

lemma header_declarations_between:
  assumes "header_declarations source = Inr d" and "d \<noteq> []"
  shows "\<exists>pre post. source = pre @ d @ post \<and> startswith (d @ post) ''#define R101_ABI_VERSION'' \<and>
    startswith post ''#ifdef __cplusplus''"
proof -
  from assms(1) obtain i j where i: "startswith (drop i source) ''#define R101_ABI_VERSION''"
    and j: "startswith (drop j source) ''#ifdef __cplusplus''" and d: "d = drop i (take j source)"
    by (auto simp: header_declarations_def str_index_def str_rindex_def find_Some_iff
        split: option.splits sum.splits)
  from assms(2) d have "i \<le> j" by auto
  have "take i source @ d = take j source"
    using append_take_drop_id [of i "take j source"] \<open>i \<le> j\<close> by (simp add: d min_def)
  then have "source = take i source @ d @ drop j source"
    using append_take_drop_id [of j source] by (metis append_assoc)
  moreover have "drop i (take j source @ drop j source) = d @ drop j source"
    unfolding drop_append using assms(2) by (simp add: d not_le)
  ultimately show ?thesis using i j by (metis append_take_drop_id)
qed

end
