(* ===== verification/Encoding.thy ===== *)
theory Encoding
  imports Bindings
begin

text \<open>
  The module-level conversions of \<^verbatim>\<open>rdma101/native_engine.py\<close> between Python values and the C API:
  result codes to error codes, requests to C descriptors, C status records to Python results.
  CFFI's own conversions (a cast to a pointer, the construction of a C array) are parameters.
\<close>

section \<open>Result codes\<close>

text \<open>
  \<^verbatim>\<open>_ERROR_CODES = {getattr(R101, code.name): code for code in ErrorCode}\<close>, evaluated when the module
  is loaded; a code the header lacks would raise there.
\<close>

fun build_error_codes :: "error_code list \<Rightarrow> (int, error_code) dict \<Rightarrow> exn + (int, error_code) dict" where
  "build_error_codes [] d = Inr d"
| "build_error_codes (c # cs) d = (case R101_attr (error_code_name c) of
     Inl e \<Rightarrow> Inl e
   | Inr v \<Rightarrow> build_error_codes cs (AList.update v c d))"

definition ERROR_CODES :: "exn + (int, error_code) dict" where
  "ERROR_CODES = build_error_codes error_codes []"

text \<open>\<open>_error_code(value)\<close>\<close>

definition error_code_of :: "int \<Rightarrow> exn + error_code" where
  "error_code_of value = (case ERROR_CODES of
     Inl e \<Rightarrow> Inl e
   | Inr d \<Rightarrow> (case map_of d value of
       Some c \<Rightarrow> Inr c
     | None \<Rightarrow> Inl (RuntimeError (Fmt ''unknown engine error code: {}'' [FInt value]))))"

text \<open>\<open>check(operation, code)\<close>; \<^verbatim>\<open>EngineError\<close> keeps the code as an attribute.\<close>

definition check_code :: "string \<Rightarrow> int \<Rightarrow> exn + unit" where
  "check_code operation code =
     (if code \<noteq> R101_OK
      then (case error_code_of code of
              Inl e \<Rightarrow> Inl e
            | Inr c \<Rightarrow> Inl (EngineError (Msg operation) c))
      else Inr ())"

section \<open>Requests\<close>

fun OPCODES :: "op_type \<Rightarrow> int" where
  "OPCODES WriteT = R101_WRITE"
| "OPCODES ReadT = R101_READ"
| "OPCODES SendT = R101_SEND"
| "OPCODES RecvT = R101_RECV"
| "OPCODES WriteImmT = R101_WRITE_IMM"
| "OPCODES CompareSwapT = R101_COMPARE_SWAP"
| "OPCODES FetchAddT = R101_FETCH_ADD"

text \<open>\<open>getattr(operation, "inline_data", False)\<close>\<close>

fun inline_data :: "operation \<Rightarrow> bool" where
  "inline_data (Write _ i) = i"
| "inline_data (Send i) = i"
| "inline_data (WriteImm _ _ i) = i"
| "inline_data _ = False"

text \<open>
  The initializer of an \<^verbatim>\<open>r101_request\<close>: \<open>cr_args\<close> is the member of the union it sets, \<open>None\<close> when the
  key is absent.
\<close>

datatype c_args =
    RmaArgs int
  | WriteImmArgs int int
  | AtomicArgs int int int

record c_request =
  cr_opcode :: int
  cr_flags :: int
  cr_peer :: int
  cr_local_address :: int
  cr_length :: int
  cr_args :: "c_args option"

fun encode_args :: "operation \<Rightarrow> c_args option" where
  "encode_args (Write a _) = Some (RmaArgs a)"
| "encode_args (Read a) = Some (RmaArgs a)"
| "encode_args (WriteImm a i _) = Some (WriteImmArgs a i)"
| "encode_args (CompareSwap a c v) = Some (AtomicArgs a c v)"
| "encode_args (FetchAdd a v) = Some (AtomicArgs a 0 v)"
| "encode_args _ = None"

text \<open>\<open>_encode_request(request)\<close>; \<open>void_ptr\<close> is \<^verbatim>\<open>ffi.cast("void *", n)\<close>.\<close>

definition encode_request :: "(int \<Rightarrow> int) \<Rightarrow> any_request \<Rightarrow> exn + c_request" where
  "encode_request void_ptr r = (case r of
     NotARequest \<Rightarrow> Inl (TypeError (Msg ''requests must contain Request values''))
   | Request req \<Rightarrow> (case req_operation req of
       OtherOp name \<Rightarrow> Inl (TypeError (Fmt ''unknown operation: {}'' [FStr name]))
     | Op operation \<Rightarrow> Inr
         \<lparr>cr_opcode = OPCODES (op_type_of operation),
          cr_flags = (if inline_data operation then R101_INLINE else 0),
          cr_peer = req_peer req,
          cr_local_address = void_ptr (req_local_address req),
          cr_length = req_length req,
          cr_args = encode_args operation\<rparr>))"

text \<open>\<open>[_encode_request(request) for request in requests]\<close>\<close>

fun encode_requests :: "(int \<Rightarrow> int) \<Rightarrow> any_request list \<Rightarrow> exn + c_request list" where
  "encode_requests void_ptr [] = Inr []"
| "encode_requests void_ptr (r # rs) = (case encode_request void_ptr r of
     Inl e \<Rightarrow> Inl e
   | Inr c \<Rightarrow> (case encode_requests void_ptr rs of Inl e \<Rightarrow> Inl e | Inr cs \<Rightarrow> Inr (c # cs)))"

text \<open>
  \<open>tuple(type(request.operation) for request in requests)\<close>; it is evaluated after the encoding, so
  every element is a request with a known operation.
\<close>

fun request_types :: "any_request list \<Rightarrow> op_type list" where
  "request_types [] = []"
| "request_types (Request req # rs) = (case req_operation req of
     Op operation \<Rightarrow> op_type_of operation # request_types rs
   | OtherOp _ \<Rightarrow> request_types rs)"
| "request_types (NotARequest # rs) = request_types rs"

section \<open>Status records\<close>

record c_status =
  cs_state :: int
  cs_error :: int
  cs_receive_kind :: int
  cs_receive_immediate :: int
  cs_receive_length :: int

text \<open>The receive result of a completed RECV.\<close>

definition decode_receive :: "int \<Rightarrow> c_status \<Rightarrow> exn + receive_result" where
  "decode_receive index s =
     (if cs_receive_kind s = R101_RECV_MESSAGE
      then if cs_receive_immediate s \<noteq> 0
           then Inl (RuntimeError (Fmt ''task {}: message has nonzero immediate'' [FInt index]))
           else Inr (Message (cs_receive_length s))
      else if cs_receive_kind s = R101_RECV_WRITE_IMM
      then if cs_receive_length s \<noteq> 0
           then Inl (RuntimeError (Fmt ''task {}: write notice has nonzero length'' [FInt index]))
           else Inr (WriteNotice (cs_receive_immediate s))
      else Inl (RuntimeError (Fmt ''task {}: invalid receive kind {}''
             [FInt index, FInt (cs_receive_kind s)])))"

text \<open>The body of the loop of \<open>get_transfer_statuses\<close>.\<close>

definition decode_status :: "int \<Rightarrow> c_status \<Rightarrow> op_type \<Rightarrow> exn + transfer_status" where
  "decode_status index s operation =
     (if cs_state s = R101_FAILED
      then (case error_code_of (cs_error s) of Inl e \<Rightarrow> Inl e | Inr c \<Rightarrow> Inr (Failed c))
      else if cs_error s \<noteq> R101_OK
      then Inl (RuntimeError (Fmt ''task {}: non-failed status has an error'' [FInt index]))
      else if cs_state s = R101_PENDING then Inr Pending
      else if cs_state s = R101_COMPLETED
      then if operation = RecvT
           then (case decode_receive index s of Inl e \<Rightarrow> Inl e | Inr r \<Rightarrow> Inr (Completed (Some r)))
           else Inr (Completed None)
      else Inl (RuntimeError (Fmt ''task {}: invalid transfer state {}''
             [FInt index, FInt (cs_state s)])))"

text \<open>\<open>for index, (status, operation) in enumerate(zip(statuses, operations))\<close>\<close>

fun decode_statuses :: "int \<Rightarrow> (c_status \<times> op_type) list \<Rightarrow> exn + transfer_status list" where
  "decode_statuses index [] = Inr []"
| "decode_statuses index ((s, operation) # rest) = (case decode_status index s operation of
     Inl e \<Rightarrow> Inl e
   | Inr x \<Rightarrow> (case decode_statuses (index + 1) rest of Inl e \<Rightarrow> Inl e | Inr xs \<Rightarrow> Inr (x # xs)))"

section \<open>The tables\<close>

lemma ERROR_CODES_eval:
  "ERROR_CODES = Inr
     [(R101_UNIMPLEMENTED, UNIMPLEMENTED), (R101_INVALID, INVALID), (R101_BUSY, BUSY),
      (R101_IO_ERROR, IO_ERROR), (R101_TIMEOUT, TIMEOUT), (R101_UNSUPPORTED, UNSUPPORTED),
      (R101_NO_MEMORY, NO_MEMORY), (R101_INVALID_STATE, INVALID_STATE), (R101_CANCELED, CANCELED)]"
  by (simp add: ERROR_CODES_def error_codes_def R101_attr_known R101_defs)

text \<open>The value the header gives an error code.\<close>

fun code_value :: "error_code \<Rightarrow> int" where
  "code_value UNIMPLEMENTED = R101_UNIMPLEMENTED"
| "code_value INVALID = R101_INVALID"
| "code_value BUSY = R101_BUSY"
| "code_value IO_ERROR = R101_IO_ERROR"
| "code_value TIMEOUT = R101_TIMEOUT"
| "code_value UNSUPPORTED = R101_UNSUPPORTED"
| "code_value NO_MEMORY = R101_NO_MEMORY"
| "code_value INVALID_STATE = R101_INVALID_STATE"
| "code_value CANCELED = R101_CANCELED"

lemma R101_attr_code: "R101_attr (error_code_name c) = Inr (code_value c)"
  by (cases c) (simp_all add: R101_attr_known)

lemma error_code_of_value [simp]: "error_code_of (code_value c) = Inr c"
  by (cases c) (simp_all add: error_code_of_def ERROR_CODES_eval R101_defs)

lemma code_value_inject [simp]: "code_value c = code_value d \<longleftrightarrow> c = d"
  by (metis error_code_of_value sum.inject(2))

lemma error_code_of_Inr: "error_code_of v = Inr c \<Longrightarrow> v = code_value c"
  by (auto simp: error_code_of_def ERROR_CODES_eval split: if_splits)

lemma error_code_of_Inl:
  "error_code_of v = Inl e \<Longrightarrow> e = RuntimeError (Fmt ''unknown engine error code: {}'' [FInt v])"
  by (auto simp: error_code_of_def ERROR_CODES_eval split: if_splits)

lemma code_value_negative: "code_value c < 0"
  by (cases c) (simp_all add: R101_defs)

lemma code_value_not_OK [simp]: "code_value c \<noteq> R101_OK"
  using code_value_negative [of c] by (simp add: R101_OK_def)

lemma check_code_OK [simp]: "check_code operation R101_OK = Inr ()"
  by (simp add: check_code_def)

lemma check_code_value [simp]: "check_code operation (code_value c) = Inl (EngineError (Msg operation) c)"
  by (simp add: check_code_def)

lemma check_code_Inr: "check_code operation v = Inr u \<longleftrightarrow> v = R101_OK"
  by (auto simp: check_code_def split: sum.splits)

section \<open>Requests and statuses\<close>

lemma encode_requests_length: "encode_requests vp rs = Inr cs \<Longrightarrow> length cs = length rs"
  by (induction rs arbitrary: cs) (auto split: sum.splits)

lemma encode_requests_types_length: "encode_requests vp rs = Inr cs \<Longrightarrow> length (request_types rs) = length rs"
proof (induction rs arbitrary: cs)
  case (Cons r rs)
  then show ?case
    by (cases r) (auto simp: encode_request_def split: sum.splits any_op.splits)
qed simp

lemma decode_statuses_length: "decode_statuses i xs = Inr ys \<Longrightarrow> length ys = length xs"
  by (induction i xs arbitrary: ys rule: decode_statuses.induct) (auto split: sum.splits)

text \<open>A decoding of the whole array is the decoding of every entry, with its own index.\<close>

lemma decode_statuses_Inr:
  "decode_statuses i xs = Inr ys \<longleftrightarrow>
     length ys = length xs \<and>
     (\<forall>k < length xs. decode_status (i + int k) (fst (xs ! k)) (snd (xs ! k)) = Inr (ys ! k))"
proof (induction i xs arbitrary: ys rule: decode_statuses.induct)
  case (1 i)
  then show ?case by (cases ys) auto
next
  case (2 i s operation rest)
  show ?case
  proof (cases ys)
    case Nil
    then show ?thesis by (auto split: sum.splits)
  next
    case (Cons y ys')
    have "decode_statuses i ((s, operation) # rest) = Inr ys \<longleftrightarrow>
        decode_status i s operation = Inr y \<and> decode_statuses (i + 1) rest = Inr ys'"
      by (auto simp: Cons split: sum.splits)
    also have "\<dots> \<longleftrightarrow> decode_status i s operation = Inr y \<and> length ys' = length rest \<and>
        (\<forall>k < length rest. decode_status (i + 1 + int k) (fst (rest ! k)) (snd (rest ! k)) = Inr (ys' ! k))"
      using "2.IH" by (cases "decode_status i s operation") auto
    finally show ?thesis
      by (auto simp: Cons All_less_Suc2 ac_simps)
  qed
qed

text \<open>
  The table from native codes to error codes is a bijection onto \<open>ErrorCode\<close>: a native value
  decodes to an error code exactly when the header gives that value to the code's name, every
  other value is an unknown code, and \<open>OK\<close> is none.
\<close>

lemma error_code_roundtrip:
  "(error_code_of v = Inr c \<longleftrightarrow> R101_attr (error_code_name c) = Inr v) \<and>
   ((\<exists>e. error_code_of v = Inl e) \<longleftrightarrow> v \<notin> code_value ` UNIV) \<and>
   error_code_of R101_OK = Inl (RuntimeError (Fmt ''unknown engine error code: {}'' [FInt R101_OK]))"
proof -
  have "(\<exists>e. error_code_of v = Inl e) \<longleftrightarrow> v \<notin> code_value ` UNIV"
    by (cases "error_code_of v") (auto dest: error_code_of_Inr)
  moreover have "error_code_of R101_OK = Inl (RuntimeError (Fmt ''unknown engine error code: {}'' [FInt R101_OK]))"
    by (simp add: error_code_of_def ERROR_CODES_eval R101_defs)
  ultimately show ?thesis
    by (auto simp: R101_attr_code dest: error_code_of_Inr)
qed

end
