(* ===== verification/Ffi.thy ===== *)
theory Ffi
  imports Encoding
begin

text \<open>
  The other side of the C boundary: the conversions of \<^verbatim>\<open>transfer-engine/cpp/ffi.cpp\<close> (its Rust
  counterpart \<^verbatim>\<open>rust/src/ffi.rs\<close> has the same cases), and the theorems that they and the Python
  conversions of \<open>Encoding\<close> undo each other.
\<close>

section \<open>Result codes\<close>

datatype result_code =
    Ok | Unimplemented | Invalid | Busy | IoError | Timeout | Unsupported | NoMemory
  | InvalidState | Canceled

fun encode_result :: "result_code \<Rightarrow> int" where
  "encode_result Ok = R101_OK"
| "encode_result Unimplemented = R101_UNIMPLEMENTED"
| "encode_result Invalid = R101_INVALID"
| "encode_result Busy = R101_BUSY"
| "encode_result IoError = R101_IO_ERROR"
| "encode_result Timeout = R101_TIMEOUT"
| "encode_result Unsupported = R101_UNSUPPORTED"
| "encode_result NoMemory = R101_NO_MEMORY"
| "encode_result InvalidState = R101_INVALID_STATE"
| "encode_result Canceled = R101_CANCELED"

section \<open>Requests\<close>

text \<open>
  Reading a member of the union \<^verbatim>\<open>r101_request_args\<close>. All members start with the 64-bit
  \<^verbatim>\<open>remote_address\<close>; behind it lie \<^verbatim>\<open>immediate\<close> (32 bits) or \<^verbatim>\<open>compare\<close> and \<^verbatim>\<open>value\<close> (64 bits each), on a
  little-endian machine. CFFI clears the union before it sets a member.
\<close>

fun union_remote_address :: "c_args option \<Rightarrow> int" where
  "union_remote_address None = 0"
| "union_remote_address (Some (RmaArgs a)) = a"
| "union_remote_address (Some (WriteImmArgs a _)) = a"
| "union_remote_address (Some (AtomicArgs a _ _)) = a"

fun union_immediate :: "c_args option \<Rightarrow> int" where
  "union_immediate (Some (WriteImmArgs _ i)) = i"
| "union_immediate (Some (AtomicArgs _ c _)) = c mod 2 ^ 32"
| "union_immediate _ = 0"

fun union_compare :: "c_args option \<Rightarrow> int" where
  "union_compare (Some (WriteImmArgs _ i)) = i"
| "union_compare (Some (AtomicArgs _ c _)) = c"
| "union_compare _ = 0"

fun union_value :: "c_args option \<Rightarrow> int" where
  "union_value (Some (AtomicArgs _ _ v)) = v"
| "union_value _ = 0"

text \<open>
  \<open>decode_request(input, output)\<close>; \<open>None\<close> is its \<^verbatim>\<open>false\<close>. The native request has the fields of the
  Python one.
\<close>

definition decode_request :: "c_request \<Rightarrow> request option" where
  "decode_request input =
     (if cr_flags input \<noteq> 0 \<and> cr_flags input \<noteq> R101_INLINE then None
      else let inlined = (cr_flags input = R101_INLINE);
               opcode = cr_opcode input;
               supports_inline =
                 (opcode = R101_WRITE \<or> opcode = R101_SEND \<or> opcode = R101_WRITE_IMM);
               u = cr_args input;
               output = (\<lambda>op. Some \<lparr>req_peer = cr_peer input,
                  req_local_address = cr_local_address input, req_length = cr_length input,
                  req_operation = Op op\<rparr>)
           in if inlined \<and> \<not> supports_inline then None
              else if opcode = R101_WRITE then output (Write (union_remote_address u) inlined)
              else if opcode = R101_READ then output (Read (union_remote_address u))
              else if opcode = R101_SEND then output (Send inlined)
              else if opcode = R101_RECV then output Recv
              else if opcode = R101_WRITE_IMM
              then output (WriteImm (union_remote_address u) (union_immediate u) inlined)
              else if opcode = R101_COMPARE_SWAP
              then output (CompareSwap (union_remote_address u) (union_compare u) (union_value u))
              else if opcode = R101_FETCH_ADD
              then output (FetchAdd (union_remote_address u) (union_value u))
              else None)"

text \<open>The loop of \<^verbatim>\<open>r101_submit_transfer\<close>: one bad descriptor refuses the batch.\<close>

fun decode_requests :: "c_request list \<Rightarrow> request list option" where
  "decode_requests [] = Some []"
| "decode_requests (c # cs) = (case decode_request c of
     None \<Rightarrow> None
   | Some r \<Rightarrow> map_option (\<lambda>rs. r # rs) (decode_requests cs))"

section \<open>Statuses\<close>

datatype native_status =
    NativePending
  | NativeCompleted "receive_result option"
  | NativeFailed result_code

text \<open>\<open>encode_status(input)\<close> from a zeroed record; \<open>None\<close> is \<^verbatim>\<open>std::abort()\<close>.\<close>

definition zero_status :: c_status where
  "zero_status = \<lparr>cs_state = 0, cs_error = 0, cs_receive_kind = 0, cs_receive_immediate = 0,
     cs_receive_length = 0\<rparr>"

definition encode_status :: "native_status \<Rightarrow> c_status option" where
  "encode_status input = (case input of
     NativeFailed error \<Rightarrow>
       (if error = Ok then None
        else Some (zero_status\<lparr>cs_state := R101_FAILED, cs_error := encode_result error\<rparr>))
   | NativeCompleted receive \<Rightarrow>
       (let output = zero_status\<lparr>cs_state := R101_COMPLETED\<rparr>
        in case receive of
             None \<Rightarrow> Some output
           | Some (Message l) \<Rightarrow>
               Some (output\<lparr>cs_receive_kind := R101_RECV_MESSAGE, cs_receive_length := l\<rparr>)
           | Some (WriteNotice i) \<Rightarrow>
               Some (output\<lparr>cs_receive_kind := R101_RECV_WRITE_IMM, cs_receive_immediate := i\<rparr>))
   | NativePending \<Rightarrow> Some (zero_status\<lparr>cs_state := R101_PENDING\<rparr>))"

section \<open>Round trips\<close>

text \<open>The Python name of a native result, \<open>None\<close> for success.\<close>

fun python_code :: "result_code \<Rightarrow> error_code option" where
  "python_code Ok = None"
| "python_code Unimplemented = Some UNIMPLEMENTED"
| "python_code Invalid = Some INVALID"
| "python_code Busy = Some BUSY"
| "python_code IoError = Some IO_ERROR"
| "python_code Timeout = Some TIMEOUT"
| "python_code Unsupported = Some UNSUPPORTED"
| "python_code NoMemory = Some NO_MEMORY"
| "python_code InvalidState = Some INVALID_STATE"
| "python_code Canceled = Some CANCELED"

lemma encode_result_python:
  "encode_result r = (case python_code r of None \<Rightarrow> R101_OK | Some c \<Rightarrow> code_value c)"
  by (cases r) simp_all

lemma decode_encode_request:
  assumes "encode_request vp (Request req) = Inr c"
  shows "decode_request c = Some (req\<lparr>req_local_address := vp (req_local_address req)\<rparr>)"
proof -
  from assms obtain operation where op: "req_operation req = Op operation"
    by (auto simp: encode_request_def split: any_op.splits)
  with assms show ?thesis
    by (cases operation) (auto simp: encode_request_def decode_request_def R101_defs split: if_splits)
qed

lemma decode_encode_requests:
  "encode_requests vp (map Request reqs) = Inr cs \<Longrightarrow>
     decode_requests cs = Some (map (\<lambda>r. r\<lparr>req_local_address := vp (req_local_address r)\<rparr>) reqs)"
proof (induction reqs arbitrary: cs)
  case (Cons r reqs)
  then obtain c cs' where "encode_request vp (Request r) = Inr c"
    "encode_requests vp (map Request reqs) = Inr cs'" "cs = c # cs'"
    by (auto split: sum.splits)
  with Cons.IH [of cs'] show ?case by (simp add: decode_encode_request)
qed simp

text \<open>
  The conversions of Python and of the adapter are inverse: what Python encodes, as long as CFFI can store it,
  decodes to the requests that were submitted, operation by operation and field by field, with the local address
  as CFFI casts it; a list with an unknown operation is not encoded at all. That CFFI refuses integers that do not
  fit their fields is part of \<open>submit_reaches_engine\<close> of \<^verbatim>\<open>Adapter\<close>.
\<close>

lemma requests_roundtrip:
  "case encode_requests vp (map Request reqs) of
     Inr cs \<Rightarrow> decode_requests cs =
        Some (map (\<lambda>r. r\<lparr>req_local_address := vp (req_local_address r)\<rparr>) reqs)
   | Inl e \<Rightarrow> (\<exists>r \<in> set reqs. \<exists>name. req_operation r = OtherOp name
        \<and> e = TypeError (Fmt ''unknown operation: {}'' [FStr name]))"
proof (cases "encode_requests vp (map Request reqs)")
  case (Inr cs)
  then show ?thesis by (simp add: decode_encode_requests)
next
  case (Inl e)
  then have "\<exists>r \<in> set reqs. \<exists>name. req_operation r = OtherOp name
      \<and> e = TypeError (Fmt ''unknown operation: {}'' [FStr name])"
    by (induction reqs) (auto simp: encode_request_def split: sum.splits any_op.splits)
  with Inl show ?thesis by simp
qed

text \<open>
  A status the native adapter encodes is read back by Python as the same status: a failure with
  the code of the same name, a pending task, and a completion that carries a receive result exactly
  when the task is a RECV.
\<close>

lemma status_roundtrip:
  assumes "encode_status st = Some c"
    and "\<forall>r. st = NativeCompleted r \<longrightarrow> (r \<noteq> None \<longleftrightarrow> operation = RecvT)"
  shows "decode_status i c operation = Inr (case st of
      NativePending \<Rightarrow> Pending
    | NativeCompleted r \<Rightarrow> Completed r
    | NativeFailed rc \<Rightarrow> Failed (the (python_code rc)))"
proof (cases st)
  case NativePending
  with assms(1) have "c = zero_status\<lparr>cs_state := R101_PENDING\<rparr>"
    by (simp add: encode_status_def)
  with NativePending show ?thesis
    by (simp add: decode_status_def zero_status_def R101_defs)
next
  case (NativeCompleted r)
  with assms(2) have recv: "r \<noteq> None \<longleftrightarrow> operation = RecvT" by simp
  show ?thesis
  proof (cases r)
    case None
    with NativeCompleted assms(1) recv show ?thesis
      by (auto simp: encode_status_def decode_status_def zero_status_def R101_defs)
  next
    case (Some x)
    with NativeCompleted assms(1) recv show ?thesis
      by (cases x)
        (auto simp: encode_status_def decode_status_def decode_receive_def zero_status_def R101_defs)
  qed
next
  case (NativeFailed rc)
  with assms(1) have rc: "rc \<noteq> Ok"
    and c: "c = zero_status\<lparr>cs_state := R101_FAILED, cs_error := encode_result rc\<rparr>"
    by (auto simp: encode_status_def split: if_splits)
  from rc obtain code where "python_code rc = Some code" by (cases rc) auto
  with NativeFailed c show ?thesis
    by (simp add: decode_status_def encode_result_python del: encode_result.simps)
qed

lemma status_roundtrip_witness:
  "decode_status 0 (zero_status\<lparr>cs_state := R101_COMPLETED, cs_receive_kind := R101_RECV_MESSAGE,
      cs_receive_length := 31\<rparr>) RecvT = Inr (Completed (Some (Message 31)))"
proof -
  have "encode_status (NativeCompleted (Some (Message 31))) =
      Some (zero_status\<lparr>cs_state := R101_COMPLETED, cs_receive_kind := R101_RECV_MESSAGE,
        cs_receive_length := 31\<rparr>)"
    by (simp add: encode_status_def)
  from status_roundtrip [OF this, of RecvT 0] show ?thesis by simp
qed

end
