(* ===== verification/Memory.thy ===== *)
theory Memory
  imports Types
begin

unbundle bit_operations_syntax

text \<open>
  The class \<^verbatim>\<open>Memory\<close> of \<^verbatim>\<open>rdma101/native_engine.py\<close>: application-owned storage, aligned to 64
  bytes when the class allocates it, and the bounds check of \<open>fill\<close>. The process memory is a map
  from addresses to bytes; where CFFI places an allocation is a parameter.
\<close>

text \<open>
  \<open>mem_ref\<close> is the identity of the Python object: \<open>registered is memory\<close> compares it. The storage
  object lives as long as the \<open>Memory\<close> does, so it has no field of its own.
\<close>

record memory =
  mem_ref :: nat
  mem_size :: int
  mem_address :: int

type_synonym process_memory = "int \<Rightarrow> 8 word"

text \<open>\<open>Memory(size)\<close>: \<open>storage\<close> is the address of \<^verbatim>\<open>ffi.new("char[]", size + 63)\<close>.\<close>

definition align64 :: "int \<Rightarrow> int" where
  "align64 storage = (storage + 63) AND NOT 63"

definition Memory_new :: "nat \<Rightarrow> (int \<Rightarrow> int) \<Rightarrow> int \<Rightarrow> exn + memory" where
  "Memory_new ref ffi_new_char sz =
     (if sz \<le> 0 then Inl (ValueError (Msg ''positive memory size required''))
      else Inr \<lparr>mem_ref = ref, mem_size = sz, mem_address = align64 (ffi_new_char (sz + 63))\<rparr>)"

text \<open>
  \<open>Memory.from_buffer(buffer)\<close>: \<open>view\<close> is what \<^verbatim>\<open>ffi.from_buffer(..., require_writable=True)\<close>
  gives for the buffer, an address and a length, or the exception it raises.
\<close>

definition from_buffer :: "nat \<Rightarrow> exn + int \<times> int \<Rightarrow> exn + memory" where
  "from_buffer ref view = (case view of
     Inl e \<Rightarrow> Inl e
   | Inr (address, len) \<Rightarrow>
       (if len = 0 then Inl (ValueError (Msg ''positive memory size required''))
        else Inr \<lparr>mem_ref = ref, mem_size = len, mem_address = address\<rparr>))"

definition read_bytes :: "process_memory \<Rightarrow> int \<Rightarrow> int \<Rightarrow> bytes" where
  "read_bytes h address sz = map (\<lambda>i. h (address + int i)) [0..<nat sz]"

text \<open>\<open>memory.bytes()\<close>\<close>

definition memory_bytes :: "memory \<Rightarrow> process_memory \<Rightarrow> bytes" where
  "memory_bytes m h = read_bytes h (mem_address m) (mem_size m)"

text \<open>\<open>ffi.memmove(dest, data, len(data))\<close>\<close>

definition memmove :: "int \<Rightarrow> bytes \<Rightarrow> process_memory \<Rightarrow> process_memory" where
  "memmove dest data h =
     (\<lambda>a. if dest \<le> a \<and> a < dest + int (length data) then data ! nat (a - dest) else h a)"

text \<open>\<open>memory.fill(data, offset)\<close>\<close>

definition memory_fill :: "memory \<Rightarrow> bytes \<Rightarrow> int \<Rightarrow> (process_memory, exn, unit) py" where
  "memory_fill m data offset =
     py_then
       (py_raise_if (offset < 0 \<or> offset + int (length data) > mem_size m)
          (ValueError (Msg ''memory write out of bounds'')))
       (py_modify (memmove (mem_address m + offset) data))"

section \<open>Alignment\<close>

lemma and_not_63: "(x :: int) AND NOT 63 = x div 64 * 64"
  using and_not_mask [of x 6] by (simp add: mask_eq_exp_minus_1)

lemma align64_eq: "align64 s = (s + 63) div 64 * 64"
  by (simp only: align64_def and_not_63)

lemma align64_bounds: "align64 s mod 64 = 0" "s \<le> align64 s" "align64 s \<le> s + 63"
  unfolding align64_eq by presburger+

section \<open>Reading and writing\<close>

lemma length_read_bytes [simp]: "length (read_bytes h a n) = nat n"
  by (simp add: read_bytes_def)

lemma read_bytes_memmove:
  assumes "0 \<le> offset" and "offset + int (length data) \<le> sz"
  shows "read_bytes (memmove (a + offset) data h) a sz =
     take (nat offset) (read_bytes h a sz) @ data
       @ drop (nat offset + length data) (read_bytes h a sz)"
proof (rule nth_equalityI)
  show "length (read_bytes (memmove (a + offset) data h) a sz) =
     length (take (nat offset) (read_bytes h a sz) @ data
       @ drop (nat offset + length data) (read_bytes h a sz))"
    using assms by simp
next
  fix i
  assume i: "i < length (read_bytes (memmove (a + offset) data h) a sz)"
  consider "i < nat offset" | "nat offset \<le> i" "i < nat offset + length data"
    | "nat offset + length data \<le> i" by linarith
  then show "read_bytes (memmove (a + offset) data h) a sz ! i =
     (take (nat offset) (read_bytes h a sz) @ data
       @ drop (nat offset + length data) (read_bytes h a sz)) ! i"
    using i assms
    by cases (auto simp: read_bytes_def memmove_def nth_append nat_diff_distrib)
qed

lemma memmove_outside: "a < dest \<or> dest + int (length data) \<le> a \<Longrightarrow> memmove dest data h a = h a"
  by (auto simp: memmove_def)

text \<open>
  A \<open>Memory\<close> that allocates its own storage is 64-byte aligned and lies within the
  \<open>size + 63\<close> bytes it allocated, wherever the allocator puts them; a size that is not positive
  is refused.
\<close>

lemma memory_within_allocation:
  "case Memory_new ref alloc sz of
     Inl e \<Rightarrow> sz \<le> 0 \<and> e = ValueError (Msg ''positive memory size required'')
   | Inr m \<Rightarrow> 0 < sz \<and> mem_size m = sz \<and> mem_address m mod 64 = 0 \<and>
       alloc (sz + 63) \<le> mem_address m \<and>
       mem_address m + mem_size m \<le> alloc (sz + 63) + (sz + 63)"
  using align64_bounds [of "alloc (sz + 63)"] by (auto simp: Memory_new_def)

text \<open>
  C40: \<open>fill\<close> inside the bounds replaces exactly the bytes from \<open>offset\<close> on and nothing outside the
  region; out of bounds (a negative offset included) it raises and writes nothing.
\<close>

theorem memory_fill_exact:
  "memory_fill m data offset h =
     (if 0 \<le> offset \<and> offset + int (length data) \<le> mem_size m
      then (Inr (), memmove (mem_address m + offset) data h)
      else (Inl (ValueError (Msg ''memory write out of bounds'')), h)) \<and>
   (0 \<le> offset \<and> offset + int (length data) \<le> mem_size m \<longrightarrow>
      memory_bytes m (snd (memory_fill m data offset h)) =
        take (nat offset) (memory_bytes m h) @ data
          @ drop (nat offset + length data) (memory_bytes m h)) \<and>
   (a < mem_address m \<or> mem_address m + mem_size m \<le> a \<longrightarrow>
      snd (memory_fill m data offset h) a = h a)"
  by (auto simp: memory_fill_def py_defs memory_bytes_def read_bytes_memmove memmove_outside)

theorem memory_fill_exact_witness:
  "memory_bytes \<lparr>mem_ref = 0, mem_size = 4, mem_address = 64\<rparr>
     (snd (memory_fill \<lparr>mem_ref = 0, mem_size = 4, mem_address = 64\<rparr> [7, 8] 1 (\<lambda>_. 0)))
     = [0, 7, 8, 0] \<and>
   snd (memory_fill \<lparr>mem_ref = 0, mem_size = 4, mem_address = 64\<rparr> [7, 8] 1 (\<lambda>_. 0)) 68 = 0"
  using memory_fill_exact [of "\<lparr>mem_ref = 0, mem_size = 4, mem_address = 64\<rparr>" "[7, 8]" 1
      "\<lambda>_. 0" 68]
  by (simp add: memory_bytes_def read_bytes_def upt_rec memmove_def)

end
