(* ===== verification/Native_Engine.thy ===== *)
theory Native_Engine
  imports Encoding Memory
begin

text \<open>
  The class \<^verbatim>\<open>NativeEngine\<close> of \<^verbatim>\<open>rdma101/native_engine.py\<close>: the Python bookkeeping around the C
  library. The library is a parameter, the record \<open>c_api\<close> of its entry points over a state of its
  own; each call may also raise, when CFFI refuses to convert an argument. An output parameter is
  part of the result and holds what the C function left there.
\<close>

section \<open>The C library\<close>

record c_config =
  cc_abi_version :: int
  cc_device :: "string option"
  cc_port :: int
  cc_gid_index :: int

text \<open>
  A creation returns the result code, the new handle, and the address and size of a metadata blob.
  \<open>ffi_bytes l p n\<close> is \<^verbatim>\<open>bytes(ffi.buffer(p, n))\<close> in the state \<open>l\<close>.
\<close>

record 'l c_api =
  ffi_void_ptr :: "int \<Rightarrow> int"
  ffi_new_config :: "c_config \<Rightarrow> exn + c_config"
  ffi_new_requests :: "c_request list \<Rightarrow> exn + c_request list"
  ffi_bytes :: "'l \<Rightarrow> int \<Rightarrow> int \<Rightarrow> bytes"
  r101_create_engine :: "c_config \<Rightarrow> ('l, exn, int \<times> int) py"
  r101_destroy_engine :: "int \<Rightarrow> ('l, exn, int) py"
  r101_register_local_memory :: "int \<Rightarrow> int \<Rightarrow> int \<Rightarrow> int \<Rightarrow> ('l, exn, int \<times> int \<times> int \<times> int) py"
  r101_deregister_local_memory :: "int \<Rightarrow> int \<Rightarrow> ('l, exn, int) py"
  r101_import_remote_memory :: "int \<Rightarrow> int \<Rightarrow> bytes \<Rightarrow> ('l, exn, int \<times> int) py"
  r101_remove_remote_memory :: "int \<Rightarrow> int \<Rightarrow> ('l, exn, int) py"
  r101_create_peer :: "int \<Rightarrow> ('l, exn, int \<times> int \<times> int \<times> int) py"
  r101_connect_peer :: "int \<Rightarrow> int \<Rightarrow> bytes \<Rightarrow> ('l, exn, int) py"
  r101_destroy_peer :: "int \<Rightarrow> int \<Rightarrow> ('l, exn, int) py"
  r101_submit_transfer :: "int \<Rightarrow> c_request list \<Rightarrow> ('l, exn, int \<times> int) py"
  r101_get_transfer_statuses :: "int \<Rightarrow> int \<Rightarrow> nat \<Rightarrow> ('l, exn, int \<times> c_status list) py"
  r101_free_batch :: "int \<Rightarrow> int \<Rightarrow> ('l, exn, int) py"

section \<open>The object\<close>

abbreviation (input) NULL :: int where "NULL \<equiv> 0"

record 'l native =
  ne_lib :: 'l
  ne_handle :: int
  ne_memories :: "(int, memory \<times> bytes) dict"
  ne_remote_memories :: "(int, int) dict"
  ne_batches :: "(int, op_type list) dict"
  ne_peers :: "int set"

type_synonym ('l, 'a) native_call = "('l native, exn, 'a) py"

definition on_lib :: "('l, exn, 'a) py \<Rightarrow> ('l, 'a) native_call" where
  "on_lib m = py_zoom ne_lib (\<lambda>l s. s\<lparr>ne_lib := l\<rparr>) m"

text \<open>\<open>self.call(name, ...)\<close> for a function without and with output parameters.\<close>

definition native_call :: "string \<Rightarrow> ('l, exn, int) py \<Rightarrow> ('l, unit) native_call" where
  "native_call name m = py_bind (on_lib m) (\<lambda>code. py_lift (check_code name code))"

definition native_call_out :: "string \<Rightarrow> ('l, exn, int \<times> 'a) py \<Rightarrow> ('l, 'a) native_call" where
  "native_call_out name m =
     py_bind (on_lib m) (\<lambda>(code, out). py_then (py_lift (check_code name code)) (py_return out))"

definition native_closed :: "'l native \<Rightarrow> bool" where
  "native_closed s \<longleftrightarrow> ne_handle s = NULL"

text \<open>
  \<open>NativeEngine(path, config)\<close>. The result of a failure is the exception and the state of the C
  library; no object exists then. \<open>dlopen\<close> is CFFI's loader.
\<close>

datatype any_config = NoConfig | Config config | NotAConfig

definition resolve_config :: "any_config \<Rightarrow> exn + config" where
  "resolve_config c = (case c of
     NoConfig \<Rightarrow> Inr default_config
   | Config cfg \<Rightarrow> Inr cfg
   | NotAConfig \<Rightarrow> Inl (TypeError (Msg ''config must be a Config instance'')))"

definition NativeEngine_init ::
  "'l c_api \<Rightarrow> (string \<Rightarrow> exn + (string \<Rightarrow> bool)) \<Rightarrow> string \<Rightarrow> any_config \<Rightarrow> 'l
     \<Rightarrow> exn \<times> 'l + 'l native" where
  "NativeEngine_init C dlopen path c l = (case resolve_config c of
     Inl e \<Rightarrow> Inl (e, l)
   | Inr config \<Rightarrow> (case library dlopen path of
       Inl e \<Rightarrow> Inl (e, l)
     | Inr _ \<Rightarrow> (case ffi_new_config C
           \<lparr>cc_abi_version = R101_ABI_VERSION, cc_device = config_device config,
            cc_port = config_port config, cc_gid_index = config_gid_index config\<rparr> of
         Inl e \<Rightarrow> Inl (e, l)
       | Inr storage \<Rightarrow> (case r101_create_engine C storage l of
           (Inl e, l') \<Rightarrow> Inl (e, l')
         | (Inr (code, output), l') \<Rightarrow> (case check_code ''create_engine'' code of
             Inl e \<Rightarrow> Inl (e, l')
           | Inr _ \<Rightarrow>
               if output = NULL
               then Inl (RuntimeError (Msg ''create_engine returned OK with null engine''), l')
               else Inr \<lparr>ne_lib = l', ne_handle = output, ne_memories = [],
                      ne_remote_memories = [], ne_batches = [], ne_peers = {}\<rparr>)))))"

section \<open>Local memory\<close>

datatype any_memory = Memory memory | NotAMemory

definition native_register_local_memory ::
  "'l c_api \<Rightarrow> any_memory \<Rightarrow> int \<Rightarrow> ('l, memory_metadata) native_call" where
  "native_register_local_memory C m access = (case m of
     NotAMemory \<Rightarrow> py_raise (TypeError (Msg ''memory must be a Memory instance''))
   | Memory memory \<Rightarrow>
       py_bind (py_gets ne_handle) (\<lambda>handle.
       py_bind (native_call_out ''register_local_memory''
                  (r101_register_local_memory C handle (ffi_void_ptr C (mem_address memory))
                     (mem_size memory) access)) (\<lambda>(region, metadata, sz).
       py_bind (py_gets ne_memories) (\<lambda>memories.
       py_then (py_raise_if (region = 0 \<or> map_of memories region \<noteq> None)
                  (RuntimeError (Msg ''registration IDs must be nonzero and distinct'')))
      (py_then (py_modify (\<lambda>s. s\<lparr>ne_memories := AList.update region (memory, []) (ne_memories s)\<rparr>))
      (py_then (py_raise_if (metadata = NULL \<or> sz = 0)
                  (RuntimeError (Msg ''registration returned missing memory metadata'')))
      (py_bind (py_gets (\<lambda>s. ffi_bytes C (ne_lib s) metadata sz)) (\<lambda>data.
       py_then (py_modify (\<lambda>s. s\<lparr>ne_memories := AList.update region (memory, data) (ne_memories s)\<rparr>))
         (py_return \<lparr>mm_memory = region, mm_metadata = data\<rparr>)))))))))"

text \<open>\<open>memory_metadata(memory)\<close>: the first registration of this very object.\<close>

fun find_memory :: "memory \<Rightarrow> (int, memory \<times> bytes) dict \<Rightarrow> exn + bytes" where
  "find_memory m [] = Inl (ValueError (Msg ''memory is not registered with this engine''))"
| "find_memory m ((_, registered, metadata) # rest) =
     (if mem_ref registered = mem_ref m then Inr metadata else find_memory m rest)"

definition native_memory_metadata :: "memory \<Rightarrow> ('l, bytes) native_call" where
  "native_memory_metadata m = py_bind (py_gets ne_memories) (\<lambda>d. py_lift (find_memory m d))"

text \<open>\<open>del d[k]\<close>: a missing key raises.\<close>

definition py_del :: "('s \<Rightarrow> ('k, 'v) dict) \<Rightarrow> (('k, 'v) dict \<Rightarrow> 's \<Rightarrow> 's) \<Rightarrow> 'k \<Rightarrow> ('s, exn, unit) py" where
  [py_defs]: "py_del get put k s =
     (if map_of (get s) k = None then (Inl KeyError, s)
      else (Inr (), put (AList.delete k (get s)) s))"

definition native_deregister_local_memory :: "'l c_api \<Rightarrow> int \<Rightarrow> ('l, unit) native_call" where
  "native_deregister_local_memory C memory =
     py_bind (py_gets ne_handle) (\<lambda>handle.
     py_then (native_call ''deregister_local_memory'' (r101_deregister_local_memory C handle memory))
       (py_del ne_memories (\<lambda>d s. s\<lparr>ne_memories := d\<rparr>) memory))"

section \<open>Remote memory\<close>

datatype any_bytes = Bytes bytes | NotBytes

fun nonempty_bytes :: "string \<Rightarrow> any_bytes \<Rightarrow> exn + bytes" where
  "nonempty_bytes msg NotBytes = Inl (ValueError (Msg msg))"
| "nonempty_bytes msg (Bytes b) = (if b = [] then Inl (ValueError (Msg msg)) else Inr b)"

definition native_import_remote_memory ::
  "'l c_api \<Rightarrow> int \<Rightarrow> any_bytes \<Rightarrow> ('l, int) native_call" where
  "native_import_remote_memory C peer metadata =
     py_bind (py_lift (nonempty_bytes ''memory metadata must be nonempty bytes'' metadata)) (\<lambda>b.
     py_bind (py_gets ne_handle) (\<lambda>handle.
     py_bind (native_call_out ''import_remote_memory''
                (r101_import_remote_memory C handle peer b)) (\<lambda>region.
     py_bind (py_gets ne_remote_memories) (\<lambda>remote.
     py_then (py_raise_if
                (region = 0 \<or> (case map_of remote region of None \<Rightarrow> peer | Some p \<Rightarrow> p) \<noteq> peer)
                (RuntimeError (Msg ''invalid remote memory ID'')))
    (py_then (py_modify (\<lambda>s. s\<lparr>ne_remote_memories := AList.update region peer (ne_remote_memories s)\<rparr>))
       (py_return region))))))"

definition native_remove_remote_memory :: "'l c_api \<Rightarrow> int \<Rightarrow> ('l, unit) native_call" where
  "native_remove_remote_memory C remote_memory =
     py_bind (py_gets ne_handle) (\<lambda>handle.
     py_then (native_call ''remove_remote_memory'' (r101_remove_remote_memory C handle remote_memory))
       (py_del ne_remote_memories (\<lambda>d s. s\<lparr>ne_remote_memories := d\<rparr>) remote_memory))"

section \<open>Peers\<close>

definition native_create_peer :: "'l c_api \<Rightarrow> ('l, peer_metadata) native_call" where
  "native_create_peer C =
     py_bind (py_gets ne_handle) (\<lambda>handle.
     py_bind (native_call_out ''create_peer'' (r101_create_peer C handle)) (\<lambda>(peer, metadata, sz).
     py_bind (py_gets ne_peers) (\<lambda>peers.
     py_then (py_raise_if (peer = 0 \<or> peer \<in> peers)
                (RuntimeError (Msg ''live peer IDs must be nonzero and distinct'')))
    (py_then (py_raise_if (metadata = NULL \<or> sz = 0)
                (RuntimeError (Msg ''create_peer returned missing connection metadata'')))
    (py_bind (py_gets (\<lambda>s. ffi_bytes C (ne_lib s) metadata sz)) (\<lambda>data.
     py_then (py_modify (\<lambda>s. s\<lparr>ne_peers := insert peer (ne_peers s)\<rparr>))
       (py_return \<lparr>pm_peer = peer, pm_metadata = data\<rparr>)))))))"

definition native_connect_peer :: "'l c_api \<Rightarrow> int \<Rightarrow> any_bytes \<Rightarrow> ('l, unit) native_call" where
  "native_connect_peer C peer metadata =
     py_bind (py_lift (nonempty_bytes ''connection metadata must be nonempty bytes'' metadata)) (\<lambda>b.
     py_bind (py_gets ne_handle) (\<lambda>handle.
       native_call ''connect_peer'' (r101_connect_peer C handle peer b)))"

text \<open>\<open>set.remove\<close> raises \<^verbatim>\<open>KeyError\<close>; the loop then drops the imports the peer owns.\<close>

definition native_destroy_peer :: "'l c_api \<Rightarrow> int \<Rightarrow> ('l, unit) native_call" where
  "native_destroy_peer C peer =
     py_bind (py_gets ne_handle) (\<lambda>handle.
     py_then (native_call ''destroy_peer'' (r101_destroy_peer C handle peer))
    (py_bind (py_gets ne_peers) (\<lambda>peers.
     py_then (py_raise_if (peer \<notin> peers) KeyError)
    (py_then (py_modify (\<lambda>s. s\<lparr>ne_peers := ne_peers s - {peer}\<rparr>))
       (py_modify (\<lambda>s. s\<lparr>ne_remote_memories :=
          filter (\<lambda>(region, owner). owner \<noteq> peer) (ne_remote_memories s)\<rparr>))))))"

section \<open>Batches\<close>

definition native_submit_transfer :: "'l c_api \<Rightarrow> any_request list \<Rightarrow> ('l, int) native_call" where
  "native_submit_transfer C requests =
     py_bind (py_lift (encode_requests (ffi_void_ptr C) requests)) (\<lambda>values.
     py_bind (py_lift (ffi_new_requests C values)) (\<lambda>entries.
     py_bind (py_gets ne_handle) (\<lambda>handle.
     py_bind (native_call_out ''submit_transfer'' (r101_submit_transfer C handle entries)) (\<lambda>batch.
     py_bind (py_gets ne_batches) (\<lambda>batches.
     py_then (py_raise_if (batch = 0 \<or> map_of batches batch \<noteq> None)
                (RuntimeError (Msg ''live batch IDs must be nonzero and distinct'')))
    (py_then (py_modify (\<lambda>s. s\<lparr>ne_batches := AList.update batch (request_types requests) (ne_batches s)\<rparr>))
       (py_return batch)))))))"

definition native_get_transfer_statuses ::
  "'l c_api \<Rightarrow> int \<Rightarrow> ('l, transfer_status list) native_call" where
  "native_get_transfer_statuses C batch =
     py_bind (py_gets ne_batches) (\<lambda>batches. case map_of batches batch of
       None \<Rightarrow> py_raise KeyError
     | Some operations \<Rightarrow>
         py_bind (py_gets ne_handle) (\<lambda>handle.
         py_bind (native_call_out ''get_transfer_statuses''
                    (r101_get_transfer_statuses C handle batch (length operations))) (\<lambda>statuses.
           py_lift (decode_statuses 0 (zip statuses operations)))))"

definition native_free_batch :: "'l c_api \<Rightarrow> int \<Rightarrow> ('l, unit) native_call" where
  "native_free_batch C batch =
     py_bind (py_gets ne_handle) (\<lambda>handle.
     py_then (native_call ''free_batch'' (r101_free_batch C handle batch))
       (py_del ne_batches (\<lambda>d s. s\<lparr>ne_batches := d\<rparr>) batch))"

definition native_close :: "'l c_api \<Rightarrow> ('l, unit) native_call" where
  "native_close C =
     py_bind (py_gets ne_handle) (\<lambda>handle.
       if handle = NULL then py_return ()
       else py_then (native_call ''destroy_engine'' (r101_destroy_engine C handle))
              (py_modify (\<lambda>s. s\<lparr>ne_handle := NULL, ne_memories := [], ne_remote_memories := [],
                 ne_batches := [], ne_peers := {}\<rparr>)))"

end
