(* ===== verification/Native_Facts.thy ===== *)
theory Native_Facts
  imports Native_Engine
begin

text \<open>
  What the bookkeeping of \<open>NativeEngine\<close> guarantees whatever the C library does: the dictionaries
  stay well formed, a call that raises leaves them as they were, and registered storage is retained
  until the library has confirmed its release.
\<close>

section \<open>Every method as one step\<close>

datatype native_op =
    OpRegister any_memory int
  | OpDeregister int
  | OpImport int any_bytes
  | OpRemove int
  | OpCreatePeer
  | OpConnectPeer int any_bytes
  | OpDestroyPeer int
  | OpSubmit "any_request list"
  | OpStatuses int
  | OpFreeBatch int
  | OpClose

text \<open>The exception a call raised, if any.\<close>

definition outcome :: "(exn + 'a) \<times> 's \<Rightarrow> exn option \<times> 's" where
  "outcome r = (case r of (Inl e, s) \<Rightarrow> (Some e, s) | (Inr _, s) \<Rightarrow> (None, s))"

fun native_exec :: "'l c_api \<Rightarrow> native_op \<Rightarrow> 'l native \<Rightarrow> exn option \<times> 'l native" where
  "native_exec C (OpRegister m access) s = outcome (native_register_local_memory C m access s)"
| "native_exec C (OpDeregister r) s = outcome (native_deregister_local_memory C r s)"
| "native_exec C (OpImport p b) s = outcome (native_import_remote_memory C p b s)"
| "native_exec C (OpRemove r) s = outcome (native_remove_remote_memory C r s)"
| "native_exec C OpCreatePeer s = outcome (native_create_peer C s)"
| "native_exec C (OpConnectPeer p b) s = outcome (native_connect_peer C p b s)"
| "native_exec C (OpDestroyPeer p) s = outcome (native_destroy_peer C p s)"
| "native_exec C (OpSubmit rs) s = outcome (native_submit_transfer C rs s)"
| "native_exec C (OpStatuses b) s = outcome (native_get_transfer_statuses C b s)"
| "native_exec C (OpFreeBatch b) s = outcome (native_free_batch C b s)"
| "native_exec C OpClose s = outcome (native_close C s)"

fun native_run :: "'l c_api \<Rightarrow> native_op list \<Rightarrow> 'l native \<Rightarrow> 'l native" where
  "native_run C [] s = s"
| "native_run C (op # ops) s = native_run C ops (snd (native_exec C op s))"

section \<open>Calls into the library\<close>

lemma on_lib_eq: "on_lib m s = (r, t) \<longleftrightarrow> (\<exists>l. m (ne_lib s) = (r, l) \<and> t = s\<lparr>ne_lib := l\<rparr>)"
  by (simp add: on_lib_def py_zoom_eq)

lemma check_code_Inr_sym: "Inr u = check_code name v \<longleftrightarrow> v = R101_OK"
  by (metis check_code_Inr)

lemma native_call_Inr:
  "native_call name m s = (Inr u, t) \<longleftrightarrow>
     (\<exists>l. m (ne_lib s) = (Inr R101_OK, l) \<and> t = s\<lparr>ne_lib := l\<rparr>)"
  by (auto simp: native_call_def py_eqs on_lib_eq check_code_Inr check_code_Inr_sym)

lemma native_call_Inl:
  "native_call name m s = (Inl e, t) \<longleftrightarrow>
     (\<exists>l. t = s\<lparr>ne_lib := l\<rparr> \<and> (m (ne_lib s) = (Inl e, l) \<or>
        (\<exists>code. m (ne_lib s) = (Inr code, l) \<and> check_code name code = Inl e)))"
  by (auto simp: native_call_def py_eqs on_lib_eq)

lemma native_call_out_Inr:
  "native_call_out name m s = (Inr x, t) \<longleftrightarrow>
     (\<exists>l. m (ne_lib s) = (Inr (R101_OK, x), l) \<and> t = s\<lparr>ne_lib := l\<rparr>)"
  by (auto simp: native_call_out_def py_eqs on_lib_eq check_code_Inr
      check_code_Inr_sym split: prod.splits)

lemma native_call_out_Inl:
  "native_call_out name m s = (Inl e, t) \<longleftrightarrow>
     (\<exists>l. t = s\<lparr>ne_lib := l\<rparr> \<and> (m (ne_lib s) = (Inl e, l) \<or>
        (\<exists>code x. m (ne_lib s) = (Inr (code, x), l) \<and> check_code name code = Inl e)))"
  by (auto simp: native_call_out_def py_eqs on_lib_eq split: prod.splits)

lemma py_del_Inr:
  "py_del get put k s = (Inr u, t) \<longleftrightarrow>
     map_of (get s) k \<noteq> None \<and> t = put (AList.delete k (get s)) s"
  by (auto simp: py_del_def)

lemma py_del_Inl:
  "py_del get put k s = (Inl e, t) \<longleftrightarrow> map_of (get s) k = None \<and> e = KeyError \<and> t = s"
  by (auto simp: py_del_def)

lemmas native_eqs = py_eqs native_call_Inr native_call_Inl native_call_out_Inr native_call_out_Inl
  py_del_Inr py_del_Inl

lemmas native_defs = native_register_local_memory_def native_deregister_local_memory_def
  native_import_remote_memory_def native_remove_remote_memory_def native_create_peer_def
  native_connect_peer_def native_destroy_peer_def native_submit_transfer_def
  native_get_transfer_statuses_def native_free_batch_def native_close_def

lemma outcome_eq:
  "outcome r = (x, t) \<longleftrightarrow>
     (\<exists>e. x = Some e \<and> r = (Inl e, t)) \<or> (\<exists>v. x = None \<and> r = (Inr v, t))"
  by (auto simp: outcome_def split: prod.splits sum.splits)

section \<open>Well-formed bookkeeping\<close>

text \<open>Every dictionary has distinct keys and no key is the null handle.\<close>

definition native_wf :: "'l native \<Rightarrow> bool" where
  "native_wf s \<longleftrightarrow>
     dict_ok (ne_memories s) \<and> map_of (ne_memories s) 0 = None \<and>
     dict_ok (ne_remote_memories s) \<and> map_of (ne_remote_memories s) 0 = None \<and>
     dict_ok (ne_batches s) \<and> map_of (ne_batches s) 0 = None \<and>
     0 \<notin> ne_peers s"

lemma dict_ok_filter [dict_simps]: "dict_ok d \<Longrightarrow> dict_ok (filter P d)"
  by (simp add: dict_ok_def distinct_map_filter)

lemma dict_get_filter_owner [dict_simps]:
  "dict_ok d \<Longrightarrow> map_of (filter (\<lambda>(k, v). P v) d) k =
     (case map_of d k of None \<Rightarrow> None | Some v \<Rightarrow> if P v then Some v else None)"
  by (induction d) (auto simp: dict_ok_def map_of_eq_None_iff split: option.splits)

lemma register_wf: "native_wf s \<Longrightarrow> native_register_local_memory C m access s = (r, t) \<Longrightarrow> native_wf t"
  by (cases r; cases m)
    (auto simp: native_defs native_eqs native_wf_def dict_simps split: prod.splits)

lemma deregister_wf: "native_wf s \<Longrightarrow> native_deregister_local_memory C k s = (r, t) \<Longrightarrow> native_wf t"
  by (cases r) (auto simp: native_defs native_eqs native_wf_def dict_simps)

lemma import_wf: "native_wf s \<Longrightarrow> native_import_remote_memory C p b s = (r, t) \<Longrightarrow> native_wf t"
  by (cases r) (auto simp: native_defs native_eqs native_wf_def dict_simps)

lemma remove_wf: "native_wf s \<Longrightarrow> native_remove_remote_memory C k s = (r, t) \<Longrightarrow> native_wf t"
  by (cases r) (auto simp: native_defs native_eqs native_wf_def dict_simps)

lemma create_peer_wf: "native_wf s \<Longrightarrow> native_create_peer C s = (r, t) \<Longrightarrow> native_wf t"
  by (cases r) (auto simp: native_defs native_eqs native_wf_def split: prod.splits)

lemma connect_peer_wf: "native_wf s \<Longrightarrow> native_connect_peer C p b s = (r, t) \<Longrightarrow> native_wf t"
  by (cases r) (auto simp: native_defs native_eqs native_wf_def)

lemma destroy_peer_wf: "native_wf s \<Longrightarrow> native_destroy_peer C p s = (r, t) \<Longrightarrow> native_wf t"
  by (cases r) (auto simp: native_defs native_eqs native_wf_def dict_simps split: option.splits)

lemma submit_wf: "native_wf s \<Longrightarrow> native_submit_transfer C rs s = (r, t) \<Longrightarrow> native_wf t"
  by (cases r) (auto simp: native_defs native_eqs native_wf_def dict_simps)

lemma statuses_wf: "native_wf s \<Longrightarrow> native_get_transfer_statuses C b s = (r, t) \<Longrightarrow> native_wf t"
  by (cases r) (auto simp: native_defs native_eqs native_wf_def split: option.splits)

lemma free_batch_wf: "native_wf s \<Longrightarrow> native_free_batch C b s = (r, t) \<Longrightarrow> native_wf t"
  by (cases r) (auto simp: native_defs native_eqs native_wf_def dict_simps)

lemma close_wf: "native_wf s \<Longrightarrow> native_close C s = (r, t) \<Longrightarrow> native_wf t"
  by (cases r) (auto simp: native_defs native_eqs native_wf_def split: if_splits)

lemmas native_wf_steps = register_wf deregister_wf import_wf remove_wf create_peer_wf
  connect_peer_wf destroy_peer_wf submit_wf statuses_wf free_batch_wf close_wf

lemma native_exec_wf: "native_wf s \<Longrightarrow> native_exec C op s = (r, t) \<Longrightarrow> native_wf t"
  by (cases op) (auto simp: outcome_eq intro: native_wf_steps)

lemma native_run_wf: "native_wf s \<Longrightarrow> native_wf (native_run C ops s)"
proof (induction ops arbitrary: s)
  case (Cons op ops)
  then show ?case
    by (metis native_exec_wf native_run.simps(2) prod.collapse)
qed simp

section \<open>A raising call changes no bookkeeping\<close>

definition books ::
  "'l native \<Rightarrow> int \<times> (int, memory \<times> bytes) dict \<times> (int, int) dict \<times> (int, op_type list) dict \<times> int set"
where
  "books s = (ne_handle s, ne_memories s, ne_remote_memories s, ne_batches s, ne_peers s)"

lemma deregister_raise: "native_deregister_local_memory C k s = (Inl e, t) \<Longrightarrow> books t = books s"
  by (auto simp: native_defs native_eqs books_def)

lemma import_raise: "native_import_remote_memory C p b s = (Inl e, t) \<Longrightarrow> books t = books s"
  by (auto simp: native_defs native_eqs books_def)

lemma remove_raise: "native_remove_remote_memory C k s = (Inl e, t) \<Longrightarrow> books t = books s"
  by (auto simp: native_defs native_eqs books_def)

lemma create_peer_raise: "native_create_peer C s = (Inl e, t) \<Longrightarrow> books t = books s"
  by (auto simp: native_defs native_eqs books_def split: prod.splits)

lemma connect_peer_raise: "native_connect_peer C p b s = (Inl e, t) \<Longrightarrow> books t = books s"
  by (auto simp: native_defs native_eqs books_def)

lemma destroy_peer_raise: "native_destroy_peer C p s = (Inl e, t) \<Longrightarrow> books t = books s"
  by (auto simp: native_defs native_eqs books_def)

lemma submit_raise: "native_submit_transfer C rs s = (Inl e, t) \<Longrightarrow> books t = books s"
  by (auto simp: native_defs native_eqs books_def)

lemma statuses_books: "native_get_transfer_statuses C b s = (r, t) \<Longrightarrow> books t = books s"
  by (cases r) (auto simp: native_defs native_eqs books_def split: option.splits)

lemma free_batch_raise: "native_free_batch C b s = (Inl e, t) \<Longrightarrow> books t = books s"
  by (auto simp: native_defs native_eqs books_def)

lemma close_raise: "native_close C s = (Inl e, t) \<Longrightarrow> books t = books s"
  by (auto simp: native_defs native_eqs books_def split: if_splits)

lemma register_raise:
  "native_register_local_memory C m access s = (Inl e, t) \<Longrightarrow> books t \<noteq> books s \<Longrightarrow>
     \<exists>memory region. m = Memory memory \<and> region \<noteq> 0 \<and> map_of (ne_memories s) region = None \<and>
       e = RuntimeError (Msg ''registration returned missing memory metadata'') \<and>
       ne_memories t = AList.update region (memory, []) (ne_memories s) \<and>
       ne_remote_memories t = ne_remote_memories s \<and> ne_batches t = ne_batches s \<and>
       ne_peers t = ne_peers s \<and> ne_handle t = ne_handle s"
  by (cases m)
    (auto simp: native_defs native_eqs books_def split: prod.splits simp del: not_None_eq)

lemmas native_raises = deregister_raise import_raise remove_raise create_peer_raise
  connect_peer_raise destroy_peer_raise submit_raise statuses_books free_batch_raise close_raise

section \<open>Registered storage\<close>

lemma register_keeps:
  "native_register_local_memory C m access s = (r, t) \<Longrightarrow> map_of (ne_memories s) k = Some v \<Longrightarrow>
     map_of (ne_memories t) k = Some v"
  by (cases r; cases m)
    (auto simp: native_defs native_eqs dict_simps split: prod.splits simp del: not_None_eq)

lemma other_keeps_memories:
  "native_import_remote_memory C p b s = (r1, t1) \<Longrightarrow> ne_memories t1 = ne_memories s"
  "native_remove_remote_memory C k s = (r2, t2) \<Longrightarrow> ne_memories t2 = ne_memories s"
  "native_create_peer C s = (r3, t3) \<Longrightarrow> ne_memories t3 = ne_memories s"
  "native_connect_peer C p b s = (r4, t4) \<Longrightarrow> ne_memories t4 = ne_memories s"
  "native_destroy_peer C p s = (r5, t5) \<Longrightarrow> ne_memories t5 = ne_memories s"
  "native_submit_transfer C rs s = (r6, t6) \<Longrightarrow> ne_memories t6 = ne_memories s"
  "native_get_transfer_statuses C n s = (r7, t7) \<Longrightarrow> ne_memories t7 = ne_memories s"
  "native_free_batch C n s = (r8, t8) \<Longrightarrow> ne_memories t8 = ne_memories s"
  subgoal by (cases r1) (auto simp: native_defs native_eqs)
  subgoal by (cases r2) (auto simp: native_defs native_eqs)
  subgoal by (cases r3) (auto simp: native_defs native_eqs split: prod.splits)
  subgoal by (cases r4) (auto simp: native_defs native_eqs)
  subgoal by (cases r5) (auto simp: native_defs native_eqs)
  subgoal by (cases r6) (auto simp: native_defs native_eqs)
  subgoal by (cases r7) (auto simp: native_defs native_eqs split: option.splits)
  subgoal by (cases r8) (auto simp: native_defs native_eqs)
  done

lemma deregister_memories:
  "native_deregister_local_memory C k s = (Inl e, t) \<Longrightarrow> ne_memories t = ne_memories s"
  "native_deregister_local_memory C k s = (Inr u, t) \<Longrightarrow>
     ne_memories t = AList.delete k (ne_memories s) \<and>
     (\<exists>l. r101_deregister_local_memory C (ne_handle s) k (ne_lib s) = (Inr R101_OK, l))"
  by (auto simp: native_defs native_eqs)

lemma close_memories:
  "native_close C s = (Inl e, t) \<Longrightarrow> ne_memories t = ne_memories s"
  "native_close C s = (Inr u, t) \<Longrightarrow> t = s \<and> ne_handle s = 0 \<or> ne_memories t = [] \<and>
     (\<exists>l. r101_destroy_engine C (ne_handle s) (ne_lib s) = (Inr R101_OK, l))"
  by (auto simp: native_defs native_eqs split: if_splits)

section \<open>Properties\<close>

text \<open>
  A C library for the witnesses: it owns the handles 1 to \<open>n\<close>, every registration and peer gets the
  next one, its metadata is one byte at address 1, and every other call succeeds.
\<close>

definition demo_lib :: "int c_api" where
  "demo_lib = \<lparr>ffi_void_ptr = (\<lambda>n. n mod 2 ^ 64), ffi_new_config = Inr, ffi_new_requests = Inr,
     ffi_bytes = (\<lambda>_ _ _. [7]),
     r101_create_engine = (\<lambda>_ n. (Inr (0, 99), n)),
     r101_destroy_engine = (\<lambda>_ n. (Inr 0, n)),
     r101_register_local_memory = (\<lambda>_ _ _ _ n. (Inr (0, n + 1, 1, 1), n + 1)),
     r101_deregister_local_memory = (\<lambda>_ _ n. (Inr 0, n)),
     r101_import_remote_memory = (\<lambda>_ _ _ n. (Inr (0, n + 1), n + 1)),
     r101_remove_remote_memory = (\<lambda>_ _ n. (Inr 0, n)),
     r101_create_peer = (\<lambda>_ n. (Inr (0, n + 1, 1, 1), n + 1)),
     r101_connect_peer = (\<lambda>_ _ _ n. (Inr 0, n)),
     r101_destroy_peer = (\<lambda>_ _ n. (Inr 0, n)),
     r101_submit_transfer = (\<lambda>_ _ n. (Inr (0, n + 1), n + 1)),
     r101_get_transfer_statuses = (\<lambda>_ _ k n. (Inr (0, replicate k \<lparr>cs_state = 0, cs_error = 0,
        cs_receive_kind = 0, cs_receive_immediate = 0, cs_receive_length = 0\<rparr>), n)),
     r101_free_batch = (\<lambda>_ _ n. (Inr (- 3), n))\<rparr>"

text \<open>A live engine over it with one registration, one peer, one import and one batch.\<close>

definition demo_memory :: memory where
  "demo_memory = \<lparr>mem_ref = 5, mem_size = 32, mem_address = 64\<rparr>"

definition demo_native :: "int native" where
  "demo_native = \<lparr>ne_lib = 4, ne_handle = 99, ne_memories = [(1, demo_memory, [7])],
     ne_remote_memories = [(3, 2)], ne_batches = [(4, [WriteT])], ne_peers = {2}\<rparr>"














text \<open>
  C36: a call that raises changes no bookkeeping: batches, peers, imports, registrations and the
  engine handle are as before. The one exception is a registration the library granted without
  metadata, which stays recorded so that its storage is retained.
\<close>

theorem native_raise_changes_nothing:
  assumes "native_exec C op s = (Some e, t)"
  shows "books t = books s \<or>
     (\<exists>memory access region. op = OpRegister (Memory memory) access \<and>
        e = RuntimeError (Msg ''registration returned missing memory metadata'') \<and>
        region \<noteq> 0 \<and> map_of (ne_memories s) region = None \<and>
        ne_memories t = AList.update region (memory, []) (ne_memories s) \<and>
        ne_remote_memories t = ne_remote_memories s \<and> ne_batches t = ne_batches s \<and>
        ne_peers t = ne_peers s \<and> ne_handle t = ne_handle s)"
proof (cases op)
  case (OpRegister m access)
  with assms show ?thesis by (auto simp: outcome_eq dest: register_raise)
qed (use assms in \<open>auto simp: outcome_eq dest: native_raises\<close>)

theorem native_raise_changes_nothing_witness:
  "\<exists>t. native_exec demo_lib (OpFreeBatch 4) demo_native =
       (Some (EngineError (Msg ''free_batch'') BUSY), t) \<and> books t = books demo_native"
proof -
  have "check_code ''free_batch'' (- 3) = Inl (EngineError (Msg ''free_batch'') BUSY)"
    using check_code_value [of _ BUSY] by (simp add: R101_BUSY_def)
  then have run: "native_exec demo_lib (OpFreeBatch 4) demo_native =
      (Some (EngineError (Msg ''free_batch'') BUSY), demo_native)"
    by (simp add: native_defs native_call_def on_lib_def py_defs demo_lib_def demo_native_def
        outcome_def)
  show ?thesis
    using run native_raise_changes_nothing [OF run] by auto
qed

text \<open>
  C35: registered storage is retained until the library has confirmed its release. No call drops or
  changes a registration except a deregistration of that very handle, or a close, that the library
  answered with success.
\<close>

theorem registered_storage_retained:
  assumes "native_exec C op s = (x, t)" and "map_of (ne_memories s) k = Some v"
  shows "map_of (ne_memories t) k = Some v \<or>
     x = None \<and> map_of (ne_memories t) k = None \<and>
     (op = OpDeregister k \<and>
        (\<exists>l. r101_deregister_local_memory C (ne_handle s) k (ne_lib s) = (Inr R101_OK, l)) \<or>
      op = OpClose \<and> (\<exists>l. r101_destroy_engine C (ne_handle s) (ne_lib s) = (Inr R101_OK, l)))"
proof (cases op)
  case (OpRegister m access)
  with assms show ?thesis by (auto simp: outcome_eq dest: register_keeps)
next
  case (OpDeregister k')
  with assms show ?thesis
    by (auto simp: outcome_eq dict_get_delete dest!: deregister_memories split: if_splits)
next
  case OpClose
  with assms show ?thesis by (auto simp: outcome_eq dest!: close_memories)
qed (use assms in \<open>auto simp: outcome_eq dest: other_keeps_memories\<close>)

theorem registered_storage_retained_witness:
  "map_of (ne_memories (snd (native_exec demo_lib (OpDestroyPeer 2) demo_native))) 1 =
     Some (demo_memory, [7])"
proof -
  have "map_of (ne_memories demo_native) 1 = Some (demo_memory, [7])"
    by (simp add: demo_native_def)
  from registered_storage_retained
    [OF surjective_pairing [of "native_exec demo_lib (OpDestroyPeer 2) demo_native"] this]
  show ?thesis by simp
qed

text \<open>
  A registration the library grants under a new nonzero handle retains its storage, also when
  the call then raises because the library gave no metadata.
\<close>

lemma granted_registration_retained:
  assumes "r101_register_local_memory C (ne_handle s) (ffi_void_ptr C (mem_address memory))
      (mem_size memory) access (ne_lib s) = (Inr (R101_OK, region, metadata, n), l)"
    and "region \<noteq> 0" and "map_of (ne_memories s) region = None"
    and "native_register_local_memory C (Memory memory) access s = (r, t)"
  shows "map_of (ne_memories t) region =
      Some (memory, if metadata = 0 \<or> n = 0 then [] else ffi_bytes C l metadata n) \<and>
    ((\<exists>v. r = Inr v) \<longleftrightarrow> metadata \<noteq> 0 \<and> n \<noteq> 0)"
  using assms
  by (auto simp: native_register_local_memory_def native_call_out_def on_lib_def py_defs
      dict_get_update split: prod.splits sum.splits if_splits)

lemma granted_registration_retained_witness:
  "map_of (ne_memories (snd (native_register_local_memory demo_lib (Memory demo_memory) 1 demo_native))) 5
     = Some (demo_memory, [7])"
proof -
  have "r101_register_local_memory demo_lib (ne_handle demo_native)
      (ffi_void_ptr demo_lib (mem_address demo_memory)) (mem_size demo_memory) 1 (ne_lib demo_native)
      = (Inr (R101_OK, 5, 1, 1), 5)"
    by (simp add: demo_lib_def demo_native_def R101_OK_def)
  from granted_registration_retained [OF this, where r = "fst (native_register_local_memory demo_lib
        (Memory demo_memory) 1 demo_native)"]
  show ?thesis by (simp add: demo_native_def demo_lib_def)
qed

text \<open>
  Destroying a peer that the library has destroyed forgets the peer and exactly the remote
  memories imported for it; registrations, batches and the imports of other peers stay.
\<close>

lemma destroy_peer_exact:
  assumes "native_destroy_peer C p s = (Inr u, t)" and "dict_ok (ne_remote_memories s)"
  shows "ne_peers t = ne_peers s - {p} \<and> p \<in> ne_peers s \<and>
    ne_memories t = ne_memories s \<and> ne_batches t = ne_batches s \<and> ne_handle t = ne_handle s \<and>
    (\<forall>region. map_of (ne_remote_memories t) region =
       (if map_of (ne_remote_memories s) region = Some p then None
        else map_of (ne_remote_memories s) region))"
  using assms by (auto simp: native_defs native_eqs dict_simps split: option.splits)

text \<open>
  A status query answers for every task of the batch, in submission order, and changes no
  bookkeeping; a batch this engine does not know raises \<^verbatim>\<open>KeyError\<close> before the library is called.
\<close>

lemma statuses_cover_batch:
  assumes "native_get_transfer_statuses C b s = (r, t)"
  shows "books t = books s \<and>
    (case map_of (ne_batches s) b of
       None \<Rightarrow> r = Inl KeyError \<and> t = s
     | Some operations \<Rightarrow> (case r of
         Inl _ \<Rightarrow> True
       | Inr results \<Rightarrow> \<exists>statuses l.
           r101_get_transfer_statuses C (ne_handle s) b (length operations) (ne_lib s)
             = (Inr (R101_OK, statuses), l) \<and>
           length results = min (length statuses) (length operations) \<and>
           (\<forall>i < length results.
              decode_status (int i) (statuses ! i) (operations ! i) = Inr (results ! i))))"
proof -
  have "books t = books s" using assms by (rule statuses_books)
  moreover have "case map_of (ne_batches s) b of
       None \<Rightarrow> r = Inl KeyError \<and> t = s
     | Some operations \<Rightarrow> (case r of
         Inl _ \<Rightarrow> True
       | Inr results \<Rightarrow> \<exists>statuses l.
           r101_get_transfer_statuses C (ne_handle s) b (length operations) (ne_lib s)
             = (Inr (R101_OK, statuses), l) \<and>
           length results = min (length statuses) (length operations) \<and>
           (\<forall>i < length results.
              decode_status (int i) (statuses ! i) (operations ! i) = Inr (results ! i)))"
  proof (cases "map_of (ne_batches s) b")
    case None
    with assms show ?thesis by (cases r) (auto simp: native_defs native_eqs)
  next
    case (Some operations)
    show ?thesis
    proof (cases r)
      case (Inr results)
      with assms Some obtain statuses l where
        "r101_get_transfer_statuses C (ne_handle s) b (length operations) (ne_lib s)
           = (Inr (R101_OK, statuses), l)"
        "decode_statuses 0 (zip statuses operations) = Inr results"
        by (auto simp: native_defs native_eqs)
      with Some Inr show ?thesis by (auto simp: decode_statuses_Inr)
    qed (simp add: Some)
  qed
  ultimately show ?thesis by simp
qed

end
