(* ===== verification/Adapter.thy ===== *)
theory Adapter
  imports Ffi Native_Facts
begin

text \<open>
  The entry points of \<^verbatim>\<open>transfer-engine/cpp/ffi.cpp\<close>, over any engine with the interface of
  \<^verbatim>\<open>transfer-engine/cpp/engine.hpp\<close>. With the conversions of \<open>Ffi\<close> and those of CFFI they make up the C
  library \<open>NativeEngine\<close> talks to: requests and statuses reach the other side, and an engine that does
  what \<^verbatim>\<open>engine.hpp\<close> asks of it makes a library that keeps the contract of \<^verbatim>\<open>transfer_engine.h\<close>.
\<close>

section \<open>The C++ engine\<close>

record cpp_config =
  pc_port :: int
  pc_gid_index :: int
  pc_device :: "string option"

text \<open>
  The class \<^verbatim>\<open>Engine\<close>, over a state of its own; the first argument of a method is the object. A method
  returns its result code and what it left in its reference parameters: an id, the data pointer and
  the size of a span. \<open>cx_create\<close> leaves the address of the new object, or 0. A method that throws
  ends the process and is left out; \<^verbatim>\<open>get_transfer_statuses\<close> is \<^verbatim>\<open>const\<close>.
\<close>

record 'l cpp_engine =
  cx_create :: "cpp_config \<Rightarrow> 'l \<Rightarrow> (result_code \<times> int) \<times> 'l"
  cx_delete :: "int \<Rightarrow> 'l \<Rightarrow> 'l"
  cx_register_local_memory :: "int \<Rightarrow> int \<Rightarrow> int \<Rightarrow> int \<Rightarrow> 'l \<Rightarrow> (result_code \<times> int \<times> int \<times> int) \<times> 'l"
  cx_deregister_local_memory :: "int \<Rightarrow> int \<Rightarrow> 'l \<Rightarrow> result_code \<times> 'l"
  cx_import_remote_memory :: "int \<Rightarrow> int \<Rightarrow> bytes \<Rightarrow> 'l \<Rightarrow> (result_code \<times> int) \<times> 'l"
  cx_remove_remote_memory :: "int \<Rightarrow> int \<Rightarrow> 'l \<Rightarrow> result_code \<times> 'l"
  cx_create_peer :: "int \<Rightarrow> 'l \<Rightarrow> (result_code \<times> int \<times> int \<times> int) \<times> 'l"
  cx_connect_peer :: "int \<Rightarrow> int \<Rightarrow> bytes \<Rightarrow> 'l \<Rightarrow> result_code \<times> 'l"
  cx_destroy_peer :: "int \<Rightarrow> int \<Rightarrow> 'l \<Rightarrow> result_code \<times> 'l"
  cx_submit_transfer :: "int \<Rightarrow> request list \<Rightarrow> 'l \<Rightarrow> (result_code \<times> int) \<times> 'l"
  cx_get_transfer_statuses :: "int \<Rightarrow> int \<Rightarrow> native_status list \<Rightarrow> 'l \<Rightarrow> result_code \<times> native_status list"
  cx_free_batch :: "int \<Rightarrow> int \<Rightarrow> 'l \<Rightarrow> result_code \<times> 'l"

text \<open>What the C++ library can allocate: a copy of the device name, and vectors of a length.\<close>

record cpp_heap =
  fits_device :: "string \<Rightarrow> bool"
  fits_requests :: "nat \<Rightarrow> bool"
  fits_statuses :: "nat \<Rightarrow> bool"

section \<open>Arguments\<close>

text \<open>\<open>valid_array<T>(data, count)\<close> for a \<open>T\<close> of \<open>width\<close> bytes with the alignment \<open>alignment\<close>.\<close>

definition valid_array :: "int \<Rightarrow> int \<Rightarrow> int \<Rightarrow> int \<Rightarrow> bool" where
  "valid_array width alignment data count \<longleftrightarrow>
     data \<noteq> 0 \<and> 0 < count \<and> count \<le> (2 ^ 63 - 1) div width \<and> data mod alignment = 0"

text \<open>The layout of \<^verbatim>\<open>r101_request\<close> and \<^verbatim>\<open>r101_transfer_status\<close>.\<close>

definition valid_requests :: "int \<Rightarrow> int \<Rightarrow> bool" where
  "valid_requests = valid_array 56 8"

definition valid_statuses :: "int \<Rightarrow> int \<Rightarrow> bool" where
  "valid_statuses = valid_array 24 8"

text \<open>
  \<open>decode_access(flags, access)\<close>; \<open>None\<close> is its \<^verbatim>\<open>false\<close>. The members of the C++ \<^verbatim>\<open>MemoryAccess\<close> have the
  bits of the Python ones.
\<close>

definition known_access :: int where
  "known_access = R101_LOCAL_WRITE OR R101_REMOTE_WRITE OR R101_REMOTE_READ OR R101_REMOTE_ATOMIC"

definition decode_access :: "int \<Rightarrow> int option" where
  "decode_access flags =
     (if flags AND NOT known_access \<noteq> 0 then None
      else let access = 0;
               access = (if flags AND R101_LOCAL_WRITE \<noteq> 0 then access OR LOCAL_WRITE else access);
               access = (if flags AND R101_REMOTE_WRITE \<noteq> 0 then access OR REMOTE_WRITE else access);
               access = (if flags AND R101_REMOTE_READ \<noteq> 0 then access OR REMOTE_READ else access);
               access = (if flags AND R101_REMOTE_ATOMIC \<noteq> 0 then access OR REMOTE_ATOMIC else access)
           in Some access)"

text \<open>The adapter accepts exactly the combinations of known flags, and passes them on.\<close>

lemma decode_access_exact: "decode_access flags = (if 0 \<le> flags \<and> flags < 16 then Some flags else None)"
proof -
  have known: "known_access = mask 4" by (simp add: known_access_def R101_defs mask_eq_exp_minus_1)
  have "flags div 16 = 0 \<longleftrightarrow> 0 \<le> flags \<and> flags < 16"
    by (auto simp: zdiv_eq_0_iff)
  then have "flags AND NOT known_access = 0 \<longleftrightarrow> 0 \<le> flags \<and> flags < 16"
    unfolding known and_not_mask by simp
  moreover have "decode_access flags = Some flags" if "0 \<le> flags" "flags < 16"
  proof -
    from that have "flags \<in> {0, 1, 2, 3, 4, 5, 6, 7, 8, 9, 10, 11, 12, 13, 14, 15}"
      by simp presburger
    then show ?thesis
      by (elim insertE emptyE) (simp_all add: decode_access_def known_access_def R101_defs access_flag_defs)
  qed
  ultimately show ?thesis by (auto simp: decode_access_def)
qed

section \<open>The entry points\<close>

text \<open>
  Each takes the arguments of the C function. Output parameters become a list of pointers that must not
  be null and the values stored through them, zero unless the engine granted the call; an entry point
  that finds a null among them stores nothing, and zeros stand for that.
\<close>

definition cpp_create_engine ::
  "cpp_heap \<Rightarrow> 'l cpp_engine \<Rightarrow> c_config option \<Rightarrow> int list \<Rightarrow> 'l \<Rightarrow> (int \<times> int) \<times> 'l" where
  "cpp_create_engine M A config outputs l =
     (if 0 \<in> set outputs then ((R101_INVALID, 0), l)
      else case config of
        None \<Rightarrow> ((R101_INVALID, 0), l)
      | Some c \<Rightarrow>
          if cc_abi_version c \<noteq> R101_ABI_VERSION then ((R101_INVALID, 0), l)
          else if (case cc_device c of None \<Rightarrow> False | Some name \<Rightarrow> \<not> fits_device M name)
          then ((R101_NO_MEMORY, 0), l)
          else (case cx_create A \<lparr>pc_port = cc_port c, pc_gid_index = cc_gid_index c,
                     pc_device = cc_device c\<rparr> l of
                 ((result, local), l') \<Rightarrow>
                   if result = Ok then ((encode_result result, local), l')
                   else ((encode_result result, 0), if local = 0 then l' else cx_delete A local l')))"

definition cpp_destroy_engine :: "'l cpp_engine \<Rightarrow> int \<Rightarrow> 'l \<Rightarrow> int \<times> 'l" where
  "cpp_destroy_engine A engine l =
     (if engine = 0 then (R101_INVALID, l) else (R101_OK, cx_delete A engine l))"

definition cpp_register_local_memory ::
  "'l cpp_engine \<Rightarrow> int \<Rightarrow> int \<Rightarrow> int \<Rightarrow> int \<Rightarrow> int list \<Rightarrow> 'l \<Rightarrow> (int \<times> int \<times> int \<times> int) \<times> 'l" where
  "cpp_register_local_memory A engine address len access outputs l =
     (if 0 \<in> set outputs then ((R101_INVALID, 0, 0, 0), l)
      else if engine = 0 \<or> \<not> valid_array 1 1 address len then ((R101_INVALID, 0, 0, 0), l)
      else case decode_access access of
        None \<Rightarrow> ((R101_INVALID, 0, 0, 0), l)
      | Some flags \<Rightarrow> (case cx_register_local_memory A engine address len flags l of
          ((result, local), l') \<Rightarrow>
            ((encode_result result, if result = Ok then local else (0, 0, 0)), l')))"

definition cpp_deregister_local_memory :: "'l cpp_engine \<Rightarrow> int \<Rightarrow> int \<Rightarrow> 'l \<Rightarrow> int \<times> 'l" where
  "cpp_deregister_local_memory A engine memory l =
     (if engine = 0 \<or> memory = 0 then (R101_INVALID, l)
      else apfst encode_result (cx_deregister_local_memory A engine memory l))"

text \<open>A buffer of bytes is its address and its contents; its size is their number.\<close>

definition cpp_import_remote_memory ::
  "'l cpp_engine \<Rightarrow> int \<Rightarrow> int \<Rightarrow> int \<Rightarrow> bytes \<Rightarrow> int list \<Rightarrow> 'l \<Rightarrow> (int \<times> int) \<times> 'l" where
  "cpp_import_remote_memory A engine peer address metadata outputs l =
     (if 0 \<in> set outputs then ((R101_INVALID, 0), l)
      else if engine = 0 \<or> peer = 0 \<or> \<not> valid_array 1 1 address (int (length metadata))
      then ((R101_INVALID, 0), l)
      else (case cx_import_remote_memory A engine peer metadata l of
        ((result, local), l') \<Rightarrow> ((encode_result result, if result = Ok then local else 0), l')))"

definition cpp_remove_remote_memory :: "'l cpp_engine \<Rightarrow> int \<Rightarrow> int \<Rightarrow> 'l \<Rightarrow> int \<times> 'l" where
  "cpp_remove_remote_memory A engine remote_memory l =
     (if engine = 0 \<or> remote_memory = 0 then (R101_INVALID, l)
      else apfst encode_result (cx_remove_remote_memory A engine remote_memory l))"

definition cpp_create_peer ::
  "'l cpp_engine \<Rightarrow> int \<Rightarrow> int list \<Rightarrow> 'l \<Rightarrow> (int \<times> int \<times> int \<times> int) \<times> 'l" where
  "cpp_create_peer A engine outputs l =
     (if 0 \<in> set outputs then ((R101_INVALID, 0, 0, 0), l)
      else if engine = 0 then ((R101_INVALID, 0, 0, 0), l)
      else (case cx_create_peer A engine l of
        ((result, local), l') \<Rightarrow>
          ((encode_result result, if result = Ok then local else (0, 0, 0)), l')))"

definition cpp_connect_peer ::
  "'l cpp_engine \<Rightarrow> int \<Rightarrow> int \<Rightarrow> int \<Rightarrow> bytes \<Rightarrow> 'l \<Rightarrow> int \<times> 'l" where
  "cpp_connect_peer A engine peer address metadata l =
     (if engine = 0 \<or> peer = 0 \<or> \<not> valid_array 1 1 address (int (length metadata))
      then (R101_INVALID, l)
      else apfst encode_result (cx_connect_peer A engine peer metadata l))"

definition cpp_destroy_peer :: "'l cpp_engine \<Rightarrow> int \<Rightarrow> int \<Rightarrow> 'l \<Rightarrow> int \<times> 'l" where
  "cpp_destroy_peer A engine peer l =
     (if engine = 0 \<or> peer = 0 then (R101_INVALID, l)
      else apfst encode_result (cx_destroy_peer A engine peer l))"

definition cpp_submit_transfer ::
  "cpp_heap \<Rightarrow> 'l cpp_engine \<Rightarrow> int \<Rightarrow> int \<Rightarrow> c_request list \<Rightarrow> int list \<Rightarrow> 'l \<Rightarrow> (int \<times> int) \<times> 'l"
where
  "cpp_submit_transfer M A engine address requests outputs l =
     (if 0 \<in> set outputs then ((R101_INVALID, 0), l)
      else if engine = 0 \<or> \<not> valid_requests address (int (length requests)) then ((R101_INVALID, 0), l)
      else if \<not> fits_requests M (length requests) then ((R101_NO_MEMORY, 0), l)
      else case decode_requests requests of
        None \<Rightarrow> ((R101_INVALID, 0), l)
      | Some native \<Rightarrow> (case cx_submit_transfer A engine native l of
          ((result, local), l') \<Rightarrow> ((encode_result result, if result = Ok then local else 0), l')))"

text \<open>
  \<open>None\<close> when \<open>encode_status\<close> aborts. Without a result of \<^verbatim>\<open>R101_OK\<close> the caller's storage is untouched,
  which here is what \<open>ffi.new\<close> zeroed.
\<close>

definition cpp_get_transfer_statuses ::
  "cpp_heap \<Rightarrow> 'l cpp_engine \<Rightarrow> int \<Rightarrow> int \<Rightarrow> int \<Rightarrow> nat \<Rightarrow> 'l \<Rightarrow> (int \<times> c_status list) option" where
  "cpp_get_transfer_statuses M A engine batch address count l =
     (let untouched = replicate count zero_status in
      if engine = 0 \<or> batch = 0 \<or> \<not> valid_statuses address (int count)
      then Some (R101_INVALID, untouched)
      else if \<not> fits_statuses M count then Some (R101_NO_MEMORY, untouched)
      else (case cx_get_transfer_statuses A engine batch (replicate count NativePending) l of
        (result, native) \<Rightarrow>
          if result \<noteq> Ok then Some (encode_result result, untouched)
          else map_option (Pair R101_OK) (those (map encode_status native))))"

definition cpp_free_batch :: "'l cpp_engine \<Rightarrow> int \<Rightarrow> int \<Rightarrow> 'l \<Rightarrow> int \<times> 'l" where
  "cpp_free_batch A engine batch l =
     (if engine = 0 \<or> batch = 0 then (R101_INVALID, l)
      else apfst encode_result (cx_free_batch A engine batch l))"

section \<open>The C library of an engine\<close>

text \<open>
  What CFFI adds: its own conversions, and the addresses of the buffers it passes. An integer that does
  not fit its C type raises \<^verbatim>\<open>OverflowError\<close> before the call.
\<close>

record 'l cffi =
  fi_void_ptr :: "int \<Rightarrow> int"
  fi_new_config :: "c_config \<Rightarrow> exn + c_config"
  fi_new_requests :: "c_request list \<Rightarrow> exn + c_request list"
  fi_bytes :: "'l \<Rightarrow> int \<Rightarrow> int \<Rightarrow> bytes"
  fi_cell :: "nat \<Rightarrow> int"
  fi_buffer :: "bytes \<Rightarrow> int"
  fi_requests :: "c_request list \<Rightarrow> int"
  fi_statuses :: "nat \<Rightarrow> int"

text \<open>
  CFFI stores what it is given or raises, its storage is not null, and its arrays of structures are
  aligned; so is the buffer of a nonempty \<^verbatim>\<open>bytes\<close> object.
\<close>

definition cffi_ok :: "'l cffi \<Rightarrow> bool" where
  "cffi_ok X \<longleftrightarrow> (\<forall>c d. fi_new_config X c = Inr d \<longrightarrow> d = c) \<and>
     (\<forall>cs ds. fi_new_requests X cs = Inr ds \<longrightarrow> ds = cs) \<and> (\<forall>k. fi_cell X k \<noteq> 0) \<and>
     (\<forall>b. b \<noteq> [] \<longrightarrow> fi_buffer X b \<noteq> 0) \<and>
     (\<forall>cs. cs \<noteq> [] \<longrightarrow> fi_requests X cs \<noteq> 0 \<and> fi_requests X cs mod 8 = 0) \<and>
     (\<forall>n. 0 < n \<longrightarrow> fi_statuses X n \<noteq> 0 \<and> fi_statuses X n mod 8 = 0)"

definition c_ints :: "(nat \<times> int) list \<Rightarrow> ('l, exn, 'a) py \<Rightarrow> ('l, exn, 'a) py" where
  "c_ints args m = py_then (py_raise_if (\<exists>(w, n) \<in> set args. n < 0 \<or> 2 ^ w \<le> n) OverflowError) m"

definition c_call :: "('l \<Rightarrow> 'a \<times> 'l) \<Rightarrow> ('l, exn, 'a) py" where
  "c_call f l = apfst Inr (f l)"

definition adapter :: "'l cffi \<Rightarrow> cpp_heap \<Rightarrow> 'l cpp_engine \<Rightarrow> 'l c_api" where
  "adapter X M A = \<lparr>ffi_void_ptr = fi_void_ptr X, ffi_new_config = fi_new_config X,
     ffi_new_requests = fi_new_requests X, ffi_bytes = fi_bytes X,
     r101_create_engine = (\<lambda>c. c_call (cpp_create_engine M A (Some c) [fi_cell X 0])),
     r101_destroy_engine = (\<lambda>h. c_call (cpp_destroy_engine A h)),
     r101_register_local_memory = (\<lambda>h a n access. c_ints [(64, n), (32, access)]
       (c_call (cpp_register_local_memory A h a n access (map (fi_cell X) [0..<3])))),
     r101_deregister_local_memory = (\<lambda>h k. c_ints [(64, k)] (c_call (cpp_deregister_local_memory A h k))),
     r101_import_remote_memory = (\<lambda>h p b. c_ints [(64, p)]
       (c_call (cpp_import_remote_memory A h p (fi_buffer X b) b [fi_cell X 0]))),
     r101_remove_remote_memory = (\<lambda>h k. c_ints [(64, k)] (c_call (cpp_remove_remote_memory A h k))),
     r101_create_peer = (\<lambda>h. c_call (cpp_create_peer A h (map (fi_cell X) [0..<3]))),
     r101_connect_peer = (\<lambda>h p b. c_ints [(64, p)] (c_call (cpp_connect_peer A h p (fi_buffer X b) b))),
     r101_destroy_peer = (\<lambda>h p. c_ints [(64, p)] (c_call (cpp_destroy_peer A h p))),
     r101_submit_transfer = (\<lambda>h cs. c_call (cpp_submit_transfer M A h (fi_requests X cs) cs [fi_cell X 0])),
     r101_get_transfer_statuses = (\<lambda>h batch n. c_ints [(64, batch)] (\<lambda>l.
       case cpp_get_transfer_statuses M A h batch (fi_statuses X n) n l of
         None \<Rightarrow> (Inl Aborted, l)
       | Some answer \<Rightarrow> (Inr answer, l))),
     r101_free_batch = (\<lambda>h batch. c_ints [(64, batch)] (c_call (cpp_free_batch A h batch)))\<rparr>"

lemma adapter_sel [simp]:
  "ffi_void_ptr (adapter X M A) = fi_void_ptr X" "ffi_new_config (adapter X M A) = fi_new_config X"
  "ffi_new_requests (adapter X M A) = fi_new_requests X" "ffi_bytes (adapter X M A) = fi_bytes X"
  by (simp_all add: adapter_def)

lemma c_ints_eq:
  "c_ints args m l = (r, l') \<longleftrightarrow> (if \<exists>(w, n) \<in> set args. n < 0 \<or> 2 ^ w \<le> n
     then r = Inl OverflowError \<and> l' = l else m l = (r, l'))"
  by (auto simp: c_ints_def py_defs)

lemma c_call_eq: "c_call f l = (r, l') \<longleftrightarrow> (\<exists>x. f l = (x, l') \<and> r = Inr x)"
  by (cases "f l") (auto simp: c_call_def)

lemma encode_result_inject: "encode_result a = encode_result b \<longleftrightarrow> a = b"
  by (cases a; cases b) (simp_all add: R101_defs)

lemma encode_result_OK [simp]: "encode_result a = R101_OK \<longleftrightarrow> a = Ok"
  using encode_result_inject [of a Ok] by simp

lemma python_code_None [simp]: "python_code r = None \<longleftrightarrow> r = Ok"
  by (cases r) simp_all

text \<open>The check of a native result raises the error of the same name.\<close>

lemma check_code_result:
  "check_code name (encode_result r) =
     (case python_code r of None \<Rightarrow> Inr () | Some c \<Rightarrow> Inl (EngineError (Msg name) c))"
  by (simp add: encode_result_python split: option.splits)

section \<open>Transfers across the boundary\<close>

definition cast_request :: "'l cffi \<Rightarrow> request \<Rightarrow> request" where
  "cast_request X r = r\<lparr>req_local_address := fi_void_ptr X (req_local_address r)\<rparr>"

text \<open>What has to hold for a list of requests to get to the engine.\<close>

definition transmits :: "'l cffi \<Rightarrow> cpp_heap \<Rightarrow> int \<Rightarrow> request list \<Rightarrow> bool" where
  "transmits X M engine rs \<longleftrightarrow>
     (case encode_requests (fi_void_ptr X) (map Request rs) of
        Inl _ \<Rightarrow> False
      | Inr cs \<Rightarrow> (case fi_new_requests X cs of Inl _ \<Rightarrow> False | Inr _ \<Rightarrow> True)) \<and>
     engine \<noteq> 0 \<and> rs \<noteq> [] \<and> int (length rs) \<le> (2 ^ 63 - 1) div 56 \<and> fits_requests M (length rs)"

lemma cpp_submit_transfer_encoded:
  assumes "cffi_ok X" and "encode_requests (fi_void_ptr X) (map Request rs) = Inr cs"
    and "engine \<noteq> 0 \<and> rs \<noteq> [] \<and> int (length rs) \<le> (2 ^ 63 - 1) div 56 \<and> fits_requests M (length rs)"
  shows "cpp_submit_transfer M A engine (fi_requests X cs) cs [fi_cell X 0] l =
    (case cx_submit_transfer A engine (map (cast_request X) rs) l of
       ((result, local), l') \<Rightarrow> ((encode_result result, if result = Ok then local else 0), l'))"
proof -
  have len: "length cs = length rs" using encode_requests_length [OF assms(2)] by simp
  with assms(3) have "cs \<noteq> []" by auto
  then have "valid_requests (fi_requests X cs) (int (length cs))" "fi_cell X 0 \<noteq> 0"
    using assms(1,3) len by (auto simp: valid_requests_def valid_array_def cffi_ok_def)
  moreover have "decode_requests cs = Some (map (cast_request X) rs)"
    using decode_encode_requests [OF assms(2)] by (simp add: cast_request_def [abs_def])
  ultimately show ?thesis using assms(3) len by (simp add: cpp_submit_transfer_def)
qed

lemma cpp_submit_transfer_refused:
  assumes "\<not> (engine \<noteq> 0 \<and> cs \<noteq> [] \<and> int (length cs) \<le> (2 ^ 63 - 1) div 56 \<and> fits_requests M (length cs))"
  shows "\<exists>result. cpp_submit_transfer M A engine address cs outputs l = ((encode_result result, 0), l) \<and> result \<noteq> Ok"
proof -
  have "cpp_submit_transfer M A engine address cs outputs l = ((encode_result Invalid, 0), l) \<or>
      cpp_submit_transfer M A engine address cs outputs l = ((encode_result NoMemory, 0), l)"
    using assms by (auto simp: cpp_submit_transfer_def valid_requests_def valid_array_def)
  then show ?thesis by (elim disjE) (intro exI conjI, assumption, simp)+
qed

lemma native_submit_answer:
  assumes "encode_requests (ffi_void_ptr C) rs = Inr cs" and "ffi_new_requests C cs = Inr ds"
    and "r101_submit_transfer C (ne_handle s) ds (ne_lib s) = (Inr (code, batch), l)"
  shows "native_submit_transfer C rs s =
    (case check_code ''submit_transfer'' code of
       Inl e \<Rightarrow> (Inl e, s\<lparr>ne_lib := l\<rparr>)
     | Inr _ \<Rightarrow>
         if batch = 0 \<or> map_of (ne_batches s) batch \<noteq> None
         then (Inl (RuntimeError (Msg ''live batch IDs must be nonzero and distinct'')), s\<lparr>ne_lib := l\<rparr>)
         else (Inr batch, s\<lparr>ne_lib := l,
           ne_batches := AList.update batch (request_types rs) (ne_batches s)\<rparr>))"
  using assms by (simp add: native_submit_transfer_def native_call_out_def on_lib_def py_defs split: sum.split)

text \<open>
  C21: \<open>submit_transfer\<close> of Python calls the engine's \<^verbatim>\<open>submit_transfer\<close> once, with the very requests it was
  given but for the cast of their addresses, and takes over the batch or raises the error the engine
  answered with; unless the requests cannot be transmitted, when it raises and neither the engine nor
  the books see anything of them.
\<close>

theorem submit_reaches_engine:
  assumes "cffi_ok X"
  shows "if transmits X M (ne_handle s) rs
    then native_submit_transfer (adapter X M A) (map Request rs) s =
      (case cx_submit_transfer A (ne_handle s) (map (cast_request X) rs) (ne_lib s) of
         ((result, batch), l) \<Rightarrow>
           (case python_code result of
              Some c \<Rightarrow> (Inl (EngineError (Msg ''submit_transfer'') c), s\<lparr>ne_lib := l\<rparr>)
            | None \<Rightarrow>
                if batch = 0 \<or> map_of (ne_batches s) batch \<noteq> None
                then (Inl (RuntimeError (Msg ''live batch IDs must be nonzero and distinct'')), s\<lparr>ne_lib := l\<rparr>)
                else (Inr batch, s\<lparr>ne_lib := l, ne_batches :=
                       AList.update batch (request_types (map Request rs)) (ne_batches s)\<rparr>)))
    else \<exists>e. native_submit_transfer (adapter X M A) (map Request rs) s = (Inl e, s)"
proof (cases "encode_requests (fi_void_ptr X) (map Request rs)")
  case (Inl e)
  then show ?thesis by (auto simp: transmits_def native_submit_transfer_def py_defs)
next
  case enc: (Inr cs)
  show ?thesis
  proof (cases "fi_new_requests X cs")
    case (Inl e)
    with enc show ?thesis by (auto simp: transmits_def native_submit_transfer_def py_defs)
  next
    case (Inr ds)
    then have ds: "fi_new_requests X cs = Inr cs" using assms by (auto simp: cffi_ok_def)
    have len: "length cs = length rs" using encode_requests_length [OF enc] by simp
    show ?thesis
    proof (cases "transmits X M (ne_handle s) rs")
      case True
      then have "ne_handle s \<noteq> 0 \<and> rs \<noteq> [] \<and> int (length rs) \<le> (2 ^ 63 - 1) div 56 \<and> fits_requests M (length rs)"
        by (simp add: transmits_def)
      note call = cpp_submit_transfer_encoded [OF assms enc this]
      obtain result batch l where answer: "cx_submit_transfer A (ne_handle s) (map (cast_request X) rs) (ne_lib s)
          = ((result, batch), l)" by (metis surj_pair)
      then have "r101_submit_transfer (adapter X M A) (ne_handle s) cs (ne_lib s) =
          (Inr (encode_result result, if result = Ok then batch else 0), l)"
        by (simp add: adapter_def c_call_def call)
      note native_submit_answer [OF _ _ this, simplified adapter_sel, OF enc ds]
      then show ?thesis
        unfolding answer using True by (cases "python_code result") (simp_all add: check_code_result)
    next
      case False
      with enc ds len have "\<not> (ne_handle s \<noteq> 0 \<and> cs \<noteq> [] \<and> int (length cs) \<le> (2 ^ 63 - 1) div 56 \<and>
          fits_requests M (length cs))" by (auto simp: transmits_def)
      from cpp_submit_transfer_refused [OF this, of A "fi_requests X cs" "[fi_cell X 0]" "ne_lib s"]
      obtain result where "cpp_submit_transfer M A (ne_handle s) (fi_requests X cs) cs [fi_cell X 0] (ne_lib s) =
          ((encode_result result, 0), ne_lib s)" "result \<noteq> Ok" by (elim exE conjE)
      moreover from this(2) obtain c where "python_code result = Some c" by (cases "python_code result") auto
      ultimately have "r101_submit_transfer (adapter X M A) (ne_handle s) cs (ne_lib s) =
          (Inr (encode_result result, 0), ne_lib s)" "check_code ''submit_transfer'' (encode_result result) =
          Inl (EngineError (Msg ''submit_transfer'') c)"
        by (simp_all add: adapter_def c_call_def check_code_result)
      with native_submit_answer [of "adapter X M A", simplified adapter_sel, OF enc ds this(1)] False
      show ?thesis by simp
    qed
  qed
qed

text \<open>The status Python reports, and the statuses an engine may give a task.\<close>

fun python_status :: "native_status \<Rightarrow> transfer_status" where
  "python_status NativePending = Pending"
| "python_status (NativeCompleted r) = Completed r"
| "python_status (NativeFailed result) = Failed (the (python_code result))"

definition suits :: "native_status \<Rightarrow> op_type \<Rightarrow> bool" where
  "suits st operation \<longleftrightarrow> st \<noteq> NativeFailed Ok \<and>
     (\<forall>r. st = NativeCompleted r \<longrightarrow> (r \<noteq> None \<longleftrightarrow> operation = RecvT))"

lemma encode_suits:
  assumes "suits st operation"
  shows "\<exists>c. encode_status st = Some c \<and> decode_status i c operation = Inr (python_status st)"
proof -
  from assms have "encode_status st \<noteq> None"
    by (auto simp: suits_def encode_status_def Let_def split: native_status.splits option.splits receive_result.splits)
  then obtain c where c: "encode_status st = Some c" by blast
  with assms have "decode_status i c operation = Inr (python_status st)"
    using status_roundtrip [OF c, of operation i] by (cases st) (auto simp: suits_def)
  with c show ?thesis by blast
qed

lemma encode_suits_all:
  "list_all2 suits sts operations \<Longrightarrow>
     \<exists>cs. those (map encode_status sts) = Some cs \<and>
       decode_statuses i (zip cs operations) = Inr (map python_status sts)"
proof (induction sts operations arbitrary: i rule: list_all2_induct)
  case (Cons st sts operation operations)
  from encode_suits [OF Cons.hyps(1), of i] obtain c where "encode_status st = Some c"
    "decode_status i c operation = Inr (python_status st)" by blast
  moreover from Cons.IH [of "i + 1"] obtain cs where "those (map encode_status sts) = Some cs"
    "decode_statuses (i + 1) (zip cs operations) = Inr (map python_status sts)" by blast
  ultimately show ?case by simp
qed simp

text \<open>
  C22: \<open>get_transfer_statuses\<close> of Python returns, task by task in submission order, the statuses the
  engine reports for the batch, when these suit its operations: a failure has an error, and just a
  completed RECV says what it received. Nothing changes.
\<close>

theorem statuses_reach_python:
  assumes "cffi_ok X" and "map_of (ne_batches s) batch = Some operations" and "ne_handle s \<noteq> 0"
    and "0 < batch \<and> batch < 2 ^ 64" and "0 < length operations"
    and "int (length operations) \<le> (2 ^ 63 - 1) div 24" and "fits_statuses M (length operations)"
    and "cx_get_transfer_statuses A (ne_handle s) batch (replicate (length operations) NativePending) (ne_lib s)
      = (Ok, sts)"
    and "list_all2 suits sts operations"
  shows "native_get_transfer_statuses (adapter X M A) batch s = (Inr (map python_status sts), s)"
proof -
  from encode_suits_all [OF assms(9), of 0] obtain cs where cs: "those (map encode_status sts) = Some cs"
    "decode_statuses 0 (zip cs operations) = Inr (map python_status sts)" by blast
  have "valid_statuses (fi_statuses X (length operations)) (int (length operations))"
    using assms(1,5,6) by (simp add: valid_statuses_def valid_array_def cffi_ok_def)
  then have "cpp_get_transfer_statuses M A (ne_handle s) batch (fi_statuses X (length operations))
      (length operations) (ne_lib s) = Some (R101_OK, cs)"
    using assms(3,4,7,8) cs(1) by (simp add: cpp_get_transfer_statuses_def Let_def)
  then show ?thesis
    using assms(2,4) cs(2) by (simp add: native_get_transfer_statuses_def native_call_out_def on_lib_def
        adapter_def c_ints_def py_defs)
qed

end
