(* ===== verification/Native_Interface.thy ===== *)
theory Native_Interface
  imports Memory Encoding Native_Facts
begin

text \<open>
  What \<^verbatim>\<open>ControlPlane\<close> and \<^verbatim>\<open>Engine\<close> use of the object they call \<^verbatim>\<open>native\<close>. The constructor of
  \<^verbatim>\<open>Engine\<close> puts a \<^verbatim>\<open>NativeEngine\<close> there, the tests a \<^verbatim>\<open>FakeNativeEngine\<close>; both have the methods of
  the record \<open>native_api\<close>. The locale \<open>peer_store\<close> states what the clients rely on, over an
  abstraction of the native state: which peers live and the metadata they export, which are
  connected and to what, and which memories are imported for each.
\<close>

record 'n native_api =
  na_create_peer :: "('n, exn, peer_metadata) py"
  na_connect_peer :: "int \<Rightarrow> any_bytes \<Rightarrow> ('n, exn, unit) py"
  na_import_remote_memory :: "int \<Rightarrow> any_bytes \<Rightarrow> ('n, exn, int) py"
  na_destroy_peer :: "int \<Rightarrow> ('n, exn, unit) py"
  na_register_local_memory :: "any_memory \<Rightarrow> int \<Rightarrow> ('n, exn, memory_metadata) py"
  na_submit_transfer :: "any_request list \<Rightarrow> ('n, exn, int) py"
  na_get_transfer_statuses :: "int \<Rightarrow> ('n, exn, transfer_status list) py"
  na_free_batch :: "int \<Rightarrow> ('n, exn, unit) py"
  na_close :: "('n, exn, unit) py"
  na_closed :: "'n \<Rightarrow> bool"

section \<open>The contract on peers\<close>

locale peer_store =
  fixes N :: "('n, 'z) native_api_scheme"
    and ok :: "'n \<Rightarrow> bool"
    and live :: "'n \<Rightarrow> int \<Rightarrow> bytes option"
    and conn :: "'n \<Rightarrow> int \<Rightarrow> bytes option"
    and imps :: "'n \<Rightarrow> int \<Rightarrow> bytes set"
  assumes dead: "ok n \<Longrightarrow> live n h = None \<Longrightarrow> conn n h = None \<and> imps n h = {}"
    and create_Inr: "ok n \<Longrightarrow> na_create_peer N n = (Inr pm, n') \<Longrightarrow>
      ok n' \<and> live n (pm_peer pm) = None \<and> live n' = (live n)(pm_peer pm \<mapsto> pm_metadata pm) \<and>
      conn n' = conn n \<and> imps n' = imps n"
    and create_Inl: "ok n \<Longrightarrow> na_create_peer N n = (Inl e, n') \<Longrightarrow>
      ok n' \<and> live n' = live n \<and> conn n' = conn n \<and> imps n' = imps n"
    and connect_Inr: "ok n \<Longrightarrow> na_connect_peer N h b n = (Inr u, n') \<Longrightarrow>
      ok n' \<and> live n h \<noteq> None \<and> conn n h = None \<and>
      (\<exists>md. b = Bytes md \<and> conn n' = (conn n)(h \<mapsto> md)) \<and> live n' = live n \<and> imps n' = imps n"
    and connect_Inl: "ok n \<Longrightarrow> na_connect_peer N h b n = (Inl e, n') \<Longrightarrow>
      ok n' \<and> live n' = live n \<and> conn n' = conn n \<and> imps n' = imps n"
    and import_Inr: "ok n \<Longrightarrow> na_import_remote_memory N h b n = (Inr r, n') \<Longrightarrow>
      ok n' \<and> conn n h \<noteq> None \<and>
      (\<exists>md. b = Bytes md \<and> imps n' = (imps n)(h := insert md (imps n h))) \<and>
      live n' = live n \<and> conn n' = conn n"
    and import_Inl: "ok n \<Longrightarrow> na_import_remote_memory N h b n = (Inl e, n') \<Longrightarrow>
      ok n' \<and> live n' = live n \<and> conn n' = conn n \<and> imps n' = imps n"
    and destroy_Inr: "ok n \<Longrightarrow> na_destroy_peer N h n = (Inr u, n') \<Longrightarrow>
      ok n' \<and> live n h \<noteq> None \<and> live n' = (live n)(h := None) \<and> conn n' = (conn n)(h := None) \<and>
      imps n' = (imps n)(h := {})"
    and destroy_Inl: "ok n \<Longrightarrow> na_destroy_peer N h n = (Inl e, n') \<Longrightarrow>
      ok n' \<and> live n' = live n \<and> conn n' = conn n \<and> imps n' = imps n"
begin

lemma conn_live: "ok n \<Longrightarrow> conn n h \<noteq> None \<Longrightarrow> live n h \<noteq> None"
  using dead [of n h] by (cases "live n h") auto

lemma imps_live: "ok n \<Longrightarrow> imps n h \<noteq> {} \<Longrightarrow> live n h \<noteq> None"
  using dead [of n h] by (cases "live n h") auto

text \<open>Importing a list of memories adds a prefix of it, all of it when no import raises.\<close>

lemma import_list:
  assumes "ok n"
    and "py_each (\<lambda>md. na_import_remote_memory N h (Bytes md)) mds n = (r, n')"
  shows "ok n' \<and> live n' = live n \<and> conn n' = conn n \<and>
    (\<exists>k \<le> length mds. imps n' = (imps n)(h := set (take k mds) \<union> imps n h) \<and>
       (r = Inr () \<longrightarrow> k = length mds)) \<and>
    (mds \<noteq> [] \<and> r = Inr () \<longrightarrow> conn n h \<noteq> None)"
  using assms
proof (induction mds arbitrary: n)
  case Nil
  then show ?case by auto
next
  case (Cons md mds)
  show ?case
  proof (cases "na_import_remote_memory N h (Bytes md) n")
    case (Pair x n1)
    show ?thesis
    proof (cases x)
      case (Inl e)
      with Pair Cons.prems have "r = Inl e" "n' = n1" by (auto simp: py_defs)
      with Pair Inl import_Inl [OF Cons.prems(1)] show ?thesis
        by (metis fun_upd_triv le0 list.set(1) sum.distinct(1) sup_bot_left take0)
    next
      case (Inr y)
      from Pair Inr Cons.prems have rest:
        "py_each (\<lambda>md. na_import_remote_memory N h (Bytes md)) mds n1 = (r, n')"
        by (auto simp: py_defs)
      from import_Inr [OF Cons.prems(1)] Pair Inr have n1: "ok n1" "conn n h \<noteq> None"
        "imps n1 = (imps n)(h := insert md (imps n h))" "live n1 = live n" "conn n1 = conn n"
        by fastforce+
      from Cons.IH [OF n1(1) rest] obtain k where k: "k \<le> length mds"
        "imps n' = (imps n1)(h := set (take k mds) \<union> imps n1 h)"
        "r = Inr () \<longrightarrow> k = length mds" and views: "ok n'" "live n' = live n1" "conn n' = conn n1"
        by blast
      from k n1 have "Suc k \<le> length (md # mds)"
        "imps n' = (imps n)(h := set (take (Suc k) (md # mds)) \<union> imps n h)"
        "r = Inr () \<longrightarrow> Suc k = length (md # mds)" by auto
      with views n1 show ?thesis by metis
    qed
  qed
qed

end

section \<open>The contract on the remaining methods\<close>

text \<open>
  The methods \<^verbatim>\<open>Engine\<close> calls beside \<open>ControlPlane\<close>'s leave peers, connections and imports alone;
  of closing it needs no more than a consistent state afterwards.
\<close>

locale engine_store = peer_store N ok live conn imps
  for N :: "('n, 'z) native_api_scheme" and ok live conn imps +
  assumes register_views: "ok n \<Longrightarrow> na_register_local_memory N m a n = (r1, n') \<Longrightarrow>
      ok n' \<and> live n' = live n \<and> conn n' = conn n \<and> imps n' = imps n"
    and submit_views: "ok n \<Longrightarrow> na_submit_transfer N rs n = (r2, n') \<Longrightarrow>
      ok n' \<and> live n' = live n \<and> conn n' = conn n \<and> imps n' = imps n"
    and statuses_views: "ok n \<Longrightarrow> na_get_transfer_statuses N b n = (r3, n') \<Longrightarrow>
      ok n' \<and> live n' = live n \<and> conn n' = conn n \<and> imps n' = imps n"
    and free_views: "ok n \<Longrightarrow> na_free_batch N b n = (r4, n') \<Longrightarrow>
      ok n' \<and> live n' = live n \<and> conn n' = conn n \<and> imps n' = imps n"
    and close_ok: "ok n \<Longrightarrow> na_close N n = (r5, n') \<Longrightarrow> ok n'"

end
