(* ===== verification/Control.thy ===== *)
theory Control
  imports Native_Interface
begin

text \<open>
  \<^verbatim>\<open>rdma101/control.py\<close>: the handshake between two engines and the exchange of memory metadata.

  Python shares one \<^verbatim>\<open>Peer\<close> object between the dictionary \<^verbatim>\<open>_peers\<close> and the calls of \<open>connect\<close> and
  \<open>publish\<close> that are under way, and compares it by identity. The model has an explicit store: a
  peer is a reference into \<open>cp_heap\<close>, \<open>cp_peers\<close> maps endpoints to references. References are never
  reused, as no object a call still holds is collected.

  The code runs under the lock \<^verbatim>\<open>_state_lock\<close> except where it calls a remote engine, so each method
  is cut at its remote calls: every definition below that ends in one of \<open>_begin\<close>, \<open>_local\<close>, \<open>_ready\<close>
  is one critical section, and the methods compose them with the remote calls as parameters, which
  may change the state in between.
\<close>

section \<open>Peers and messages\<close>

datatype peer_state = CREATED | CONNECTED | READY

text \<open>A peer only moves up in this order.\<close>

fun peer_rank :: "peer_state \<Rightarrow> nat" where
  "peer_rank CREATED = 0"
| "peer_rank CONNECTED = 1"
| "peer_rank READY = 2"

instantiation peer_state :: linorder
begin

definition less_eq_peer_state :: "peer_state \<Rightarrow> peer_state \<Rightarrow> bool" where
  "less_eq_peer_state a b \<longleftrightarrow> peer_rank a \<le> peer_rank b"

definition less_peer_state :: "peer_state \<Rightarrow> peer_state \<Rightarrow> bool" where
  "less_peer_state a b \<longleftrightarrow> peer_rank a < peer_rank b"

instance
proof
  fix a b c :: peer_state
  show "a < b \<longleftrightarrow> a \<le> b \<and> \<not> b \<le> a" "a \<le> a" "a \<le> b \<or> b \<le> a"
    by (auto simp: less_eq_peer_state_def less_peer_state_def)
  show "a \<le> b \<Longrightarrow> b \<le> c \<Longrightarrow> a \<le> c" by (simp add: less_eq_peer_state_def)
  show "a \<le> b \<Longrightarrow> b \<le> a \<Longrightarrow> a = b"
    by (cases a; cases b) (simp_all add: less_eq_peer_state_def)
qed

end

record peer =
  p_handle :: int
  p_endpoint :: string
  p_metadata :: bytes
  p_connection_id :: string
  p_remote_connection_id :: string
  p_state :: peer_state
  p_remote_version :: int

text \<open>The messages of \<^verbatim>\<open>rdma101/control.proto\<close>; an absent string or list is empty.\<close>

record connection =
  cn_endpoint :: string
  cn_id :: string

record offer =
  of_connection :: connection
  of_metadata :: bytes

record snapshot =
  sn_version :: int
  sn_memories :: "bytes list"

record update =
  up_connection :: connection
  up_snapshot :: snapshot

section \<open>The object\<close>

record 'n control =
  cp_native :: 'n
  cp_endpoint :: string
  cp_closed :: bool
  cp_peers :: "(string, nat) dict"
  cp_heap :: "nat \<Rightarrow> peer"
  cp_next_ref :: nat
  cp_channels :: "(string, string) dict"
  cp_memory_metadata :: "bytes list"
  cp_uuids :: nat

type_synonym ('n, 'a) control_call = "('n control, exn, 'a) py"

text \<open>
  What the control plane is given: the methods of its native engine, and the values \<^verbatim>\<open>uuid4().hex\<close>
  takes in this process, in the order of the calls.
\<close>

record 'n control_env = "'n native_api" +
  uuid4_hex :: "nat \<Rightarrow> string"

definition blank_peer :: peer where
  "blank_peer = \<lparr>p_handle = 0, p_endpoint = [], p_metadata = [], p_connection_id = [],
     p_remote_connection_id = [], p_state = CREATED, p_remote_version = - 1\<rparr>"

definition on_native :: "('n, exn, 'a) py \<Rightarrow> ('n, 'a) control_call" where
  "on_native m = py_zoom cp_native (\<lambda>n s. s\<lparr>cp_native := n\<rparr>) m"

definition deref :: "nat \<Rightarrow> 'n control \<Rightarrow> peer" where
  "deref ref s = cp_heap s ref"

definition update_peer :: "nat \<Rightarrow> (peer \<Rightarrow> peer) \<Rightarrow> ('n, unit) control_call" where
  "update_peer ref f = py_modify (\<lambda>s. s\<lparr>cp_heap := (cp_heap s)(ref := f (cp_heap s ref))\<rparr>)"

text \<open>\<open>listen.rpartition(":")\<close>\<close>

definition rpartition_colon :: "string \<Rightarrow> string \<times> string \<times> string" where
  "rpartition_colon s =
     (if CHR '':'' \<in> set s
      then let tail = takeWhile (\<lambda>c. c \<noteq> CHR '':'') (rev s)
           in (take (length s - length tail - 1) s, '':'', rev tail)
      else ([], [], s))"

text \<open>
  \<open>ControlPlane(native, state_lock, listen, advertise, timeout)\<close>. \<open>add_port\<close> is what
  \<^verbatim>\<open>server.add_insecure_port(listen)\<close> gives, \<open>start\<close> what \<^verbatim>\<open>server.start()\<close> raises, if anything; an
  exception of either stops the server and propagates.
\<close>

definition ControlPlane_init ::
  "'n \<Rightarrow> string \<Rightarrow> string option \<Rightarrow> (string \<Rightarrow> exn + nat) \<Rightarrow> exn option \<Rightarrow> exn + 'n control" where
  "ControlPlane_init native listen advertise add_port start =
     (case rpartition_colon listen of (host, separator, port) \<Rightarrow>
       if separator = [] \<or> host = [] \<or> \<not> isdecimal port \<or> \<not> parse_decimal port \<le> 65535
       then Inl (ValueError (Msg ''listen must be host:port (port 0 selects a free port)''))
       else if (host = ''0.0.0.0'' \<or> host = ''[::]'') \<and> (advertise = None \<or> advertise = Some [])
       then Inl (ValueError (Msg ''a wildcard listener needs an advertise host reachable by peers''))
       else (case add_port listen of
         Inl e \<Rightarrow> Inl e
       | Inr bound \<Rightarrow>
           if bound = 0 then Inl (OSError (Fmt ''cannot listen on {}'' [FStr listen]))
           else (case start of
             Some e \<Rightarrow> Inl e
           | None \<Rightarrow> Inr
               \<lparr>cp_native = native,
                cp_endpoint =
                  (case advertise of None \<Rightarrow> host | Some a \<Rightarrow> if a = [] then host else a)
                    @ '':'' @ decimal bound,
                cp_closed = False, cp_peers = [], cp_heap = (\<lambda>_. blank_peer), cp_next_ref = 0,
                cp_channels = [], cp_memory_metadata = [], cp_uuids = 0\<rparr>)))"

section \<open>Helpers\<close>

definition check_open :: "('n, unit) control_call" where
  "check_open = py_bind (py_gets cp_closed) (\<lambda>closed.
     py_raise_if closed (RuntimeError (Msg ''engine is closed'')))"

text \<open>\<open>_stub(endpoint)\<close>: the channel is opened once per endpoint and kept.\<close>

definition stub :: "string \<Rightarrow> ('n, string) control_call" where
  "stub endpoint = py_bind (py_gets cp_channels) (\<lambda>channels. case map_of channels endpoint of
     Some channel \<Rightarrow> py_return channel
   | None \<Rightarrow>
       py_then (py_modify (\<lambda>s. s\<lparr>cp_channels := AList.update endpoint endpoint (cp_channels s)\<rparr>))
         (py_return endpoint))"

definition connection_of :: "'n control \<Rightarrow> peer \<Rightarrow> connection" where
  "connection_of s peer = \<lparr>cn_endpoint = cp_endpoint s, cn_id = p_connection_id peer\<rparr>"

definition offer_of :: "'n control \<Rightarrow> peer \<Rightarrow> offer" where
  "offer_of s peer = \<lparr>of_connection = connection_of s peer, of_metadata = p_metadata peer\<rparr>"

definition snapshot_of :: "'n control \<Rightarrow> snapshot" where
  "snapshot_of s = \<lparr>sn_version = int (length (cp_memory_metadata s)),
     sn_memories = cp_memory_metadata s\<rparr>"

text \<open>\<open>uuid4().hex\<close>, and the allocation of a \<^verbatim>\<open>Peer\<close>.\<close>

definition new_uuid :: "('n, 'z) control_env_scheme \<Rightarrow> ('n, string) control_call" where
  "new_uuid E s = (Inr (uuid4_hex E (cp_uuids s)), s\<lparr>cp_uuids := Suc (cp_uuids s)\<rparr>)"

definition new_peer :: "peer \<Rightarrow> ('n, nat) control_call" where
  "new_peer p s = (Inr (cp_next_ref s),
     s\<lparr>cp_heap := (cp_heap s)(cp_next_ref s := p), cp_next_ref := Suc (cp_next_ref s)\<rparr>)"

definition create_peer :: "('n, 'z) control_env_scheme \<Rightarrow> string \<Rightarrow> ('n, nat) control_call" where
  "create_peer E endpoint =
     py_bind (on_native (na_create_peer E)) (\<lambda>local.
     py_bind (new_uuid E) (\<lambda>connection_id.
     py_bind (new_peer \<lparr>p_handle = pm_peer local, p_endpoint = endpoint,
         p_metadata = pm_metadata local, p_connection_id = connection_id,
         p_remote_connection_id = [], p_state = CREATED, p_remote_version = - 1\<rparr>) (\<lambda>ref.
     py_then (py_modify (\<lambda>s. s\<lparr>cp_peers := AList.update endpoint ref (cp_peers s)\<rparr>))
       (py_return ref))))"

definition require_peer :: "nat \<Rightarrow> ('n, unit) control_call" where
  "require_peer ref =
     py_bind (py_gets (\<lambda>s. map_of (cp_peers s) (p_endpoint (deref ref s)))) (\<lambda>found.
       py_raise_if (found \<noteq> Some ref) (RuntimeError (Msg ''peer disconnected during handshake'')))"

definition find_connection :: "connection \<Rightarrow> ('n, nat) control_call" where
  "find_connection connection =
     py_bind (py_gets id) (\<lambda>s. case map_of (cp_peers s) (cn_endpoint connection) of
       None \<Rightarrow> py_raise (ValueError (Msg ''unknown connection''))
     | Some ref \<Rightarrow>
         if cn_id connection = [] \<or> p_remote_connection_id (deref ref s) \<noteq> cn_id connection
         then py_raise (ValueError (Msg ''unknown connection''))
         else py_return ref)"

definition connect_native ::
  "('n, 'z) control_env_scheme \<Rightarrow> nat \<Rightarrow> offer \<Rightarrow> ('n, unit) control_call" where
  "connect_native E ref offer =
     py_bind (py_gets (deref ref)) (\<lambda>peer.
     py_then (py_raise_if
                (cn_endpoint (of_connection offer) \<noteq> p_endpoint peer \<or> cn_id (of_connection offer) = [])
                (ValueError (Msg ''unexpected connection identity'')))
       (if p_state peer = CREATED
        then py_then (on_native (na_connect_peer E (p_handle peer) (Bytes (of_metadata offer))))
               (update_peer ref (\<lambda>p. p\<lparr>p_remote_connection_id := cn_id (of_connection offer),
                  p_state := CONNECTED\<rparr>))
        else py_raise_if (p_remote_connection_id peer \<noteq> cn_id (of_connection offer))
               (RuntimeError (Msg ''endpoint already has a different connection''))))"

definition import_snapshot ::
  "('n, 'z) control_env_scheme \<Rightarrow> nat \<Rightarrow> snapshot \<Rightarrow> ('n, unit) control_call" where
  "import_snapshot E ref snapshot =
     py_bind (py_gets (deref ref)) (\<lambda>peer.
       if sn_version snapshot > p_remote_version peer
       then py_then
              (on_native (py_each (\<lambda>metadata.
                 na_import_remote_memory E (p_handle peer) (Bytes metadata)) (sn_memories snapshot)))
              (update_peer ref (\<lambda>p. p\<lparr>p_remote_version := sn_version snapshot\<rparr>))
       else py_return ())"

section \<open>Outgoing operations\<close>

text \<open>\<open>connect(endpoint)\<close>, up to, between and after its two remote calls.\<close>

datatype connect_start = Already int | Exchange nat offer

text \<open>\<open>self._peers.get(endpoint)\<close>, created when it is missing.\<close>

definition get_or_create_peer ::
  "('n, 'z) control_env_scheme \<Rightarrow> string \<Rightarrow> ('n, nat) control_call" where
  "get_or_create_peer E endpoint =
     py_bind (py_gets (\<lambda>s. map_of (cp_peers s) endpoint)) (\<lambda>found. case found of
       None \<Rightarrow> create_peer E endpoint
     | Some ref \<Rightarrow> py_return ref)"

definition check_endpoint :: "string \<Rightarrow> ('n, unit) control_call" where
  "check_endpoint endpoint =
     py_bind (py_gets cp_endpoint) (\<lambda>own.
       py_raise_if (endpoint = [] \<or> endpoint = own)
         (ValueError (Msg ''a different remote Engine endpoint is required'')))"

definition connect_begin ::
  "('n, 'z) control_env_scheme \<Rightarrow> string \<Rightarrow> ('n, connect_start) control_call" where
  "connect_begin E endpoint =
     py_then (check_endpoint endpoint)
    (py_then check_open
    (py_bind (get_or_create_peer E endpoint) (\<lambda>ref.
     py_bind (py_gets (deref ref)) (\<lambda>peer.
       if p_state peer = READY then py_return (Already (p_handle peer))
       else py_then (stub endpoint) (py_gets (\<lambda>s. Exchange ref (offer_of s peer)))))))"

definition connect_local ::
  "('n, 'z) control_env_scheme \<Rightarrow> nat \<Rightarrow> offer \<Rightarrow> ('n, update) control_call" where
  "connect_local E ref remote =
     py_then (require_peer ref)
    (py_then (connect_native E ref remote)
       (py_gets (\<lambda>s. \<lparr>up_connection = connection_of s (deref ref s),
          up_snapshot = snapshot_of s\<rparr>)))"

definition connect_ready ::
  "('n, 'z) control_env_scheme \<Rightarrow> nat \<Rightarrow> snapshot \<Rightarrow> ('n, int) control_call" where
  "connect_ready E ref snapshot =
     py_then (require_peer ref)
    (py_then (import_snapshot E ref snapshot)
    (py_then (update_peer ref (\<lambda>p. p\<lparr>p_state := READY\<rparr>))
       (py_gets (\<lambda>s. p_handle (deref ref s)))))"

definition connect ::
  "('n, 'z) control_env_scheme \<Rightarrow> (string \<Rightarrow> offer \<Rightarrow> ('n, offer) control_call) \<Rightarrow>
     (string \<Rightarrow> update \<Rightarrow> ('n, snapshot) control_call) \<Rightarrow> string \<Rightarrow> ('n, int) control_call" where
  "connect E rpc_Connect rpc_Ready endpoint =
     py_bind (connect_begin E endpoint) (\<lambda>start. case start of
       Already handle \<Rightarrow> py_return handle
     | Exchange ref offer \<Rightarrow>
         py_bind (rpc_Connect endpoint offer) (\<lambda>remote.
         py_bind (connect_local E ref remote) (\<lambda>update.
         py_bind (rpc_Ready endpoint update) (\<lambda>snapshot.
           connect_ready E ref snapshot))))"

text \<open>
  \<open>publish(metadata)\<close>. The loop runs without the lock; of a peer it reads only the connection id and
  the endpoint, which never change.
\<close>

definition publish_begin :: "bytes \<Rightarrow> ('n, snapshot \<times> nat list) control_call" where
  "publish_begin metadata =
     py_then check_open
    (py_then (py_modify (\<lambda>s. s\<lparr>cp_memory_metadata := cp_memory_metadata s @ [metadata]\<rparr>))
       (py_gets (\<lambda>s. (snapshot_of s,
          filter (\<lambda>ref. p_state (deref ref s) = READY) (map snd (cp_peers s))))))"

definition publish_to ::
  "(string \<Rightarrow> update \<Rightarrow> ('n, unit) control_call) \<Rightarrow> snapshot \<Rightarrow> nat \<Rightarrow> ('n, unit) control_call" where
  "publish_to rpc_Changed snapshot ref =
     py_bind (py_gets id) (\<lambda>s.
     py_then (stub (p_endpoint (deref ref s)))
       (rpc_Changed (p_endpoint (deref ref s))
          \<lparr>up_connection = connection_of s (deref ref s), up_snapshot = snapshot\<rparr>))"

definition publish ::
  "(string \<Rightarrow> update \<Rightarrow> ('n, unit) control_call) \<Rightarrow> bytes \<Rightarrow> ('n, unit) control_call" where
  "publish rpc_Changed metadata =
     py_bind (publish_begin metadata) (\<lambda>(snapshot, refs).
       py_each (publish_to rpc_Changed snapshot) refs)"

text \<open>\<open>disconnect(handle)\<close>\<close>

definition find_handle :: "'n control \<Rightarrow> int \<Rightarrow> nat option" where
  "find_handle s handle = find (\<lambda>ref. p_handle (deref ref s) = handle) (map snd (cp_peers s))"

definition disconnect_begin ::
  "('n, 'z) control_env_scheme \<Rightarrow> int \<Rightarrow> ('n, string \<times> connection) control_call" where
  "disconnect_begin E handle =
     py_then check_open
    (py_bind (py_gets (\<lambda>s. find_handle s handle)) (\<lambda>found. case found of
       None \<Rightarrow> py_raise (ValueError (Msg ''unknown peer''))
     | Some ref \<Rightarrow>
         py_bind (py_gets (deref ref)) (\<lambda>peer.
         py_then (stub (p_endpoint peer))
        (py_bind (py_gets (\<lambda>s. connection_of s peer)) (\<lambda>connection.
         py_then (on_native (na_destroy_peer E (p_handle peer)))
        (py_then (py_del cp_peers (\<lambda>d s. s\<lparr>cp_peers := d\<rparr>) (p_endpoint peer))
           (py_return (p_endpoint peer, connection))))))))"

definition disconnect ::
  "('n, 'z) control_env_scheme \<Rightarrow> (string \<Rightarrow> connection \<Rightarrow> ('n, unit) control_call) \<Rightarrow> int
     \<Rightarrow> ('n, unit) control_call" where
  "disconnect E rpc_Close handle =
     py_bind (disconnect_begin E handle) (\<lambda>(endpoint, connection). rpc_Close endpoint connection)"

section \<open>Handlers\<close>

definition handle_Connect ::
  "('n, 'z) control_env_scheme \<Rightarrow> offer \<Rightarrow> ('n, offer) control_call" where
  "handle_Connect E request =
     py_then (check_endpoint (cn_endpoint (of_connection request)))
    (py_then check_open
    (py_bind (get_or_create_peer E (cn_endpoint (of_connection request))) (\<lambda>ref.
     py_then (connect_native E ref request)
       (py_gets (\<lambda>s. offer_of s (deref ref s))))))"

definition handle_Ready ::
  "('n, 'z) control_env_scheme \<Rightarrow> update \<Rightarrow> ('n, snapshot) control_call" where
  "handle_Ready E request =
     py_then check_open
    (py_bind (find_connection (up_connection request)) (\<lambda>ref.
     py_then (import_snapshot E ref (up_snapshot request))
    (py_then (update_peer ref (\<lambda>p. p\<lparr>p_state := READY\<rparr>))
       (py_gets snapshot_of))))"

definition handle_Changed ::
  "('n, 'z) control_env_scheme \<Rightarrow> update \<Rightarrow> ('n, unit) control_call" where
  "handle_Changed E request =
     py_then check_open
    (py_bind (find_connection (up_connection request)) (\<lambda>ref.
       import_snapshot E ref (up_snapshot request)))"

definition handle_Close ::
  "('n, 'z) control_env_scheme \<Rightarrow> connection \<Rightarrow> ('n, unit) control_call" where
  "handle_Close E request =
     py_then check_open
    (py_bind (py_gets id) (\<lambda>s. case map_of (cp_peers s) (cn_endpoint request) of
       None \<Rightarrow> py_return ()
     | Some ref \<Rightarrow>
         if p_remote_connection_id (deref ref s) = cn_id request
         then py_then (on_native (na_destroy_peer E (p_handle (deref ref s))))
                (py_del cp_peers (\<lambda>d s. s\<lparr>cp_peers := d\<rparr>) (p_endpoint (deref ref s)))
         else py_return ()))"

text \<open>
  \<open>close()\<close>. Between the flag and the clearing, \<open>drain\<close> waits for the handlers that have started.
\<close>

definition control_close :: "('n, unit) control_call \<Rightarrow> ('n, unit) control_call" where
  "control_close drain =
     py_bind (py_gets cp_closed) (\<lambda>closed.
       if closed then py_return ()
       else py_then (py_modify (\<lambda>s. s\<lparr>cp_closed := True\<rparr>))
           (py_then drain
              (py_modify (\<lambda>s. s\<lparr>cp_channels := [], cp_peers := [], cp_memory_metadata := []\<rparr>))))"

section \<open>Runs\<close>

text \<open>
  \<^verbatim>\<open>Engine\<close> serializes the outgoing operations with \<^verbatim>\<open>_resource_lock\<close>, so what runs during a remote
  call are handlers. A handler that raises reports the error to its caller and the plane goes on.
\<close>

datatype rpc_call = CallConnect offer | CallReady update | CallChanged update | CallClose connection

fun serve_one :: "('n, 'z) control_env_scheme \<Rightarrow> rpc_call \<Rightarrow> 'n control \<Rightarrow> 'n control" where
  "serve_one E (CallConnect request) s = snd (handle_Connect E request s)"
| "serve_one E (CallReady request) s = snd (handle_Ready E request s)"
| "serve_one E (CallChanged request) s = snd (handle_Changed E request s)"
| "serve_one E (CallClose request) s = snd (handle_Close E request s)"

definition serve :: "('n, 'z) control_env_scheme \<Rightarrow> rpc_call list \<Rightarrow> 'n control \<Rightarrow> 'n control" where
  "serve E calls s = fold (serve_one E) calls s"

text \<open>A remote call that answers \<open>reply\<close> (or raises) after the handlers \<open>calls\<close> have run here.\<close>

definition during ::
  "('n, 'z) control_env_scheme \<Rightarrow> rpc_call list \<Rightarrow> exn + 'a \<Rightarrow> ('n, 'a) control_call" where
  "during E calls reply s = (reply, serve E calls s)"

text \<open>
  What a plane can do from its creation to its end. The calls of \<open>publish\<close> go to distinct
  endpoints, so what happens during each is a function of the endpoint.
\<close>

datatype control_op =
    CpServe rpc_call
  | CpConnect string "rpc_call list" "exn + offer" "rpc_call list" "exn + snapshot"
  | CpPublish bytes "string \<Rightarrow> rpc_call list \<times> (exn + unit)"
  | CpDisconnect int "rpc_call list" "exn + unit"
  | CpClose "rpc_call list"

fun control_exec :: "('n, 'z) control_env_scheme \<Rightarrow> control_op \<Rightarrow> 'n control \<Rightarrow> 'n control" where
  "control_exec E (CpServe call) s = serve_one E call s"
| "control_exec E (CpConnect endpoint calls1 reply1 calls2 reply2) s =
     snd (connect E (\<lambda>_ _. during E calls1 reply1) (\<lambda>_ _. during E calls2 reply2) endpoint s)"
| "control_exec E (CpPublish metadata remote) s =
     snd (publish (\<lambda>endpoint _. during E (fst (remote endpoint)) (snd (remote endpoint))) metadata s)"
| "control_exec E (CpDisconnect handle calls reply) s =
     snd (disconnect E (\<lambda>_ _. during E calls reply) handle s)"
| "control_exec E (CpClose calls) s = snd (control_close (during E calls (Inr ())) s)"

definition control_run :: "('n, 'z) control_env_scheme \<Rightarrow> control_op list \<Rightarrow> 'n control \<Rightarrow> 'n control" where
  "control_run E ops s = fold (control_exec E) ops s"

end
