(* ===== verification/Engine.thy ===== *)
theory Engine
  imports Complex_Main Control Native_Interface
begin

text \<open>
  \<^verbatim>\<open>rdma101/engine.py\<close>: the engine an application uses. It owns a native engine and a control plane
  over it; \<open>self.native\<close> and \<open>self._control.native\<close> are the same object, so the model keeps it once,
  in the control plane. \<^verbatim>\<open>_resource_lock\<close> serializes the outgoing operations, \<^verbatim>\<open>_state_lock\<close> guards the
  critical sections; what other threads do between two of them is a parameter.
\<close>

section \<open>Time\<close>

text \<open>A Python number as a timeout; rounding is not modelled.\<close>

datatype pyfloat = Fin rat | PInf | NInf | NaN

fun isfinite :: "pyfloat \<Rightarrow> bool" where
  "isfinite (Fin _) = True"
| "isfinite _ = False"

text \<open>\<open>timeout <= 0\<close>\<close>

fun nonpositive :: "pyfloat \<Rightarrow> bool" where
  "nonpositive (Fin t) = (t \<le> 0)"
| "nonpositive NInf = True"
| "nonpositive PInf = False"
| "nonpositive NaN = False"

text \<open>\<open>time.monotonic() + timeout\<close> and \<open>time.monotonic() >= deadline\<close>\<close>

fun add_time :: "rat \<Rightarrow> pyfloat \<Rightarrow> pyfloat" where
  "add_time now (Fin t) = Fin (now + t)"
| "add_time now x = x"

fun reached :: "rat \<Rightarrow> pyfloat \<Rightarrow> bool" where
  "reached now (Fin t) = (t \<le> now)"
| "reached now NInf = True"
| "reached now PInf = False"
| "reached now NaN = False"

section \<open>The object\<close>

record 'n engine =
  en_control :: "'n control"
  en_timeout :: pyfloat

type_synonym ('n, 'a) engine_call = "('n engine, exn, 'a) py"

definition on_control :: "('n, 'a) control_call \<Rightarrow> ('n, 'a) engine_call" where
  "on_control m = py_zoom en_control (\<lambda>c s. s\<lparr>en_control := c\<rparr>) m"

record local_memory =
  lm_id :: int
  lm_address :: int
  lm_length :: int
  lm_storage :: memory

text \<open>\<open>local.bytes()\<close> and \<open>local.fill(data, offset)\<close>\<close>

definition local_bytes :: "local_memory \<Rightarrow> process_memory \<Rightarrow> bytes" where
  "local_bytes m h = memory_bytes (lm_storage m) h"

definition local_fill :: "local_memory \<Rightarrow> bytes \<Rightarrow> int \<Rightarrow> (process_memory, exn, unit) py" where
  "local_fill m data offset = memory_fill (lm_storage m) data offset"

text \<open>The methods of \<open>NativeEngine\<close>, with the ids of the process.\<close>

definition native_env :: "'l c_api \<Rightarrow> (nat \<Rightarrow> string) \<Rightarrow> 'l native control_env" where
  "native_env C uuid = \<lparr>na_create_peer = native_create_peer C, na_connect_peer = native_connect_peer C,
     na_import_remote_memory = native_import_remote_memory C,
     na_destroy_peer = native_destroy_peer C,
     na_register_local_memory = native_register_local_memory C,
     na_submit_transfer = native_submit_transfer C,
     na_get_transfer_statuses = native_get_transfer_statuses C,
     na_free_batch = native_free_batch C, na_close = native_close C, na_closed = native_closed,
     uuid4_hex = uuid\<rparr>"

text \<open>
  \<open>Engine(path, config, timeout, listen=listen, advertise=advertise)\<close>. A failure is the exception
  and the state the C library is left in.
\<close>

definition Engine_init ::
  "'l c_api \<Rightarrow> (string \<Rightarrow> exn + (string \<Rightarrow> bool)) \<Rightarrow> string \<Rightarrow> any_config \<Rightarrow> pyfloat \<Rightarrow> string
     \<Rightarrow> string option \<Rightarrow> (string \<Rightarrow> exn + nat) \<Rightarrow> exn option \<Rightarrow> 'l \<Rightarrow> exn \<times> 'l + 'l native engine" where
  "Engine_init C dlopen path config timeout listen advertise add_port start l =
     (if \<not> isfinite timeout \<or> nonpositive timeout
      then Inl (ValueError (Msg ''timeout must be positive and finite''), l)
      else (case NativeEngine_init C dlopen path config l of
        Inl failure \<Rightarrow> Inl failure
      | Inr native \<Rightarrow> (case ControlPlane_init native listen advertise add_port start of
          Inr control \<Rightarrow> Inr \<lparr>en_control = control, en_timeout = timeout\<rparr>
        | Inl e \<Rightarrow> (case native_close C native of
            (Inl e', n) \<Rightarrow> Inl (e', ne_lib n)
          | (Inr _, n) \<Rightarrow> Inl (e, ne_lib n)))))"

definition engine_check_open :: "('n, 'z) control_env_scheme \<Rightarrow> ('n, unit) engine_call" where
  "engine_check_open E = py_bind (py_gets en_control) (\<lambda>c.
     py_raise_if (cp_closed c \<or> na_closed E (cp_native c)) (RuntimeError (Msg ''engine is closed'')))"

section \<open>Peers\<close>

definition engine_connect ::
  "('n, 'z) control_env_scheme \<Rightarrow> (string \<Rightarrow> offer \<Rightarrow> ('n, offer) control_call) \<Rightarrow>
     (string \<Rightarrow> update \<Rightarrow> ('n, snapshot) control_call) \<Rightarrow> string \<Rightarrow> ('n, int) engine_call" where
  "engine_connect E rpc_Connect rpc_Ready endpoint = on_control (connect E rpc_Connect rpc_Ready endpoint)"

definition engine_disconnect ::
  "('n, 'z) control_env_scheme \<Rightarrow> (string \<Rightarrow> connection \<Rightarrow> ('n, unit) control_call) \<Rightarrow> int
     \<Rightarrow> ('n, unit) engine_call" where
  "engine_disconnect E rpc_Close peer = on_control (disconnect E rpc_Close peer)"

section \<open>Memory\<close>

text \<open>The argument is a \<open>Memory\<close> or some object; \<open>Buffer ref view\<close> is what \<^verbatim>\<open>ffi.from_buffer\<close> makes of it.\<close>

datatype any_buffer = IsMemory memory | Buffer nat "exn + int \<times> int"

definition as_memory :: "any_buffer \<Rightarrow> exn + memory" where
  "as_memory buffer = (case buffer of IsMemory m \<Rightarrow> Inr m | Buffer ref view \<Rightarrow> from_buffer ref view)"

text \<open>\<open>gap\<close> is what handlers do between the registration and its publication.\<close>

definition engine_register_local_memory ::
  "('n, 'z) control_env_scheme \<Rightarrow> ('n, unit) control_call \<Rightarrow> (string \<Rightarrow> update \<Rightarrow> ('n, unit) control_call) \<Rightarrow> any_buffer \<Rightarrow> int
     \<Rightarrow> ('n, local_memory) engine_call" where
  "engine_register_local_memory E gap rpc_Changed buffer access =
     py_bind (py_lift (as_memory buffer)) (\<lambda>memory.
     py_then (engine_check_open E)
    (py_bind (on_control (on_native (na_register_local_memory E (Memory memory) access))) (\<lambda>registration.
     py_then (on_control gap)
    (py_then (on_control (publish rpc_Changed (mm_metadata registration)))
       (py_return \<lparr>lm_id = mm_memory registration, lm_address = mem_address memory,
          lm_length = mem_size memory, lm_storage = memory\<rparr>)))))"

definition engine_allocate ::
  "('n, 'z) control_env_scheme \<Rightarrow> ('n, unit) control_call \<Rightarrow> (string \<Rightarrow> update \<Rightarrow> ('n, unit) control_call) \<Rightarrow> nat \<Rightarrow> (int \<Rightarrow> int)
     \<Rightarrow> int \<Rightarrow> int \<Rightarrow> ('n, local_memory) engine_call" where
  "engine_allocate E gap rpc_Changed ref ffi_new_char sz access =
     py_bind (py_lift (Memory_new ref ffi_new_char sz)) (\<lambda>memory.
       engine_register_local_memory E gap rpc_Changed (IsMemory memory) access)"

section \<open>Transfers\<close>

definition engine_submit_transfer ::
  "('n, 'z) control_env_scheme \<Rightarrow> any_request list \<Rightarrow> ('n, int) engine_call" where
  "engine_submit_transfer E requests =
     py_then (engine_check_open E) (on_control (on_native (na_submit_transfer E requests)))"

definition engine_get_transfer_statuses ::
  "('n, 'z) control_env_scheme \<Rightarrow> int \<Rightarrow> ('n, transfer_status list) engine_call" where
  "engine_get_transfer_statuses E batch =
     py_then (engine_check_open E) (on_control (on_native (na_get_transfer_statuses E batch)))"

definition engine_free_batch :: "('n, 'z) control_env_scheme \<Rightarrow> int \<Rightarrow> ('n, unit) engine_call" where
  "engine_free_batch E batch =
     py_then (engine_check_open E) (on_control (on_native (na_free_batch E batch)))"

text \<open>
  What a waiting thread sees of the rest: \<open>now W k\<close> is the \<open>k\<close>-th time it reads \<^verbatim>\<open>time.monotonic()\<close>,
  \<open>others W k\<close> what the other threads do to the engine after that reading: during the sleep, and
  around the loop between the submission and the first poll and between the last poll and the release.
\<close>

record 'n world =
  now :: "nat \<Rightarrow> rat"
  others :: "nat \<Rightarrow> 'n engine \<Rightarrow> 'n engine"

text \<open>The loop of \<open>wait\<close>: \<open>None\<close> when it polls for ever.\<close>

partial_function (option) wait_loop ::
  "('n, 'z) control_env_scheme \<Rightarrow> 'n world \<Rightarrow> int \<Rightarrow> pyfloat \<Rightarrow> nat \<Rightarrow> 'n engine
     \<Rightarrow> ((exn + transfer_status list) \<times> 'n engine \<times> nat) option" where
  "wait_loop E W batch deadline k s =
     (case engine_get_transfer_statuses E batch s of
        (Inl e, t) \<Rightarrow> Some (Inl e, t, k)
      | (Inr statuses, t) \<Rightarrow>
          if \<forall>status \<in> set statuses. \<not> is_Pending status then Some (Inr statuses, t, k)
          else if reached (now W k) deadline
          then Some (Inl (TimeoutError (Fmt ''batch {} is still pending (not cancelled)'' [FInt batch])),
                 t, Suc k)
          else wait_loop E W batch deadline (Suc k) (others W k t))"

text \<open>\<open>wait(batch, timeout=timeout)\<close>; the first reading sets the deadline.\<close>

definition engine_wait ::
  "('n, 'z) control_env_scheme \<Rightarrow> 'n world \<Rightarrow> int \<Rightarrow> pyfloat option \<Rightarrow> 'n engine
     \<Rightarrow> ((exn + transfer_status list) \<times> 'n engine \<times> nat) option" where
  "engine_wait E W batch timeout s =
     wait_loop E W batch
       (add_time (now W 0) (case timeout of None \<Rightarrow> en_timeout s | Some t \<Rightarrow> t)) 1 s"

text \<open>\<open>for index, status in enumerate(statuses)\<close>: the first failed task raises.\<close>

fun raise_failed :: "int \<Rightarrow> int \<Rightarrow> transfer_status list \<Rightarrow> exn option" where
  "raise_failed batch index [] = None"
| "raise_failed batch index (status # rest) = (case status of
     Failed error \<Rightarrow> Some (EngineError (Fmt ''batch {} task {}'' [FInt batch, FInt index]) error)
   | _ \<Rightarrow> raise_failed batch (index + 1) rest)"

definition engine_transfer ::
  "('n, 'z) control_env_scheme \<Rightarrow> 'n world \<Rightarrow> any_request list \<Rightarrow> pyfloat option \<Rightarrow> 'n engine
     \<Rightarrow> ((exn + transfer_status list) \<times> 'n engine) option" where
  "engine_transfer E W requests timeout s =
     (case engine_submit_transfer E requests s of
        (Inl e, t) \<Rightarrow> Some (Inl e, t)
      | (Inr batch, t) \<Rightarrow> (case engine_wait E W batch timeout (others W 0 t) of
          None \<Rightarrow> None
        | Some (Inl e, u, _) \<Rightarrow> Some (Inl e, u)
        | Some (Inr statuses, u, k) \<Rightarrow> (case engine_free_batch E batch (others W k u) of
            (Inl e, v) \<Rightarrow> Some (Inl e, v)
          | (Inr _, v) \<Rightarrow> (case raise_failed batch 0 statuses of
              Some e \<Rightarrow> Some (Inl e, v)
            | None \<Rightarrow> Some (Inr statuses, v)))))"

text \<open>\<open>close()\<close>\<close>

definition engine_close ::
  "('n, 'z) control_env_scheme \<Rightarrow> ('n, unit) control_call \<Rightarrow> ('n, unit) engine_call" where
  "engine_close E drain =
     py_then (on_control (control_close drain)) (on_control (on_native (na_close E)))"

section \<open>Runs\<close>

text \<open>
  One operation of an application thread or one handler. The calls of the handlers that run during
  an operation's remote calls are part of it, as in \<open>control_op\<close>.
\<close>

datatype engine_op =
    EnServe rpc_call
  | EnConnect string "rpc_call list" "exn + offer" "rpc_call list" "exn + snapshot"
  | EnDisconnect int "rpc_call list" "exn + unit"
  | EnRegister any_buffer int "rpc_call list" "string \<Rightarrow> rpc_call list \<times> (exn + unit)"
  | EnAllocate nat "int \<Rightarrow> int" int int "rpc_call list" "string \<Rightarrow> rpc_call list \<times> (exn + unit)"
  | EnSubmit "any_request list"
  | EnStatuses int
  | EnFree int
  | EnClose "rpc_call list"

abbreviation answering ::
  "('n, 'z) control_env_scheme \<Rightarrow> (string \<Rightarrow> rpc_call list \<times> (exn + unit)) \<Rightarrow> string \<Rightarrow> update
     \<Rightarrow> ('n, unit) control_call" where
  "answering E remote \<equiv> \<lambda>endpoint _. during E (fst (remote endpoint)) (snd (remote endpoint))"

fun engine_exec :: "('n, 'z) control_env_scheme \<Rightarrow> engine_op \<Rightarrow> 'n engine \<Rightarrow> 'n engine" where
  "engine_exec E (EnServe call) s = s\<lparr>en_control := serve_one E call (en_control s)\<rparr>"
| "engine_exec E (EnConnect endpoint calls1 reply1 calls2 reply2) s =
     snd (engine_connect E (\<lambda>_ _. during E calls1 reply1) (\<lambda>_ _. during E calls2 reply2) endpoint s)"
| "engine_exec E (EnDisconnect peer calls reply) s =
     snd (engine_disconnect E (\<lambda>_ _. during E calls reply) peer s)"
| "engine_exec E (EnRegister buffer access gap remote) s =
     snd (engine_register_local_memory E (during E gap (Inr ())) (answering E remote) buffer access s)"
| "engine_exec E (EnAllocate ref ffi_new_char sz access gap remote) s =
     snd (engine_allocate E (during E gap (Inr ())) (answering E remote) ref ffi_new_char sz access s)"
| "engine_exec E (EnSubmit requests) s = snd (engine_submit_transfer E requests s)"
| "engine_exec E (EnStatuses batch) s = snd (engine_get_transfer_statuses E batch s)"
| "engine_exec E (EnFree batch) s = snd (engine_free_batch E batch s)"
| "engine_exec E (EnClose calls) s = snd (engine_close E (during E calls (Inr ())) s)"

definition engine_run :: "('n, 'z) control_env_scheme \<Rightarrow> engine_op list \<Rightarrow> 'n engine \<Rightarrow> 'n engine" where
  "engine_run E ops s = fold (engine_exec E) ops s"

end
