(* ===== verification/Fake_Native.thy ===== *)
theory Fake_Native
  imports Native_Interface
begin

text \<open>
  \<^verbatim>\<open>FakeNativeEngine\<close> of \<^verbatim>\<open>tests/internal/conftest.py\<close>, the in-memory engine the tests put
  behind \<^verbatim>\<open>Engine\<close> and \<^verbatim>\<open>ControlPlane\<close>. It satisfies the contract \<open>engine_store\<close>, so everything proved
  in that contract holds of the system the tests run.
\<close>

record fake =
  fk_label :: string
  fk_closed :: bool
  fk_next :: nat
  fk_memories :: "(int, memory) dict"
  fk_peers :: "(int, bytes) dict"
  fk_connected :: "(int, bytes) dict"
  fk_imports :: "(int \<times> bytes, int) dict"
  fk_batches :: "(int, transfer_status list) dict"
  fk_requests :: "any_request list"

text \<open>\<open>FakeNativeEngine(label)\<close>; \<open>ids = count(1)\<close>.\<close>

definition fake_init :: "string \<Rightarrow> fake" where
  "fake_init label = \<lparr>fk_label = label, fk_closed = False, fk_next = 1, fk_memories = [],
     fk_peers = [], fk_connected = [], fk_imports = [], fk_batches = [], fk_requests = []\<rparr>"

text \<open>\<open>str.encode()\<close> of an ASCII string.\<close>

definition encode_str :: "string \<Rightarrow> bytes" where
  "encode_str s = map of_char s"

text \<open>\<open>next(self.ids)\<close>\<close>

definition fake_id :: "(fake, exn, nat) py" where
  "fake_id s = (Inr (fk_next s), s\<lparr>fk_next := Suc (fk_next s)\<rparr>)"

definition fake_register_local_memory :: "any_memory \<Rightarrow> int \<Rightarrow> (fake, exn, memory_metadata) py" where
  "fake_register_local_memory m access =
     py_bind fake_id (\<lambda>identity.
     py_bind (py_gets (\<lambda>s. encode_str (fk_label s @ '':mr:'' @ decimal identity) @ [0, 255])) (\<lambda>metadata.
     py_then (py_modify (\<lambda>s. case m of
         Memory memory \<Rightarrow> s\<lparr>fk_memories := AList.update (int identity) memory (fk_memories s)\<rparr>
       | NotAMemory \<Rightarrow> s))
       (py_return \<lparr>mm_memory = int identity, mm_metadata = metadata\<rparr>)))"

definition fake_create_peer :: "(fake, exn, peer_metadata) py" where
  "fake_create_peer =
     py_bind fake_id (\<lambda>identity.
     py_bind (py_gets (\<lambda>s. encode_str (fk_label s @ '':qp:'' @ decimal identity))) (\<lambda>metadata.
     py_then (py_modify (\<lambda>s. s\<lparr>fk_peers := AList.update (int identity) metadata (fk_peers s)\<rparr>))
       (py_return \<lparr>pm_peer = int identity, pm_metadata = metadata\<rparr>)))"

text \<open>\<open>connected[peer] = metadata\<close> stores any object; the callers pass bytes.\<close>

definition fake_connect_peer :: "int \<Rightarrow> any_bytes \<Rightarrow> (fake, exn, unit) py" where
  "fake_connect_peer peer metadata =
     py_bind (py_gets id) (\<lambda>s.
     py_then (py_raise_if (\<not> (map_of (fk_peers s) peer \<noteq> None \<and> map_of (fk_connected s) peer = None))
                AssertionError)
       (case metadata of
          Bytes b \<Rightarrow> py_modify (\<lambda>s. s\<lparr>fk_connected := AList.update peer b (fk_connected s)\<rparr>)
        | NotBytes \<Rightarrow> py_raise (TypeError (Msg ''bytes''))))"

definition fake_import_remote_memory :: "int \<Rightarrow> any_bytes \<Rightarrow> (fake, exn, int) py" where
  "fake_import_remote_memory peer metadata =
     py_bind (py_gets id) (\<lambda>s.
     py_then (py_raise_if (map_of (fk_connected s) peer = None) AssertionError)
       (case metadata of
          NotBytes \<Rightarrow> py_raise (TypeError (Msg ''bytes''))
        | Bytes b \<Rightarrow> (case map_of (fk_imports s) (peer, b) of
            Some k \<Rightarrow> py_return k
          | None \<Rightarrow>
              py_bind fake_id (\<lambda>identity.
              py_then (py_modify (\<lambda>s. s\<lparr>fk_imports :=
                         AList.update (peer, b) (int identity) (fk_imports s)\<rparr>))
                (py_return (int identity))))))"

definition fake_destroy_peer :: "int \<Rightarrow> (fake, exn, unit) py" where
  "fake_destroy_peer peer =
     py_then (py_del fk_peers (\<lambda>d s. s\<lparr>fk_peers := d\<rparr>) peer)
    (py_then (py_modify (\<lambda>s. s\<lparr>fk_connected := AList.delete peer (fk_connected s)\<rparr>))
       (py_modify (\<lambda>s. s\<lparr>fk_imports := filter (\<lambda>(key, _). fst key \<noteq> peer) (fk_imports s)\<rparr>)))"

definition fake_submit_transfer :: "any_request list \<Rightarrow> (fake, exn, int) py" where
  "fake_submit_transfer requests =
     py_then (py_modify (\<lambda>s. s\<lparr>fk_requests := fk_requests s @ requests\<rparr>))
    (py_bind fake_id (\<lambda>batch.
     py_then (py_modify (\<lambda>s. s\<lparr>fk_batches := AList.update (int batch)
                (map (\<lambda>_. Completed None) requests) (fk_batches s)\<rparr>))
       (py_return (int batch))))"

definition fake_get_transfer_statuses :: "int \<Rightarrow> (fake, exn, transfer_status list) py" where
  "fake_get_transfer_statuses batch =
     py_bind (py_gets (\<lambda>s. map_of (fk_batches s) batch)) (\<lambda>r. case r of
       None \<Rightarrow> py_raise KeyError | Some statuses \<Rightarrow> py_return statuses)"

definition fake_free_batch :: "int \<Rightarrow> (fake, exn, unit) py" where
  "fake_free_batch batch =
     py_bind (fake_get_transfer_statuses batch) (\<lambda>statuses.
     py_then (py_raise_if (\<exists>st \<in> set statuses. is_Pending st) AssertionError)
       (py_del fk_batches (\<lambda>d s. s\<lparr>fk_batches := d\<rparr>) batch))"

definition fake_close :: "(fake, exn, unit) py" where
  "fake_close = py_modify (\<lambda>s. s\<lparr>fk_closed := True, fk_memories := [], fk_peers := [],
     fk_connected := [], fk_imports := [], fk_batches := []\<rparr>)"

definition fake_api :: "fake native_api" where
  "fake_api = \<lparr>na_create_peer = fake_create_peer, na_connect_peer = fake_connect_peer,
     na_import_remote_memory = fake_import_remote_memory, na_destroy_peer = fake_destroy_peer,
     na_register_local_memory = fake_register_local_memory,
     na_submit_transfer = fake_submit_transfer,
     na_get_transfer_statuses = fake_get_transfer_statuses,
     na_free_batch = fake_free_batch, na_close = fake_close, na_closed = fk_closed\<rparr>"

section \<open>The contract\<close>

text \<open>Identities come from the counter, only live peers are connected, only connected ones import.\<close>

definition fake_ok :: "fake \<Rightarrow> bool" where
  "fake_ok s \<longleftrightarrow>
     (\<forall>h md. map_of (fk_peers s) h = Some md \<longrightarrow> h < int (fk_next s)) \<and>
     (\<forall>h md. map_of (fk_connected s) h = Some md \<longrightarrow> map_of (fk_peers s) h \<noteq> None) \<and>
     (\<forall>h b k. map_of (fk_imports s) (h, b) = Some k \<longrightarrow> map_of (fk_connected s) h \<noteq> None)"

definition fake_live :: "fake \<Rightarrow> int \<Rightarrow> bytes option" where
  "fake_live s = map_of (fk_peers s)"

definition fake_conn :: "fake \<Rightarrow> int \<Rightarrow> bytes option" where
  "fake_conn s = map_of (fk_connected s)"

definition fake_imps :: "fake \<Rightarrow> int \<Rightarrow> bytes set" where
  "fake_imps s h = {b. map_of (fk_imports s) (h, b) \<noteq> None}"

lemmas fake_views = fake_live_def fake_conn_def fake_imps_def update_conv' delete_conv'

lemmas fake_defs = fake_id_def fake_register_local_memory_def fake_create_peer_def
  fake_connect_peer_def fake_import_remote_memory_def fake_destroy_peer_def
  fake_submit_transfer_def fake_get_transfer_statuses_def fake_free_batch_def

lemmas fake_eqs = py_eqs py_del_Inr py_del_Inl

lemma dict_get_filter_key:
  "map_of (filter (\<lambda>(k, _). P k) d) k = (if P k then map_of d k else None)"
  by (induction d) auto

lemma fake_id_eq: "fake_id s = (r, t) \<longleftrightarrow> r = Inr (fk_next s) \<and> t = s\<lparr>fk_next := Suc (fk_next s)\<rparr>"
  by (auto simp: fake_id_def)

lemma fake_dead: "fake_ok n \<Longrightarrow> fake_live n h = None \<Longrightarrow> fake_conn n h = None \<and> fake_imps n h = {}"
  unfolding fake_ok_def fake_live_def fake_conn_def fake_imps_def
  by (metis (mono_tags, lifting) Collect_empty_eq not_None_eq)

lemma fake_create:
  assumes "fake_ok n" and "fake_create_peer n = (r, n')"
  shows "\<exists>pm. r = Inr pm \<and> fake_ok n' \<and> fake_live n (pm_peer pm) = None \<and>
    fake_live n' = (fake_live n)(pm_peer pm \<mapsto> pm_metadata pm) \<and>
    fake_conn n' = fake_conn n \<and> fake_imps n' = fake_imps n"
proof -
  from assms(2) obtain md where r: "r = Inr \<lparr>pm_peer = int (fk_next n), pm_metadata = md\<rparr>"
    and n': "n' = n\<lparr>fk_next := Suc (fk_next n),
      fk_peers := AList.update (int (fk_next n)) md (fk_peers n)\<rparr>"
    by (cases r) (auto simp: fake_create_peer_def py_eqs fake_id_eq)
  have "map_of (fk_peers n) (int (fk_next n)) = None"
    using assms(1) by (cases "map_of (fk_peers n) (int (fk_next n))") (auto simp: fake_ok_def)
  moreover have "fake_ok n'"
    using assms(1) unfolding n' by (force simp: fake_ok_def dict_get_update)
  ultimately show ?thesis
    unfolding r n' by (simp add: fake_views) (simp add: fake_imps_def fun_eq_iff)
qed

lemma fake_connect_Inr:
  assumes "fake_ok n" and "fake_connect_peer h b n = (Inr u, n')"
  shows "fake_ok n' \<and> fake_live n h \<noteq> None \<and> fake_conn n h = None \<and>
    (\<exists>md. b = Bytes md \<and> fake_conn n' = (fake_conn n)(h \<mapsto> md)) \<and>
    fake_live n' = fake_live n \<and> fake_imps n' = fake_imps n"
proof -
  from assms(2) obtain md where b: "b = Bytes md" and h: "map_of (fk_peers n) h \<noteq> None"
    "map_of (fk_connected n) h = None"
    and n': "n' = n\<lparr>fk_connected := AList.update h md (fk_connected n)\<rparr>"
    by (cases b) (auto simp: fake_connect_peer_def py_eqs)
  have "fake_ok n'" using assms(1) h unfolding n' by (auto simp: fake_ok_def dict_get_update)
  with h b show ?thesis unfolding n' by (simp add: fake_views) (simp add: fake_imps_def fun_eq_iff)
qed

lemma fake_connect_Inl: "fake_connect_peer h b n = (Inl e, n') \<Longrightarrow> n' = n"
  by (cases b) (auto simp: fake_connect_peer_def py_eqs)

lemma fake_import_Inr:
  assumes "fake_ok n" and "fake_import_remote_memory h b n = (Inr r, n')"
  shows "fake_ok n' \<and> fake_conn n h \<noteq> None \<and>
    (\<exists>md. b = Bytes md \<and> fake_imps n' = (fake_imps n)(h := insert md (fake_imps n h))) \<and>
    fake_live n' = fake_live n \<and> fake_conn n' = fake_conn n"
proof -
  from assms(2) obtain md where b: "b = Bytes md" and h: "map_of (fk_connected n) h \<noteq> None"
    by (cases b) (auto simp: fake_import_remote_memory_def py_eqs)
  show ?thesis
  proof (cases "map_of (fk_imports n) (h, md)")
    case None
    with assms(2) b have n': "n' = n\<lparr>fk_next := Suc (fk_next n),
        fk_imports := AList.update (h, md) (int (fk_next n)) (fk_imports n)\<rparr>"
      by (auto simp: fake_import_remote_memory_def py_eqs fake_id_eq)
    have "fake_ok n'" using assms(1) h unfolding n' by (force simp: fake_ok_def dict_get_update)
    moreover have "fake_imps n' = (fake_imps n)(h := insert md (fake_imps n h))"
      unfolding n' by (auto simp: fake_imps_def fun_eq_iff dict_get_update)
    ultimately show ?thesis using h b unfolding n' by (simp add: fake_live_def fake_conn_def)
  next
    case (Some k)
    with assms(2) b have n': "n' = n" by (auto simp: fake_import_remote_memory_def py_eqs)
    have "fake_imps n = (fake_imps n)(h := insert md (fake_imps n h))"
      using Some by (auto simp: fake_imps_def fun_eq_iff)
    with assms(1) h b n' show ?thesis by (simp add: fake_conn_def)
  qed
qed

lemma fake_import_Inl: "fake_import_remote_memory h b n = (Inl e, n') \<Longrightarrow> n' = n"
  by (cases b) (auto simp: fake_import_remote_memory_def py_eqs fake_id_eq split: option.splits)

lemma fake_destroy_Inr:
  assumes "fake_ok n" and "fake_destroy_peer h n = (Inr u, n')"
  shows "fake_ok n' \<and> fake_live n h \<noteq> None \<and> fake_live n' = (fake_live n)(h := None) \<and>
    fake_conn n' = (fake_conn n)(h := None) \<and> fake_imps n' = (fake_imps n)(h := {})"
proof -
  from assms(2) have n': "n' = n\<lparr>fk_peers := AList.delete h (fk_peers n),
      fk_connected := AList.delete h (fk_connected n),
      fk_imports := filter (\<lambda>(key, _). fst key \<noteq> h) (fk_imports n)\<rparr>"
    and live: "map_of (fk_peers n) h \<noteq> None"
    by (auto simp: fake_destroy_peer_def fake_eqs)
  have "fake_ok n'"
    using assms(1) unfolding n'
    by (auto simp: fake_ok_def dict_get_delete dict_get_filter_key split: if_splits)
  moreover have "fake_imps n' = (fake_imps n)(h := {})"
    unfolding n' by (auto simp: fake_imps_def fun_eq_iff dict_get_filter_key)
  ultimately show ?thesis
    using live unfolding n' by (simp add: fake_live_def fake_conn_def delete_conv')
qed

lemma fake_destroy_Inl: "fake_destroy_peer h n = (Inl e, n') \<Longrightarrow> n' = n"
  by (auto simp: fake_destroy_peer_def fake_eqs)

lemma fake_views_cong:
  "fk_peers n' = fk_peers n \<Longrightarrow> fk_connected n' = fk_connected n \<Longrightarrow> fk_imports n' = fk_imports n \<Longrightarrow>
     fk_next n \<le> fk_next n' \<Longrightarrow> fake_ok n \<Longrightarrow>
     fake_ok n' \<and> fake_live n' = fake_live n \<and> fake_conn n' = fake_conn n \<and> fake_imps n' = fake_imps n"
  unfolding fake_ok_def fake_live_def fake_conn_def fake_imps_def
  by (simp add: fun_eq_iff) (meson of_nat_mono order_less_le_trans)

lemma fake_other:
  "fake_register_local_memory m a n = (r1, n1) \<Longrightarrow> fk_peers n1 = fk_peers n \<and>
     fk_connected n1 = fk_connected n \<and> fk_imports n1 = fk_imports n \<and> fk_next n \<le> fk_next n1"
  "fake_submit_transfer rs n = (r2, n2) \<Longrightarrow> fk_peers n2 = fk_peers n \<and>
     fk_connected n2 = fk_connected n \<and> fk_imports n2 = fk_imports n \<and> fk_next n \<le> fk_next n2"
  "fake_get_transfer_statuses b n = (r3, n3) \<Longrightarrow> fk_peers n3 = fk_peers n \<and>
     fk_connected n3 = fk_connected n \<and> fk_imports n3 = fk_imports n \<and> fk_next n \<le> fk_next n3"
  "fake_free_batch b n = (r4, n4) \<Longrightarrow> fk_peers n4 = fk_peers n \<and>
     fk_connected n4 = fk_connected n \<and> fk_imports n4 = fk_imports n \<and> fk_next n \<le> fk_next n4"
  subgoal
    by (cases r1; cases m) (auto simp: fake_register_local_memory_def py_eqs fake_id_eq)
  subgoal by (cases r2) (auto simp: fake_submit_transfer_def py_eqs fake_id_eq)
  subgoal by (cases r3) (auto simp: fake_get_transfer_statuses_def py_eqs split: option.splits)
  subgoal
    by (cases r4)
      (auto simp: fake_free_batch_def fake_get_transfer_statuses_def fake_eqs split: option.splits)
  done

interpretation fake_native: engine_store fake_api fake_ok fake_live fake_conn fake_imps
proof (unfold_locales, goal_cases)
  case (1 n h) then show ?case by (rule fake_dead)
next
  case (2 n pm n') then show ?case using fake_create [of n "Inr pm" n'] by (simp add: fake_api_def)
next
  case (3 n e n') then show ?case using fake_create [of n "Inl e" n'] by (simp add: fake_api_def)
next
  case (4 n h b u n') then show ?case by (simp add: fake_api_def fake_connect_Inr)
next
  case (5 n h b e n') then show ?case by (auto simp: fake_api_def dest: fake_connect_Inl)
next
  case (6 n h b r n') then show ?case by (simp add: fake_api_def fake_import_Inr)
next
  case (7 n h b e n') then show ?case by (auto simp: fake_api_def dest: fake_import_Inl)
next
  case (8 n h u n') then show ?case by (simp add: fake_api_def fake_destroy_Inr)
next
  case (9 n h e n') then show ?case by (auto simp: fake_api_def dest: fake_destroy_Inl)
next
  case (10 n m a r1 n')
  then show ?case using fake_other(1) [of m a n r1 n'] fake_views_cong [of n' n]
    by (simp add: fake_api_def)
next
  case (11 n rs r2 n')
  then show ?case using fake_other(2) [of rs n r2 n'] fake_views_cong [of n' n]
    by (simp add: fake_api_def)
next
  case (12 n b r3 n')
  then show ?case using fake_other(3) [of b n r3 n'] fake_views_cong [of n' n]
    by (simp add: fake_api_def)
next
  case (13 n b r4 n')
  then show ?case using fake_other(4) [of b n r4 n'] fake_views_cong [of n' n]
    by (simp add: fake_api_def)
next
  case (14 n r5 n')
  then show ?case by (auto simp: fake_api_def fake_close_def fake_ok_def)
qed

lemma fake_ok_init: "fake_ok (fake_init label)"
  by (simp add: fake_ok_def fake_init_def)

end
