(* ===== verification/Control_Invariants.thy ===== *)
theory Control_Invariants
  imports Control Fake_Native
begin

text \<open>
  What every critical section of \<^verbatim>\<open>ControlPlane\<close> promises to the others, for any native engine that
  keeps the contract \<open>peer_store\<close>: it keeps the invariant \<open>control_wf\<close>, and it moves peers, memory
  metadata and the closed flag only forward (\<open>evolves\<close>). Because the second is a preorder, the same
  holds of \<open>connect\<close>, \<open>publish\<close> and \<open>disconnect\<close> with any number of handlers run between their
  critical sections.
\<close>

section \<open>The invariant and the order\<close>

text \<open>
  Every peer of the dictionary is stored under its own endpoint, never under the empty or the local
  one, lives in the native engine with the metadata it was created with, and is connected there just
  when its state says so. Two peers never share a native handle. A peer has a connection id of its
  own, knows a remote one just when it is connected, and no snapshot was imported before.
\<close>

definition control_wf ::
  "('n \<Rightarrow> bool) \<Rightarrow> ('n \<Rightarrow> int \<Rightarrow> bytes option) \<Rightarrow> ('n \<Rightarrow> int \<Rightarrow> bytes option) \<Rightarrow> 'n control \<Rightarrow> bool"
where
  "control_wf ok live conn s \<longleftrightarrow>
     ok (cp_native s) \<and> dict_ok (cp_peers s) \<and>
     (\<forall>e ref. map_of (cp_peers s) e = Some ref \<longrightarrow>
        ref < cp_next_ref s \<and> e \<noteq> [] \<and> e \<noteq> cp_endpoint s \<and> p_endpoint (deref ref s) = e \<and>
        live (cp_native s) (p_handle (deref ref s)) = Some (p_metadata (deref ref s)) \<and>
        (conn (cp_native s) (p_handle (deref ref s)) = None \<longleftrightarrow> p_state (deref ref s) = CREATED)) \<and>
     (\<forall>e1 e2 r1 r2. map_of (cp_peers s) e1 = Some r1 \<longrightarrow> map_of (cp_peers s) e2 = Some r2 \<longrightarrow>
        p_handle (deref r1 s) = p_handle (deref r2 s) \<longrightarrow> e1 = e2) \<and>
     (\<forall>ref < cp_next_ref s.
        p_connection_id (deref ref s) \<noteq> [] \<and>
        (p_remote_connection_id (deref ref s) = [] \<longleftrightarrow> p_state (deref ref s) = CREATED) \<and>
        (p_state (deref ref s) = CREATED \<longrightarrow> p_remote_version (deref ref s) = - 1))"

text \<open>A peer keeps its identity; its state and version only grow; a remote id is never replaced.\<close>

definition peer_le :: "peer \<Rightarrow> peer \<Rightarrow> bool" where
  "peer_le p q \<longleftrightarrow>
     p_handle q = p_handle p \<and> p_endpoint q = p_endpoint p \<and> p_metadata q = p_metadata p \<and>
     p_connection_id q = p_connection_id p \<and> p_state p \<le> p_state q \<and>
     p_remote_version p \<le> p_remote_version q \<and>
     (p_remote_connection_id p \<noteq> [] \<longrightarrow> p_remote_connection_id q = p_remote_connection_id p)"

text \<open>
  The plane keeps its endpoint, never reopens, and until it closes only appends memory metadata; a
  peer that left the dictionary never comes back.
\<close>

definition evolves :: "'n control \<Rightarrow> 'n control \<Rightarrow> bool" where
  "evolves s t \<longleftrightarrow>
     cp_endpoint t = cp_endpoint s \<and> cp_next_ref s \<le> cp_next_ref t \<and> cp_uuids s \<le> cp_uuids t \<and>
     (cp_closed s \<longrightarrow> cp_closed t) \<and>
     (cp_closed t \<or> (\<exists>new. cp_memory_metadata t = cp_memory_metadata s @ new)) \<and>
     (\<forall>ref < cp_next_ref s. peer_le (deref ref s) (deref ref t)) \<and>
     (\<forall>e ref. map_of (cp_peers t) e = Some ref \<longrightarrow> ref < cp_next_ref s \<longrightarrow>
        map_of (cp_peers s) e = Some ref)"

lemma peer_le_refl [simp]: "peer_le p p"
  by (simp add: peer_le_def)

lemma peer_le_trans: "peer_le p q \<Longrightarrow> peer_le q r \<Longrightarrow> peer_le p r"
  unfolding peer_le_def by fastforce

lemma evolves_refl [simp]: "evolves s s"
  by (simp add: evolves_def)

lemma evolves_trans:
  assumes "evolves s t" and "evolves t u"
  shows "evolves s u"
proof -
  have "cp_closed u \<or> (\<exists>new. cp_memory_metadata u = cp_memory_metadata s @ new)"
    using assms unfolding evolves_def by fastforce
  moreover have "\<forall>ref < cp_next_ref s. peer_le (deref ref s) (deref ref u)"
    using assms unfolding evolves_def by (meson order_less_le_trans peer_le_trans)
  moreover have "\<forall>e ref. map_of (cp_peers u) e = Some ref \<longrightarrow> ref < cp_next_ref s \<longrightarrow>
      map_of (cp_peers s) e = Some ref"
    using assms unfolding evolves_def by (meson order_less_le_trans)
  ultimately show ?thesis using assms unfolding evolves_def by simp
qed

lemma reflp_evolves: "reflp evolves"
  by (simp add: reflp_def)

lemma transp_evolves: "transp evolves"
  by (meson evolves_trans transpI)

lemma peer_state_le [simp]:
  "CREATED \<le> x" "x \<le> READY" "CONNECTED \<le> x \<longleftrightarrow> x \<noteq> CREATED" "READY \<le> x \<longleftrightarrow> x = READY"
  by (cases x; simp add: less_eq_peer_state_def)+

section \<open>Basic steps\<close>

lemma deref_frame [simp]:
  "deref r (s\<lparr>cp_native := n\<rparr>) = deref r s"
  "deref r (s\<lparr>cp_peers := d\<rparr>) = deref r s"
  "deref r (s\<lparr>cp_channels := c\<rparr>) = deref r s"
  "deref r (s\<lparr>cp_uuids := k\<rparr>) = deref r s"
  "deref r (s\<lparr>cp_memory_metadata := mds\<rparr>) = deref r s"
  "deref r (s\<lparr>cp_closed := b\<rparr>) = deref r s"
  "deref r (s\<lparr>cp_next_ref := k\<rparr>) = deref r s"
  "deref r (s\<lparr>cp_heap := h\<rparr>) = h r"
  by (simp_all add: deref_def)

lemma heap_deref [simp]: "cp_heap s r = deref r s"
  by (simp add: deref_def)

lemma on_native_eq:
  "on_native m s = (r, t) \<longleftrightarrow> (\<exists>n. m (cp_native s) = (r, n) \<and> t = s\<lparr>cp_native := n\<rparr>)"
  by (simp add: on_native_def py_zoom_eq)

lemma update_peer_eq:
  "update_peer ref f s = (r, t) \<longleftrightarrow>
     r = Inr () \<and> t = s\<lparr>cp_heap := (cp_heap s)(ref := f (deref ref s))\<rparr>"
  by (simp add: update_peer_def)

lemmas control_eqs = py_eqs on_native_eq update_peer_eq py_del_Inr py_del_Inl

text \<open>The peer is in the dictionary, and not only still referenced.\<close>

definition registered :: "nat \<Rightarrow> 'n control \<Rightarrow> bool" where
  "registered ref s \<longleftrightarrow> map_of (cp_peers s) (p_endpoint (deref ref s)) = Some ref"

lemma require_peer_eq:
  "require_peer ref s = (Inr u, t) \<longleftrightarrow> registered ref s \<and> t = s"
  "require_peer ref s = (Inl e, t) \<longleftrightarrow> \<not> registered ref s \<and> t = s \<and>
     e = RuntimeError (Msg ''peer disconnected during handshake'')"
  by (auto simp: require_peer_def registered_def py_eqs)

lemma check_open_eq:
  "check_open s = (Inr u, t) \<longleftrightarrow> \<not> cp_closed s \<and> t = s"
  "check_open s = (Inl e, t) \<longleftrightarrow> cp_closed s \<and> t = s \<and> e = RuntimeError (Msg ''engine is closed'')"
  by (auto simp: check_open_def py_eqs)

lemma find_connection_eq:
  "find_connection c s = (Inr ref, t) \<longleftrightarrow>
     map_of (cp_peers s) (cn_endpoint c) = Some ref \<and> cn_id c \<noteq> [] \<and>
     p_remote_connection_id (deref ref s) = cn_id c \<and> t = s"
  "find_connection c s = (Inl e, t) \<Longrightarrow> t = s \<and> e = ValueError (Msg ''unknown connection'')"
  by (auto simp: find_connection_def py_eqs split: option.splits if_splits)

lemma stub_eq: "stub e s = (r, t) \<Longrightarrow> r = Inr (case map_of (cp_channels s) e of None \<Rightarrow> e | Some c \<Rightarrow> c) \<and>
    (\<exists>c. t = s\<lparr>cp_channels := c\<rparr>)"
proof (cases "map_of (cp_channels s) e")
  case (Some c)
  moreover assume "stub e s = (r, t)"
  moreover have "s = s\<lparr>cp_channels := cp_channels s\<rparr>" by simp
  ultimately show ?thesis unfolding stub_def py_bind_def py_gets_def by (simp; metis)
qed (auto simp: stub_def py_defs)

section \<open>One critical section at a time\<close>

lemma evolves_frame:
  "evolves s (s\<lparr>cp_native := n\<rparr>)" "evolves s (s\<lparr>cp_channels := c\<rparr>)" "evolves s (s\<lparr>cp_uuids := Suc (cp_uuids s)\<rparr>)"
  by (simp_all add: evolves_def)

lemma evolves_peer:
  "peer_le (deref ref s) p \<Longrightarrow> evolves s (s\<lparr>cp_native := n, cp_heap := (cp_heap s)(ref := p)\<rparr>)"
  by (simp add: evolves_def)

lemma evolves_delete: "evolves s (s\<lparr>cp_native := n, cp_peers := AList.delete e (cp_peers s)\<rparr>)"
  by (simp add: evolves_def delete_conv')

text \<open>Once the native side is connected it stays so for the life of the peer.\<close>

definition joined :: "nat \<Rightarrow> 'n control \<Rightarrow> bool" where
  "joined ref s \<longleftrightarrow> ref < cp_next_ref s \<and> p_state (deref ref s) \<noteq> CREATED"

lemma joined_stable: "joined ref s \<Longrightarrow> evolves s t \<Longrightarrow> joined ref t"
  unfolding joined_def evolves_def peer_le_def
  by (metis order_less_le_trans peer_state_le(3) order_trans)

text \<open>The object was created for the endpoint.\<close>

definition made_for :: "string \<Rightarrow> nat \<Rightarrow> 'n control \<Rightarrow> bool" where
  "made_for e ref s \<longleftrightarrow> ref < cp_next_ref s \<and> p_endpoint (deref ref s) = e"

lemma made_for_stable: "made_for e ref s \<Longrightarrow> evolves s t \<Longrightarrow> made_for e ref t"
  unfolding made_for_def evolves_def peer_le_def by (metis order_less_le_trans)

text \<open>\<^verbatim>\<open>uuid4().hex\<close> is a string of 32 digits, so it is never empty.\<close>

locale control_store = peer_store E ok live conn imps
  for E :: "('n, 'z) control_env_scheme" and ok live conn imps +
  assumes uuid_nonempty: "uuid4_hex E k \<noteq> []"
begin

abbreviation wf :: "'n control \<Rightarrow> bool" where
  "wf \<equiv> control_wf ok live conn"

text \<open>A critical section from a state with \<open>P\<close>, whose result satisfies \<open>Q\<close>.\<close>

abbreviation sec :: "('n control \<Rightarrow> bool) \<Rightarrow> ('n, 'a) control_call \<Rightarrow> ('a \<Rightarrow> 'n control \<Rightarrow> bool) \<Rightarrow> bool" where
  "sec \<equiv> guarded wf evolves"

lemmas sec_bind = guarded_bind [OF transp_evolves]
lemmas sec_then = guarded_then [OF transp_evolves]
lemmas sec_return = guarded_return [OF reflp_evolves]
lemmas sec_raise = guarded_raise [OF reflp_evolves]
lemmas sec_gets = guarded_gets [OF reflp_evolves]
lemmas sec_raise_if = guarded_raise_if [OF reflp_evolves]
lemmas sec_each = guarded_each [OF reflp_evolves transp_evolves]

lemma wf_ok: "wf s \<Longrightarrow> ok (cp_native s)"
  by (simp add: control_wf_def)

lemma wf_dict: "wf s \<Longrightarrow> dict_ok (cp_peers s)"
  by (simp add: control_wf_def)

lemma wf_peer:
  assumes "wf s" and "map_of (cp_peers s) e = Some ref"
  shows "ref < cp_next_ref s" "e \<noteq> []" "e \<noteq> cp_endpoint s" "p_endpoint (deref ref s) = e"
    "live (cp_native s) (p_handle (deref ref s)) = Some (p_metadata (deref ref s))"
    "conn (cp_native s) (p_handle (deref ref s)) = None \<longleftrightarrow> p_state (deref ref s) = CREATED"
  using assms by (simp_all add: control_wf_def)

lemma wf_handle:
  "wf s \<Longrightarrow> map_of (cp_peers s) e1 = Some r1 \<Longrightarrow> map_of (cp_peers s) e2 = Some r2 \<Longrightarrow>
     p_handle (deref r1 s) = p_handle (deref r2 s) \<Longrightarrow> e1 = e2 \<and> r1 = r2"
  unfolding control_wf_def by (metis option.inject)

lemma wf_state:
  "wf s \<Longrightarrow> ref < cp_next_ref s \<Longrightarrow> p_connection_id (deref ref s) \<noteq> []"
  "wf s \<Longrightarrow> ref < cp_next_ref s \<Longrightarrow> p_remote_connection_id (deref ref s) = [] \<longleftrightarrow> p_state (deref ref s) = CREATED"
  "wf s \<Longrightarrow> ref < cp_next_ref s \<Longrightarrow> p_state (deref ref s) = CREATED \<Longrightarrow> p_remote_version (deref ref s) = - 1"
  by (simp_all add: control_wf_def)

lemma wf_registered: "wf s \<Longrightarrow> map_of (cp_peers s) e = Some ref \<Longrightarrow> registered ref s"
  using wf_peer(4) [of s e ref] by (simp add: registered_def)

text \<open>The native state may change as long as peers and connections look the same.\<close>

lemma wf_native:
  "wf s \<Longrightarrow> ok n \<Longrightarrow> live n = live (cp_native s) \<Longrightarrow> conn n = conn (cp_native s) \<Longrightarrow>
     wf (s\<lparr>cp_native := n\<rparr>)"
  by (simp add: control_wf_def)

lemma wf_channels: "wf s \<Longrightarrow> wf (s\<lparr>cp_channels := c\<rparr>)" "wf s \<Longrightarrow> wf (s\<lparr>cp_uuids := k\<rparr>)"
  by (simp_all add: control_wf_def)

text \<open>A registered peer may be replaced by a later version of itself.\<close>

lemma wf_update_peer:
  assumes s: "wf s" and "ok n" and "live n = live (cp_native s)"
    and conn: "conn n = (conn (cp_native s))(p_handle (deref ref s) := c)"
    and ref: "registered ref s" and le: "peer_le (deref ref s) p"
    and state: "c = None \<longleftrightarrow> p_state p = CREATED" "p_remote_connection_id p = [] \<longleftrightarrow> p_state p = CREATED"
      "p_state p = CREATED \<Longrightarrow> p_remote_version p = - 1"
  shows "wf (s\<lparr>cp_native := n, cp_heap := (cp_heap s)(ref := p)\<rparr>)"
proof -
  let ?t = "s\<lparr>cp_native := n, cp_heap := (cp_heap s)(ref := p)\<rparr>"
  have deref: "deref r ?t = (if r = ref then p else deref r s)" for r
    by simp
  have same: "p_handle (deref r ?t) = p_handle (deref r s)" "p_endpoint (deref r ?t) = p_endpoint (deref r s)"
    "p_metadata (deref r ?t) = p_metadata (deref r s)" for r
    using le by (auto simp: deref peer_le_def)
  have at: "map_of (cp_peers s) (p_endpoint (deref ref s)) = Some ref"
    using ref by (simp add: registered_def)
  have connected: "conn n (p_handle (deref r s)) = None \<longleftrightarrow> p_state (deref r ?t) = CREATED"
    if "map_of (cp_peers s) e = Some r" for e r
  proof (cases "r = ref")
    case True
    then show ?thesis using conn state(1) deref by simp
  next
    case False
    then have "p_handle (deref r s) \<noteq> p_handle (deref ref s)"
      using wf_handle [OF s that at] by blast
    with False show ?thesis using conn wf_peer(6) [OF s that] deref by simp
  qed
  have "p_connection_id (deref r ?t) = p_connection_id (deref r s)" for r
    using le by (auto simp: peer_le_def)
  then show ?thesis
    unfolding control_wf_def same
    using s assms(2,3) connected state(2,3) deref unfolding control_wf_def by auto
qed

lemma create_peer_run:
  assumes "create_peer E e s = (r, t)"
  shows "(\<exists>x n. r = Inl x \<and> na_create_peer E (cp_native s) = (Inl x, n) \<and> t = s\<lparr>cp_native := n\<rparr>) \<or>
    (\<exists>pm n. r = Inr (cp_next_ref s) \<and> na_create_peer E (cp_native s) = (Inr pm, n) \<and>
       t = s\<lparr>cp_native := n, cp_peers := AList.update e (cp_next_ref s) (cp_peers s),
         cp_heap := (cp_heap s)(cp_next_ref s := \<lparr>p_handle = pm_peer pm, p_endpoint = e,
           p_metadata = pm_metadata pm, p_connection_id = uuid4_hex E (cp_uuids s),
           p_remote_connection_id = [], p_state = CREATED, p_remote_version = - 1\<rparr>),
         cp_next_ref := Suc (cp_next_ref s), cp_uuids := Suc (cp_uuids s)\<rparr>)"
  using assms
  by (cases r) (auto simp: create_peer_def control_eqs new_uuid_def new_peer_def)

lemma sec_create_peer:
  "sec (\<lambda>s. map_of (cp_peers s) e = None \<and> e \<noteq> [] \<and> e \<noteq> cp_endpoint s) (create_peer E e)
     (\<lambda>ref s. map_of (cp_peers s) e = Some ref)"
proof (rule guardedI)
  fix s r t
  assume s: "wf s" and pre: "map_of (cp_peers s) e = None \<and> e \<noteq> [] \<and> e \<noteq> cp_endpoint s"
    and run: "create_peer E e s = (r, t)"
  from create_peer_run [OF run]
  show "wf t \<and> evolves s t \<and> (\<forall>x. r = Inr x \<longrightarrow> map_of (cp_peers t) e = Some x)"
  proof (elim disjE exE conjE)
    fix x n
    assume "r = Inl x" "na_create_peer E (cp_native s) = (Inl x, n)" "t = s\<lparr>cp_native := n\<rparr>"
    then show ?thesis
      using create_Inl [OF wf_ok [OF s]] wf_native [OF s] by (simp add: evolves_frame)
  next
    fix pm n
    assume r: "r = Inr (cp_next_ref s)" and pm: "na_create_peer E (cp_native s) = (Inr pm, n)"
      and t: "t = s\<lparr>cp_native := n, cp_peers := AList.update e (cp_next_ref s) (cp_peers s),
         cp_heap := (cp_heap s)(cp_next_ref s := \<lparr>p_handle = pm_peer pm, p_endpoint = e,
           p_metadata = pm_metadata pm, p_connection_id = uuid4_hex E (cp_uuids s),
           p_remote_connection_id = [], p_state = CREATED, p_remote_version = - 1\<rparr>),
         cp_next_ref := Suc (cp_next_ref s), cp_uuids := Suc (cp_uuids s)\<rparr>"
    note native = create_Inr [OF wf_ok [OF s] pm]
    then have fresh: "conn (cp_native s) (pm_peer pm) = None" using dead [OF wf_ok [OF s]] by blast
    have old: "ref < cp_next_ref s \<and> p_handle (deref ref s) \<noteq> pm_peer pm"
      if "map_of (cp_peers s) e' = Some ref" for e' ref
      using wf_peer(1,5) [OF s that] native by auto
    have "wf t"
      using s pre native fresh old uuid_nonempty unfolding t control_wf_def
      by (auto simp: dict_get_update dict_ok_update less_Suc_eq)
    moreover have "evolves s t" unfolding t by (auto simp: evolves_def dict_get_update)
    ultimately show ?thesis unfolding r t by (simp add: dict_get_update)
  qed
qed

lemma sec_get_or_create_peer:
  "sec (\<lambda>s. e \<noteq> [] \<and> e \<noteq> cp_endpoint s) (get_or_create_peer E e)
     (\<lambda>ref s. map_of (cp_peers s) e = Some ref)"
proof (rule guardedI)
  fix s r t
  assume "wf s" and "e \<noteq> [] \<and> e \<noteq> cp_endpoint s" and "get_or_create_peer E e s = (r, t)"
  then show "wf t \<and> evolves s t \<and> (\<forall>x. r = Inr x \<longrightarrow> map_of (cp_peers t) e = Some x)"
    using guardedD [OF sec_create_peer, of s e r t]
    by (cases "map_of (cp_peers s) e") (auto simp: get_or_create_peer_def py_bind_def py_gets_def)
qed

lemma sec_check_endpoint: "sec (\<lambda>_. True) (check_endpoint e) (\<lambda>_ s. e \<noteq> [] \<and> e \<noteq> cp_endpoint s)"
  by (rule guardedI) (auto simp: check_endpoint_def py_defs split: if_splits)

lemma sec_check_open: "sec P check_open (\<lambda>_. P)"
  by (rule guardedI) (auto simp: check_open_def py_defs split: if_splits)

lemma sec_stub: "(\<And>s c. P s \<Longrightarrow> P (s\<lparr>cp_channels := c\<rparr>)) \<Longrightarrow> sec P (stub e) (\<lambda>_. P)"
  by (rule guardedI) (auto dest!: stub_eq simp: wf_channels evolves_frame)

lemma sec_require_peer: "sec (\<lambda>s. P s) (require_peer ref) (\<lambda>_ s. P s \<and> registered ref s)"
  by (rule guardedI) (auto simp: require_peer_def registered_def py_defs split: if_splits)

text \<open>A peer of the dictionary whose native side is connected.\<close>

abbreviation linked :: "nat \<Rightarrow> 'n control \<Rightarrow> bool" where
  "linked ref s \<equiv> registered ref s \<and> p_state (deref ref s) \<noteq> CREATED"

lemma wf_registered_less: "wf s \<Longrightarrow> registered ref s \<Longrightarrow> ref < cp_next_ref s"
  using wf_peer(1) by (simp add: registered_def)

lemma registered_update [simp]:
  "p_endpoint p = p_endpoint (deref ref s) \<Longrightarrow>
     registered ref (s\<lparr>cp_native := n, cp_heap := (cp_heap s)(ref := p)\<rparr>) \<longleftrightarrow> registered ref s"
  "registered ref (s\<lparr>cp_native := n\<rparr>) \<longleftrightarrow> registered ref s"
  by (simp_all add: registered_def)

lemma connect_native_run:
  assumes "connect_native E ref offer s = (r, t)"
  shows "t = s \<and> (r = Inr () \<longrightarrow> p_state (deref ref s) \<noteq> CREATED \<and>
      p_remote_connection_id (deref ref s) = cn_id (of_connection offer)) \<or>
    (\<exists>x n. r = Inl x \<and> p_state (deref ref s) = CREATED \<and> t = s\<lparr>cp_native := n\<rparr> \<and>
       na_connect_peer E (p_handle (deref ref s)) (Bytes (of_metadata offer)) (cp_native s) = (Inl x, n)) \<or>
    (\<exists>u n. r = Inr () \<and> p_state (deref ref s) = CREATED \<and> cn_id (of_connection offer) \<noteq> [] \<and>
       na_connect_peer E (p_handle (deref ref s)) (Bytes (of_metadata offer)) (cp_native s) = (Inr u, n) \<and>
       t = s\<lparr>cp_native := n, cp_heap := (cp_heap s)(ref := (deref ref s)
         \<lparr>p_remote_connection_id := cn_id (of_connection offer), p_state := CONNECTED\<rparr>)\<rparr>)"
proof (cases "p_state (deref ref s) = CREATED")
  case True
  with assms show ?thesis by (cases r) (auto simp: connect_native_def control_eqs)
next
  case False
  with assms show ?thesis by (cases r) (auto simp: connect_native_def control_eqs)
qed

lemma sec_connect_native:
  "sec (registered ref) (connect_native E ref offer)
     (\<lambda>_ s. linked ref s \<and> p_remote_connection_id (deref ref s) = cn_id (of_connection offer))"
proof (rule guardedI)
  fix s r t
  assume s: "wf s" and ref: "registered ref s" and run: "connect_native E ref offer s = (r, t)"
  note less = wf_registered_less [OF s ref]
  from connect_native_run [OF run]
  show "wf t \<and> evolves s t \<and> (\<forall>x. r = Inr x \<longrightarrow> linked ref t \<and>
      p_remote_connection_id (deref ref t) = cn_id (of_connection offer))"
  proof (elim disjE exE conjE)
    fix x n
    assume "r = Inl x" "t = s\<lparr>cp_native := n\<rparr>"
      "na_connect_peer E (p_handle (deref ref s)) (Bytes (of_metadata offer)) (cp_native s) = (Inl x, n)"
    then show ?thesis
      using connect_Inl [OF wf_ok [OF s]] wf_native [OF s] by (simp add: evolves_frame)
  next
    let ?p = "(deref ref s)\<lparr>p_remote_connection_id := cn_id (of_connection offer), p_state := CONNECTED\<rparr>"
    fix u n
    assume state: "p_state (deref ref s) = CREATED" and id: "cn_id (of_connection offer) \<noteq> []"
      and call: "na_connect_peer E (p_handle (deref ref s)) (Bytes (of_metadata offer)) (cp_native s) = (Inr u, n)"
      and t: "t = s\<lparr>cp_native := n, cp_heap := (cp_heap s)(ref := ?p)\<rparr>"
    have le: "peer_le (deref ref s) ?p"
      using state wf_state(2) [OF s less] by (simp add: peer_le_def)
    have "wf t"
      unfolding t using connect_Inr [OF wf_ok [OF s] call] id
      by (intro wf_update_peer [OF s _ _ _ ref le, of n "Some (of_metadata offer)"]) auto
    with evolves_peer [OF le] ref show ?thesis by (simp add: t)
  qed (use s ref in \<open>auto simp: evolves_frame\<close>)
qed

lemma import_snapshot_run:
  assumes "import_snapshot E ref snapshot s = (r, t)"
  shows "t = s \<and> r = Inr () \<and> sn_version snapshot \<le> p_remote_version (deref ref s) \<or>
    (\<exists>x n. sn_version snapshot > p_remote_version (deref ref s) \<and>
       py_each (\<lambda>metadata. na_import_remote_memory E (p_handle (deref ref s)) (Bytes metadata))
         (sn_memories snapshot) (cp_native s) = (x, n) \<and>
       (case x of Inl e \<Rightarrow> r = Inl e \<and> t = s\<lparr>cp_native := n\<rparr>
        | Inr _ \<Rightarrow> r = Inr () \<and> t = s\<lparr>cp_native := n, cp_heap := (cp_heap s)(ref := (deref ref s)
            \<lparr>p_remote_version := sn_version snapshot\<rparr>)\<rparr>))"
proof (cases "sn_version snapshot > p_remote_version (deref ref s)")
  case True
  with assms show ?thesis by (cases r) (auto simp: import_snapshot_def control_eqs)
next
  case False
  with assms show ?thesis by (cases r) (auto simp: import_snapshot_def control_eqs)
qed

lemma sec_import_snapshot:
  "sec (linked ref) (import_snapshot E ref snapshot)
     (\<lambda>_ s. linked ref s \<and> sn_version snapshot \<le> p_remote_version (deref ref s))"
proof (rule guardedI)
  fix s r t
  assume s: "wf s" and ref: "linked ref s" and run: "import_snapshot E ref snapshot s = (r, t)"
  note less = wf_registered_less [OF s conjunct1 [OF ref]]
  let ?p = "(deref ref s)\<lparr>p_remote_version := sn_version snapshot\<rparr>"
  from import_snapshot_run [OF run]
  show "wf t \<and> evolves s t \<and> (\<forall>x. r = Inr x \<longrightarrow> linked ref t \<and>
      sn_version snapshot \<le> p_remote_version (deref ref t))"
  proof (elim disjE exE conjE)
    fix x n
    assume newer: "sn_version snapshot > p_remote_version (deref ref s)"
      and each: "py_each (\<lambda>metadata. na_import_remote_memory E (p_handle (deref ref s)) (Bytes metadata))
         (sn_memories snapshot) (cp_native s) = (x, n)"
      and result: "case x of Inl e \<Rightarrow> r = Inl e \<and> t = s\<lparr>cp_native := n\<rparr>
        | Inr _ \<Rightarrow> r = Inr () \<and> t = s\<lparr>cp_native := n, cp_heap := (cp_heap s)(ref := ?p)\<rparr>"
    note native = import_list [OF wf_ok [OF s] each]
    have le: "peer_le (deref ref s) ?p" using newer by (simp add: peer_le_def)
    show ?thesis
    proof (cases x)
      case (Inl e)
      with result native show ?thesis using wf_native [OF s] by (simp add: evolves_frame)
    next
      case (Inr u)
      with result have t: "t = s\<lparr>cp_native := n, cp_heap := (cp_heap s)(ref := ?p)\<rparr>" by simp
      have "conn (cp_native s) (p_handle (deref ref s)) \<noteq> None"
        using wf_peer(6) [OF s] ref by (auto simp: registered_def)
      then have "wf t"
        unfolding t using native ref wf_state(2) [OF s less]
        by (intro wf_update_peer [OF s _ _ _ conjunct1 [OF ref] le,
              of n "conn (cp_native s) (p_handle (deref ref s))"]) (auto simp: fun_upd_idem)
      with evolves_peer [OF le] ref show ?thesis by (simp add: t)
    qed
  qed (use s ref in auto)
qed

lemma sec_mark_ready:
  "sec (\<lambda>s. linked ref s \<and> v \<le> p_remote_version (deref ref s)) (update_peer ref (\<lambda>p. p\<lparr>p_state := READY\<rparr>))
     (\<lambda>_ s. registered ref s \<and> p_state (deref ref s) = READY \<and> v \<le> p_remote_version (deref ref s))"
proof (rule guardedI)
  let ?p = "\<lambda>s. (deref ref s)\<lparr>p_state := READY\<rparr>"
  fix s r t
  assume s: "wf s" and ref: "linked ref s \<and> v \<le> p_remote_version (deref ref s)"
    and run: "update_peer ref (\<lambda>p. p\<lparr>p_state := READY\<rparr>) s = (r, t)"
  from run have t: "t = s\<lparr>cp_native := cp_native s, cp_heap := (cp_heap s)(ref := ?p s)\<rparr>"
    by (simp add: update_peer_eq)
  have "registered ref s" using ref by simp
  note less = wf_registered_less [OF s this]
  have le: "peer_le (deref ref s) (?p s)" by (simp add: peer_le_def)
  have "conn (cp_native s) (p_handle (deref ref s)) \<noteq> None"
    using wf_peer(6) [OF s] ref by (auto simp: registered_def)
  then have "wf t"
    unfolding t using ref wf_state(2) [OF s less] wf_ok [OF s]
    by (intro wf_update_peer [OF s _ _ _ _ le, of _ "conn (cp_native s) (p_handle (deref ref s))"])
      (auto simp: fun_upd_idem)
  then show "wf t \<and> evolves s t \<and> (\<forall>x. r = Inr x \<longrightarrow>
      registered ref t \<and> p_state (deref ref t) = READY \<and> v \<le> p_remote_version (deref ref t))"
    using evolves_peer [OF le, of "cp_native s"] ref unfolding t
    by (simp add: registered_def)
qed

text \<open>The end of \<open>disconnect\<close> and of \<open>Close\<close>: destroy the native peer, then drop the entry.\<close>

abbreviation drop_peer :: "int \<Rightarrow> string \<Rightarrow> ('n, unit) control_call" where
  "drop_peer h e \<equiv>
     py_then (on_native (na_destroy_peer E h)) (py_del cp_peers (\<lambda>d s. s\<lparr>cp_peers := d\<rparr>) e)"

lemma drop_peer_run:
  assumes s: "wf s" and ref: "map_of (cp_peers s) e = Some ref"
    and run: "drop_peer (p_handle (deref ref s)) e s = (r, t)"
  shows "(\<exists>x n. r = Inl x \<and> t = s\<lparr>cp_native := n\<rparr> \<and>
      na_destroy_peer E (p_handle (deref ref s)) (cp_native s) = (Inl x, n)) \<or>
    (\<exists>n u. r = Inr () \<and> t = s\<lparr>cp_native := n, cp_peers := AList.delete e (cp_peers s)\<rparr> \<and>
      na_destroy_peer E (p_handle (deref ref s)) (cp_native s) = (Inr u, n))"
  using run ref by (cases r) (auto simp: control_eqs)

lemma drop_peer_keeps:
  assumes s: "wf s" and ref: "map_of (cp_peers s) e = Some ref"
    and run: "drop_peer (p_handle (deref ref s)) e s = (r, t)"
  shows "wf t \<and> evolves s t \<and> (\<forall>x. r = Inr x \<longrightarrow> map_of (cp_peers t) e = None)"
  using drop_peer_run [OF assms]
proof (elim disjE exE conjE)
  fix x n
  assume "r = Inl x" "t = s\<lparr>cp_native := n\<rparr>"
    "na_destroy_peer E (p_handle (deref ref s)) (cp_native s) = (Inl x, n)"
  then show ?thesis
    using destroy_Inl [OF wf_ok [OF s]] wf_native [OF s] by (simp add: evolves_frame)
next
  fix n u
  assume t: "t = s\<lparr>cp_native := n, cp_peers := AList.delete e (cp_peers s)\<rparr>"
    and "na_destroy_peer E (p_handle (deref ref s)) (cp_native s) = (Inr u, n)"
  note native = destroy_Inr [OF wf_ok [OF s] this(2)]
  have other: "p_handle (deref r s) \<noteq> p_handle (deref ref s)"
    if "map_of (cp_peers s) e' = Some r" "e' \<noteq> e" for e' r
    using wf_handle [OF s that(1) ref] that(2) by blast
  have "wf t"
    using s native other unfolding t control_wf_def
    by (auto simp: dict_get_delete dict_ok_delete split: if_splits)
  then show ?thesis by (simp add: t evolves_delete dict_get_delete)
qed

lemma py_then_assoc: "py_then a (py_then b c) = py_then (py_then a b) c"
  by (rule ext) (simp add: py_defs split: prod.splits sum.splits)

section \<open>The methods\<close>

lemma sec_connect_begin:
  "sec (\<lambda>_. True) (connect_begin E e)
     (\<lambda>x s. case x of
        Already h \<Rightarrow> \<exists>ref. map_of (cp_peers s) e = Some ref \<and> h = p_handle (deref ref s) \<and>
          p_state (deref ref s) = READY
      | Exchange ref off \<Rightarrow> map_of (cp_peers s) e = Some ref \<and> off = offer_of s (deref ref s))"
  unfolding connect_begin_def
  apply (rule sec_then [OF sec_check_endpoint])
  apply (rule sec_then [OF sec_check_open])
  apply (rule sec_bind [OF sec_get_or_create_peer])
  apply (rule sec_bind [where R = "\<lambda>p s. map_of (cp_peers s) e = Some x \<and> p = deref x s" for x])
   apply (rule sec_gets, simp)
  apply (rule guarded_if)
   apply (rule sec_return, auto)[1]
  apply (rule sec_then [OF sec_stub])
   apply simp
  apply (rule sec_gets)
  apply simp
  done

lemma sec_connect_local:
  "sec (\<lambda>s. ref < cp_next_ref s) (connect_local E ref remote)
     (\<lambda>update s. linked ref s \<and> cn_endpoint (up_connection update) = cp_endpoint s \<and>
        cn_id (up_connection update) = p_connection_id (deref ref s) \<and>
        up_snapshot update = snapshot_of s)"
  unfolding connect_local_def
  apply (rule sec_then [OF guarded_post [OF sec_require_peer, where Q = "\<lambda>_. registered ref"]])
   apply simp
  apply (rule sec_then [OF sec_connect_native])
  apply (rule sec_gets)
  apply (simp add: connection_of_def)
  done

lemma sec_connect_ready:
  "sec (joined ref) (connect_ready E ref snapshot)
     (\<lambda>h s. registered ref s \<and> p_state (deref ref s) = READY \<and> h = p_handle (deref ref s) \<and>
        sn_version snapshot \<le> p_remote_version (deref ref s))"
  unfolding connect_ready_def
  apply (rule sec_then [OF guarded_post [OF sec_require_peer, where Q = "\<lambda>_. linked ref"]])
   apply (simp add: joined_def)
  apply (rule sec_then [OF sec_import_snapshot])
  apply (rule sec_then [OF sec_mark_ready])
  apply (rule sec_gets)
  apply simp
  done

text \<open>What survives any move forward may be carried across a call.\<close>

lemma sec_frame:
  assumes "sec P m Q" and "\<And>s t. R s \<Longrightarrow> evolves s t \<Longrightarrow> R t"
  shows "sec (\<lambda>s. P s \<and> R s) m (\<lambda>x s. Q x s \<and> R s)"
  using assms unfolding guarded_def by blast

lemma sec_weaken: "sec P m Q \<Longrightarrow> sec P m (\<lambda>_ _. True)"
  unfolding guarded_def by blast

lemma sec_stable:
  assumes "sec (\<lambda>_. True) m (\<lambda>_ _. True)" and "\<And>s t. R s \<Longrightarrow> evolves s t \<Longrightarrow> R t"
  shows "sec R m (\<lambda>_. R)"
  using sec_frame [OF assms] by simp

lemma sec_connect:
  assumes rpc1: "\<And>e off. sec (\<lambda>_. True) (rpc1 e off) (\<lambda>_ _. True)"
    and rpc2: "\<And>e up. sec (\<lambda>_. True) (rpc2 e up) (\<lambda>_ _. True)"
  shows "sec (\<lambda>_. True) (connect E rpc1 rpc2 e)
    (\<lambda>h s. \<exists>ref. map_of (cp_peers s) e = Some ref \<and> p_state (deref ref s) = READY \<and>
       h = p_handle (deref ref s))" (is "sec _ _ ?Q")
proof -
  have local: "sec (made_for e ref) (connect_local E ref remote)
      (\<lambda>_ s. joined ref s \<and> made_for e ref s)" for ref remote
    by (rule guarded_post [OF guarded_pre [OF sec_frame [OF sec_connect_local made_for_stable]]])
      (auto simp: made_for_def joined_def)
  have remote: "sec (\<lambda>s. joined ref s \<and> made_for e ref s) (rpc2 e up)
      (\<lambda>_ s. joined ref s \<and> made_for e ref s)" for ref up
    by (rule sec_stable [OF rpc2]) (auto intro: joined_stable made_for_stable)
  have ready: "sec (\<lambda>s. joined ref s \<and> made_for e ref s) (connect_ready E ref snapshot) ?Q"
    for ref snapshot
    by (rule guarded_post [OF sec_frame [OF sec_connect_ready made_for_stable]])
      (auto simp: registered_def made_for_def)
  have exchange: "sec (made_for e ref)
      (py_bind (rpc1 e off) (\<lambda>remote. py_bind (connect_local E ref remote) (\<lambda>update.
         py_bind (rpc2 e update) (\<lambda>snapshot. connect_ready E ref snapshot)))) ?Q" for ref off
    by (rule sec_bind [OF sec_stable [OF rpc1 made_for_stable]], assumption+)
      (rule sec_bind [OF local sec_bind [OF remote ready]])
  show ?thesis
    unfolding connect_def
  proof (rule sec_bind [OF sec_connect_begin], goal_cases)
    case (1 start)
    show ?case
    proof (cases start)
      case (Already h)
      then show ?thesis by (auto intro!: guardedI)
    next
      case (Exchange ref off)
      then show ?thesis
        using wf_peer(1,4) by (auto intro!: guarded_pre [OF exchange] simp: made_for_def)
    qed
  qed
qed

lemma sec_publish_begin:
  "sec (\<lambda>_. True) (publish_begin md)
     (\<lambda>(snapshot, refs) s. snapshot = snapshot_of s \<and> (\<forall>ref \<in> set refs. ref < cp_next_ref s))"
  unfolding publish_begin_def
proof (rule sec_then [OF sec_check_open], rule sec_then [where R = "\<lambda>_. True"], goal_cases)
  case 1
  show ?case
    by (rule guardedI) (auto simp: control_wf_def evolves_def)
next
  case 2
  show ?case
    by (rule guardedI) (auto simp: control_wf_def dict_in_iff)
qed

lemma sec_publish_to:
  assumes "\<And>e up. sec (\<lambda>_. True) (rpc e up) (\<lambda>_ _. True)"
  shows "sec (\<lambda>_. True) (publish_to rpc snapshot ref) (\<lambda>_ _. True)"
  unfolding publish_to_def
  by (rule sec_bind [OF sec_gets [where Q = "\<lambda>_ _. True"]], simp)
    (rule sec_then [OF sec_stub], simp, rule assms)

lemma sec_publish:
  assumes "\<And>e up. sec (\<lambda>_. True) (rpc e up) (\<lambda>_ _. True)"
  shows "sec (\<lambda>_. True) (publish rpc md) (\<lambda>_ _. True)"
  unfolding publish_def
  by (rule sec_bind [OF sec_weaken [OF sec_publish_begin]])
    (auto intro: sec_each sec_publish_to [OF assms])

lemma sec_drop_peer:
  "sec (\<lambda>s. map_of (cp_peers s) e = Some ref \<and> p = deref ref s) (drop_peer (p_handle p) e)
     (\<lambda>_ s. map_of (cp_peers s) e = None)"
  by (rule guardedI) (use drop_peer_keeps in blast)

lemma find_handle_Some:
  assumes "wf s" and "find_handle s h = Some ref"
  shows "map_of (cp_peers s) (p_endpoint (deref ref s)) = Some ref" "p_handle (deref ref s) = h"
proof -
  from assms(2) have "p_handle (deref ref s) = h" "ref \<in> snd ` set (cp_peers s)"
    unfolding find_handle_def find_Some_iff by (auto simp flip: in_set_conv_nth)
  then obtain e where "map_of (cp_peers s) e = Some ref"
    using wf_dict [OF assms(1)] by (auto simp: dict_in_iff)
  with wf_peer(4) [OF assms(1) this]
  show "map_of (cp_peers s) (p_endpoint (deref ref s)) = Some ref" by simp
  show "p_handle (deref ref s) = h" by fact
qed

lemma sec_disconnect_begin: "sec (\<lambda>_. True) (disconnect_begin E h) (\<lambda>_ _. True)"
  unfolding disconnect_begin_def py_then_assoc
proof (rule sec_then [OF sec_check_open], rule sec_bind [where R = "\<lambda>x s. x = find_handle s h"], goal_cases)
  case 1
  show ?case by (rule sec_gets) simp
next
  case (2 found)
  show ?case
  proof (cases found)
    case None
    then show ?thesis by (simp add: sec_raise)
  next
    case (Some ref)
    let ?R = "\<lambda>p s. map_of (cp_peers s) (p_endpoint p) = Some ref \<and> p = deref ref s"
    have rest: "sec (?R p) (py_then (stub (p_endpoint p)) (py_bind (py_gets (\<lambda>s. connection_of s p))
        (\<lambda>c. py_then (drop_peer (p_handle p) (p_endpoint p)) (py_return (p_endpoint p, c)))))
        (\<lambda>_ _. True)" for p
      apply (rule sec_then [OF sec_stub])
       apply auto[1]
      apply (rule sec_bind [OF sec_gets [where Q = "\<lambda>_. ?R p"]])
       apply auto[1]
      apply (rule sec_then [OF sec_drop_peer])
      apply (rule sec_return, simp)
      done
    have "sec (\<lambda>s. Some ref = find_handle s h) (py_gets (deref ref)) ?R"
      using find_handle_Some(1) by (auto intro!: guardedI)
    then show ?thesis
      unfolding Some using sec_bind [OF _ rest] by simp
  qed
qed

lemma sec_disconnect:
  assumes "\<And>e c. sec (\<lambda>_. True) (rpc e c) (\<lambda>_ _. True)"
  shows "sec (\<lambda>_. True) (disconnect E rpc h) (\<lambda>_ _. True)"
  unfolding disconnect_def
  by (rule sec_bind [OF sec_disconnect_begin]) (auto intro: assms)

lemma sec_handle_Connect: "sec (\<lambda>_. True) (handle_Connect E request)
    (\<lambda>reply s. \<exists>ref. map_of (cp_peers s) (cn_endpoint (of_connection request)) = Some ref \<and>
       p_state (deref ref s) \<noteq> CREATED \<and> reply = offer_of s (deref ref s) \<and>
       p_remote_connection_id (deref ref s) = cn_id (of_connection request))"
proof -
  let ?e = "cn_endpoint (of_connection request)"
  have native: "sec (\<lambda>s. registered ref s \<and> made_for ?e ref s) (connect_native E ref request)
      (\<lambda>_ s. (linked ref s \<and> p_remote_connection_id (deref ref s) = cn_id (of_connection request)) \<and>
         made_for ?e ref s)" for ref
    by (rule sec_frame [OF sec_connect_native made_for_stable])
  show ?thesis
    unfolding handle_Connect_def
    apply (rule sec_then [OF sec_check_endpoint])
    apply (rule sec_then [OF sec_check_open])
    apply (rule sec_bind [OF guarded_post [OF sec_get_or_create_peer,
          where Q = "\<lambda>ref s. registered ref s \<and> made_for ?e ref s"]])
     apply (simp add: wf_registered wf_peer made_for_def)
    apply (rule sec_then [OF native])
    apply (rule sec_gets)
    apply (auto simp: registered_def made_for_def)
    done
qed

lemma sec_find_connection:
  "sec (\<lambda>_. True) (find_connection c) (\<lambda>ref s. linked ref s \<and> p_remote_connection_id (deref ref s) = cn_id c)"
proof (rule guardedI)
  fix s r t
  assume s: "wf s" and run: "find_connection c s = (r, t)"
  show "wf t \<and> evolves s t \<and> (\<forall>ref. r = Inr ref \<longrightarrow> linked ref t \<and>
      p_remote_connection_id (deref ref t) = cn_id c)"
  proof (cases r)
    case (Inl e)
    with run s show ?thesis by (auto dest: find_connection_eq(2))
  next
    case (Inr ref)
    with run have found: "map_of (cp_peers s) (cn_endpoint c) = Some ref" "cn_id c \<noteq> []"
      "p_remote_connection_id (deref ref s) = cn_id c" "t = s" by (auto simp: find_connection_eq)
    with Inr s show ?thesis
      using wf_registered [OF s found(1)] wf_state(2) [OF s wf_peer(1) [OF s found(1)]] by simp
  qed
qed

lemma sec_handle_Ready: "sec (\<lambda>_. True) (handle_Ready E request)
    (\<lambda>reply s. reply = snapshot_of s)"
  unfolding handle_Ready_def
  apply (rule sec_then [OF sec_check_open])
  apply (rule sec_bind [OF guarded_post [OF sec_find_connection, where Q = linked]], simp)
  apply (rule sec_then [OF sec_import_snapshot])
  apply (rule sec_then [OF sec_mark_ready])
  apply (rule sec_gets, simp)
  done

lemma sec_handle_Changed: "sec (\<lambda>_. True) (handle_Changed E request) (\<lambda>_ _. True)"
  unfolding handle_Changed_def
  apply (rule sec_then [OF sec_check_open])
  apply (rule sec_bind [OF guarded_post [OF sec_find_connection, where Q = linked]], simp)
  apply (rule sec_weaken [OF sec_import_snapshot])
  done

lemma sec_handle_Close: "sec (\<lambda>_. True) (handle_Close E request) (\<lambda>_ _. True)"
  unfolding handle_Close_def
proof (rule sec_then [OF sec_check_open], rule guardedI)
  fix s r t
  assume s: "wf s" and run: "py_bind (py_gets id) (\<lambda>s. case map_of (cp_peers s) (cn_endpoint request) of
       None \<Rightarrow> py_return ()
     | Some ref \<Rightarrow>
         if p_remote_connection_id (deref ref s) = cn_id request
         then py_then (on_native (na_destroy_peer E (p_handle (deref ref s))))
                (py_del cp_peers (\<lambda>d s. s\<lparr>cp_peers := d\<rparr>) (p_endpoint (deref ref s)))
         else py_return ()) s = (r, t)"
  show "wf t \<and> evolves s t \<and> (\<forall>x. r = Inr x \<longrightarrow> True)"
  proof (cases "map_of (cp_peers s) (cn_endpoint request)")
    case None
    with run s show ?thesis by (auto simp: py_bind_def py_gets_def)
  next
    case (Some ref)
    with wf_peer(4) [OF s Some] have at: "map_of (cp_peers s) (p_endpoint (deref ref s)) = Some ref"
      by simp
    from run Some show ?thesis
      using drop_peer_keeps [OF s at] s
      by (auto simp: py_bind_def py_gets_def split: if_splits)
  qed
qed

lemma sec_serve_one: "wf s \<Longrightarrow> wf (serve_one E call s) \<and> evolves s (serve_one E call s)"
  using guardedD(1,2) [OF sec_handle_Connect _ TrueI surjective_pairing]
    guardedD(1,2) [OF sec_handle_Ready _ TrueI surjective_pairing]
    guardedD(1,2) [OF sec_handle_Changed _ TrueI surjective_pairing]
    guardedD(1,2) [OF sec_handle_Close _ TrueI surjective_pairing]
  by (cases call) simp_all

lemma sec_serve: "wf s \<Longrightarrow> wf (serve E calls s) \<and> evolves s (serve E calls s)"
proof (induction calls arbitrary: s)
  case (Cons call calls)
  with sec_serve_one [OF Cons.prems, of call] show ?case
    unfolding serve_def by (simp) (meson evolves_trans)
qed (simp add: serve_def)

lemma sec_during: "sec (\<lambda>_. True) (during E calls reply) (\<lambda>_ _. True)"
  by (rule guardedI) (use sec_serve in \<open>auto simp: during_def\<close>)

lemma sec_control_close:
  assumes "sec (\<lambda>_. True) drain (\<lambda>_ _. True)"
  shows "sec (\<lambda>_. True) (control_close drain) (\<lambda>_ _. True)"
  unfolding control_close_def
proof (rule sec_bind [OF sec_gets [where Q = "\<lambda>_ _. True"]], simp, rule guarded_if, rule sec_return, simp,
    rule sec_then [where R = "cp_closed"], goal_cases)
  case (1 closed)
  show ?case by (rule guardedI) (auto simp: control_wf_def evolves_def)
next
  case (2 closed)
  show ?case
  proof (rule sec_then [where R = "cp_closed"], goal_cases)
    case 1
    show ?case by (rule sec_stable [OF assms]) (simp add: evolves_def)
  next
    case 2
    show ?case by (rule guardedI) (auto simp: control_wf_def evolves_def)
  qed
qed

lemma sec_control_exec: "wf s \<Longrightarrow> wf (control_exec E op s) \<and> evolves s (control_exec E op s)"
proof (cases op)
  case (CpServe call)
  then show "wf s \<Longrightarrow> ?thesis" by (simp add: sec_serve_one)
next
  case (CpConnect e c1 r1 c2 r2)
  then show "wf s \<Longrightarrow> ?thesis"
    using guardedD(1,2) [OF sec_connect [OF sec_during sec_during] _ TrueI surjective_pairing] by simp
next
  case (CpPublish md remote)
  then show "wf s \<Longrightarrow> ?thesis"
    using guardedD(1,2) [OF sec_publish [OF sec_during] _ TrueI surjective_pairing] by simp
next
  case (CpDisconnect h calls reply)
  then show "wf s \<Longrightarrow> ?thesis"
    using guardedD(1,2) [OF sec_disconnect [OF sec_during] _ TrueI surjective_pairing] by simp
next
  case (CpClose calls)
  then show "wf s \<Longrightarrow> ?thesis"
    using guardedD(1,2) [OF sec_control_close [OF sec_during] _ TrueI surjective_pairing] by simp
qed

lemma sec_control_run: "wf s \<Longrightarrow> wf (control_run E ops s) \<and> evolves s (control_run E ops s)"
proof (induction ops arbitrary: s)
  case (Cons op ops)
  with sec_control_exec [OF Cons.prems, of op] show ?case
    unfolding control_run_def by simp (meson evolves_trans)
qed (simp add: control_run_def)

lemma wf_init:
  "ControlPlane_init n listen advertise add_port start = Inr s \<Longrightarrow> ok n \<Longrightarrow> wf s"
  by (auto simp: ControlPlane_init_def control_wf_def split: prod.splits if_splits sum.splits option.splits)

end

end
