(* ===== verification/Control_Facts.thy ===== *)
theory Control_Facts
  imports Control_Invariants
begin

text \<open>
  The functional behaviour of \<^verbatim>\<open>ControlPlane\<close>, on every branch: what each handler and each outgoing
  operation does to the peers, the native engine and the memory metadata. The properties hold for
  every native engine with the contract \<open>peer_store\<close>; their witnesses run on \<open>fake_env\<close>, the
  \<^verbatim>\<open>FakeNativeEngine\<close> the tests use.
\<close>

section \<open>The plane of the tests\<close>

definition fake_env :: "(nat \<Rightarrow> string) \<Rightarrow> fake control_env" where
  "fake_env uuid = native_api.extend fake_api (control_env.fields uuid)"

lemma fake_env_methods [simp]:
  "na_create_peer (fake_env uuid) = fake_create_peer"
  "na_connect_peer (fake_env uuid) = fake_connect_peer"
  "na_import_remote_memory (fake_env uuid) = fake_import_remote_memory"
  "na_destroy_peer (fake_env uuid) = fake_destroy_peer"
  "uuid4_hex (fake_env uuid) = uuid"
  by (simp_all add: fake_env_def fake_api_def native_api.defs control_env.defs)

text \<open>Ids for the witnesses.\<close>

definition demo_uuid :: "nat \<Rightarrow> string" where
  "demo_uuid k = ''id'' @ decimal k"

abbreviation "demo_env \<equiv> fake_env demo_uuid"

lemma fake_api_methods [simp]:
  "na_create_peer fake_api = fake_create_peer"
  "na_connect_peer fake_api = fake_connect_peer"
  "na_import_remote_memory fake_api = fake_import_remote_memory"
  "na_destroy_peer fake_api = fake_destroy_peer"
  by (simp_all add: fake_api_def)

lemma fake_peer_store: "peer_store (fake_env uuid) fake_ok fake_live fake_conn fake_imps"
  using fake_native.peer_store_axioms unfolding peer_store_def fake_env_methods fake_api_methods .

interpretation fake_control: control_store demo_env fake_ok fake_live fake_conn fake_imps
  by (rule control_store.intro [OF fake_peer_store])
    (simp add: control_store_axioms_def demo_uuid_def)

text \<open>
  A plane for the witnesses, at \<^verbatim>\<open>n0:1\<close>: its only peer, \<^verbatim>\<open>n1:1\<close> under handle 1, is connected to the
  remote QP with metadata 9 and has imported nothing yet.
\<close>

definition demo_peer :: peer where
  "demo_peer = \<lparr>p_handle = 1, p_endpoint = ''n1:1'', p_metadata = [7], p_connection_id = ''id0'',
     p_remote_connection_id = ''r0'', p_state = CONNECTED, p_remote_version = - 1\<rparr>"

definition demo_plane :: "fake control" where
  "demo_plane = \<lparr>cp_native = (fake_init ''n0'')\<lparr>fk_next := 2, fk_peers := [(1, [7])],
       fk_connected := [(1, [9])]\<rparr>,
     cp_endpoint = ''n0:1'', cp_closed = False, cp_peers = [(''n1:1'', 0)],
     cp_heap = (\<lambda>_. blank_peer)(0 := demo_peer), cp_next_ref = 1, cp_channels = [],
     cp_memory_metadata = [], cp_uuids = 1\<rparr>"

lemma demo_plane_wf: "control_wf fake_ok fake_live fake_conn demo_plane"
  by (auto simp: control_wf_def demo_plane_def demo_peer_def fake_init_def fake_ok_def fake_live_def
      fake_conn_def dict_ok_def deref_def split: if_splits)

lemma demo_plane_sel [simp]:
  "cp_peers demo_plane = [(''n1:1'', 0)]" "deref 0 demo_plane = demo_peer"
  "cp_endpoint demo_plane = ''n0:1''" "\<not> cp_closed demo_plane" "cp_memory_metadata demo_plane = []"
  by (simp_all add: demo_plane_def deref_def)

text \<open>The same plane after the handshake is complete.\<close>

definition demo_ready :: "fake control" where
  "demo_ready = demo_plane\<lparr>cp_heap := (\<lambda>_. demo_peer\<lparr>p_state := READY, p_remote_version := 0\<rparr>)\<rparr>"

lemma demo_ready_wf: "control_wf fake_ok fake_live fake_conn demo_ready"
  by (auto simp: control_wf_def demo_ready_def demo_plane_def demo_peer_def fake_init_def fake_ok_def
      fake_live_def fake_conn_def dict_ok_def deref_def split: if_splits)

lemma demo_ready_sel [simp]:
  "cp_peers demo_ready = [(''n1:1'', 0)]"
  "deref r demo_ready = demo_peer\<lparr>p_state := READY, p_remote_version := 0\<rparr>"
  "cp_endpoint demo_ready = ''n0:1''" "\<not> cp_closed demo_ready" "cp_memory_metadata demo_ready = []"
  by (simp_all add: demo_ready_def)

section \<open>Properties of every run\<close>

text \<open>
  Whatever a plane does after its creation, with any handlers run during its remote calls and any
  of these calls failing, its state stays well formed: every peer is stored under its own endpoint,
  never its own address, with a live native handle no other peer has, natively connected just when
  its state says so, and with a remote connection id just when it is connected.
\<close>

lemma control_runs_are_well_formed:
  assumes "control_store E ok live conn imps" and "ok n"
  shows "case ControlPlane_init n listen advertise add_port start of
      Inl _ \<Rightarrow> True
    | Inr s \<Rightarrow> control_wf ok live conn (control_run E ops s)"
proof (cases "ControlPlane_init n listen advertise add_port start")
  case (Inr s)
  then show ?thesis
    using control_store.sec_control_run [OF assms(1) control_store.wf_init [OF assms(1) Inr assms(2)]]
    by simp
qed simp

text \<open>
  C12: no operation of a plane, with any handlers run during its remote calls, moves a peer backwards:
  its handle, endpoint, metadata and connection id never change, its state and its imported version
  only grow, its remote connection id is never replaced, and once dropped it never comes back. The
  plane never reopens, and until it closes its published memory metadata is only appended to.
\<close>

theorem control_runs_move_forward:
  assumes "control_store E ok live conn imps" and "control_wf ok live conn s"
  shows "evolves (control_run E before s) (control_run E (before @ after) s)"
proof -
  have "control_wf ok live conn (control_run E before s)"
    using control_store.sec_control_run [OF assms] by simp
  from control_store.sec_control_run [OF assms(1) this, of after] show ?thesis
    by (simp add: control_run_def)
qed

theorem control_runs_move_forward_witness:
  "evolves demo_plane (control_run demo_env [CpClose []] demo_plane)"
  using control_runs_move_forward [OF fake_control.control_store_axioms demo_plane_wf, of "[]" "[CpClose []]"]
  by (simp add: control_run_def)

section \<open>Connecting\<close>

context control_store
begin

lemma create_peer_fresh:
  assumes "wf s" and run: "create_peer E e s = (Inr ref, t)"
    and "map_of (cp_peers s) e = None" and "e \<noteq> []" and "e \<noteq> cp_endpoint s"
  shows "wf t" "map_of (cp_peers t) e = Some ref" "p_state (deref ref t) = CREATED"
proof -
  have "map_of (cp_peers s) e = None \<and> e \<noteq> [] \<and> e \<noteq> cp_endpoint s" using assms(3-) by blast
  note facts = guardedD [OF sec_create_peer assms(1) this run]
  show "wf t" by (rule facts(1))
  show "map_of (cp_peers t) e = Some ref" by (rule facts(3)) simp
  show "p_state (deref ref t) = CREATED" using create_peer_run [OF run] by auto
qed

lemma connect_native_fresh:
  assumes s: "wf s" and at: "map_of (cp_peers s) e = Some ref" and created: "p_state (deref ref s) = CREATED"
    and run: "connect_native E ref offer s = (Inr u, t)"
  shows "cn_id (of_connection offer) \<noteq> [] \<and> map_of (cp_peers t) e = Some ref \<and>
    p_remote_connection_id (deref ref t) = cn_id (of_connection offer) \<and>
    p_state (deref ref t) = CONNECTED \<and>
    conn (cp_native t) (p_handle (deref ref t)) = Some (of_metadata offer)"
  using connect_native_run [OF run] created at
proof (elim disjE exE conjE)
  fix v n
  assume "na_connect_peer E (p_handle (deref ref s)) (Bytes (of_metadata offer)) (cp_native s) = (Inr v, n)"
  note native = connect_Inr [OF wf_ok [OF s] this]
  assume "t = s\<lparr>cp_native := n, cp_heap := (cp_heap s)(ref := (deref ref s)
      \<lparr>p_remote_connection_id := cn_id (of_connection offer), p_state := CONNECTED\<rparr>)\<rparr>"
    "cn_id (of_connection offer) \<noteq> []"
  with native at show ?thesis by auto
qed auto

end

lemma check_endpoint_eq:
  "check_endpoint e s = (Inr u, t) \<longleftrightarrow> e \<noteq> [] \<and> e \<noteq> cp_endpoint s \<and> t = s"
  "check_endpoint e s = (Inl x, t) \<longleftrightarrow> (e = [] \<or> e = cp_endpoint s) \<and> t = s \<and>
     x = ValueError (Msg ''a different remote Engine endpoint is required'')"
  by (auto simp: check_endpoint_def py_eqs)

text \<open>
  C3: a \<open>connect\<close> that returns, whatever handlers ran and whatever the remote answered during its two
  remote calls, returns the handle of the peer stored for that endpoint; the peer is READY, and its
  native handle lives and is connected.
\<close>

theorem connect_returns_ready_peer:
  assumes "control_store E ok live conn imps" and "control_wf ok live conn s"
    and "connect E (\<lambda>_ _. during E calls1 reply1) (\<lambda>_ _. during E calls2 reply2) e s = (Inr h, t)"
  shows "\<exists>ref. map_of (cp_peers t) e = Some ref \<and> p_state (deref ref t) = READY \<and>
    p_handle (deref ref t) = h \<and> live (cp_native t) h = Some (p_metadata (deref ref t)) \<and>
    conn (cp_native t) h \<noteq> None"
proof -
  note run = control_store.sec_connect [OF assms(1) control_store.sec_during
    control_store.sec_during, OF assms(1) assms(1)]
  note facts = guardedD [OF run assms(2) TrueI assms(3)]
  from facts(3) [OF refl] obtain ref where ref: "map_of (cp_peers t) e = Some ref"
    "p_state (deref ref t) = READY" "h = p_handle (deref ref t)" by blast
  with control_store.wf_peer(5,6) [OF assms(1) facts(1) ref(1)] show ?thesis by auto
qed

text \<open>
  The peer that is READY is reused: \<open>connect\<close> returns its handle without any remote call and
  without changing the state, so calling it again, or after the other side connected, is harmless.
\<close>

lemma connect_reuses_ready_peer:
  assumes "map_of (cp_peers s) e = Some ref" and "p_state (deref ref s) = READY"
    and "e \<noteq> []" and "e \<noteq> cp_endpoint s" and "\<not> cp_closed s"
  shows "connect E rpc1 rpc2 e s = (Inr (p_handle (deref ref s)), s)"
  using assms
  by (simp add: connect_def connect_begin_def check_endpoint_def check_open_def
      get_or_create_peer_def py_defs)

text \<open>Evaluation of whole calls, for the witnesses.\<close>

lemmas control_run_defs = connect_def connect_begin_def connect_local_def connect_ready_def
  check_endpoint_def check_open_def get_or_create_peer_def create_peer_def new_uuid_def new_peer_def
  stub_def require_peer_def find_connection_def connect_native_def import_snapshot_def
  on_native_def update_peer_def connection_of_def offer_of_def snapshot_of_def during_def serve_def
  disconnect_def disconnect_begin_def find_handle_def py_del_def publish_def publish_begin_def
  publish_to_def handle_Connect_def handle_Ready_def handle_Changed_def handle_Close_def
  fake_connect_peer_def fake_import_remote_memory_def fake_id_def fake_destroy_peer_def py_defs

theorem connect_returns_ready_peer_witness:
  "\<exists>t. connect demo_env
      (\<lambda>_ _. during demo_env [] (Inr \<lparr>of_connection = \<lparr>cn_endpoint = ''n1:1'', cn_id = ''r0''\<rparr>, of_metadata = [9]\<rparr>))
      (\<lambda>_ _. during demo_env [] (Inr \<lparr>sn_version = 1, sn_memories = [[5]]\<rparr>)) ''n1:1'' demo_plane = (Inr 1, t) \<and>
    (\<exists>ref. map_of (cp_peers t) ''n1:1'' = Some ref \<and> p_state (deref ref t) = READY)"
proof -
  let ?rpc1 = "\<lambda>(_::string) (_::offer). during demo_env []
    (Inr \<lparr>of_connection = \<lparr>cn_endpoint = ''n1:1'', cn_id = ''r0''\<rparr>, of_metadata = [9]\<rparr>)"
  let ?rpc2 = "\<lambda>(_::string) (_::update). during demo_env [] (Inr \<lparr>sn_version = 1, sn_memories = [[5]]\<rparr>)"
  have "fst (connect demo_env ?rpc1 ?rpc2 ''n1:1'' demo_plane) = Inr 1"
    by (simp add: control_run_defs demo_plane_def demo_peer_def deref_def fake_init_def del: heap_deref)
  then obtain t where run: "connect demo_env ?rpc1 ?rpc2 ''n1:1'' demo_plane = (Inr 1, t)"
    by (metis prod.collapse)
  from connect_returns_ready_peer [OF fake_control.control_store_axioms demo_plane_wf run] run
  show ?thesis by blast
qed

lemma connect_reuses_ready_peer_witness:
  "connect demo_env (\<lambda>_ _. during demo_env [] (Inl RpcError)) (\<lambda>_ _. during demo_env [] (Inl RpcError))
     ''n1:1'' demo_ready = (Inr 1, demo_ready)"
  using connect_reuses_ready_peer [of demo_ready "''n1:1''" 0] by (simp add: demo_peer_def)

text \<open>The plane once a new peer is in it, as \<open>pm\<close> of the native engine; and the answer of a peer that is only created.\<close>

definition with_peer :: "('n, 'z) control_env_scheme \<Rightarrow> string \<Rightarrow> peer_metadata \<Rightarrow> 'n \<Rightarrow> 'n control \<Rightarrow> 'n control" where
  "with_peer E e pm n s = s\<lparr>cp_native := n, cp_peers := AList.update e (cp_next_ref s) (cp_peers s),
     cp_heap := (cp_heap s)(cp_next_ref s := \<lparr>p_handle = pm_peer pm, p_endpoint = e, p_metadata = pm_metadata pm,
       p_connection_id = uuid4_hex E (cp_uuids s), p_remote_connection_id = [], p_state = CREATED,
       p_remote_version = - 1\<rparr>),
     cp_next_ref := Suc (cp_next_ref s), cp_uuids := Suc (cp_uuids s)\<rparr>"

definition answers_offer :: "('n, 'z) control_env_scheme \<Rightarrow> ('n \<Rightarrow> int \<Rightarrow> bytes option) \<Rightarrow> offer \<Rightarrow> nat
    \<Rightarrow> 'n control \<Rightarrow> exn + offer \<Rightarrow> 'n control \<Rightarrow> bool" where
  "answers_offer E conn request ref s r t \<longleftrightarrow>
     (if cn_id (of_connection request) = []
      then r = Inl (ValueError (Msg ''unexpected connection identity'')) \<and> t = s
      else case na_connect_peer E (p_handle (deref ref s)) (Bytes (of_metadata request)) (cp_native s) of
        (Inl x, n) \<Rightarrow> r = Inl x \<and> t = s\<lparr>cp_native := n\<rparr>
      | (Inr _, n) \<Rightarrow> r = Inr (offer_of t (deref ref t)) \<and> cp_native t = n \<and> cp_peers t = cp_peers s \<and>
          deref ref t = (deref ref s)
            \<lparr>p_remote_connection_id := cn_id (of_connection request), p_state := CONNECTED\<rparr> \<and>
          conn n (p_handle (deref ref t)) = Some (of_metadata request))"

lemma create_peer_with:
  "create_peer E e s = (case na_create_peer E (cp_native s) of
     (Inl x, n) \<Rightarrow> (Inl x, s\<lparr>cp_native := n\<rparr>) | (Inr pm, n) \<Rightarrow> (Inr (cp_next_ref s), with_peer E e pm n s))"
  by (simp add: create_peer_def on_native_def new_uuid_def new_peer_def with_peer_def py_defs
      split: prod.split sum.split)

lemma connect_native_answers:
  assumes store: "control_store E ok live conn imps" and s: "control_wf ok live conn s"
    and created: "p_state (deref ref s) = CREATED"
    and e: "cn_endpoint (of_connection request) = p_endpoint (deref ref s)"
  shows "case connect_native E ref request s of
      (Inl x, t) \<Rightarrow> answers_offer E conn request ref s (Inl x) t
    | (Inr _, t) \<Rightarrow> answers_offer E conn request ref s (Inr (offer_of t (deref ref t))) t"
proof (cases "cn_id (of_connection request) = []")
  case True
  with e show ?thesis by (simp add: connect_native_def answers_offer_def py_defs)
next
  case False
  obtain x n where native: "na_connect_peer E (p_handle (deref ref s)) (Bytes (of_metadata request)) (cp_native s) = (x, n)"
    by fastforce
  have "ok (cp_native s)" using s by (simp add: control_wf_def)
  with store native have "x = Inr u \<Longrightarrow> conn n (p_handle (deref ref s)) = Some (of_metadata request)" for u
    using peer_store.connect_Inr [of E ok live conn imps] by (force simp: control_store_def)
  with False native created e show ?thesis
    by (cases x) (simp_all add: connect_native_def answers_offer_def on_native_def update_peer_def py_defs)
qed

text \<open>
  C15: the answer to a connection offer, on every branch, errors included. An offer from nowhere or from the plane
  itself and any offer to a closed plane is refused. A peer that is already connected is never
  connected twice: the same connection id gets the same offer back, another one is rejected, and
  neither changes anything. For an unknown endpoint a peer is created first, and when the engine
  refuses that, its exception is the answer and no peer is made. A peer that is only created, new or not, refuses an
  offer without an id; else the engine is asked to connect it to the offered metadata. When that succeeds
  the peer is connected to exactly this metadata and carries the sender's id, and its own offer is the answer; when
  it fails, its exception is the answer and the peer stays as it was, a new one included.
\<close>

theorem handle_Connect_answers:
  assumes "control_store E ok live conn imps" and "control_wf ok live conn s"
    and "handle_Connect E request s = (r, t)"
  defines "e \<equiv> cn_endpoint (of_connection request)" and "i \<equiv> cn_id (of_connection request)"
  shows "if e = [] \<or> e = cp_endpoint s
    then r = Inl (ValueError (Msg ''a different remote Engine endpoint is required'')) \<and> t = s
    else if cp_closed s then r = Inl (RuntimeError (Msg ''engine is closed'')) \<and> t = s
    else case map_of (cp_peers s) e of
      Some ref \<Rightarrow>
        if p_state (deref ref s) = CREATED then answers_offer E conn request ref s r t
        else t = s \<and> r =
          (if i = [] then Inl (ValueError (Msg ''unexpected connection identity''))
           else if p_remote_connection_id (deref ref s) = i then Inr (offer_of s (deref ref s))
           else Inl (RuntimeError (Msg ''endpoint already has a different connection'')))
    | None \<Rightarrow> (case na_create_peer E (cp_native s) of
        (Inl x, n) \<Rightarrow> r = Inl x \<and> t = s\<lparr>cp_native := n\<rparr>
      | (Inr pm, n) \<Rightarrow> answers_offer E conn request (cp_next_ref s) (with_peer E e pm n s) r t)"
proof (cases "e = [] \<or> e = cp_endpoint s \<or> cp_closed s")
  case True
  with assms(3) show ?thesis
    by (auto simp: handle_Connect_def check_endpoint_def check_open_def py_defs e_def)
next
  case open_plane: False
  then have connect: "handle_Connect E request s = (case get_or_create_peer E e s of
      (Inl x, u) \<Rightarrow> (Inl x, u)
    | (Inr ref, u) \<Rightarrow> (case connect_native E ref request u of
        (Inl x, v) \<Rightarrow> (Inl x, v) | (Inr _, v) \<Rightarrow> (Inr (offer_of v (deref ref v)), v)))"
    by (simp add: handle_Connect_def check_endpoint_def check_open_def py_defs e_def split: prod.split sum.split)
  show ?thesis
  proof (cases "map_of (cp_peers s) e")
    case None
    obtain x n where native: "na_create_peer E (cp_native s) = (x, n)" by fastforce
    have get: "get_or_create_peer E e s = create_peer E e s"
      by (simp add: get_or_create_peer_def py_defs None)
    show ?thesis
    proof (cases x)
      case (Inl failure)
      with assms(3) connect open_plane None native show ?thesis by (simp add: get create_peer_with)
    next
      case (Inr pm)
      let ?u = "with_peer E e pm n s" and ?ref = "cp_next_ref s"
      have create: "create_peer E e s = (Inr ?ref, ?u)" using native Inr by (simp add: create_peer_with)
      note made = control_store.create_peer_fresh [OF assms(1,2) create None]
      have "p_endpoint (deref ?ref ?u) = e" by (simp add: with_peer_def)
      then have e: "cn_endpoint (of_connection request) = p_endpoint (deref ?ref ?u)" by (simp only: e_def)
      have wf: "control_wf ok live conn ?u" and created: "p_state (deref ?ref ?u) = CREATED"
        using made(1,3) open_plane by blast+
      obtain y v where connected: "connect_native E ?ref request ?u = (y, v)" by fastforce
      with connect_native_answers [OF assms(1) wf created e]
      have "answers_offer E conn request ?ref ?u (case y of Inl x \<Rightarrow> Inl x | Inr _ \<Rightarrow> Inr (offer_of v (deref ?ref v))) v"
        by (cases y) simp_all
      moreover have "handle_Connect E request s = (case y of Inl x \<Rightarrow> Inl x | Inr _ \<Rightarrow> Inr (offer_of v (deref ?ref v)), v)"
        unfolding connect get create by (cases y) (simp_all add: connected)
      ultimately show ?thesis using assms(3) native Inr None open_plane by simp
    qed
  next
    case (Some ref)
    note peer = control_store.wf_peer(2,3,4) [OF assms(1,2) Some]
    have get: "get_or_create_peer E e s = (Inr ref, s)"
      by (simp add: get_or_create_peer_def py_defs Some)
    show ?thesis
    proof (cases "p_state (deref ref s) = CREATED")
      case True
      from connect_native_answers [OF assms(1,2) True, of request] peer assms(3) connect get open_plane Some True
      show ?thesis by (simp add: e_def split: prod.splits sum.splits)
    next
      case False
      with assms(3) connect get peer Some open_plane show ?thesis
        by (auto simp: connect_native_def py_defs e_def i_def split: if_splits)
    qed
  qed
qed

text \<open>A second offer of a connected process that is rejected, and a first offer that is accepted.\<close>

theorem handle_Connect_answers_witness:
  "snd (handle_Connect demo_env \<lparr>of_connection = \<lparr>cn_endpoint = ''n1:1'', cn_id = ''r1''\<rparr>, of_metadata = [3]\<rparr>
     demo_plane) = demo_plane \<and>
   (\<exists>t. handle_Connect demo_env \<lparr>of_connection = \<lparr>cn_endpoint = ''n2:1'', cn_id = ''r1''\<rparr>, of_metadata = [3]\<rparr>
     demo_plane = (Inr (offer_of t (deref 1 t)), t) \<and> p_state (deref 1 t) = CONNECTED \<and>
     fake_conn (cp_native t) (p_handle (deref 1 t)) = Some [3])"
proof -
  have native: "cp_native demo_plane = (fake_init ''n0'')\<lparr>fk_next := 2, fk_peers := [(1, [7])], fk_connected := [(1, [9])]\<rparr>"
    and ref: "cp_next_ref demo_plane = 1" by (simp_all add: demo_plane_def)
  let ?first = "\<lparr>of_connection = \<lparr>cn_endpoint = ''n2:1'', cn_id = ''r1''\<rparr>, of_metadata = [3]\<rparr>"
    and ?second = "\<lparr>of_connection = \<lparr>cn_endpoint = ''n1:1'', cn_id = ''r1''\<rparr>, of_metadata = [3]\<rparr>"
  obtain r t where run: "handle_Connect demo_env ?first demo_plane = (r, t)" by fastforce
  have "r = Inr (offer_of t (deref 1 t)) \<and> p_state (deref 1 t) = CONNECTED \<and>
      fake_conn (cp_native t) (p_handle (deref 1 t)) = Some [3]"
    using handle_Connect_answers [OF fake_control.control_store_axioms demo_plane_wf run]
    by (simp add: native ref fake_create_peer_def fake_id_def fake_init_def fake_connect_peer_def answers_offer_def
        with_peer_def py_defs fake_conn_def)
  with run handle_Connect_answers [OF fake_control.control_store_axioms demo_plane_wf surjective_pairing, of ?second]
  show ?thesis by (auto simp: demo_peer_def)
qed

section \<open>Memory metadata\<close>

text \<open>
  C16: an update is acknowledged exactly when it comes under the remote connection id of the peer
  stored for the sender. A snapshot that is not newer than the imported one changes nothing. A newer
  one adds exactly its memories to the imports of exactly that peer and then advances the version;
  when an import fails the version stays, so that the same snapshot is imported again later.
\<close>

theorem handle_Changed_imports:
  assumes "control_store E ok live conn imps" and "control_wf ok live conn s"
    and "handle_Changed E request s = (r, t)"
  defines "c \<equiv> up_connection request" and "sn \<equiv> up_snapshot request"
  shows "case map_of (cp_peers s) (cn_endpoint c) of
      None \<Rightarrow> t = s \<and> (\<exists>x. r = Inl x)
    | Some ref \<Rightarrow>
        if cp_closed s \<or> cn_id c = [] \<or> p_remote_connection_id (deref ref s) \<noteq> cn_id c
        then t = s \<and> (\<exists>x. r = Inl x)
        else if sn_version sn \<le> p_remote_version (deref ref s) then t = s \<and> r = Inr ()
        else cp_peers t = cp_peers s \<and> cp_memory_metadata t = cp_memory_metadata s \<and>
          (case r of
             Inr _ \<Rightarrow> deref ref t = (deref ref s)\<lparr>p_remote_version := sn_version sn\<rparr> \<and>
               imps (cp_native t) = (imps (cp_native s))(p_handle (deref ref s) :=
                 set (sn_memories sn) \<union> imps (cp_native s) (p_handle (deref ref s)))
           | Inl _ \<Rightarrow> deref ref t = deref ref s \<and>
               (\<exists>k \<le> length (sn_memories sn). imps (cp_native t) =
                 (imps (cp_native s))(p_handle (deref ref s) :=
                   set (take k (sn_memories sn)) \<union> imps (cp_native s) (p_handle (deref ref s)))))"
proof (cases "map_of (cp_peers s) (cn_endpoint c)")
  case None
  with assms(3) show ?thesis
    by (auto simp: handle_Changed_def check_open_def find_connection_def py_defs c_def split: if_splits)
next
  case (Some ref)
  show ?thesis
  proof (cases "cp_closed s \<or> cn_id c = [] \<or> p_remote_connection_id (deref ref s) \<noteq> cn_id c")
    case True
    with assms(3) Some show ?thesis
      by (auto simp: handle_Changed_def check_open_def find_connection_def py_defs c_def split: if_splits)
  next
    case False
    with assms(3) Some have run: "import_snapshot E ref sn s = (r, t)"
      by (auto simp: handle_Changed_def check_open_def find_connection_def py_defs c_def sn_def
          split: if_splits)
    have each: "py_each (\<lambda>md. na_import_remote_memory E h (Bytes md)) mds (cp_native s) = (x, n) \<Longrightarrow>
        \<exists>k \<le> length mds. imps n = (imps (cp_native s))(h := set (take k mds) \<union> imps (cp_native s) h) \<and>
          (x = Inr () \<longrightarrow> k = length mds)" for h mds x n
      using peer_store.import_list [OF control_store.axioms(1) [OF assms(1)]
          control_store.wf_ok [OF assms(1,2)]] by blast
    from control_store.import_snapshot_run [OF assms(1) run] show ?thesis
    proof (elim disjE exE conjE)
      fix x n
      assume "p_remote_version (deref ref s) < sn_version sn" and "py_each (\<lambda>md.
          na_import_remote_memory E (p_handle (deref ref s)) (Bytes md)) (sn_memories sn) (cp_native s) = (x, n)"
        and "case x of Inl e \<Rightarrow> r = Inl e \<and> t = s\<lparr>cp_native := n\<rparr>
          | Inr _ \<Rightarrow> r = Inr () \<and> t = s\<lparr>cp_native := n, cp_heap := (cp_heap s)(ref := (deref ref s)
              \<lparr>p_remote_version := sn_version sn\<rparr>)\<rparr>"
      with False Some each [OF this(2)] show ?thesis by (cases x) auto
    qed (use False Some in auto)
  qed
qed

text \<open>The update the witness sends: two memories under version 2.\<close>

definition demo_update :: update where
  "demo_update = \<lparr>up_connection = \<lparr>cn_endpoint = ''n1:1'', cn_id = ''r0''\<rparr>,
     up_snapshot = \<lparr>sn_version = 2, sn_memories = [[5], [6]]\<rparr>\<rparr>"

theorem handle_Changed_imports_witness:
  "fake_imps (cp_native (snd (handle_Changed demo_env demo_update demo_plane))) 1 = {[5], [6]}"
proof -
  have "fst (handle_Changed demo_env demo_update demo_plane) = Inr ()"
    by (simp add: control_run_defs demo_update_def demo_plane_def demo_peer_def deref_def fake_init_def
        del: heap_deref)
  moreover have "fake_imps (cp_native demo_plane) 1 = {}"
    by (simp add: fake_imps_def demo_plane_def fake_init_def)
  ultimately show ?thesis
    using handle_Changed_imports [OF fake_control.control_store_axioms demo_plane_wf surjective_pairing,
        of demo_update]
    by (simp add: demo_update_def demo_peer_def)
qed

section \<open>Disconnecting\<close>

text \<open>
  C29: a close request drops exactly the peer stored for the sender, and only when it names the
  peer's remote connection: a request for an older connection, or from a stranger, is acknowledged
  and changes nothing. When the native engine refuses to destroy the peer, the peer stays.
\<close>

theorem handle_Close_exact:
  assumes "control_store E ok live conn imps" and "control_wf ok live conn s"
    and "handle_Close E request s = (r, t)" and "\<not> cp_closed s"
  shows "case map_of (cp_peers s) (cn_endpoint request) of
      None \<Rightarrow> t = s \<and> r = Inr ()
    | Some ref \<Rightarrow>
        if p_remote_connection_id (deref ref s) \<noteq> cn_id request then t = s \<and> r = Inr ()
        else cp_heap t = cp_heap s \<and> cp_memory_metadata t = cp_memory_metadata s \<and>
          (case r of
             Inr _ \<Rightarrow> cp_peers t = AList.delete (cn_endpoint request) (cp_peers s) \<and>
               live (cp_native t) = (live (cp_native s))(p_handle (deref ref s) := None) \<and>
               imps (cp_native t) = (imps (cp_native s))(p_handle (deref ref s) := {})
           | Inl _ \<Rightarrow> cp_peers t = cp_peers s \<and> live (cp_native t) = live (cp_native s) \<and>
               imps (cp_native t) = imps (cp_native s))"
proof (cases "map_of (cp_peers s) (cn_endpoint request)")
  case None
  with assms(3,4) show ?thesis by (auto simp: handle_Close_def check_open_def py_defs)
next
  case (Some ref)
  note endpoint = control_store.wf_peer(4) [OF assms(1,2) Some]
  show ?thesis
  proof (cases "p_remote_connection_id (deref ref s) = cn_id request")
    case False
    with assms(3,4) Some show ?thesis by (auto simp: handle_Close_def check_open_def py_defs)
  next
    case True
    with assms(3,4) Some endpoint have run:
      "py_then (on_native (na_destroy_peer E (p_handle (deref ref s))))
         (py_del cp_peers (\<lambda>d s. s\<lparr>cp_peers := d\<rparr>) (cn_endpoint request)) s = (r, t)"
      by (auto simp: handle_Close_def check_open_def py_bind_def py_gets_def py_then_def py_raise_if_def
          py_return_def)
    note store = control_store.axioms(1) [OF assms(1)]
    note ok = control_store.wf_ok [OF assms(1,2)]
    from control_store.drop_peer_run [OF assms(1,2) Some run] show ?thesis
      using True Some peer_store.destroy_Inr [OF store ok] peer_store.destroy_Inl [OF store ok] by auto
  qed
qed

theorem handle_Close_exact_witness:
  "snd (handle_Close demo_env \<lparr>cn_endpoint = ''n1:1'', cn_id = ''old''\<rparr> demo_plane) = demo_plane \<and>
   cp_peers (snd (handle_Close demo_env \<lparr>cn_endpoint = ''n1:1'', cn_id = ''r0''\<rparr> demo_plane)) = []"
proof -
  have "fst (handle_Close demo_env \<lparr>cn_endpoint = ''n1:1'', cn_id = ''r0''\<rparr> demo_plane) = Inr ()"
    by (simp add: control_run_defs demo_plane_def demo_peer_def deref_def fake_init_def del: heap_deref)
  then show ?thesis
    using handle_Close_exact [OF fake_control.control_store_axioms demo_plane_wf surjective_pairing,
        of "\<lparr>cn_endpoint = ''n1:1'', cn_id = ''old''\<rparr>"]
      handle_Close_exact [OF fake_control.control_store_axioms demo_plane_wf surjective_pairing,
        of "\<lparr>cn_endpoint = ''n1:1'', cn_id = ''r0''\<rparr>"]
    by (simp add: demo_peer_def)
qed

text \<open>
  C30: \<open>disconnect\<close> releases the local peer before it asks the remote side. An unknown handle is
  rejected without any effect; when the native engine refuses, the peer stays; otherwise exactly the
  peer with this handle is dropped and destroyed before the remote call is made, so it is gone also
  when that call fails, and the close request names this side's connection id.
\<close>

theorem disconnect_local_first:
  assumes "control_store E ok live conn imps" and "control_wf ok live conn s" and "\<not> cp_closed s"
  shows "case find_handle s h of
      None \<Rightarrow> disconnect E rpc h s = (Inl (ValueError (Msg ''unknown peer'')), s)
    | Some ref \<Rightarrow> p_handle (deref ref s) = h \<and>
        (\<exists>u. cp_heap u = cp_heap s \<and> cp_memory_metadata u = cp_memory_metadata s \<and>
          (case na_destroy_peer E h (cp_native s) of
             (Inl x, _) \<Rightarrow> disconnect E rpc h s = (Inl x, u) \<and> cp_peers u = cp_peers s \<and>
               live (cp_native u) = live (cp_native s)
           | (Inr _, _) \<Rightarrow>
               disconnect E rpc h s = rpc (p_endpoint (deref ref s)) (connection_of s (deref ref s)) u \<and>
               cp_peers u = AList.delete (p_endpoint (deref ref s)) (cp_peers s) \<and>
               live (cp_native u) = (live (cp_native s))(h := None)))"
proof (cases "find_handle s h")
  case None
  with assms(3) show ?thesis
    by (simp add: disconnect_def disconnect_begin_def check_open_def py_defs)
next
  case (Some ref)
  let ?e = "p_endpoint (deref ref s)"
  note found = control_store.find_handle_Some [OF assms(1,2) Some]
  note store = control_store.axioms(1) [OF assms(1)]
  note ok = control_store.wf_ok [OF assms(1,2)]
  from stub_eq [OF surjective_pairing, of ?e s] obtain x c
    where stub: "stub ?e s = (Inr x, s\<lparr>cp_channels := c\<rparr>)" by (metis prod.collapse)
  have run: "disconnect E rpc h s = (case na_destroy_peer E h (cp_native s) of
      (Inl y, n) \<Rightarrow> (Inl y, s\<lparr>cp_channels := c, cp_native := n\<rparr>)
    | (Inr _, n) \<Rightarrow> rpc ?e (connection_of s (deref ref s))
        (s\<lparr>cp_channels := c, cp_native := n, cp_peers := AList.delete ?e (cp_peers s)\<rparr>))"
    using assms(3) Some found stub
    by (simp add: disconnect_def disconnect_begin_def check_open_def on_native_def py_del_def py_defs
        connection_of_def split: prod.splits sum.splits)
  show ?thesis
  proof (cases "na_destroy_peer E h (cp_native s)")
    case (Pair y n)
    show ?thesis
    proof (cases y)
      case (Inl a)
      with run Pair have "disconnect E rpc h s = (Inl a, s\<lparr>cp_channels := c, cp_native := n\<rparr>)" by simp
      with peer_store.destroy_Inl [OF store ok] Pair Inl Some found(2) show ?thesis
        by (auto intro!: exI [of _ "s\<lparr>cp_channels := c, cp_native := n\<rparr>"])
    next
      case (Inr a)
      let ?u = "s\<lparr>cp_channels := c, cp_native := n, cp_peers := AList.delete ?e (cp_peers s)\<rparr>"
      from run Pair Inr have "disconnect E rpc h s = rpc ?e (connection_of s (deref ref s)) ?u" by simp
      with peer_store.destroy_Inr [OF store ok] Pair Inr Some found(2) show ?thesis
        by (auto intro!: exI [of _ ?u])
    qed
  qed
qed

theorem disconnect_local_first_witness:
  "disconnect demo_env (\<lambda>_ _. py_raise RpcError) 2 demo_plane =
     (Inl (ValueError (Msg ''unknown peer'')), demo_plane) \<and>
   cp_peers (snd (disconnect demo_env (\<lambda>_ _. py_raise RpcError) 1 demo_plane)) = []"
proof -
  have found: "find_handle demo_plane 2 = None" "find_handle demo_plane 1 = Some 0"
    by (simp_all add: find_handle_def demo_peer_def)
  have "\<exists>n. na_destroy_peer demo_env 1 (cp_native demo_plane) = (Inr (), n)"
    by (simp add: demo_plane_def fake_init_def fake_destroy_peer_def py_del_def py_defs)
  then show ?thesis
    using disconnect_local_first [OF fake_control.control_store_axioms demo_plane_wf demo_plane_sel(4),
        where h = 2 and rpc = "\<lambda>_ _. py_raise RpcError"]
      disconnect_local_first [OF fake_control.control_store_axioms demo_plane_wf demo_plane_sel(4),
        where h = 1 and rpc = "\<lambda>_ _. py_raise RpcError"]
    unfolding found by (auto simp: demo_peer_def py_raise_def)
qed

section \<open>Publishing\<close>

context control_store
begin

lemma publish_each:
  assumes "wf u" and "evolves s u" and "\<forall>ref \<in> set refs. ref < cp_next_ref s"
    and "py_each (publish_to (\<lambda>e up. during E (calls e up) (reply e up)) sn) refs u = (r, t)"
  shows "evolves s t \<and>
    (r = Inr () \<longrightarrow> (\<forall>ref \<in> set refs. reply (p_endpoint (deref ref s))
       \<lparr>up_connection = connection_of s (deref ref s), up_snapshot = sn\<rparr> = Inr ())) \<and>
    (\<forall>x. r = Inl x \<longrightarrow> (\<exists>ref \<in> set refs. reply (p_endpoint (deref ref s))
       \<lparr>up_connection = connection_of s (deref ref s), up_snapshot = sn\<rparr> = Inl x))"
  using assms
proof (induction refs arbitrary: u)
  case (Cons ref refs)
  let ?up = "\<lparr>up_connection = connection_of s (deref ref s), up_snapshot = sn\<rparr>"
  let ?to = "publish_to (\<lambda>e up. during E (calls e up) (reply e up)) sn"
  have "peer_le (deref ref s) (deref ref u)" "cp_endpoint u = cp_endpoint s"
    using Cons.prems(2,3) by (simp_all add: evolves_def)
  then have same: "p_endpoint (deref ref u) = p_endpoint (deref ref s)"
    "connection_of u (deref ref u) = connection_of s (deref ref s)"
    by (simp_all add: peer_le_def connection_of_def)
  from stub_eq [OF surjective_pairing, of "p_endpoint (deref ref s)" u] obtain x c
    where stub: "stub (p_endpoint (deref ref s)) u = (Inr x, u\<lparr>cp_channels := c\<rparr>)"
    by (metis prod.collapse)
  obtain v where one: "?to ref u = (reply (p_endpoint (deref ref s)) ?up, v)"
    using stub by (simp add: publish_to_def py_bind_def py_then_def py_gets_def during_def same)
  have v: "wf v" "evolves u v"
    using guardedD(1,2) [OF sec_publish_to [OF sec_during] Cons.prems(1) TrueI one] by blast+
  show ?case
  proof (cases "reply (p_endpoint (deref ref s)) ?up")
    case (Inl x)
    with one Cons.prems(4) have "r = Inl x" "t = v" by (auto simp: py_then_def py_bind_def)
    with Inl evolves_trans [OF Cons.prems(2) v(2)] show ?thesis by auto
  next
    case (Inr y)
    with one Cons.prems(4) have "py_each ?to refs v = (r, t)" by (simp add: py_then_def py_bind_def)
    from Cons.IH [OF v(1) evolves_trans [OF Cons.prems(2) v(2)] _ this] Cons.prems(3) Inr
    show ?thesis by auto
  qed
qed auto

end

text \<open>
  C17: a \<open>publish\<close> on an open plane appends the metadata before any remote call, and nothing that
  happens during these calls removes it unless the plane closes. When \<open>publish\<close> returns, every peer
  that was READY has acknowledged, under this side's connection id, the snapshot of everything
  published so far with the new metadata last; when it raises, it raises what such a peer's call
  raised.
\<close>

theorem publish_reaches_ready_peers:
  assumes "control_store E ok live conn imps" and "control_wf ok live conn s" and "\<not> cp_closed s"
    and "publish (\<lambda>e up. during E (calls e up) (reply e up)) md s = (r, t)"
  defines "sn \<equiv> \<lparr>sn_version = int (length (cp_memory_metadata s)) + 1,
      sn_memories = cp_memory_metadata s @ [md]\<rparr>"
  shows "(cp_closed t \<or> (\<exists>new. cp_memory_metadata t = cp_memory_metadata s @ md # new)) \<and>
    (case r of
       Inr _ \<Rightarrow> \<forall>(e, ref) \<in> set (cp_peers s). p_state (deref ref s) = READY \<longrightarrow>
         reply e \<lparr>up_connection = connection_of s (deref ref s), up_snapshot = sn\<rparr> = Inr ()
     | Inl x \<Rightarrow> \<exists>(e, ref) \<in> set (cp_peers s). p_state (deref ref s) = READY \<and>
         reply e \<lparr>up_connection = connection_of s (deref ref s), up_snapshot = sn\<rparr> = Inl x)"
proof -
  let ?s1 = "s\<lparr>cp_memory_metadata := cp_memory_metadata s @ [md]\<rparr>"
  let ?refs = "filter (\<lambda>ref. p_state (deref ref s) = READY) (map snd (cp_peers s))"
  have wf1: "control_wf ok live conn ?s1" using assms(2) by (simp add: control_wf_def)
  have at: "map_of (cp_peers s) e = Some ref" if "(e, ref) \<in> set (cp_peers s)" for e ref
    using that control_store.wf_dict [OF assms(1,2)] by (simp add: dict_in_iff)
  note peer = control_store.wf_peer [OF assms(1,2) at]
  have "py_each (publish_to (\<lambda>e up. during E (calls e up) (reply e up)) sn) ?refs ?s1 = (r, t)"
    using assms(3,4) by (simp add: publish_def publish_begin_def check_open_def py_defs snapshot_of_def sn_def
        add.commute)
  note loop = this
  have less: "\<forall>ref \<in> set ?refs. ref < cp_next_ref ?s1" using peer(1) by auto
  have same: "connection_of ?s1 p = connection_of s p" for p
    by (simp add: connection_of_def)
  note result = control_store.publish_each [OF assms(1) wf1 evolves_refl less loop,
    unfolded deref_frame same]
  from result have "evolves ?s1 t" by blast
  then have kept: "cp_closed t \<or> (\<exists>new. cp_memory_metadata t = cp_memory_metadata s @ md # new)"
    by (simp add: evolves_def)
  show ?thesis
  proof (cases r)
    case (Inl x)
    with result obtain e ref where "(e, ref) \<in> set (cp_peers s)" "p_state (deref ref s) = READY"
      "reply (p_endpoint (deref ref s)) \<lparr>up_connection = connection_of s (deref ref s), up_snapshot = sn\<rparr> = Inl x"
      by auto
    with kept Inl peer(4) show ?thesis by fastforce
  next
    case (Inr u)
    with result have "\<forall>ref \<in> set ?refs. reply (p_endpoint (deref ref s))
       \<lparr>up_connection = connection_of s (deref ref s), up_snapshot = sn\<rparr> = Inr ()" by simp
    with kept Inr peer(4) show ?thesis by fastforce
  qed
qed

theorem publish_reaches_ready_peers_witness:
  "fst (publish (\<lambda>e up. during demo_env [] (Inl RpcError)) [5] demo_ready) = Inl RpcError \<and>
   (\<exists>new. cp_memory_metadata (snd (publish (\<lambda>e up. during demo_env [] (Inl RpcError)) [5] demo_ready))
      = [5] # new)"
proof -
  let ?run = "publish (\<lambda>e up. during demo_env [] (Inl RpcError)) [5] demo_ready"
  have run: "fst ?run = Inl RpcError" "\<not> cp_closed (snd ?run)"
    by (simp_all add: control_run_defs demo_ready_def demo_plane_def demo_peer_def deref_def del: heap_deref)
  then have "?run = (Inl RpcError, snd ?run)" by (metis prod.collapse)
  from publish_reaches_ready_peers [OF fake_control.control_store_axioms demo_ready_wf demo_ready_sel(4) this]
  show ?thesis using run by simp
qed

section \<open>The endpoint\<close>

text \<open>The last colon separates.\<close>

lemma rpartition_colon_join:
  assumes "CHR '':'' \<notin> set port"
  shows "rpartition_colon (host @ CHR '':'' # port) = (host, '':'', port)"
proof -
  have "takeWhile (\<lambda>c. c \<noteq> CHR '':'') (rev port @ CHR '':'' # rev host) = rev port"
    using assms by (subst takeWhile_append2) auto
  then show ?thesis by (simp add: rpartition_colon_def Let_def)
qed

lemma rpartition_colon_split:
  assumes "rpartition_colon s = (host, separator, port)" and "separator \<noteq> []"
  shows "s = host @ '':'' @ port"
proof -
  from assms have "CHR '':'' \<in> set s" by (auto simp: rpartition_colon_def split: if_splits)
  then obtain ys zs where s: "s = ys @ CHR '':'' # zs" and "CHR '':'' \<notin> set zs"
    by (auto dest: split_list_last)
  with assms(1) rpartition_colon_join [OF this(2), of ys] show ?thesis by simp
qed

lemma decimal_no_colon: "isdecimal port \<Longrightarrow> CHR '':'' \<notin> set port"
  using is_digit_not_colon by (auto simp: isdecimal_def list_all_iff)

text \<open>
  C38: a plane comes up just when the listen address is \<^verbatim>\<open>host:port\<close> with a host and a decimal port of
  at most 65535, a wildcard host comes with an advertised one, and the server could be bound and
  started. Its endpoint then parses back to the advertised (or listening) host and the bound port,
  and it starts with no peers and no published memory.
\<close>

theorem listen_address_checked:
  "case rpartition_colon listen of (host, separator, port) \<Rightarrow>
     let valid = (listen = host @ '':'' @ port \<and> host \<noteq> [] \<and> isdecimal port \<and> parse_decimal port \<le> 65535 \<and>
           \<not> (host \<in> {''0.0.0.0'', ''[::]''} \<and> advertise \<in> {None, Some []}) \<and>
           (\<exists>bound > 0. add_port listen = Inr bound) \<and> start = None)
     in case ControlPlane_init n listen advertise add_port start of
       Inl _ \<Rightarrow> \<not> valid
     | Inr s \<Rightarrow> valid \<and>
         (\<exists>bound. add_port listen = Inr bound \<and> rpartition_colon (cp_endpoint s) =
            (if advertise \<in> {None, Some []} then host else the advertise, '':'', decimal bound)) \<and>
         cp_native s = n \<and> cp_peers s = [] \<and> cp_memory_metadata s = [] \<and> \<not> cp_closed s"
proof (cases "rpartition_colon listen")
  case (fields host separator port)
  have separator: "separator = '':'' \<and> listen = host @ '':'' @ port \<or> separator = [] \<and> host = []"
  proof (cases "CHR '':'' \<in> set listen")
    case True
    with fields have "separator = '':''" by (simp add: rpartition_colon_def Let_def)
    with rpartition_colon_split [OF fields] show ?thesis by simp
  qed (use fields in \<open>simp add: rpartition_colon_def\<close>)
  note join = rpartition_colon_join [OF decimal_no_colon [OF decimal_isdecimal]]
  show ?thesis
  proof (cases "ControlPlane_init n listen advertise add_port start")
    case (Inl e)
    with fields separator show ?thesis
      by (auto simp: ControlPlane_init_def Let_def split: if_splits sum.splits option.splits)
  next
    case (Inr s)
    with fields separator show ?thesis
      by (auto simp: ControlPlane_init_def Let_def join split: if_splits sum.splits option.splits)
  qed
qed

section \<open>Closing\<close>

text \<open>
  C39: a closed plane serves nothing: every outgoing operation and every handler raises before it
  touches the peers, the native engine or the published metadata, and closing again has no effect.
\<close>

theorem closed_plane_rejects:
  assumes "cp_closed s"
  shows "(\<exists>x. connect E rpc1 rpc2 e s = (Inl x, s)) \<and> (\<exists>x. publish rpc3 md s = (Inl x, s)) \<and>
    (\<exists>x. disconnect E rpc4 h s = (Inl x, s)) \<and> (\<exists>x. handle_Connect E request s = (Inl x, s)) \<and>
    (\<exists>x. handle_Ready E update s = (Inl x, s)) \<and> (\<exists>x. handle_Changed E update s = (Inl x, s)) \<and>
    (\<exists>x. handle_Close E connection s = (Inl x, s)) \<and> control_close drain s = (Inr (), s)"
  using assms
  by (simp add: connect_def connect_begin_def check_endpoint_def check_open_def publish_def
      publish_begin_def disconnect_def disconnect_begin_def handle_Connect_def handle_Ready_def
      handle_Changed_def handle_Close_def control_close_def py_defs)

theorem closed_plane_rejects_witness:
  "\<exists>x. handle_Close demo_env \<lparr>cn_endpoint = ''n1:1'', cn_id = ''r0''\<rparr> (demo_plane\<lparr>cp_closed := True\<rparr>) =
     (Inl x, demo_plane\<lparr>cp_closed := True\<rparr>)"
  using closed_plane_rejects [of "demo_plane\<lparr>cp_closed := True\<rparr>" demo_env] by simp

section \<open>Deviations\<close>

text \<open>
  \<^verbatim>\<open>_find_connection\<close> refuses an empty connection id, \<^verbatim>\<open>Close\<close> does not. A peer that is only
  CREATED has an empty remote id, so a close request without an id destroys it, in the middle of a
  handshake this side started.
\<close>

lemma empty_id_closes_created_peer:
  assumes "map_of (cp_peers s) e = Some ref" and "p_endpoint (deref ref s) = e"
    and "p_remote_connection_id (deref ref s) = []" and "\<not> cp_closed s"
    and "na_destroy_peer E (p_handle (deref ref s)) (cp_native s) = (Inr u, n)"
  shows "handle_Close E \<lparr>cn_endpoint = e, cn_id = []\<rparr> s =
    (Inr (), s\<lparr>cp_native := n, cp_peers := AList.delete e (cp_peers s)\<rparr>)"
  using assms by (simp add: handle_Close_def check_open_def on_native_def py_del_def py_defs)

text \<open>
  An offer without a connection id is rejected, but only after the native peer for it was created:
  the CREATED peer stays behind under the sender's endpoint.
\<close>

lemma rejected_offer_leaves_peer:
  assumes "map_of (cp_peers s) e = None" and "e \<noteq> []" and "e \<noteq> cp_endpoint s" and "\<not> cp_closed s"
    and "na_create_peer E (cp_native s) = (Inr pm, n)"
  shows "fst (handle_Connect E \<lparr>of_connection = \<lparr>cn_endpoint = e, cn_id = []\<rparr>, of_metadata = md\<rparr> s) =
      Inl (ValueError (Msg ''unexpected connection identity'')) \<and>
    map_of (cp_peers (snd (handle_Connect E \<lparr>of_connection = \<lparr>cn_endpoint = e, cn_id = []\<rparr>, of_metadata = md\<rparr> s)))
      e = Some (cp_next_ref s)"
  using assms
  by (simp add: handle_Connect_def check_endpoint_def check_open_def get_or_create_peer_def create_peer_def
      new_uuid_def new_peer_def connect_native_def on_native_def py_defs dict_get_update)

text \<open>
  When \<^verbatim>\<open>native.connect_peer\<close> fails, the peer stays CREATED in the dictionary under the same native
  handle, and the next attempt calls \<^verbatim>\<open>connect_peer\<close> on it again. \<^verbatim>\<open>transfer_engine.h\<close> says that a peer
  whose connection failed must be destroyed.
\<close>

lemma failed_connect_keeps_peer:
  assumes "p_state (deref ref s) = CREATED" and "cn_endpoint (of_connection offer) = p_endpoint (deref ref s)"
    and "cn_id (of_connection offer) \<noteq> []"
    and "na_connect_peer E (p_handle (deref ref s)) (Bytes (of_metadata offer)) (cp_native s) = (Inl x, n)"
  shows "connect_native E ref offer s = (Inl x, s\<lparr>cp_native := n\<rparr>)"
  using assms by (simp add: connect_native_def on_native_def py_defs)

end
