(* ===== verification/Kept.thy ===== *)
theory Kept
  imports Control_Invariants
begin

text \<open>
  What the control plane leaves alone. Its methods touch the native engine only with four calls; what these keep,
  and an append to the published metadata, every section, handler and operation keeps.
\<close>

text \<open>
  A property of the native state, the closed flag and the published metadata that the four methods
  the control plane calls and an append keep is kept by everything the control plane does while it
  is not being closed.
\<close>

locale native_keeps =
  fixes E :: "('n, 'z) control_env_scheme" and I :: "'n \<Rightarrow> bool \<Rightarrow> bytes list \<Rightarrow> bool"
  assumes keeps_create: "keeps (\<lambda>n. I n b mds) (na_create_peer E)"
    and keeps_connect: "keeps (\<lambda>n. I n b mds) (na_connect_peer E h data)"
    and keeps_import: "keeps (\<lambda>n. I n b mds) (na_import_remote_memory E h data)"
    and keeps_destroy: "keeps (\<lambda>n. I n b mds) (na_destroy_peer E h)"
    and append: "I n b mds \<Longrightarrow> I n b (mds @ [md])"
begin

abbreviation kept :: "'n control \<Rightarrow> bool" where
  "kept s \<equiv> I (cp_native s) (cp_closed s) (cp_memory_metadata s)"

lemma keeps_on_native: "(\<And>b mds. keeps (\<lambda>n. I n b mds) m) \<Longrightarrow> keeps kept (on_native m)"
  unfolding keeps_def hoare_def on_native_def py_zoom_def
  by (fastforce split: prod.splits sum.splits)

lemma keeps_frame:
  "keeps kept (update_peer ref f)" "keeps kept (stub e)" "keeps kept (new_uuid E)" "keeps kept (new_peer p)"
  "keeps kept (py_modify (\<lambda>s. s\<lparr>cp_peers := AList.update e ref (cp_peers s)\<rparr>))"
  "keeps kept (py_modify (\<lambda>s. s\<lparr>cp_memory_metadata := cp_memory_metadata s @ [md]\<rparr>))"
  "keeps kept (py_del cp_peers (\<lambda>d s. s\<lparr>cp_peers := d\<rparr>) e)"
  subgoal by (rule keepsI) (simp add: update_peer_eq)
  subgoal by (rule keepsI) (auto dest!: stub_eq)
  subgoal by (rule keepsI) (auto simp: new_uuid_def)
  subgoal by (rule keepsI) (auto simp: new_peer_def)
  by (rule keepsI, auto simp: py_del_def append split: if_splits)+

lemmas kept_rules = keeps_frame keeps_on_native [OF keeps_create] keeps_on_native [OF keeps_connect]
  keeps_on_native [OF keeps_import] keeps_on_native [OF keeps_destroy]

lemma keeps_imports:
  "keeps kept (on_native (py_each (\<lambda>metadata. na_import_remote_memory E h (Bytes metadata)) mds))"
  by (rule keeps_on_native) (rule keeps_each, rule keeps_import)

lemma keeps_option:
  "keeps kept m \<Longrightarrow> (\<And>x. keeps kept (f x)) \<Longrightarrow> keeps kept (case y of None \<Rightarrow> m | Some x \<Rightarrow> f x)"
  by (cases y) simp_all

lemma keeps_helpers:
  "keeps kept check_open" "keeps kept (check_endpoint e)" "keeps kept (require_peer ref)"
  "keeps kept (find_connection c)" "keeps kept (get_or_create_peer E e)"
  "keeps kept (connect_native E ref off)" "keeps kept (import_snapshot E ref sn)"
  unfolding check_open_def check_endpoint_def require_peer_def find_connection_def
    get_or_create_peer_def create_peer_def connect_native_def import_snapshot_def
  by (intro hoare_rules keeps_option kept_rules keeps_imports)+

lemma keeps_drop:
  "keeps kept (py_then (on_native (na_destroy_peer E h)) (py_del cp_peers (\<lambda>d s. s\<lparr>cp_peers := d\<rparr>) e))"
  by (intro hoare_rules kept_rules)

lemma keeps_handlers:
  "keeps kept (handle_Connect E request)" "keeps kept (handle_Ready E update)"
  "keeps kept (handle_Changed E update)" "keeps kept (handle_Close E connection)"
  unfolding handle_Connect_def handle_Ready_def handle_Changed_def handle_Close_def
  by (intro hoare_rules keeps_option kept_rules keeps_helpers keeps_drop)+

lemma keeps_serve: "kept s \<Longrightarrow> kept (serve E calls s)"
proof (induction calls arbitrary: s)
  case (Cons call calls)
  have "kept (serve_one E call s)"
    using Cons.prems keeps_handlers [THEN keepsD, OF _ surjective_pairing] by (cases call) simp_all
  from Cons.IH [OF this] show ?case by (simp add: serve_def)
qed (simp add: serve_def)

lemma keeps_during: "keeps kept (during E calls reply)"
  by (rule keepsI) (auto simp: during_def keeps_serve)

lemma keeps_sections:
  "keeps kept (connect_begin E e)" "keeps kept (connect_local E ref off)" "keeps kept (connect_ready E ref sn)"
  unfolding connect_begin_def connect_local_def connect_ready_def
  by (intro hoare_rules kept_rules keeps_helpers)+

lemma keeps_connect_call:
  assumes "\<And>e off. keeps kept (rpc1 e off)" and "\<And>e up. keeps kept (rpc2 e up)"
  shows "keeps kept (connect E rpc1 rpc2 e)"
  unfolding connect_def using assms keeps_sections
  by (intro keeps_bind) (auto split: connect_start.split intro!: hoare_rules)

lemma keeps_disconnect:
  assumes "\<And>e c. keeps kept (rpc e c)"
  shows "keeps kept (disconnect E rpc h)"
  unfolding disconnect_def disconnect_begin_def
  by (intro keeps_bind keeps_then keeps_option hoare_rules kept_rules keeps_helpers)
    (auto split: prod.split intro: assms)

lemma keeps_publish_to: "(\<And>e up. keeps kept (rpc e up)) \<Longrightarrow> keeps kept (publish_to rpc sn ref)"
  unfolding publish_to_def by (intro hoare_rules kept_rules)

lemma keeps_publish:
  assumes "\<And>e up. keeps kept (rpc e up)"
  shows "keeps kept (publish rpc md)"
proof -
  note keeps_publish_to [OF assms]
  moreover have "keeps kept (publish_begin md)"
    unfolding publish_begin_def by (intro hoare_rules kept_rules keeps_helpers)
  ultimately show ?thesis
    unfolding publish_def by (intro hoare_rules) (auto intro: hoare_rules)
qed

end

end
