(* ===== verification/Engine_Facts.thy ===== *)
theory Engine_Facts
  imports Engine Control_Facts Kept
begin

text \<open>
  The correctness of \<^verbatim>\<open>Engine\<close>: waiting ends by its deadline and answers truthfully, a transfer frees
  its batch before it reports a failed task, construction and \<open>close\<close> release the native engine, and
  every run keeps the invariant of the control plane.
\<close>

lemma on_control_eq:
  "on_control m s = (r, t) \<longleftrightarrow> (\<exists>c. m (en_control s) = (r, c) \<and> t = s\<lparr>en_control := c\<rparr>)"
  by (simp add: on_control_def py_zoom_eq)

lemma engine_check_open_eq:
  "engine_check_open E s = (Inr u, t) \<longleftrightarrow>
     \<not> cp_closed (en_control s) \<and> \<not> na_closed E (cp_native (en_control s)) \<and> t = s"
  "engine_check_open E s = (Inl e, t) \<longleftrightarrow>
     (cp_closed (en_control s) \<or> na_closed E (cp_native (en_control s))) \<and> t = s \<and>
     e = RuntimeError (Msg ''engine is closed'')"
  by (auto simp: engine_check_open_def py_eqs)

lemmas engine_eqs = control_eqs on_control_eq engine_check_open_eq

lemma native_env_methods [simp]:
  "na_create_peer (native_env C uuid) = native_create_peer C"
  "na_connect_peer (native_env C uuid) = native_connect_peer C"
  "na_import_remote_memory (native_env C uuid) = native_import_remote_memory C"
  "na_destroy_peer (native_env C uuid) = native_destroy_peer C"
  "na_register_local_memory (native_env C uuid) = native_register_local_memory C"
  "na_submit_transfer (native_env C uuid) = native_submit_transfer C"
  "na_get_transfer_statuses (native_env C uuid) = native_get_transfer_statuses C"
  "na_free_batch (native_env C uuid) = native_free_batch C"
  "na_close (native_env C uuid) = native_close C"
  "na_closed (native_env C uuid) = native_closed"
  "uuid4_hex (native_env C uuid) = uuid"
  by (simp_all add: native_env_def)

section \<open>Waiting\<close>

text \<open>A monotonic clock whose readings are at least the slept millisecond apart.\<close>

definition ticking :: "'n world \<Rightarrow> bool" where
  "ticking W \<longleftrightarrow> (\<forall>k. now W k + 1 / 1000 \<le> now W (Suc k))"

lemma ticking_lower: "ticking W \<Longrightarrow> now W 0 + of_nat k / 1000 \<le> now W k"
proof (induction k)
  case (Suc k)
  then have "now W k + 1 / 1000 \<le> now W (Suc k)" by (simp add: ticking_def)
  with Suc show ?case by (simp add: add_divide_distrib)
qed simp

lemma wait_loop_returns:
  assumes "ticking W" and "1000 * \<tau> \<le> of_nat (k + m)"
  shows "\<exists>r t n. wait_loop E W batch (Fin (now W 0 + \<tau>)) k s = Some (r, t, n) \<and> n \<le> k + m + 1"
  using assms(2)
proof (induction m arbitrary: k s)
  case 0
  with ticking_lower [OF assms(1), of k] have "reached (now W k) (Fin (now W 0 + \<tau>))" by simp
  then show ?case
    by (subst wait_loop.simps) (auto split: prod.splits sum.splits)
next
  case (Suc m)
  then have "1000 * \<tau> \<le> of_nat (Suc k + m)" by simp
  note later = Suc.IH [OF this]
  show ?case
    using later by (subst wait_loop.simps) (fastforce split: prod.splits sum.splits)
qed

text \<open>
  The course of a \<open>wait\<close>: the state in which it makes its poll \<open>i\<close>, where poll \<open>i\<close> is followed by reading
  \<open>k + i\<close> of the clock and, while the batch goes on, by a sleep in which the others run; and where it ends. Every
  poll before \<open>m\<close> saw a pending task and the reading after it was before the deadline. Poll \<open>m\<close> decides: its
  exception is raised, its statuses are returned when all are terminal, and else the reading after this very poll
  was at or past the deadline.
\<close>

fun poll_state ::
  "('n, 'z) control_env_scheme \<Rightarrow> 'n world \<Rightarrow> int \<Rightarrow> nat \<Rightarrow> 'n engine \<Rightarrow> nat \<Rightarrow> 'n engine" where
  "poll_state E W batch k s 0 = s"
| "poll_state E W batch k s (Suc i) =
     poll_state E W batch (Suc k) (others W k (snd (engine_get_transfer_statuses E batch s))) i"

definition wait_ends ::
  "('n, 'z) control_env_scheme \<Rightarrow> 'n world \<Rightarrow> int \<Rightarrow> pyfloat \<Rightarrow> nat \<Rightarrow> 'n engine \<Rightarrow> nat
     \<Rightarrow> (exn + transfer_status list) \<times> 'n engine \<times> nat \<Rightarrow> bool" where
  "wait_ends E W batch deadline k s m answer \<longleftrightarrow>
     (\<forall>i < m. (\<exists>statuses u. engine_get_transfer_statuses E batch (poll_state E W batch k s i) = (Inr statuses, u) \<and>
        (\<exists>status \<in> set statuses. is_Pending status)) \<and> \<not> reached (now W (k + i)) deadline) \<and>
     (case engine_get_transfer_statuses E batch (poll_state E W batch k s m) of
        (Inl e, u) \<Rightarrow> answer = (Inl e, u, k + m)
      | (Inr statuses, u) \<Rightarrow>
          if \<exists>status \<in> set statuses. is_Pending status
          then reached (now W (k + m)) deadline \<and>
            answer = (Inl (TimeoutError (Fmt ''batch {} is still pending (not cancelled)'' [FInt batch])), u, k + m + 1)
          else answer = (Inr statuses, u, k + m))"

lemma wait_ends_later:
  assumes "engine_get_transfer_statuses E batch s = (Inr statuses, t)" and "\<exists>status \<in> set statuses. is_Pending status"
    and "\<not> reached (now W k) deadline" and "wait_ends E W batch deadline (Suc k) (others W k t) m x"
  shows "wait_ends E W batch deadline k s (Suc m) x"
  using assms by (auto simp: wait_ends_def All_less_Suc2 split: prod.splits sum.splits if_splits)

lemma wait_loop_Some: "wait_loop E W batch deadline k s = Some x \<Longrightarrow> \<exists>m. wait_ends E W batch deadline k s m x"
proof (induction rule: wait_loop.raw_induct [rotated, consumes 1, case_names step])
  case (step loop E W batch deadline k s x)
  show ?case
  proof (cases "engine_get_transfer_statuses E batch s")
    case (Pair y t)
    show ?thesis
    proof (cases y)
      case (Inl e)
      with step Pair have "wait_ends E W batch deadline k s 0 x" by (simp add: wait_ends_def)
      then show ?thesis ..
    next
      case (Inr statuses)
      note poll = Pair [unfolded Inr]
      show ?thesis
      proof (cases "\<forall>status \<in> set statuses. \<not> is_Pending status")
        case True
        with step(2) poll have "wait_ends E W batch deadline k s 0 x" by (auto simp: wait_ends_def)
        then show ?thesis ..
      next
        case pending: False
        show ?thesis
        proof (cases "reached (now W k) deadline")
          case True
          with pending step(2) poll have "x = (Inl (TimeoutError
              (Fmt ''batch {} is still pending (not cancelled)'' [FInt batch])), t, Suc k)"
            by (simp only: prod.case sum.case if_False if_True option.inject)
          with True pending poll have "wait_ends E W batch deadline k s 0 x" by (auto simp: wait_ends_def)
          then show ?thesis ..
        next
          case False
          with pending step(2) poll have "loop E W batch deadline (Suc k) (others W k t) = Some x"
            by (simp only: prod.case sum.case if_False)
          then obtain m where "wait_ends E W batch deadline (Suc k) (others W k t) m x" using step(1) by blast
          with False pending wait_ends_later [OF poll] show ?thesis by blast
        qed
      qed
    qed
  qed
qed

lemma wait_ends_cases:
  assumes "wait_ends E W batch deadline k s m (r, t, n)"
  obtains (Returned) statuses u where "r = Inr statuses" "engine_get_transfer_statuses E batch u = (Inr statuses, t)"
      "\<forall>status \<in> set statuses. \<not> is_Pending status"
    | (Raised) e u where "r = Inl e" "engine_get_transfer_statuses E batch u = (Inl e, t)"
    | (Timeout) u statuses where "r = Inl (TimeoutError (Fmt ''batch {} is still pending (not cancelled)'' [FInt batch]))"
      "engine_get_transfer_statuses E batch u = (Inr statuses, t)"
  using assms by (auto simp: wait_ends_def split: prod.splits sum.splits if_splits)

text \<open>
  C1: \<open>wait\<close> ends: with a finite timeout of \<open>\<tau>\<close> seconds and a clock that advances by the slept
  millisecond between readings it returns or raises within \<open>1000 * \<tau> + 2\<close> readings, whatever the
  library answers and the other threads do. It goes on exactly while a poll sees a pending task and the reading
  after that poll is before the deadline; the first poll of which one is not so decides. Its exception is raised,
  terminal statuses are returned, even past the deadline, and with a task still pending, so that this reading is at
  or past the deadline, \<^verbatim>\<open>TimeoutError\<close> names the batch. The clock is read once for the deadline and once
  after every poll that saw a pending task, and no more.
\<close>

theorem wait_ends_by_deadline:
  assumes "ticking W" and "(case timeout of None \<Rightarrow> en_timeout s | Some t \<Rightarrow> t) = Fin \<tau>"
  shows "\<exists>r t n m. engine_wait E W batch timeout s = Some (r, t, n) \<and> n \<le> nat \<lceil>1000 * \<tau>\<rceil> + 2 \<and>
    wait_ends E W batch (Fin (now W 0 + \<tau>)) 1 s m (r, t, n) \<and>
    (\<forall>statuses u. engine_get_transfer_statuses E batch s = (Inr statuses, u) \<and>
       (\<forall>status \<in> set statuses. \<not> is_Pending status) \<longrightarrow> r = Inr statuses \<and> t = u)"
proof -
  have "1000 * \<tau> \<le> of_nat (1 + nat \<lceil>1000 * \<tau>\<rceil>)"
    using of_nat_ceiling [of "1000 * \<tau>"] by simp
  from wait_loop_returns [OF assms(1) this] obtain r t n
    where run: "wait_loop E W batch (Fin (now W 0 + \<tau>)) 1 s = Some (r, t, n)"
      and "n \<le> 1 + nat \<lceil>1000 * \<tau>\<rceil> + 1" by blast
  moreover have "engine_wait E W batch timeout s = wait_loop E W batch (Fin (now W 0 + \<tau>)) 1 s"
    using assms(2) by (simp add: engine_wait_def)
  moreover have "r = Inr statuses \<and> t = u"
    if "engine_get_transfer_statuses E batch s = (Inr statuses, u)"
      "\<forall>status \<in> set statuses. \<not> is_Pending status" for statuses u
    using run that by (subst (asm) wait_loop.simps) simp
  moreover obtain m where "wait_ends E W batch (Fin (now W 0 + \<tau>)) 1 s m (r, t, n)"
    using wait_loop_Some [OF run] ..
  ultimately show ?thesis by (intro exI [of _ r] exI [of _ t] exI [of _ n] exI [of _ m]) auto
qed

text \<open>A world for the witnesses: the clock advances a second per reading, nobody else runs.\<close>

definition demo_world :: "'n world" where
  "demo_world = \<lparr>now = of_nat, others = \<lambda>_ s. s\<rparr>"

lemma demo_world_ticking: "ticking demo_world"
  by (simp add: ticking_def demo_world_def)

text \<open>An engine for the witnesses, over the library whose batches never end.\<close>

definition demo_engine :: "int native engine" where
  "demo_engine = \<lparr>en_control = \<lparr>cp_native = demo_native, cp_endpoint = ''n0:1'', cp_closed = False,
       cp_peers = [], cp_heap = (\<lambda>_. blank_peer), cp_next_ref = 0, cp_channels = [],
       cp_memory_metadata = [], cp_uuids = 0\<rparr>, en_timeout = Fin 2\<rparr>"

abbreviation "demo_native_env \<equiv> native_env demo_lib demo_uuid"

lemma demo_statuses:
  "engine_get_transfer_statuses demo_native_env 4 demo_engine = (Inr [Pending], demo_engine)"
  by (simp add: engine_get_transfer_statuses_def engine_check_open_def on_control_def on_native_def
      native_get_transfer_statuses_def native_call_out_def on_lib_def demo_engine_def demo_native_def
      demo_lib_def native_closed_def check_code_def decode_status_def py_defs R101_defs)

theorem wait_ends_by_deadline_witness:
  "\<exists>r t n m. engine_wait demo_native_env demo_world 4 None demo_engine = Some (r, t, n) \<and> n = 3 \<and> m = 1 \<and>
     r = Inl (TimeoutError (Fmt ''batch {} is still pending (not cancelled)'' [FInt 4])) \<and>
     wait_ends demo_native_env demo_world 4 (Fin (0 + 2)) 1 demo_engine m (r, t, n)"
proof -
  have run: "engine_wait demo_native_env demo_world 4 None demo_engine = Some (Inl (TimeoutError
     (Fmt ''batch {} is still pending (not cancelled)'' [FInt 4])), demo_engine, 3)"
    unfolding engine_wait_def
    by (subst wait_loop.simps, subst wait_loop.simps)
      (simp add: demo_statuses is_Pending_def demo_world_def, simp add: demo_engine_def)
  have "(case None of None \<Rightarrow> en_timeout demo_engine | Some t \<Rightarrow> t) = Fin 2"
    by (simp add: demo_engine_def)
  from wait_ends_by_deadline [OF demo_world_ticking this, of demo_native_env 4] obtain m where
    ends: "wait_ends demo_native_env demo_world 4 (Fin (0 + 2)) 1 demo_engine m (Inl (TimeoutError
      (Fmt ''batch {} is still pending (not cancelled)'' [FInt 4])), demo_engine, 3)"
    unfolding run by (auto simp: demo_world_def)
  then have "m = 1"
    by (auto simp: wait_ends_def demo_world_def dest: spec [of _ 1] split: prod.splits sum.splits if_splits)
  with ends run show ?thesis by auto
qed

section \<open>Transferring\<close>

lemma raise_failed_None: "raise_failed batch k xs = None \<longleftrightarrow> (\<forall>x \<in> set xs. \<forall>e. x \<noteq> Failed e)"
  by (induction batch k xs rule: raise_failed.induct) (auto split: transfer_status.splits)

lemma raise_failed_Some:
  "raise_failed batch k xs = Some e \<Longrightarrow> \<exists>i error. i < length xs \<and> xs ! i = Failed error \<and>
     (\<forall>j < i. \<forall>x. xs ! j \<noteq> Failed x) \<and>
     e = EngineError (Fmt ''batch {} task {}'' [FInt batch, FInt (k + int i)]) error"
proof (induction xs arbitrary: k)
  case (Cons status rest)
  show ?case
  proof (cases "\<exists>error. status = Failed error")
    case True
    with Cons.prems show ?thesis by (intro exI [of _ 0]) auto
  next
    case False
    with Cons.prems have "raise_failed batch (k + 1) rest = Some e" by (cases status) auto
    from Cons.IH [OF this] obtain i error where "i < length rest" "rest ! i = Failed error"
      "\<forall>j < i. \<forall>x. rest ! j \<noteq> Failed x"
      "e = EngineError (Fmt ''batch {} task {}'' [FInt batch, FInt (k + 1 + int i)]) error" by auto
    with False show ?thesis
      by (intro exI [of _ "Suc i"]) (auto simp: less_Suc_eq_0_disj)
  qed
qed simp

text \<open>Whether the native engine still has the batch on its books.\<close>

definition holds_batch :: "int \<Rightarrow> 'l native engine \<Rightarrow> bool" where
  "holds_batch batch s \<longleftrightarrow> map_of (ne_batches (cp_native (en_control s))) batch \<noteq> None"

lemma statuses_hold:
  assumes "engine_get_transfer_statuses (native_env C uuid) batch u = (Inr statuses, t)"
  shows "holds_batch batch t"
proof -
  from assms obtain n where run: "native_get_transfer_statuses C batch (cp_native (en_control u)) = (Inr statuses, n)"
    and t: "cp_native (en_control t) = n"
    by (auto simp: engine_get_transfer_statuses_def engine_eqs)
  from run have "map_of (ne_batches (cp_native (en_control u))) batch \<noteq> None"
    by (auto simp: native_get_transfer_statuses_def py_eqs split: option.splits)
  moreover from statuses_books [OF run] have "ne_batches n = ne_batches (cp_native (en_control u))"
    by (simp add: books_def)
  ultimately show ?thesis by (simp add: holds_batch_def t)
qed

lemma free_drops:
  "engine_free_batch (native_env C uuid) batch u = (Inr x, t) \<Longrightarrow> \<not> holds_batch batch t"
  by (auto simp: engine_free_batch_def engine_eqs native_free_batch_def native_eqs holds_batch_def
      dict_get_delete)

text \<open>The exception names the first failed task of statuses the engine had just read, all terminal.\<close>

definition names_failed_task :: "('n, 'z) control_env_scheme \<Rightarrow> int \<Rightarrow> exn \<Rightarrow> bool" where
  "names_failed_task E batch e \<longleftrightarrow>
     (\<exists>i error u t statuses. e = EngineError (Fmt ''batch {} task {}'' [FInt batch, FInt (int i)]) error \<and>
        engine_get_transfer_statuses E batch u = (Inr statuses, t) \<and>
        i < length statuses \<and> statuses ! i = Failed error \<and> (\<forall>j < i. \<exists>x. statuses ! j = Completed x))"

lemma terminal_report:
  assumes polled: "engine_get_transfer_statuses E batch w = (Inr statuses, u)"
    and terminal: "\<forall>status \<in> set statuses. \<not> is_Pending status"
  shows "case raise_failed batch 0 statuses of
      None \<Rightarrow> \<forall>status \<in> set statuses. \<exists>x. status = Completed x
    | Some e \<Rightarrow> names_failed_task E batch e"
proof -
  have completed: "(\<forall>e. status \<noteq> Failed e) \<longleftrightarrow> (\<exists>z. status = Completed z)"
    if "status \<in> set statuses" for status
    using terminal that by (cases status) (auto simp: is_Pending_def)
  show ?thesis
  proof (cases "raise_failed batch 0 statuses")
    case None
    then have "\<forall>status \<in> set statuses. \<exists>x. status = Completed x"
      using completed unfolding raise_failed_None by blast
    with None show ?thesis by simp
  next
    case (Some e)
    from raise_failed_Some [OF Some] obtain i error where first: "i < length statuses"
      "statuses ! i = Failed error" "\<forall>j < i. \<forall>x. statuses ! j \<noteq> Failed x"
      "e = EngineError (Fmt ''batch {} task {}'' [FInt batch, FInt (int i)]) error" by auto
    then have "\<forall>j < i. \<exists>x. statuses ! j = Completed x"
      using completed by (meson nth_mem order_less_trans)
    with Some first polled show ?thesis unfolding names_failed_task_def by auto
  qed
qed

text \<open>
  C2: a \<open>transfer\<close> that returns gives a completed status per task and its batch is off the books.
  When it raises for a failed task, it names the batch and the first failed task with its error, and
  the batch was released before. When it raises a timeout, the batch is still on the books, so that
  it can be waited for again. Otherwise it raised what the submission, a poll or the release raised.
\<close>

theorem transfer_outcome:
  assumes "engine_transfer (native_env C uuid) W requests timeout s = Some (r, v)"
  shows "case r of
      Inr statuses \<Rightarrow> (\<forall>status \<in> set statuses. \<exists>x. status = Completed x) \<and>
        (\<exists>batch t. engine_submit_transfer (native_env C uuid) requests s = (Inr batch, t) \<and> \<not> holds_batch batch v)
    | Inl e \<Rightarrow> engine_submit_transfer (native_env C uuid) requests s = (Inl e, v) \<or>
        (\<exists>batch t. engine_submit_transfer (native_env C uuid) requests s = (Inr batch, t) \<and>
          (names_failed_task (native_env C uuid) batch e \<and> \<not> holds_batch batch v \<or>
           e = TimeoutError (Fmt ''batch {} is still pending (not cancelled)'' [FInt batch]) \<and> holds_batch batch v \<or>
           (\<exists>u. engine_get_transfer_statuses (native_env C uuid) batch u = (Inl e, v) \<or>
              engine_free_batch (native_env C uuid) batch u = (Inl e, v))))"
proof (cases "engine_submit_transfer (native_env C uuid) requests s")
  case submitted: (Pair x t)
  show ?thesis
  proof (cases x)
    case (Inl e)
    with assms submitted show ?thesis by (auto simp: engine_transfer_def)
  next
    case (Inr batch)
    note submitted = submitted [unfolded Inr]
    from assms submitted obtain y u k where
      wait: "engine_wait (native_env C uuid) W batch timeout (others W 0 t) = Some (y, u, k)"
      by (auto simp: engine_transfer_def split: option.splits)
    then obtain m where "wait_ends (native_env C uuid) W batch
        (add_time (now W 0) (case timeout of None \<Rightarrow> en_timeout (others W 0 t) | Some t \<Rightarrow> t)) 1 (others W 0 t) m (y, u, k)"
      unfolding engine_wait_def using wait_loop_Some by blast
    then show ?thesis
    proof (cases rule: wait_ends_cases)
      case (Raised e w)
      with assms submitted wait have "r = Inl e" "v = u" by (auto simp: engine_transfer_def)
      with Raised submitted show ?thesis by auto
    next
      case (Timeout w statuses)
      with assms submitted wait have "r = y" "v = u" by (auto simp: engine_transfer_def)
      with Timeout(1) submitted show ?thesis using statuses_hold [OF Timeout(2)] by auto
    next
      case (Returned statuses w)
      note report = terminal_report [OF Returned(2,3)]
      show ?thesis
        using assms submitted wait Returned(1) report free_drops [of C uuid batch "others W k u"]
        by (auto simp: engine_transfer_def split: prod.splits sum.splits option.splits)
    qed
  qed
qed

theorem transfer_outcome_witness:
  "\<exists>v. engine_transfer (native_env (demo_lib\<lparr>r101_free_batch := \<lambda>_ _ n. (Inr 0, n)\<rparr>) demo_uuid) demo_world [] None
       demo_engine = Some (Inr [], v) \<and> (\<exists>batch. \<not> holds_batch batch v)"
proof -
  let ?env = "native_env (demo_lib\<lparr>r101_free_batch := \<lambda>_ _ n. (Inr 0, n)\<rparr>) demo_uuid"
  have "\<exists>v. engine_transfer ?env demo_world [] None demo_engine = Some (Inr [], v)"
    unfolding engine_transfer_def engine_wait_def
    by (subst wait_loop.simps)
      (simp add: engine_submit_transfer_def engine_get_transfer_statuses_def engine_free_batch_def
        engine_check_open_def on_control_def on_native_def native_submit_transfer_def native_free_batch_def
        native_get_transfer_statuses_def native_call_out_def native_call_def on_lib_def demo_engine_def
        demo_native_def demo_lib_def demo_world_def native_closed_def check_code_def py_defs py_del_def
        R101_defs)
  then obtain v where run: "engine_transfer ?env demo_world [] None demo_engine = Some (Inr [], v)" ..
  from transfer_outcome [OF this] run show ?thesis by auto
qed

section \<open>Construction\<close>

text \<open>
  C33: a construction that fails leaks no native engine. When it fails after the C library created
  one, the library is left in the state its \<^verbatim>\<open>r101_destroy_engine\<close> leaves for that handle; when it
  succeeds, the timeout is positive and finite and the plane is open over the live engine.
\<close>

theorem construction_releases_native:
  "case Engine_init C dlopen path config timeout listen advertise add_port start l of
     Inr s \<Rightarrow> isfinite timeout \<and> \<not> nonpositive timeout \<and> en_timeout s = timeout \<and>
       \<not> cp_closed (en_control s) \<and> \<not> native_closed (cp_native (en_control s)) \<and>
       NativeEngine_init C dlopen path config l = Inr (cp_native (en_control s))
   | Inl (e, l') \<Rightarrow>
       if isfinite timeout \<and> \<not> nonpositive timeout
       then (case NativeEngine_init C dlopen path config l of
         Inl failure \<Rightarrow> (e, l') = failure
       | Inr native \<Rightarrow> snd (r101_destroy_engine C (ne_handle native) (ne_lib native)) = l')
       else l' = l"
proof (cases "NativeEngine_init C dlopen path config l")
  case (Inl failure)
  then show ?thesis by (auto simp: Engine_init_def)
next
  case (Inr native)
  then have live: "ne_handle native \<noteq> 0"
    by (auto simp: NativeEngine_init_def split: sum.splits prod.splits if_splits)
  have destroyed: "ne_lib n = snd (r101_destroy_engine C (ne_handle native) (ne_lib native))"
    if "native_close C native = (r, n)" for r n
    using that live
    by (auto simp: native_close_def native_call_def on_lib_def py_defs split: prod.splits sum.splits)
  show ?thesis
  proof (cases "ControlPlane_init native listen advertise add_port start")
    case (Inl e)
    with Inr destroyed show ?thesis
      by (cases "native_close C native") (auto simp: Engine_init_def split: sum.splits)
  next
    case plane: (Inr control)
    then have "cp_native control = native" "\<not> cp_closed control"
      by (auto simp: ControlPlane_init_def split: prod.splits if_splits sum.splits option.splits)
    with Inr plane live show ?thesis by (simp add: Engine_init_def native_closed_def)
  qed
qed

section \<open>Closing\<close>

lemma closed_serve: "cp_closed s \<Longrightarrow> serve E calls s = s"
proof (induction calls)
  case (Cons call calls)
  then have "serve_one E call s = s"
    by (cases call) (simp_all add: handle_Connect_def handle_Ready_def handle_Changed_def
        handle_Close_def check_endpoint_def check_open_def py_defs)
  with Cons show ?case by (simp add: serve_def)
qed (simp add: serve_def)

lemma close_run:
  "engine_close E (during E calls (Inr ())) s =
     (case na_close E (cp_native (en_control s)) of (r, n) \<Rightarrow>
        (case r of Inl e \<Rightarrow> Inl e | Inr _ \<Rightarrow> Inr (),
         s\<lparr>en_control := (if cp_closed (en_control s) then en_control s
             else (en_control s)\<lparr>cp_closed := True, cp_channels := [], cp_peers := [], cp_memory_metadata := []\<rparr>)
             \<lparr>cp_native := n\<rparr>\<rparr>))"
  by (auto simp: engine_close_def control_close_def on_control_def on_native_def during_def closed_serve py_defs
      split: prod.splits sum.splits)

abbreviation engine_is_closed :: exn where
  "engine_is_closed \<equiv> RuntimeError (Msg ''engine is closed'')"

text \<open>What every operation of an engine answers once its plane is closed; none has an effect.\<close>

lemma closed_engine_rejects:
  assumes "cp_closed (en_control t)"
  shows "engine_submit_transfer E requests t = (Inl engine_is_closed, t)"
    and "engine_get_transfer_statuses E batch t = (Inl engine_is_closed, t)"
    and "engine_free_batch E batch t = (Inl engine_is_closed, t)"
    and "engine_wait E W batch timeout t = Some (Inl engine_is_closed, t, 1)"
    and "engine_transfer E W requests timeout t = Some (Inl engine_is_closed, t)"
    and "engine_connect E rpc1 rpc2 e t = (Inl (if e = [] \<or> e = cp_endpoint (en_control t)
      then ValueError (Msg ''a different remote Engine endpoint is required'') else engine_is_closed), t)"
    and "engine_disconnect E rpc3 handle t = (Inl engine_is_closed, t)"
    and "engine_register_local_memory E gap rpc buffer access t =
      (Inl (case as_memory buffer of Inl x \<Rightarrow> x | Inr _ \<Rightarrow> engine_is_closed), t)"
    and "engine_allocate E gap rpc ref char sz access t =
      (Inl (case Memory_new ref char sz of Inl x \<Rightarrow> x | Inr _ \<Rightarrow> engine_is_closed), t)"
proof -
  show statuses: "engine_get_transfer_statuses E batch t = (Inl engine_is_closed, t)"
    and submit: "engine_submit_transfer E requests t = (Inl engine_is_closed, t)"
    and "engine_free_batch E batch t = (Inl engine_is_closed, t)"
    using assms by (simp_all add: engine_submit_transfer_def engine_get_transfer_statuses_def
        engine_free_batch_def engine_check_open_def py_defs)
  show "engine_wait E W batch timeout t = Some (Inl engine_is_closed, t, 1)"
    unfolding engine_wait_def by (subst wait_loop.simps) (simp add: statuses)
  show "engine_transfer E W requests timeout t = Some (Inl engine_is_closed, t)"
    by (simp add: engine_transfer_def submit)
  show "engine_connect E rpc1 rpc2 e t = (Inl (if e = [] \<or> e = cp_endpoint (en_control t)
      then ValueError (Msg ''a different remote Engine endpoint is required'') else engine_is_closed), t)"
    and "engine_disconnect E rpc3 handle t = (Inl engine_is_closed, t)"
    using assms by (simp_all add: engine_connect_def engine_disconnect_def connect_def connect_begin_def
        check_endpoint_def check_open_def disconnect_def disconnect_begin_def on_control_def py_defs)
  show "engine_register_local_memory E gap rpc buffer access t =
      (Inl (case as_memory buffer of Inl x \<Rightarrow> x | Inr _ \<Rightarrow> engine_is_closed), t)"
    using assms by (simp add: engine_register_local_memory_def engine_check_open_def py_defs split: sum.split)
  show "engine_allocate E gap rpc ref char sz access t =
      (Inl (case Memory_new ref char sz of Inl x \<Rightarrow> x | Inr _ \<Rightarrow> engine_is_closed), t)"
    using assms by (simp add: engine_allocate_def as_memory_def engine_register_local_memory_def engine_check_open_def
        py_defs split: sum.split)
qed

text \<open>
  C31: \<open>close\<close> closes the plane and drops all its peers, channels and published metadata before it releases the
  native engine. When it returns, the native engine has no handle and retains nothing; closing once more
  changes nothing. When the library refuses, the plane is closed and empty all the same, but every registration,
  batch and the handle are kept, so that the storage stays alive and \<open>close\<close> can be tried again. Either way
  every later operation of the engine raises and changes nothing, \<open>wait\<close> at its first poll, and no handler
  changes the plane.
\<close>

theorem close_releases_everything:
  assumes "engine_close (native_env C uuid) (during (native_env C uuid) calls (Inr ())) s = (r, t)"
  shows "cp_closed (en_control t) \<and>
    (if cp_closed (en_control s)
     then en_control t = (en_control s)\<lparr>cp_native := cp_native (en_control t)\<rparr>
     else cp_peers (en_control t) = [] \<and> cp_channels (en_control t) = [] \<and> cp_memory_metadata (en_control t) = []) \<and>
    (case r of
       Inl e \<Rightarrow> books (cp_native (en_control t)) = books (cp_native (en_control s))
     | Inr _ \<Rightarrow> native_closed (cp_native (en_control t)) \<and>
         (native_closed (cp_native (en_control s)) \<or> books (cp_native (en_control t)) = (0, [], [], [], {})) \<and>
         engine_close (native_env C uuid) (during (native_env C uuid) calls (Inr ())) t = (Inr (), t)) \<and>
    engine_submit_transfer (native_env C uuid) requests t = (Inl engine_is_closed, t) \<and>
    engine_get_transfer_statuses (native_env C uuid) batch t = (Inl engine_is_closed, t) \<and>
    engine_free_batch (native_env C uuid) batch t = (Inl engine_is_closed, t) \<and>
    engine_wait (native_env C uuid) W batch timeout t = Some (Inl engine_is_closed, t, 1) \<and>
    engine_transfer (native_env C uuid) W requests timeout t = Some (Inl engine_is_closed, t) \<and>
    engine_connect (native_env C uuid) rpc1 rpc2 e t = (Inl (if e = [] \<or> e = cp_endpoint (en_control t)
      then ValueError (Msg ''a different remote Engine endpoint is required'') else engine_is_closed), t) \<and>
    engine_disconnect (native_env C uuid) rpc3 handle t = (Inl engine_is_closed, t) \<and>
    engine_register_local_memory (native_env C uuid) gap rpc buffer access t =
      (Inl (case as_memory buffer of Inl x \<Rightarrow> x | Inr _ \<Rightarrow> engine_is_closed), t) \<and>
    engine_allocate (native_env C uuid) gap rpc ref char sz access t =
      (Inl (case Memory_new ref char sz of Inl x \<Rightarrow> x | Inr _ \<Rightarrow> engine_is_closed), t) \<and>
    serve (native_env C uuid) later (en_control t) = en_control t"
proof -
  obtain x n where close: "native_close C (cp_native (en_control s)) = (x, n)" by fastforce
  have t: "cp_closed (en_control t)" "cp_native (en_control t) = n"
    and plane: "if cp_closed (en_control s) then en_control t = (en_control s)\<lparr>cp_native := n\<rparr>
      else cp_peers (en_control t) = [] \<and> cp_channels (en_control t) = [] \<and> cp_memory_metadata (en_control t) = []"
    and r: "r = (case x of Inl e \<Rightarrow> Inl e | Inr _ \<Rightarrow> Inr ())"
    using assms unfolding close_run by (auto simp: close)
  note rejected = closed_engine_rejects [OF t(1)] closed_serve [OF t(1)]
  show ?thesis
  proof (cases x)
    case (Inl e)
    with close close_raise have "books n = books (cp_native (en_control s))" by blast
    with r t Inl plane show ?thesis by (simp add: rejected)
  next
    case (Inr u)
    with close have closed: "native_closed n"
      and empty: "native_closed (cp_native (en_control s)) \<or> books n = (0, [], [], [], {})"
      by (auto simp: native_close_def native_eqs native_closed_def books_def split: if_splits)
    have "engine_close (native_env C uuid) (during (native_env C uuid) calls (Inr ())) t = (Inr (), t)"
      unfolding close_run using closed t by (simp add: native_close_def native_closed_def py_defs)
    with closed empty r t Inr plane show ?thesis by (simp add: rejected)
  qed
qed

theorem close_releases_everything_witness:
  "\<exists>t. engine_close demo_native_env (during demo_native_env [] (Inr ())) demo_engine = (Inr (), t) \<and>
     books (cp_native (en_control t)) = (0, [], [], [], {}) \<and>
     engine_submit_transfer demo_native_env [] t = (Inl engine_is_closed, t)"
proof -
  have "fst (engine_close demo_native_env (during demo_native_env [] (Inr ())) demo_engine) = Inr ()"
    by (simp add: close_run) (simp add: native_close_def native_call_def on_lib_def check_code_def py_defs
        demo_engine_def demo_native_def demo_lib_def R101_OK_def)
  then obtain t where run: "engine_close demo_native_env (during demo_native_env [] (Inr ())) demo_engine = (Inr (), t)"
    by (metis prod.collapse)
  have "\<not> native_closed (cp_native (en_control demo_engine))"
    by (simp add: demo_engine_def demo_native_def native_closed_def)
  with run close_releases_everything [OF run, of "[]"] show ?thesis by auto
qed

section \<open>What handlers and remote calls leave alone\<close>

text \<open>Registrations, the published metadata and the closed flag are among what they leave alone.\<close>

interpretation registration: native_keeps "native_env C uuid" "\<lambda>n _ _. map_of (ne_memories n) k = Some v"
  for C uuid k v
  by unfold_locales (auto intro!: keepsI dest: other_keeps_memories)

interpretation openness: native_keeps E "\<lambda>_ closed _. closed = b" for E b
  by unfold_locales (auto intro: keepsI)

interpretation publication: native_keeps E "\<lambda>_ _ mds. md \<in> set mds" for E md
  by unfold_locales (auto intro: keepsI)

section \<open>Registering\<close>

lemma publish_keeps_metadata:
  assumes "\<not> cp_closed s" and "publish (answering (native_env C uuid) remote) md s = (r, t)"
  shows "md \<in> set (cp_memory_metadata t)"
proof -
  let ?s1 = "s\<lparr>cp_memory_metadata := cp_memory_metadata s @ [md]\<rparr>"
  from assms obtain sn refs where
    loop: "py_each (publish_to (answering (native_env C uuid) remote) sn) refs ?s1 = (r, t)"
    by (simp add: publish_def publish_begin_def check_open_def py_defs)
  have "keeps (\<lambda>s. md \<in> set (cp_memory_metadata s))
      (py_each (publish_to (answering (native_env C uuid) remote) sn) refs)"
    by (rule keeps_each) (rule publication.keeps_publish_to, rule publication.keeps_during)
  from keepsD [OF this _ loop] show ?thesis by simp
qed

text \<open>
  C32: once the library has granted a registration, its storage is retained under the new id and its
  metadata is published, whatever handlers run and whatever the peers answer: a failure to publish
  raises, but gives neither back. When \<open>register_local_memory\<close> returns, the object it returns has
  that id and the address, length and storage of the memory it was given.
\<close>

theorem register_retains_and_publishes:
  assumes "as_memory buffer = Inr memory" and "\<not> cp_closed (en_control s)"
    and "\<not> native_closed (cp_native (en_control s))"
    and "native_register_local_memory C (Memory memory) access (cp_native (en_control s)) = (Inr reg, n)"
    and "engine_register_local_memory (native_env C uuid) (during (native_env C uuid) gap (Inr ()))
      (answering (native_env C uuid) remote) buffer access s = (r, t)"
  shows "map_of (ne_memories (cp_native (en_control t))) (mm_memory reg) = Some (memory, mm_metadata reg) \<and>
    mm_metadata reg \<in> set (cp_memory_metadata (en_control t)) \<and>
    (\<forall>m. r = Inr m \<longrightarrow> m = \<lparr>lm_id = mm_memory reg, lm_address = mem_address memory,
       lm_length = mem_size memory, lm_storage = memory\<rparr>)"
proof -
  let ?E = "native_env C uuid"
  let ?c = "(en_control s)\<lparr>cp_native := n\<rparr>"
  let ?d = "serve ?E gap ?c"
  let ?m = "\<lparr>lm_id = mm_memory reg, lm_address = mem_address memory, lm_length = mem_size memory,
      lm_storage = memory\<rparr>"
  have granted: "map_of (ne_memories n) (mm_memory reg) = Some (memory, mm_metadata reg)"
    using assms(4) by (auto simp: native_register_local_memory_def native_eqs dict_get_update)
  obtain x d where publish: "publish (answering ?E remote) (mm_metadata reg) ?d = (x, d)" by fastforce
  have run: "r = (case x of Inl e \<Rightarrow> Inl e | Inr _ \<Rightarrow> Inr ?m)" "en_control t = d"
    using assms publish
    by (auto simp: engine_register_local_memory_def engine_check_open_def on_control_def on_native_def
        during_def py_defs split: sum.splits)
  have "map_of (ne_memories (cp_native ?d)) (mm_memory reg) = Some (memory, mm_metadata reg)"
    by (rule registration.keeps_serve) (simp add: granted)
  then have "map_of (ne_memories (cp_native d)) (mm_memory reg) = Some (memory, mm_metadata reg)"
    using keepsD [OF registration.keeps_publish [OF registration.keeps_during] _ publish] by blast
  moreover have "cp_closed ?d = False"
    by (rule openness.keeps_serve) (use assms(2) in simp)
  then have "mm_metadata reg \<in> set (cp_memory_metadata d)"
    using publish_keeps_metadata publish by blast
  ultimately show ?thesis using run by (auto split: sum.splits)
qed

theorem register_retains_and_publishes_witness:
  "\<exists>t. snd (engine_register_local_memory demo_native_env (during demo_native_env [] (Inr ()))
      (answering demo_native_env (\<lambda>_. ([], Inl RpcError))) (IsMemory demo_memory) 1 demo_engine) = t \<and>
     map_of (ne_memories (cp_native (en_control t))) 5 = Some (demo_memory, [7])"
proof -
  have open_engine: "\<not> cp_closed (en_control demo_engine)" "\<not> native_closed (cp_native (en_control demo_engine))"
    by (simp_all add: demo_engine_def demo_native_def native_closed_def)
  have "\<exists>n. native_register_local_memory demo_lib (Memory demo_memory) 1 (cp_native (en_control demo_engine)) =
      (Inr \<lparr>mm_memory = 5, mm_metadata = [7]\<rparr>, n)"
    by (simp add: native_register_local_memory_def native_call_out_def on_lib_def check_code_def py_defs
        demo_engine_def demo_native_def demo_lib_def R101_OK_def)
  then obtain n where "native_register_local_memory demo_lib (Memory demo_memory) 1 (cp_native (en_control demo_engine)) =
      (Inr \<lparr>mm_memory = 5, mm_metadata = [7]\<rparr>, n)" ..
  from register_retains_and_publishes [OF _ open_engine this surjective_pairing, of "IsMemory demo_memory",
      where uuid = demo_uuid and gap = "[]" and remote = "\<lambda>_. ([], Inl RpcError)"]
  show ?thesis by (simp add: as_memory_def)
qed

section \<open>Runs\<close>

text \<open>Between operations a closed plane has no peers left.\<close>

definition engine_wf ::
  "('n \<Rightarrow> bool) \<Rightarrow> ('n \<Rightarrow> int \<Rightarrow> bytes option) \<Rightarrow> ('n \<Rightarrow> int \<Rightarrow> bytes option) \<Rightarrow> 'n engine \<Rightarrow> bool"
where
  "engine_wf ok live conn s \<longleftrightarrow> control_wf ok live conn (en_control s) \<and>
     (cp_closed (en_control s) \<longrightarrow> cp_peers (en_control s) = [])"

locale engine_plane = control_store E ok live conn imps + engine_store E ok live conn imps
  for E :: "('n, 'z) control_env_scheme" and ok live conn imps
begin

text \<open>A native call of the engine is a critical section of the plane.\<close>

lemma sec_native:
  assumes "\<And>n r n'. ok n \<Longrightarrow> m n = (r, n') \<Longrightarrow> ok n' \<and> live n' = live n \<and> conn n' = conn n \<and> imps n' = imps n"
  shows "sec (\<lambda>_. True) (on_native m) (\<lambda>_ _. True)"
  by (rule guardedI) (auto simp: on_native_eq evolves_frame intro!: wf_native dest: assms [OF wf_ok])

lemma sec_natives:
  "sec (\<lambda>_. True) (on_native (na_register_local_memory E m access)) (\<lambda>_ _. True)"
  "sec (\<lambda>_. True) (on_native (na_submit_transfer E requests)) (\<lambda>_ _. True)"
  "sec (\<lambda>_. True) (on_native (na_get_transfer_statuses E batch)) (\<lambda>_ _. True)"
  "sec (\<lambda>_. True) (on_native (na_free_batch E batch)) (\<lambda>_ _. True)"
  by (rule sec_native, erule (1) register_views submit_views statuses_views free_views)+

text \<open>The same, lifted to the engine.\<close>

abbreviation engine_evolves :: "'n engine \<Rightarrow> 'n engine \<Rightarrow> bool" where
  "engine_evolves s t \<equiv> evolves (en_control s) (en_control t) \<and> en_timeout t = en_timeout s"

abbreviation esec :: "('n, 'a) engine_call \<Rightarrow> bool" where
  "esec m \<equiv> guarded (\<lambda>s. wf (en_control s)) engine_evolves (\<lambda>_. True) m (\<lambda>_ _. True)"

lemma engine_preorder: "reflp engine_evolves" "transp engine_evolves"
  by (auto simp: reflp_def transp_def dest: evolves_trans)

lemma esec_on_control: "sec (\<lambda>_. True) m Q \<Longrightarrow> esec (on_control m)"
  by (rule guardedI) (auto simp: on_control_eq guarded_def)

lemma esec_check_open: "esec (engine_check_open E)"
  by (rule guardedI) (auto simp: engine_check_open_def py_defs split: if_splits)

lemmas esec_rules = guarded_bind [OF engine_preorder(2), where R = "\<lambda>_ _. True"]
  guarded_then [OF engine_preorder(2), where R = "\<lambda>_. True"] guarded_return [OF engine_preorder(1)]
  esec_check_open esec_on_control [OF sec_natives(1)] esec_on_control [OF sec_natives(2)]
  esec_on_control [OF sec_natives(3)] esec_on_control [OF sec_natives(4)]

lemma esec_lift: "esec (py_lift r)"
  by (rule guardedI) auto

lemma esec_register:
  "esec (engine_register_local_memory E (during E gap (Inr ())) (answering E remote) buffer access)"
  unfolding engine_register_local_memory_def
  by (intro esec_rules esec_lift esec_on_control [OF sec_during]
      esec_on_control [OF sec_publish [OF sec_during]] TrueI)

lemma esec_operations:
  "esec (engine_connect E (\<lambda>_ _. during E calls1 reply1) (\<lambda>_ _. during E calls2 reply2) e)"
  "esec (engine_disconnect E (\<lambda>_ _. during E calls reply) h)"
  "esec (engine_allocate E (during E gap (Inr ())) (answering E remote) ref alloc sz access)"
  "esec (engine_submit_transfer E requests)" "esec (engine_get_transfer_statuses E batch)"
  "esec (engine_free_batch E batch)"
  unfolding engine_connect_def engine_disconnect_def engine_allocate_def engine_submit_transfer_def
    engine_get_transfer_statuses_def engine_free_batch_def
  by (intro esec_rules esec_lift esec_register esec_on_control [OF sec_connect [OF sec_during sec_during]]
      esec_on_control [OF sec_disconnect [OF sec_during]] TrueI)+

text \<open>Only \<open>close\<close> changes the closed flag, and a closed engine stays as it is.\<close>

lemma keeps_on_control: "keeps P m \<Longrightarrow> keeps (\<lambda>s. P (en_control s)) (on_control m)"
  by (rule keepsI) (auto simp: on_control_eq dest: keepsD)

abbreviation stays_open :: "('n, 'a) engine_call \<Rightarrow> bool" where
  "stays_open m \<equiv> keeps (\<lambda>s. cp_closed (en_control s) = False) m"

lemmas open_rules = keeps_on_control [where P = "\<lambda>c. cp_closed c = False"]
  openness.keeps_during openness.keeps_publish openness.keeps_connect_call openness.keeps_disconnect

lemma open_native: "stays_open (on_control (on_native m))"
  by (rule open_rules(1)) (rule keepsI, auto simp: on_native_eq)

lemma open_check: "stays_open (engine_check_open E)"
  by (rule keepsI) (auto simp: engine_check_open_def py_defs split: if_splits)

lemma open_register:
  "stays_open (engine_register_local_memory E (during E gap (Inr ())) (answering E remote) buffer access)"
  unfolding engine_register_local_memory_def
  by (intro keeps_bind keeps_then keeps_lift keeps_return open_check open_native open_rules)

lemma open_operations:
  "stays_open (engine_connect E (\<lambda>_ _. during E calls1 reply1) (\<lambda>_ _. during E calls2 reply2) e)"
  "stays_open (engine_disconnect E (\<lambda>_ _. during E calls reply) h)"
  "stays_open (engine_allocate E (during E gap (Inr ())) (answering E remote) ref alloc sz access)"
  "stays_open (engine_submit_transfer E requests)" "stays_open (engine_get_transfer_statuses E batch)"
  "stays_open (engine_free_batch E batch)"
  unfolding engine_connect_def engine_disconnect_def engine_allocate_def engine_submit_transfer_def
    engine_get_transfer_statuses_def engine_free_batch_def
  by (intro keeps_bind keeps_then keeps_lift keeps_return open_check open_native open_register open_rules)+

lemma open_exec:
  assumes "\<not> cp_closed (en_control s)" and "\<forall>calls. op \<noteq> EnClose calls"
  shows "\<not> cp_closed (en_control (engine_exec E op s))"
proof (cases op)
  case (EnServe call)
  with openness.keeps_serve [of "en_control s" False E "[call]"] assms show ?thesis by (simp add: serve_def)
qed (use assms open_operations [THEN keepsD, OF _ surjective_pairing] open_register [THEN keepsD, OF _ surjective_pairing]
    in \<open>simp_all del: not_None_eq\<close>)

lemma closed_exec:
  assumes "cp_closed (en_control s)" and "\<forall>calls. op \<noteq> EnClose calls"
  shows "engine_exec E op s = s"
proof (cases op)
  case (EnServe call)
  with closed_serve [OF assms(1), of E "[call]"] show ?thesis by (simp add: serve_def)
next
  case (EnRegister buffer access gap remote)
  with assms show ?thesis by (cases "as_memory buffer")
    (simp_all add: engine_register_local_memory_def engine_check_open_def py_defs)
next
  case (EnAllocate ref alloc sz access gap remote)
  with assms show ?thesis by (cases "Memory_new ref alloc sz")
    (simp_all add: engine_allocate_def as_memory_def engine_register_local_memory_def
      engine_check_open_def py_defs)
qed (use assms in \<open>simp_all add: engine_connect_def engine_disconnect_def engine_submit_transfer_def
    engine_get_transfer_statuses_def engine_free_batch_def engine_check_open_def on_control_def
    connect_def connect_begin_def disconnect_def disconnect_begin_def check_endpoint_def check_open_def py_defs\<close>)

lemma engine_close_wf:
  assumes "engine_wf ok live conn s"
  shows "engine_wf ok live conn (engine_exec E (EnClose calls) s)"
proof -
  obtain r n where close: "na_close E (cp_native (en_control s)) = (r, n)" by fastforce
  from assms have "ok (cp_native (en_control s))" by (simp add: engine_wf_def control_wf_def)
  with close have "ok n" by (blast intro: close_ok)
  with assms close show ?thesis
    by (auto simp: close_run engine_wf_def control_wf_def)
qed

lemma exec_wf:
  assumes "engine_wf ok live conn s"
  shows "engine_wf ok live conn (engine_exec E op s)"
proof (cases "\<exists>calls. op = EnClose calls")
  case True
  with engine_close_wf [OF assms] show ?thesis by blast
next
  case False
  from assms have s: "wf (en_control s)" by (simp add: engine_wf_def)
  have "wf (en_control (engine_exec E op s))"
  proof (cases op)
    case (EnServe call)
    with sec_serve_one [OF s] show ?thesis by simp
  next
    case (EnClose calls)
    with False show ?thesis by blast
  qed (use s esec_operations [THEN guardedD(1), OF _ TrueI surjective_pairing]
      esec_register [THEN guardedD(1), OF _ TrueI surjective_pairing] in simp_all)
  then show ?thesis
    using False assms open_exec [of s op] closed_exec [of s op]
    by (cases "cp_closed (en_control s)") (auto simp: engine_wf_def)
qed

lemma run_wf: "engine_wf ok live conn s \<Longrightarrow> engine_wf ok live conn (engine_run E ops s)"
  by (induction ops arbitrary: s) (simp_all add: engine_run_def exec_wf)

end

text \<open>The engine of the tests: a fake native engine behind it.\<close>

lemma fake_engine_methods:
  "na_register_local_memory (fake_env uuid) = na_register_local_memory fake_api"
  "na_submit_transfer (fake_env uuid) = na_submit_transfer fake_api"
  "na_get_transfer_statuses (fake_env uuid) = na_get_transfer_statuses fake_api"
  "na_free_batch (fake_env uuid) = na_free_batch fake_api"
  "na_close (fake_env uuid) = na_close fake_api"
  by (simp_all add: fake_env_def native_api.defs control_env.defs)

interpretation fake_plane: engine_plane demo_env fake_ok fake_live fake_conn fake_imps
proof -
  have "engine_store_axioms demo_env fake_ok fake_live fake_conn fake_imps"
    using fake_native.engine_store_axioms
    unfolding engine_store_def engine_store_axioms_def fake_engine_methods by blast
  then show "engine_plane demo_env fake_ok fake_live fake_conn fake_imps"
    by (intro engine_plane.intro engine_store.intro fake_control.control_store_axioms fake_peer_store)
qed

text \<open>
  C13: whatever an application and its peers do with an engine, in any order, with any handlers run
  during its remote calls and any library or remote call failing, its peers stay well formed at
  every moment, and a closed engine has none.
\<close>

theorem engine_runs_are_well_formed:
  assumes "engine_plane E ok live conn imps" and "engine_wf ok live conn s"
  shows "engine_wf ok live conn (engine_run E ops s)"
  using engine_plane.run_wf [OF assms] .

theorem engine_runs_are_well_formed_witness:
  "engine_wf fake_ok fake_live fake_conn (engine_run demo_env
     [EnConnect ''n1:1'' [] (Inl RpcError) [] (Inl RpcError), EnSubmit [], EnClose []]
     \<lparr>en_control = demo_plane, en_timeout = Fin 10\<rparr>)"
proof -
  have "engine_wf fake_ok fake_live fake_conn \<lparr>en_control = demo_plane, en_timeout = Fin 10\<rparr>"
    using demo_plane_wf by (simp add: engine_wf_def)
  from engine_runs_are_well_formed [OF fake_plane.engine_plane_axioms this] show ?thesis .
qed

end
