(* ===== verification/Native_Contract.thy ===== *)
theory Native_Contract
  imports Engine_Facts
begin

text \<open>
  The documented contract of \<^verbatim>\<open>transfer_engine.h\<close> as the locale \<open>c_engine\<close>, over views of the state of a
  C library: the peers of an engine with the metadata they export, what each is connected to, and
  the imported memories with their handles and owners. A \<open>NativeEngine\<close> over such a library keeps
  the contract \<open>engine_store\<close>, so all that is proved of the control plane and the engine holds of
  the real stack.
\<close>

section \<open>The contract of the header\<close>

text \<open>
  Each law is a sentence of the header: handles of a creation are nonzero and not in use, metadata is
  a nonempty blob, a peer connects once, importing needs a connected peer, destroying a peer removes
  its imported, and a call that fails (or that CFFI refuses to make) rolls back. A NULL engine has
  no peers.
\<close>

locale c_engine =
  fixes C :: "'l c_api"
    and lok :: "'l \<Rightarrow> bool"
    and peers :: "'l \<Rightarrow> int \<Rightarrow> int \<Rightarrow> bytes option"
    and links :: "'l \<Rightarrow> int \<Rightarrow> int \<Rightarrow> bytes option"
    and imported :: "'l \<Rightarrow> int \<Rightarrow> int \<Rightarrow> bytes set"
    and owner :: "'l \<Rightarrow> int \<Rightarrow> int \<Rightarrow> int option"
  assumes null_engine: "lok l \<Longrightarrow> peers l 0 p = None"
    and no_peer: "lok l \<Longrightarrow> peers l h p = None \<Longrightarrow> links l h p = None \<and> imported l h p = {}"
    and c_create_ok: "lok l \<Longrightarrow> r101_create_peer C h l = (Inr (R101_OK, p, a, n), l') \<Longrightarrow>
      lok l' \<and> p \<noteq> 0 \<and> a \<noteq> 0 \<and> n \<noteq> 0 \<and> peers l h p = None \<and>
      peers l' h = (peers l h)(p \<mapsto> ffi_bytes C l' a n) \<and>
      links l' h = links l h \<and> imported l' h = imported l h \<and> owner l' h = owner l h"
    and c_create_fail: "lok l \<Longrightarrow> r101_create_peer C h l = (r1, l') \<Longrightarrow> \<forall>x. r1 \<noteq> Inr (R101_OK, x) \<Longrightarrow>
      lok l' \<and> peers l' h = peers l h \<and> links l' h = links l h \<and> imported l' h = imported l h \<and>
      owner l' h = owner l h"
    and c_connect_ok: "lok l \<Longrightarrow> r101_connect_peer C h p b l = (Inr R101_OK, l') \<Longrightarrow>
      lok l' \<and> peers l h p \<noteq> None \<and> links l h p = None \<and> links l' h = (links l h)(p \<mapsto> b) \<and>
      peers l' h = peers l h \<and> imported l' h = imported l h \<and> owner l' h = owner l h"
    and c_connect_fail: "lok l \<Longrightarrow> r101_connect_peer C h p b l = (r2, l') \<Longrightarrow> r2 \<noteq> Inr R101_OK \<Longrightarrow>
      lok l' \<and> peers l' h = peers l h \<and> links l' h = links l h \<and> imported l' h = imported l h \<and>
      owner l' h = owner l h"
    and c_import_ok: "lok l \<Longrightarrow> r101_import_remote_memory C h p b l = (Inr (R101_OK, k), l') \<Longrightarrow>
      lok l' \<and> k \<noteq> 0 \<and> links l h p \<noteq> None \<and> (owner l h k = None \<or> owner l h k = Some p) \<and>
      owner l' h = (owner l h)(k \<mapsto> p) \<and> imported l' h = (imported l h)(p := insert b (imported l h p)) \<and>
      peers l' h = peers l h \<and> links l' h = links l h"
    and c_import_fail: "lok l \<Longrightarrow> r101_import_remote_memory C h p b l = (r3, l') \<Longrightarrow>
      \<forall>k. r3 \<noteq> Inr (R101_OK, k) \<Longrightarrow>
      lok l' \<and> peers l' h = peers l h \<and> links l' h = links l h \<and> imported l' h = imported l h \<and>
      owner l' h = owner l h"
    and c_destroy_ok: "lok l \<Longrightarrow> r101_destroy_peer C h p l = (Inr R101_OK, l') \<Longrightarrow>
      lok l' \<and> peers l h p \<noteq> None \<and> peers l' h = (peers l h)(p := None) \<and>
      links l' h = (links l h)(p := None) \<and> imported l' h = (imported l h)(p := {}) \<and>
      owner l' h = (\<lambda>k. if owner l h k = Some p then None else owner l h k)"
    and c_destroy_fail: "lok l \<Longrightarrow> r101_destroy_peer C h p l = (r2, l') \<Longrightarrow> r2 \<noteq> Inr R101_OK \<Longrightarrow>
      lok l' \<and> peers l' h = peers l h \<and> links l' h = links l h \<and> imported l' h = imported l h \<and>
      owner l' h = owner l h"
    and c_register: "lok l \<Longrightarrow> r101_register_local_memory C h a n access l = (r4, l') \<Longrightarrow>
      lok l' \<and> peers l' h = peers l h \<and> links l' h = links l h \<and> imported l' h = imported l h \<and>
      owner l' h = owner l h"
    and c_submit: "lok l \<Longrightarrow> r101_submit_transfer C h requests l = (r5, l') \<Longrightarrow>
      lok l' \<and> peers l' h = peers l h \<and> links l' h = links l h \<and> imported l' h = imported l h \<and>
      owner l' h = owner l h"
    and c_statuses: "lok l \<Longrightarrow> r101_get_transfer_statuses C h batch count l = (r6, l') \<Longrightarrow>
      lok l' \<and> peers l' h = peers l h \<and> links l' h = links l h \<and> imported l' h = imported l h \<and>
      owner l' h = owner l h"
    and c_free: "lok l \<Longrightarrow> r101_free_batch C h batch l = (r2, l') \<Longrightarrow>
      lok l' \<and> peers l' h = peers l h \<and> links l' h = links l h \<and> imported l' h = imported l h \<and>
      owner l' h = owner l h"
    and c_close: "lok l \<Longrightarrow> r101_destroy_engine C h l = (r2, l') \<Longrightarrow> lok l' \<and>
      (r2 \<noteq> Inr R101_OK \<longrightarrow> peers l' h = peers l h \<and> owner l' h = owner l h)"
    and c_engine_created: "lok l \<Longrightarrow> r101_create_engine C config l = (r5', l') \<Longrightarrow> lok l' \<and>
      (\<forall>h. r5' = Inr (R101_OK, h) \<longrightarrow> peers l' h = (\<lambda>_. None))"
begin

text \<open>The views of a \<open>NativeEngine\<close>, and the agreement of its books with the library.\<close>

definition nlive :: "'l native \<Rightarrow> int \<Rightarrow> bytes option" where
  "nlive n = peers (ne_lib n) (ne_handle n)"

definition nconn :: "'l native \<Rightarrow> int \<Rightarrow> bytes option" where
  "nconn n = links (ne_lib n) (ne_handle n)"

definition nimps :: "'l native \<Rightarrow> int \<Rightarrow> bytes set" where
  "nimps n = imported (ne_lib n) (ne_handle n)"

definition nok :: "'l native \<Rightarrow> bool" where
  "nok n \<longleftrightarrow> native_wf n \<and> lok (ne_lib n) \<and> ne_peers n = {p. nlive n p \<noteq> None} \<and>
     (\<forall>k p. map_of (ne_remote_memories n) k = Some p \<longrightarrow> owner (ne_lib n) (ne_handle n) k = Some p)"

lemmas nviews = nlive_def nconn_def nimps_def

text \<open>A change of the library state that the views do not see.\<close>

lemma nok_lib:
  assumes "nok n" and "lok l"
    and "peers l (ne_handle n) = peers (ne_lib n) (ne_handle n)"
    and "owner l (ne_handle n) = owner (ne_lib n) (ne_handle n)"
  shows "nok (n\<lparr>ne_lib := l\<rparr>)"
  using assms unfolding nok_def nviews native_wf_def by auto

lemma nok_facts:
  assumes "nok n"
  shows "lok (ne_lib n)" "native_wf n" "p \<in> ne_peers n \<longleftrightarrow> peers (ne_lib n) (ne_handle n) p \<noteq> None"
    "map_of (ne_remote_memories n) k = Some p \<Longrightarrow> owner (ne_lib n) (ne_handle n) k = Some p"
  using assms by (auto simp: nok_def nlive_def)

text \<open>The methods keep the agreement, and the views change as the library's do.\<close>

lemma native_create_views:
  assumes n: "nok n" and run: "native_create_peer C n = (r, n')"
  shows "nok n' \<and> nconn n' = nconn n \<and> nimps n' = nimps n \<and>
    (case r of
       Inl _ \<Rightarrow> nlive n' = nlive n
     | Inr pm \<Rightarrow> nlive n (pm_peer pm) = None \<and> nlive n' = (nlive n)(pm_peer pm \<mapsto> pm_metadata pm))"
proof -
  let ?h = "ne_handle n"
  obtain x l where call: "r101_create_peer C ?h (ne_lib n) = (x, l)" by fastforce
  show ?thesis
  proof (cases "\<exists>p a sz. x = Inr (R101_OK, p, a, sz)")
    case True
    then obtain p a sz where x: "x = Inr (R101_OK, p, a, sz)" by blast
    note lib = c_create_ok [OF nok_facts(1) [OF n] call [unfolded x]]
    then have fresh: "p \<notin> ne_peers n" using nok_facts(3) [OF n] by simp
    have "r = Inr \<lparr>pm_peer = p, pm_metadata = ffi_bytes C l a sz\<rparr>"
      and n': "n' = n\<lparr>ne_lib := l, ne_peers := insert p (ne_peers n)\<rparr>"
      using run call x lib fresh
      by (auto simp: native_create_peer_def native_call_out_def on_lib_def py_defs)
    moreover have "nok n'"
      using n lib unfolding n' nok_def native_wf_def by (auto simp: nlive_def)
    ultimately show ?thesis using lib by (simp add: nviews)
  next
    case False
    then have fail: "\<forall>y. x \<noteq> Inr (R101_OK, y)" by auto
    note lib = c_create_fail [OF nok_facts(1) [OF n] call this]
    have "\<exists>e. r = Inl e" and n': "n' = n\<lparr>ne_lib := l\<rparr>"
      using run call fail
      by (cases x; auto simp: native_create_peer_def native_call_out_def on_lib_def py_defs check_code_def
          split: if_splits sum.splits prod.splits)+
    with lib nok_lib [OF n, of l] show ?thesis by (auto simp: nviews)
  qed
qed

lemma native_connect_views:
  assumes n: "nok n" and run: "native_connect_peer C p b n = (r, n')"
  shows "nok n' \<and> nlive n' = nlive n \<and> nimps n' = nimps n \<and>
    (case r of
       Inl _ \<Rightarrow> nconn n' = nconn n
     | Inr _ \<Rightarrow> nlive n p \<noteq> None \<and> nconn n p = None \<and> (\<exists>md. b = Bytes md \<and> nconn n' = (nconn n)(p \<mapsto> md)))"
proof (cases "nonempty_bytes ''connection metadata must be nonempty bytes'' b")
  case (Inl e)
  with run n show ?thesis by (auto simp: native_connect_peer_def py_defs)
next
  case (Inr md)
  then have b: "b = Bytes md" by (cases b) (auto split: if_splits)
  obtain x l where call: "r101_connect_peer C (ne_handle n) p md (ne_lib n) = (x, l)" by fastforce
  have n': "n' = n\<lparr>ne_lib := l\<rparr>" and r: "(\<exists>u. r = Inr u) \<longleftrightarrow> x = Inr R101_OK"
    using run call Inr
    by (auto simp: native_connect_peer_def native_call_def on_lib_def py_defs check_code_def
        split: if_splits sum.splits)
  show ?thesis
  proof (cases "x = Inr R101_OK")
    case True
    note lib = c_connect_ok [OF nok_facts(1) [OF n] call [unfolded True]]
    with nok_lib [OF n, of l] r True b show ?thesis by (auto simp: n' nviews)
  next
    case False
    note lib = c_connect_fail [OF nok_facts(1) [OF n] call False]
    with nok_lib [OF n, of l] r False show ?thesis by (cases r) (auto simp: n' nviews)
  qed
qed

lemma native_import_views:
  assumes n: "nok n" and run: "native_import_remote_memory C p b n = (r, n')"
  shows "nok n' \<and> nlive n' = nlive n \<and> nconn n' = nconn n \<and>
    (case r of
       Inl _ \<Rightarrow> nimps n' = nimps n
     | Inr _ \<Rightarrow> nconn n p \<noteq> None \<and> (\<exists>md. b = Bytes md \<and> nimps n' = (nimps n)(p := insert md (nimps n p))))"
proof (cases "nonempty_bytes ''memory metadata must be nonempty bytes'' b")
  case (Inl e)
  with run n show ?thesis by (auto simp: native_import_remote_memory_def py_defs)
next
  case (Inr md)
  then have b: "b = Bytes md" by (cases b) (auto split: if_splits)
  obtain x l where call: "r101_import_remote_memory C (ne_handle n) p md (ne_lib n) = (x, l)" by fastforce
  show ?thesis
  proof (cases "\<exists>k. x = Inr (R101_OK, k)")
    case True
    then obtain k where x: "x = Inr (R101_OK, k)" by blast
    note lib = c_import_ok [OF nok_facts(1) [OF n] call [unfolded x]]
    have "map_of (ne_remote_memories n) k = None \<or> map_of (ne_remote_memories n) k = Some p"
      using nok_facts(4) [OF n, of k] lib by (cases "map_of (ne_remote_memories n) k") auto
    with run call x Inr lib have "r = Inr k"
      and n': "n' = n\<lparr>ne_lib := l, ne_remote_memories := AList.update k p (ne_remote_memories n)\<rparr>"
      by (auto simp: native_import_remote_memory_def native_call_out_def on_lib_def py_defs)
    moreover have "native_wf n'" using import_wf [OF nok_facts(2) [OF n] run] .
    then have "nok n'"
      using n lib unfolding n' nok_def by (auto simp: nlive_def dict_get_update)
    ultimately show ?thesis using lib b by (simp add: nviews)
  next
    case False
    then have fail: "\<forall>k. x \<noteq> Inr (R101_OK, k)" by auto
    note lib = c_import_fail [OF nok_facts(1) [OF n] call this]
    have "\<exists>e. r = Inl e" and n': "n' = n\<lparr>ne_lib := l\<rparr>"
      using run call fail Inr
      by (cases x; auto simp: native_import_remote_memory_def native_call_out_def on_lib_def py_defs check_code_def
          split: if_splits sum.splits prod.splits)+
    with lib nok_lib [OF n, of l] show ?thesis by (auto simp: nviews)
  qed
qed

lemma native_destroy_views:
  assumes n: "nok n" and run: "native_destroy_peer C p n = (r, n')"
  shows "nok n' \<and>
    (case r of
       Inl _ \<Rightarrow> nlive n' = nlive n \<and> nconn n' = nconn n \<and> nimps n' = nimps n
     | Inr _ \<Rightarrow> nlive n p \<noteq> None \<and> nlive n' = (nlive n)(p := None) \<and> nconn n' = (nconn n)(p := None) \<and>
         nimps n' = (nimps n)(p := {}))"
proof -
  obtain x l where call: "r101_destroy_peer C (ne_handle n) p (ne_lib n) = (x, l)" by fastforce
  show ?thesis
  proof (cases "x = Inr R101_OK")
    case True
    note lib = c_destroy_ok [OF nok_facts(1) [OF n] call [unfolded True]]
    then have known: "p \<in> ne_peers n" using nok_facts(3) [OF n] by simp
    have "r = Inr ()" and n': "n' = n\<lparr>ne_lib := l, ne_peers := ne_peers n - {p},
        ne_remote_memories := filter (\<lambda>(region, owner). owner \<noteq> p) (ne_remote_memories n)\<rparr>"
      using run call True known
      by (auto simp: native_destroy_peer_def native_call_def on_lib_def py_defs)
    moreover have "native_wf n'" using destroy_peer_wf [OF nok_facts(2) [OF n] run] .
    moreover have "dict_ok (ne_remote_memories n)" using nok_facts(2) [OF n] by (simp add: native_wf_def)
    ultimately have "nok n'"
      using n lib unfolding n' nok_def
      by (auto simp: nlive_def dict_get_filter_owner split: option.splits if_splits)
    with \<open>r = Inr ()\<close> lib show ?thesis by (simp add: n' nviews)
  next
    case False
    note lib = c_destroy_fail [OF nok_facts(1) [OF n] call False]
    have "\<exists>e. r = Inl e" and n': "n' = n\<lparr>ne_lib := l\<rparr>"
      using run call False
      by (cases x; auto simp: native_destroy_peer_def native_call_def on_lib_def py_defs check_code_def
          split: if_splits sum.splits)+
    with lib nok_lib [OF n, of l] show ?thesis by (auto simp: nviews)
  qed
qed

text \<open>The remaining methods do not touch peers or imports.\<close>

lemma nok_frame:
  assumes n: "nok n" and "native_wf n'" and "ne_handle n' = ne_handle n" and "ne_peers n' = ne_peers n"
    and "ne_remote_memories n' = ne_remote_memories n"
    and "lok (ne_lib n') \<and> peers (ne_lib n') (ne_handle n) = peers (ne_lib n) (ne_handle n) \<and>
      links (ne_lib n') (ne_handle n) = links (ne_lib n) (ne_handle n) \<and>
      imported (ne_lib n') (ne_handle n) = imported (ne_lib n) (ne_handle n) \<and>
      owner (ne_lib n') (ne_handle n) = owner (ne_lib n) (ne_handle n)"
  shows "nok n' \<and> nlive n' = nlive n \<and> nconn n' = nconn n \<and> nimps n' = nimps n"
  using assms by (auto simp: nok_def nviews)

lemma native_register_views:
  assumes n: "nok n" and run: "native_register_local_memory C m access n = (r, n')"
  shows "nok n' \<and> nlive n' = nlive n \<and> nconn n' = nconn n \<and> nimps n' = nimps n"
proof (cases m)
  case NotAMemory
  with run n show ?thesis by (auto simp: native_register_local_memory_def)
next
  case (Memory memory)
  obtain x l where call: "r101_register_local_memory C (ne_handle n) (ffi_void_ptr C (mem_address memory))
      (mem_size memory) access (ne_lib n) = (x, l)" by fastforce
  have "ne_lib n' = l \<and> ne_handle n' = ne_handle n \<and> ne_peers n' = ne_peers n \<and>
      ne_remote_memories n' = ne_remote_memories n"
    using run call Memory
    by (auto simp: native_register_local_memory_def native_call_out_def on_lib_def py_defs
        split: if_splits sum.splits prod.splits)
  with c_register [OF nok_facts(1) [OF n] call] show ?thesis
    by (intro nok_frame [OF n register_wf [OF nok_facts(2) [OF n] run]]) simp_all
qed

lemma native_submit_views:
  assumes n: "nok n" and run: "native_submit_transfer C requests n = (r, n')"
  shows "nok n' \<and> nlive n' = nlive n \<and> nconn n' = nconn n \<and> nimps n' = nimps n"
proof (cases "(\<exists>cs. encode_requests (ffi_void_ptr C) requests = Inr cs \<and> (\<exists>entries. ffi_new_requests C cs = Inr entries))")
  case False
  with run n show ?thesis
    by (cases "encode_requests (ffi_void_ptr C) requests")
      (auto simp: native_submit_transfer_def py_defs split: sum.splits)
next
  case True
  then obtain cs entries where encoded: "encode_requests (ffi_void_ptr C) requests = Inr cs"
    "ffi_new_requests C cs = Inr entries" by blast
  obtain x l where call: "r101_submit_transfer C (ne_handle n) entries (ne_lib n) = (x, l)" by fastforce
  have "ne_lib n' = l \<and> ne_handle n' = ne_handle n \<and> ne_peers n' = ne_peers n \<and>
      ne_remote_memories n' = ne_remote_memories n"
    using run call encoded
    by (auto simp: native_submit_transfer_def native_call_out_def on_lib_def py_defs
        split: if_splits sum.splits prod.splits)
  with c_submit [OF nok_facts(1) [OF n] call] show ?thesis
    by (intro nok_frame [OF n submit_wf [OF nok_facts(2) [OF n] run]]) simp_all
qed

lemma native_statuses_views:
  assumes n: "nok n" and run: "native_get_transfer_statuses C batch n = (r, n')"
  shows "nok n' \<and> nlive n' = nlive n \<and> nconn n' = nconn n \<and> nimps n' = nimps n"
proof (cases "map_of (ne_batches n) batch")
  case None
  with run n show ?thesis by (auto simp: native_get_transfer_statuses_def py_defs)
next
  case (Some operations)
  obtain x l where call: "r101_get_transfer_statuses C (ne_handle n) batch (length operations) (ne_lib n) = (x, l)"
    by fastforce
  have "ne_lib n' = l \<and> ne_handle n' = ne_handle n \<and> ne_peers n' = ne_peers n \<and>
      ne_remote_memories n' = ne_remote_memories n"
    using run call Some
    by (auto simp: native_get_transfer_statuses_def native_call_out_def on_lib_def py_defs
        split: if_splits sum.splits prod.splits)
  with c_statuses [OF nok_facts(1) [OF n] call] show ?thesis
    by (intro nok_frame [OF n statuses_wf [OF nok_facts(2) [OF n] run]]) simp_all
qed

lemma native_free_views:
  assumes n: "nok n" and run: "native_free_batch C batch n = (r, n')"
  shows "nok n' \<and> nlive n' = nlive n \<and> nconn n' = nconn n \<and> nimps n' = nimps n"
proof -
  obtain x l where call: "r101_free_batch C (ne_handle n) batch (ne_lib n) = (x, l)" by fastforce
  have "ne_lib n' = l \<and> ne_handle n' = ne_handle n \<and> ne_peers n' = ne_peers n \<and>
      ne_remote_memories n' = ne_remote_memories n"
    using run call
    by (auto simp: native_free_batch_def native_call_def on_lib_def py_defs split: if_splits sum.splits prod.splits)
  with c_free [OF nok_facts(1) [OF n] call] show ?thesis
    by (intro nok_frame [OF n free_batch_wf [OF nok_facts(2) [OF n] run]]) simp_all
qed

lemma native_close_ok:
  assumes n: "nok n" and run: "native_close C n = (r, n')"
  shows "nok n'"
proof (cases "ne_handle n = 0")
  case True
  with run n show ?thesis by (auto simp: native_close_def py_defs)
next
  case False
  obtain x l where call: "r101_destroy_engine C (ne_handle n) (ne_lib n) = (x, l)" by fastforce
  note lib = c_close [OF nok_facts(1) [OF n] call]
  have wf: "native_wf n'" using close_wf [OF nok_facts(2) [OF n] run] .
  show ?thesis
  proof (cases "x = Inr R101_OK")
    case True
    with run call False have "n' = n\<lparr>ne_lib := l, ne_handle := 0, ne_memories := [],
        ne_remote_memories := [], ne_batches := [], ne_peers := {}\<rparr>"
      by (auto simp: native_close_def native_call_def on_lib_def py_defs)
    with wf lib null_engine show ?thesis by (simp add: nok_def nlive_def)
  next
    case fail: False
    with run call False have "n' = n\<lparr>ne_lib := l\<rparr>"
      by (cases x; auto simp: native_close_def native_call_def on_lib_def py_defs check_code_def
          split: if_splits sum.splits)
    with lib fail nok_lib [OF n] show ?thesis by simp
  qed
qed

lemma native_init_ok:
  assumes "lok l" and "NativeEngine_init C dlopen path config l = Inr n"
  shows "nok n"
proof -
  from assms(2) obtain cc h l' where
    "r101_create_engine C cc l = (Inr (R101_OK, h), l')" and
    n: "n = \<lparr>ne_lib = l', ne_handle = h, ne_memories = [], ne_remote_memories = [], ne_batches = [], ne_peers = {}\<rparr>"
    by (auto simp: NativeEngine_init_def check_code_Inr split: sum.splits prod.splits if_splits)
  from c_engine_created [OF assms(1) this(1)] show ?thesis
    unfolding n by (simp add: nok_def native_wf_def nlive_def)
qed

end

text \<open>One contract gives the other.\<close>

sublocale c_engine \<subseteq> native_engine: engine_store "native_env C uuid" nok nlive nconn nimps
  for uuid
proof (unfold_locales, goal_cases)
  case (1 n h) then show ?case using no_peer nok_facts(1) by (auto simp: nviews)
next
  case (2 n pm n') then show ?case using native_create_views [of n "Inr pm" n'] by simp
next
  case (3 n e n') then show ?case using native_create_views [of n "Inl e" n'] by simp
next
  case (4 n h b u n') then show ?case using native_connect_views [of n h b "Inr u" n'] by simp
next
  case (5 n h b e n') then show ?case using native_connect_views [of n h b "Inl e" n'] by simp
next
  case (6 n h b r n') then show ?case using native_import_views [of n h b "Inr r" n'] by simp
next
  case (7 n h b e n') then show ?case using native_import_views [of n h b "Inl e" n'] by simp
next
  case (8 n h u n') then show ?case using native_destroy_views [of n h "Inr u" n'] by simp
next
  case (9 n h e n') then show ?case using native_destroy_views [of n h "Inl e" n'] by simp
next
  case (10 n m a r1 n') then show ?case using native_register_views [of n m a r1 n'] by simp
next
  case (11 n rs r2 n') then show ?case using native_submit_views [of n rs r2 n'] by simp
next
  case (12 n b r3 n') then show ?case using native_statuses_views [of n b r3 n'] by simp
next
  case (13 n b r4 n') then show ?case using native_free_views [of n b r4 n'] by simp
next
  case (14 n r5 n') then show ?case using native_close_ok [of n r5 n'] by simp
qed

context c_engine
begin

lemma real_plane: "(\<And>k. uuid k \<noteq> []) \<Longrightarrow> engine_plane (native_env C uuid) nok nlive nconn nimps"
  by (intro engine_plane.intro control_store.intro control_store_axioms.intro
      native_engine.engine_store_axioms native_engine.peer_store_axioms) simp

lemma real_init:
  assumes "lok l" and "Engine_init C dlopen path config timeout listen advertise add_port start l = Inr s"
  shows "engine_wf nok nlive nconn s"
proof -
  from assms(2) obtain n c where native: "NativeEngine_init C dlopen path config l = Inr n"
    and plane: "ControlPlane_init n listen advertise add_port start = Inr c"
    and s: "s = \<lparr>en_control = c, en_timeout = timeout\<rparr>"
    by (auto simp: Engine_init_def split: if_splits sum.splits prod.splits)
  from plane have "cp_native c = n" "cp_peers c = []" "cp_next_ref c = 0"
    by (auto simp: ControlPlane_init_def split: prod.splits if_splits sum.splits option.splits)
  with native_init_ok [OF assms(1) native] show ?thesis
    by (simp add: s engine_wf_def control_wf_def)
qed

end

end
