(* ===== verification/Stack.thy ===== *)
theory Stack
  imports Adapter Native_Contract
begin

text \<open>
  The whole stack: the contract of a C++ engine as the locale \<open>cpp_contract\<close>, and that the adapter makes a
  library with the contract of \<^verbatim>\<open>transfer_engine.h\<close> of it, so that a Python \<^verbatim>\<open>Engine\<close> over any such engine
  stays well formed. An engine in memory has the contract; the skeleton the course starts from refuses
  everything.
\<close>

section \<open>The contract of the C++ engine\<close>

text \<open>
  The comments of \<^verbatim>\<open>engine.hpp\<close> and \<^verbatim>\<open>transfer_engine.h\<close>, over views of the state: the peers of an engine
  with the metadata they export, what each is connected to, and the imported memories with their
  handles and owners. They speak of calls that pass the guards of the adapter.
\<close>

locale cpp_contract =
  fixes X :: "'l cffi" and M :: cpp_heap and A :: "'l cpp_engine"
    and lok :: "'l \<Rightarrow> bool"
    and peers :: "'l \<Rightarrow> int \<Rightarrow> int \<Rightarrow> bytes option"
    and links :: "'l \<Rightarrow> int \<Rightarrow> int \<Rightarrow> bytes option"
    and imported :: "'l \<Rightarrow> int \<Rightarrow> int \<Rightarrow> bytes set"
    and owner :: "'l \<Rightarrow> int \<Rightarrow> int \<Rightarrow> int option"
  assumes cffi: "cffi_ok X"
    and x_null: "lok l \<Longrightarrow> peers l 0 p = None"
    and x_no_peer: "lok l \<Longrightarrow> peers l h p = None \<Longrightarrow> links l h p = None \<and> imported l h p = {}"
    and x_create_peer: "lok l \<Longrightarrow> h \<noteq> 0 \<Longrightarrow> cx_create_peer A h l = ((result, p, a, n), l') \<Longrightarrow>
      lok l' \<and> links l' h = links l h \<and> imported l' h = imported l h \<and> owner l' h = owner l h \<and>
      (if result = Ok
       then p \<noteq> 0 \<and> a \<noteq> 0 \<and> n \<noteq> 0 \<and> peers l h p = None \<and> peers l' h = (peers l h)(p \<mapsto> fi_bytes X l' a n)
       else peers l' h = peers l h)"
    and x_connect: "lok l \<Longrightarrow> h \<noteq> 0 \<Longrightarrow> p \<noteq> 0 \<Longrightarrow> b \<noteq> [] \<Longrightarrow> cx_connect_peer A h p b l = (result, l') \<Longrightarrow>
      lok l' \<and> peers l' h = peers l h \<and> imported l' h = imported l h \<and> owner l' h = owner l h \<and>
      (if result = Ok
       then peers l h p \<noteq> None \<and> links l h p = None \<and> links l' h = (links l h)(p \<mapsto> b)
       else links l' h = links l h)"
    and x_import: "lok l \<Longrightarrow> h \<noteq> 0 \<Longrightarrow> p \<noteq> 0 \<Longrightarrow> b \<noteq> [] \<Longrightarrow>
      cx_import_remote_memory A h p b l = ((result, k), l') \<Longrightarrow>
      lok l' \<and> peers l' h = peers l h \<and> links l' h = links l h \<and>
      (if result = Ok
       then k \<noteq> 0 \<and> links l h p \<noteq> None \<and> (owner l h k = None \<or> owner l h k = Some p) \<and>
         owner l' h = (owner l h)(k \<mapsto> p) \<and> imported l' h = (imported l h)(p := insert b (imported l h p))
       else imported l' h = imported l h \<and> owner l' h = owner l h)"
    and x_destroy: "lok l \<Longrightarrow> h \<noteq> 0 \<Longrightarrow> p \<noteq> 0 \<Longrightarrow> cx_destroy_peer A h p l = (result, l') \<Longrightarrow> lok l' \<and>
      (if result = Ok
       then peers l h p \<noteq> None \<and> peers l' h = (peers l h)(p := None) \<and> links l' h = (links l h)(p := None) \<and>
         imported l' h = (imported l h)(p := {}) \<and>
         owner l' h = (\<lambda>k. if owner l h k = Some p then None else owner l h k)
       else peers l' h = peers l h \<and> links l' h = links l h \<and> imported l' h = imported l h \<and>
         owner l' h = owner l h)"
    and x_register: "lok l \<Longrightarrow> h \<noteq> 0 \<Longrightarrow> cx_register_local_memory A h address len flags l = (r1, l') \<Longrightarrow>
      lok l' \<and> peers l' h = peers l h \<and> links l' h = links l h \<and> imported l' h = imported l h \<and>
      owner l' h = owner l h"
    and x_submit: "lok l \<Longrightarrow> h \<noteq> 0 \<Longrightarrow> cx_submit_transfer A h requests l = (r2, l') \<Longrightarrow>
      lok l' \<and> peers l' h = peers l h \<and> links l' h = links l h \<and> imported l' h = imported l h \<and>
      owner l' h = owner l h"
    and x_free: "lok l \<Longrightarrow> h \<noteq> 0 \<Longrightarrow> cx_free_batch A h batch l = (r3, l') \<Longrightarrow>
      lok l' \<and> peers l' h = peers l h \<and> links l' h = links l h \<and> imported l' h = imported l h \<and>
      owner l' h = owner l h"
    and x_create: "lok l \<Longrightarrow> cx_create A config l = ((result, h), l') \<Longrightarrow> lok l' \<and>
      (result = Ok \<longrightarrow> peers l' h = (\<lambda>_. None))"
    and x_delete: "lok l \<Longrightarrow> h \<noteq> 0 \<Longrightarrow> lok (cx_delete A h l)"
begin

text \<open>What the guards let through, and what they answer themselves.\<close>

lemma valid_bytes: "valid_array 1 1 address (int (length b)) \<Longrightarrow> b \<noteq> []"
  by (auto simp: valid_array_def)

lemmas entry_defs = adapter_def c_call_eq c_ints_eq cpp_create_engine_def cpp_destroy_engine_def
  cpp_register_local_memory_def cpp_import_remote_memory_def cpp_create_peer_def cpp_connect_peer_def
  cpp_destroy_peer_def cpp_submit_transfer_def cpp_free_batch_def

lemma create_peer_entry:
  assumes "r101_create_peer (adapter X M A) h l = (r, l')"
  shows "(\<exists>result p a n. h \<noteq> 0 \<and> cx_create_peer A h l = ((result, p, a, n), l') \<and>
      r = Inr (encode_result result, if result = Ok then (p, a, n) else (0, 0, 0))) \<or>
    (l' = l \<and> (\<forall>x. r \<noteq> Inr (R101_OK, x)))"
  using assms by (auto simp: entry_defs R101_defs split: if_splits prod.splits)

lemma connect_entry:
  assumes "r101_connect_peer (adapter X M A) h p b l = (r, l')"
  shows "(\<exists>result. h \<noteq> 0 \<and> p \<noteq> 0 \<and> b \<noteq> [] \<and> cx_connect_peer A h p b l = (result, l') \<and>
      r = Inr (encode_result result)) \<or> (l' = l \<and> r \<noteq> Inr R101_OK)"
  using assms valid_bytes by (auto simp: entry_defs R101_defs apfst_def map_prod_def split: if_splits prod.splits)

lemma import_entry:
  assumes "r101_import_remote_memory (adapter X M A) h p b l = (r, l')"
  shows "(\<exists>result k. h \<noteq> 0 \<and> p \<noteq> 0 \<and> b \<noteq> [] \<and> cx_import_remote_memory A h p b l = ((result, k), l') \<and>
      r = Inr (encode_result result, if result = Ok then k else 0)) \<or> (l' = l \<and> (\<forall>k. r \<noteq> Inr (R101_OK, k)))"
  using assms valid_bytes by (auto simp: entry_defs R101_defs split: if_splits prod.splits)

lemma destroy_entry:
  assumes "r101_destroy_peer (adapter X M A) h p l = (r, l')"
  shows "(\<exists>result. h \<noteq> 0 \<and> p \<noteq> 0 \<and> cx_destroy_peer A h p l = (result, l') \<and> r = Inr (encode_result result)) \<or>
    (l' = l \<and> r \<noteq> Inr R101_OK)"
  using assms by (auto simp: entry_defs R101_defs apfst_def map_prod_def split: if_splits prod.splits)

text \<open>How these calls change the views.\<close>

lemma create_peer_views:
  assumes "lok l" and "r101_create_peer (adapter X M A) h l = (r, l')"
  shows "lok l' \<and> links l' h = links l h \<and> imported l' h = imported l h \<and> owner l' h = owner l h \<and>
    (case r of
       Inr (code, p, a, n) \<Rightarrow> if code = R101_OK
         then p \<noteq> 0 \<and> a \<noteq> 0 \<and> n \<noteq> 0 \<and> peers l h p = None \<and> peers l' h = (peers l h)(p \<mapsto> fi_bytes X l' a n)
         else peers l' h = peers l h
     | Inl _ \<Rightarrow> peers l' h = peers l h)"
  using create_peer_entry [OF assms(2)]
proof (elim disjE exE conjE)
  fix result p a n
  assume call: "h \<noteq> 0" "cx_create_peer A h l = ((result, p, a, n), l')"
    and r: "r = Inr (encode_result result, if result = Ok then (p, a, n) else (0, 0, 0))"
  from x_create_peer [OF assms(1) call] r show ?thesis by (cases "result = Ok") simp_all
next
  assume "l' = l" "\<forall>x. r \<noteq> Inr (R101_OK, x)"
  with assms(1) show ?thesis by (cases r) auto
qed

lemma connect_views:
  assumes "lok l" and "r101_connect_peer (adapter X M A) h p b l = (r, l')"
  shows "lok l' \<and> peers l' h = peers l h \<and> imported l' h = imported l h \<and> owner l' h = owner l h \<and>
    (if r = Inr R101_OK
     then peers l h p \<noteq> None \<and> links l h p = None \<and> links l' h = (links l h)(p \<mapsto> b)
     else links l' h = links l h)"
  using connect_entry [OF assms(2)]
proof (elim disjE exE conjE)
  fix result
  assume call: "h \<noteq> 0" "p \<noteq> 0" "b \<noteq> []" "cx_connect_peer A h p b l = (result, l')"
    and r: "r = Inr (encode_result result)"
  from x_connect [OF assms(1) call] r show ?thesis by simp
next
  assume "l' = l" "r \<noteq> Inr R101_OK"
  with assms(1) show ?thesis by simp
qed

lemma import_views:
  assumes "lok l" and "r101_import_remote_memory (adapter X M A) h p b l = (r, l')"
  shows "lok l' \<and> peers l' h = peers l h \<and> links l' h = links l h \<and>
    (case r of
       Inr (code, k) \<Rightarrow> if code = R101_OK
         then k \<noteq> 0 \<and> links l h p \<noteq> None \<and> (owner l h k = None \<or> owner l h k = Some p) \<and>
           owner l' h = (owner l h)(k \<mapsto> p) \<and> imported l' h = (imported l h)(p := insert b (imported l h p))
         else imported l' h = imported l h \<and> owner l' h = owner l h
     | Inl _ \<Rightarrow> imported l' h = imported l h \<and> owner l' h = owner l h)"
  using import_entry [OF assms(2)]
proof (elim disjE exE conjE)
  fix result k
  assume call: "h \<noteq> 0" "p \<noteq> 0" "b \<noteq> []" "cx_import_remote_memory A h p b l = ((result, k), l')"
    and r: "r = Inr (encode_result result, if result = Ok then k else 0)"
  from x_import [OF assms(1) call] r show ?thesis by (cases "result = Ok") simp_all
next
  assume "l' = l" "\<forall>k. r \<noteq> Inr (R101_OK, k)"
  with assms(1) show ?thesis by (cases r) auto
qed

lemma destroy_views:
  assumes "lok l" and "r101_destroy_peer (adapter X M A) h p l = (r, l')"
  shows "lok l' \<and>
    (if r = Inr R101_OK
     then peers l h p \<noteq> None \<and> peers l' h = (peers l h)(p := None) \<and> links l' h = (links l h)(p := None) \<and>
       imported l' h = (imported l h)(p := {}) \<and>
       owner l' h = (\<lambda>k. if owner l h k = Some p then None else owner l h k)
     else peers l' h = peers l h \<and> links l' h = links l h \<and> imported l' h = imported l h \<and> owner l' h = owner l h)"
  using destroy_entry [OF assms(2)]
proof (elim disjE exE conjE)
  fix result
  assume call: "h \<noteq> 0" "p \<noteq> 0" "cx_destroy_peer A h p l = (result, l')" and r: "r = Inr (encode_result result)"
  from x_destroy [OF assms(1) call] r show ?thesis by simp
next
  assume "l' = l" "r \<noteq> Inr R101_OK"
  with assms(1) show ?thesis by simp
qed

text \<open>The other entry points leave the peers of every engine alone.\<close>

lemma register_entry:
  assumes "r101_register_local_memory (adapter X M A) h a n access l = (r, l')"
  shows "l' = l \<or> (\<exists>flags x. h \<noteq> 0 \<and> cx_register_local_memory A h a n flags l = (x, l'))"
  using assms by (auto simp: entry_defs split: if_splits prod.splits option.splits)

lemma submit_entry:
  assumes "r101_submit_transfer (adapter X M A) h requests l = (r, l')"
  shows "l' = l \<or> (\<exists>native x. h \<noteq> 0 \<and> cx_submit_transfer A h native l = (x, l'))"
  using assms by (auto simp: entry_defs split: if_splits prod.splits option.splits)

lemma free_entry:
  assumes "r101_free_batch (adapter X M A) h batch l = (r, l')"
  shows "l' = l \<or> (\<exists>x. h \<noteq> 0 \<and> cx_free_batch A h batch l = (x, l'))"
  using assms by (auto simp: entry_defs apfst_def map_prod_def split: if_splits prod.splits)

lemma statuses_entry: "r101_get_transfer_statuses (adapter X M A) h batch count l = (r, l') \<Longrightarrow> l' = l"
  by (auto simp: entry_defs split: if_splits option.splits)

lemma delete_entry:
  assumes "r101_destroy_engine (adapter X M A) h l = (r, l')"
  shows "(h = 0 \<and> l' = l \<and> r = Inr R101_INVALID) \<or> (h \<noteq> 0 \<and> l' = cx_delete A h l \<and> r = Inr R101_OK)"
  using assms by (auto simp: entry_defs split: if_splits)

lemma create_entry:
  assumes "lok l" and "r101_create_engine (adapter X M A) config l = (r, l')"
  shows "lok l' \<and> (\<forall>h. r = Inr (R101_OK, h) \<longrightarrow> peers l' h = (\<lambda>_. None))"
proof -
  obtain result local m where run: "cx_create A \<lparr>pc_port = cc_port config, pc_gid_index = cc_gid_index config,
      pc_device = cc_device config\<rparr> l = ((result, local), m)" by (metis surj_pair)
  note made = x_create [OF assms(1) run]
  with assms x_delete [of m local] run show ?thesis
    by (auto simp: entry_defs R101_defs encode_result_OK [unfolded R101_OK_def] split: if_splits)
qed

end

sublocale cpp_contract \<subseteq> as_library: c_engine "adapter X M A" lok peers links imported owner
proof (unfold_locales, goal_cases)
  case (1 l p) then show ?case by (rule x_null)
next
  case (2 l h p) then show ?case by (rule x_no_peer)
next
  case (3 l h p a n l') then show ?case using create_peer_views [OF 3] by simp
next
  case (4 l h r1 l')
  then show ?case using create_peer_views [OF 4(1,2)] by (cases r1) (auto split: prod.splits if_splits)
next
  case (5 l h p b l') then show ?case using connect_views [OF 5] by simp
next
  case (6 l h p b r2 l') then show ?case using connect_views [OF 6(1,2)] by simp
next
  case (7 l h p b k l') then show ?case using import_views [OF 7] by simp
next
  case (8 l h p b r3 l')
  then show ?case using import_views [OF 8(1,2)] by (cases r3) (auto split: prod.splits if_splits)
next
  case (9 l h p l') then show ?case using destroy_views [OF 9] by simp
next
  case (10 l h p r2 l') then show ?case using destroy_views [OF 10(1,2)] by simp
next
  case (11 l h a n access r4 l')
  from register_entry [OF 11(2)] show ?case using x_register [OF 11(1)] 11(1) by blast
next
  case (12 l h requests r5 l')
  from submit_entry [OF 12(2)] show ?case using x_submit [OF 12(1)] 12(1) by blast
next
  case (13 l h batch count r6 l')
  with statuses_entry [OF 13(2)] show ?case by simp
next
  case (14 l h batch r2 l')
  from free_entry [OF 14(2)] show ?case using x_free [OF 14(1)] 14(1) by blast
next
  case (15 l h r2 l')
  from delete_entry [OF 15(2)] show ?case using x_delete [OF 15(1)] 15(1) by auto
next
  case (16 l config r5' l') then show ?case using create_entry by blast
qed

context cpp_contract
begin

lemma library_contract: "c_engine (adapter X M A) lok peers links imported owner"
  by (rule as_library.c_engine_axioms)

end

section \<open>An engine with this contract\<close>

text \<open>
  An engine in memory: one object at the address 1, whose resources are those of a \<open>fake\<close>; it grants peers as long as
  its ids have 32 bits. The data pointer of a peer's metadata is its id. CFFI puts every buffer at the address 8.
\<close>

definition engine_call :: "int \<Rightarrow> ('l, exn, 'a) py \<Rightarrow> 'l \<Rightarrow> result_code \<times> 'l" where
  "engine_call h m l =
     (if h = 1 then (case m l of (Inl _, l') \<Rightarrow> (Invalid, l') | (Inr _, l') \<Rightarrow> (Ok, l')) else (Invalid, l))"

definition memory_engine :: "fake cpp_engine" where
  "memory_engine = \<lparr>cx_create = (\<lambda>_ _. ((Ok, 1), fake_init ''library'')),
     cx_delete = (\<lambda>h l. snd (fake_close l)),
     cx_register_local_memory = (\<lambda>h _ _ _ l. if h \<noteq> 1 then ((Invalid, 0, 0, 0), l)
       else ((Ok, int (fk_next l), int (fk_next l), 1), l\<lparr>fk_next := Suc (fk_next l)\<rparr>)),
     cx_deregister_local_memory = (\<lambda>h _ l. (Invalid, l)),
     cx_import_remote_memory = (\<lambda>h p b l. if h \<noteq> 1 then ((Invalid, 0), l)
       else (case fake_import_remote_memory p (Bytes b) l of
         (Inl _, l') \<Rightarrow> ((InvalidState, 0), l') | (Inr k, l') \<Rightarrow> ((Ok, k), l'))),
     cx_remove_remote_memory = (\<lambda>h _ l. (Invalid, l)),
     cx_create_peer = (\<lambda>h l. if h \<noteq> 1 then ((Invalid, 0, 0, 0), l)
       else if 2 ^ 32 \<le> fk_next l then ((NoMemory, 0, 0, 0), l)
       else (case fake_create_peer l of
         (Inl _, l') \<Rightarrow> ((NoMemory, 0, 0, 0), l') | (Inr pm, l') \<Rightarrow> ((Ok, pm_peer pm, pm_peer pm, 1), l'))),
     cx_connect_peer = (\<lambda>h p b. engine_call h (fake_connect_peer p (Bytes b))),
     cx_destroy_peer = (\<lambda>h p. engine_call h (fake_destroy_peer p)),
     cx_submit_transfer = (\<lambda>h _ l. ((Unimplemented, 0), l)),
     cx_get_transfer_statuses = (\<lambda>h _ native l. (Unimplemented, native)),
     cx_free_batch = (\<lambda>h _ l. (Unimplemented, l))\<rparr>"

definition memory_cffi :: "fake cffi" where
  "memory_cffi = \<lparr>fi_void_ptr = (\<lambda>n. n mod 2 ^ 64), fi_new_config = Inr, fi_new_requests = Inr,
     fi_bytes = (\<lambda>l a _. case map_of (fk_peers l) a of Some md \<Rightarrow> md | None \<Rightarrow> [0]),
     fi_cell = (\<lambda>_. 8), fi_buffer = (\<lambda>_. 8), fi_requests = (\<lambda>_. 8), fi_statuses = (\<lambda>_. 8)\<rparr>"

definition plenty :: cpp_heap where
  "plenty = \<lparr>fits_device = (\<lambda>_. True), fits_requests = (\<lambda>_. True), fits_statuses = (\<lambda>_. True)\<rparr>"

definition fake_library :: "fake c_api" where
  "fake_library = adapter memory_cffi plenty memory_engine"

text \<open>Handles come from the counter, which starts at 1, and metadata is a nonempty buffer.\<close>

definition is_buffer :: "bytes \<Rightarrow> bool" where
  "is_buffer b \<longleftrightarrow> b \<noteq> [] \<and> int (length b) < 2 ^ 63"

definition tidy :: "fake \<Rightarrow> bool" where
  "tidy l \<longleftrightarrow> 0 < fk_next l \<and> length (fk_label l) \<le> 100 \<and>
     (\<forall>p md. map_of (fk_peers l) p = Some md \<longrightarrow> 0 < p \<and> is_buffer md)"

lemma decimal_length: "length (decimal n) \<le> Suc n"
proof (induction n rule: decimal.induct)
  case (1 n)
  then show ?case by (subst decimal.simps) (auto intro: le_trans)
qed

lemma tidy_create:
  assumes "tidy l" and "fk_next l < 2 ^ 32" and "fake_create_peer l = (r, l')"
  shows "tidy l'"
proof -
  let ?md = "encode_str (fk_label l @ '':qp:'' @ decimal (fk_next l))"
  have "l' = l\<lparr>fk_next := Suc (fk_next l), fk_peers := AList.update (int (fk_next l)) ?md (fk_peers l)\<rparr>"
    using assms(3) by (cases r) (auto simp: fake_create_peer_def py_eqs fake_id_eq)
  moreover have "is_buffer ?md"
    using assms(1,2) decimal_length [of "fk_next l"] by (simp add: tidy_def is_buffer_def encode_str_def)
  ultimately show ?thesis using assms(1) by (auto simp: tidy_def dict_get_update)
qed

lemma tidy_cong:
  "tidy l \<Longrightarrow> fk_label l' = fk_label l \<Longrightarrow> fk_peers l' = fk_peers l \<Longrightarrow> fk_next l \<le> fk_next l' \<Longrightarrow> tidy l'"
  by (simp add: tidy_def)

text \<open>An import has a handle of its own.\<close>

definition library_ok :: "fake \<Rightarrow> bool" where
  "library_ok l \<longleftrightarrow> fake_ok l \<and> tidy l \<and> 0 < fk_next l \<and> dict_ok (fk_imports l) \<and>
     (\<forall>key k. map_of (fk_imports l) key = Some k \<longrightarrow> 0 < k \<and> k < int (fk_next l)) \<and>
     (\<forall>key1 key2 k. map_of (fk_imports l) key1 = Some k \<longrightarrow> map_of (fk_imports l) key2 = Some k \<longrightarrow> key1 = key2)"

definition library_peers :: "fake \<Rightarrow> int \<Rightarrow> int \<Rightarrow> bytes option" where
  "library_peers l h = (if h = 1 then fake_live l else (\<lambda>_. None))"

definition library_links :: "fake \<Rightarrow> int \<Rightarrow> int \<Rightarrow> bytes option" where
  "library_links l h = (if h = 1 then fake_conn l else (\<lambda>_. None))"

definition library_imported :: "fake \<Rightarrow> int \<Rightarrow> int \<Rightarrow> bytes set" where
  "library_imported l h = (if h = 1 then fake_imps l else (\<lambda>_. {}))"

definition library_owner :: "fake \<Rightarrow> int \<Rightarrow> int \<Rightarrow> int option" where
  "library_owner l h k = (if h = 1 then map_of (map (\<lambda>((p, _), k). (k, p)) (fk_imports l)) k else None)"

lemma owner_iff:
  assumes "library_ok l"
  shows "library_owner l 1 k = Some p \<longleftrightarrow> (\<exists>b. map_of (fk_imports l) (p, b) = Some k)"
proof -
  let ?d = "map (\<lambda>((p, _), k). (k, p)) (fk_imports l)"
  have dict: "dict_ok (fk_imports l)" and inj: "\<And>key1 key2 k. (key1, k) \<in> set (fk_imports l) \<Longrightarrow>
      (key2, k) \<in> set (fk_imports l) \<Longrightarrow> key1 = key2"
    using assms by (auto simp: library_ok_def dict_in_iff)
  then have "inj_on snd (set (fk_imports l))" by (auto simp: inj_on_def)
  moreover have "distinct (fk_imports l)" using dict by (simp add: dict_ok_def distinct_map)
  ultimately have "distinct (map snd (fk_imports l))" by (simp add: distinct_map)
  moreover have "map fst ?d = map snd (fk_imports l)" by (auto simp: case_prod_unfold)
  ultimately have "dict_ok ?d" by (simp only: dict_ok_def)
  from dict_in_iff [OF this] have "library_owner l 1 k = Some p \<longleftrightarrow> (k, p) \<in> set ?d"
    by (simp add: library_owner_def)
  also have "\<dots> \<longleftrightarrow> (\<exists>b. ((p, b), k) \<in> set (fk_imports l))" by force
  finally show ?thesis using dict by (simp add: dict_in_iff)
qed

lemma library_owner_cong: "fk_imports l' = fk_imports l \<Longrightarrow> library_owner l' h = library_owner l h"
  by (simp add: library_owner_def fun_eq_iff)

lemma library_ok_cong:
  "library_ok l \<Longrightarrow> fake_ok l' \<Longrightarrow> tidy l' \<Longrightarrow> fk_imports l' = fk_imports l \<Longrightarrow> fk_next l \<le> fk_next l' \<Longrightarrow>
     library_ok l'"
  unfolding library_ok_def by fastforce

lemma fake_imports_frame:
  "fake_create_peer l = (r1, l') \<Longrightarrow> fk_imports l' = fk_imports l \<and> fk_next l \<le> fk_next l' \<and>
     (\<forall>pm. r1 = Inr pm \<longrightarrow> pm_peer pm = int (fk_next l))"
  "fake_connect_peer p b l = (r2, l') \<Longrightarrow> fk_imports l' = fk_imports l \<and> fk_next l \<le> fk_next l' \<and>
     fk_label l' = fk_label l \<and> fk_peers l' = fk_peers l"
  by (cases r1; auto simp: fake_create_peer_def py_eqs fake_id_eq)
    (cases r2; cases b; auto simp: fake_connect_peer_def py_eqs)

lemma library_import:
  assumes l: "library_ok l" and run: "fake_import_remote_memory p (Bytes b) l = (Inr k, l')"
  shows "library_ok l' \<and> 0 < k \<and> (library_owner l 1 k = None \<or> library_owner l 1 k = Some p) \<and>
    library_owner l' 1 = (library_owner l 1)(k \<mapsto> p)"
proof -
  have "fake_ok l" using l unfolding library_ok_def by blast
  from fake_import_Inr [OF this run] have ok': "fake_ok l'" by blast
  show ?thesis
  proof (cases "map_of (fk_imports l) (p, b)")
    case None
    with run have k: "k = int (fk_next l)" and l': "l' = l\<lparr>fk_next := Suc (fk_next l),
        fk_imports := AList.update (p, b) (int (fk_next l)) (fk_imports l)\<rparr>"
      by (auto simp: fake_import_remote_memory_def py_eqs fake_id_eq)
    have fresh: "map_of (fk_imports l) key \<noteq> Some k" for key
      using l unfolding library_ok_def k by (metis less_irrefl)
    have got: "map_of (fk_imports l') key = (if key = (p, b) then Some k else map_of (fk_imports l) key)" for key
      by (simp add: l' k dict_get_update)
    have "library_ok l'"
      unfolding library_ok_def
    proof (intro conjI allI impI)
      show "fake_ok l'" by (rule ok')
      show "tidy l'" using l tidy_cong [of l l'] unfolding library_ok_def by (simp add: l')
      show "0 < fk_next l'" by (simp add: l')
      show "dict_ok (fk_imports l')" using l unfolding library_ok_def by (simp add: l' dict_ok_update)
    next
      fix key i assume "map_of (fk_imports l') key = Some i"
      then have "i = k \<or> map_of (fk_imports l) key = Some i" unfolding got by (auto split: if_splits)
      moreover have "0 < k \<and> k < int (fk_next l')" using l unfolding library_ok_def by (simp add: k l')
      moreover have "0 < i \<and> i < int (fk_next l)" if "map_of (fk_imports l) key = Some i"
        using l that unfolding library_ok_def by blast
      ultimately show "0 < i" "i < int (fk_next l')" by (auto simp: l')
    next
      fix key1 key2 i
      assume "map_of (fk_imports l') key1 = Some i" "map_of (fk_imports l') key2 = Some i"
      then show "key1 = key2"
        unfolding got using l fresh unfolding library_ok_def by (metis option.inject)
    qed
    moreover have none: "library_owner l 1 k = None"
      using fresh owner_iff [OF l, of k] by (cases "library_owner l 1 k") auto
    moreover have "library_owner l' 1 j = ((library_owner l 1)(k \<mapsto> p)) j" for j
    proof -
      have "(\<exists>b'. map_of (fk_imports l') (q, b') = Some j) \<longleftrightarrow>
          (if j = k then q = p else \<exists>b'. map_of (fk_imports l) (q, b') = Some j)" for q
        unfolding got using fresh None by (auto split: if_splits) (metis option.distinct(1))
      then have "library_owner l' 1 j = Some q \<longleftrightarrow> ((library_owner l 1)(k \<mapsto> p)) j = Some q" for q
        unfolding owner_iff [OF \<open>library_ok l'\<close>] by (auto simp: owner_iff [OF l])
      then show ?thesis by (metis not_None_eq)
    qed
    moreover have "0 < k" using l unfolding library_ok_def k by simp
    ultimately show ?thesis by blast
  next
    case (Some i)
    with run have k: "k = i" and l': "l' = l"
      by (auto simp: fake_import_remote_memory_def py_eqs)
    have "library_owner l 1 k = Some p" using owner_iff [OF l] Some k by blast
    moreover have "0 < k" using l Some unfolding library_ok_def k by blast
    ultimately show ?thesis using l l' by (simp add: fun_upd_idem)
  qed
qed

lemma library_destroy:
  assumes l: "library_ok l" and run: "fake_destroy_peer p l = (Inr u, l')"
  shows "library_ok l' \<and>
    library_owner l' 1 = (\<lambda>k. if library_owner l 1 k = Some p then None else library_owner l 1 k)"
proof -
  from run have l': "fk_imports l' = filter (\<lambda>(key, _). fst key \<noteq> p) (fk_imports l)" "fk_next l' = fk_next l"
    "fk_label l' = fk_label l" "fk_peers l' = AList.delete p (fk_peers l)"
    by (auto simp: fake_destroy_peer_def fake_eqs)
  have got: "map_of (fk_imports l') key = (if fst key = p then None else map_of (fk_imports l) key)" for key
    by (simp add: l' dict_get_filter_key)
  have "fake_ok l" using l unfolding library_ok_def by blast
  from fake_destroy_Inr [OF this run] have "fake_ok l'" by blast
  moreover have "tidy l'"
    using l unfolding library_ok_def by (auto simp: tidy_def l' dict_get_delete split: if_splits)
  ultimately have ok': "library_ok l'"
    using l unfolding library_ok_def got l'(2) by (auto simp: l'(1) dict_ok_filter split: if_splits)
  have inj: "map_of (fk_imports l) key1 = Some k \<Longrightarrow> map_of (fk_imports l) key2 = Some k \<Longrightarrow> key1 = key2"
    for key1 key2 k using l unfolding library_ok_def by blast
  have "library_owner l' 1 k = (if library_owner l 1 k = Some p then None else library_owner l 1 k)" for k
  proof -
    have "library_owner l' 1 k = Some q \<longleftrightarrow>
        (if library_owner l 1 k = Some p then None else library_owner l 1 k) = Some q" for q
      using owner_iff [OF l] owner_iff [OF ok'] unfolding got by (auto split: if_splits dest: inj)
    then show ?thesis by (metis not_None_eq)
  qed
  with ok' show ?thesis by blast
qed

lemma engine_call_eq:
  "engine_call h m l = (r, l') \<longleftrightarrow>
     (h \<noteq> 1 \<and> r = Invalid \<and> l' = l) \<or> (h = 1 \<and> (\<exists>x. m l = (Inl x, l')) \<and> r = Invalid) \<or>
     (h = 1 \<and> (\<exists>u. m l = (Inr u, l')) \<and> r = Ok)"
  by (auto simp: engine_call_def split: prod.splits sum.splits)

lemmas library_views = library_peers_def library_links_def library_imported_def

lemma library_connect:
  assumes l: "library_ok l" and run: "cx_connect_peer memory_engine h p b l = (r, l')"
  shows "library_ok l' \<and> library_peers l' h = library_peers l h \<and>
    library_imported l' h = library_imported l h \<and> library_owner l' h = library_owner l h \<and>
    (if r = Ok then library_peers l h p \<noteq> None \<and> library_links l h p = None \<and>
       library_links l' h = (library_links l h)(p \<mapsto> b)
     else library_links l' h = library_links l h)"
proof -
  from run have "engine_call h (fake_connect_peer p (Bytes b)) l = (r, l')" by (simp add: memory_engine_def)
  then show ?thesis unfolding engine_call_eq
  proof (elim disjE exE conjE)
    fix x assume "fake_connect_peer p (Bytes b) l = (Inl x, l')" and r: "r = Invalid"
    with fake_connect_Inl have "l' = l" by blast
    with l r show ?thesis by simp
  next
    fix u assume run: "fake_connect_peer p (Bytes b) l = (Inr u, l')" and r: "r = Ok" and h: "h = 1"
    have "fake_ok l" using l unfolding library_ok_def by blast
    note views = fake_connect_Inr [OF this run]
    note frame = fake_imports_frame(2) [OF run]
    have "tidy l" using l unfolding library_ok_def by blast
    then have "tidy l'" using tidy_cong frame by blast
    then have "library_ok l'" using library_ok_cong [OF l, of l'] views frame by blast
    moreover have "library_owner l' h = library_owner l h" using library_owner_cong frame by blast
    ultimately show ?thesis using views r h by (simp add: library_views)
  qed (use l in simp)
qed

lemma library_destroy_peer:
  assumes l: "library_ok l" and run: "cx_destroy_peer memory_engine h p l = (r, l')"
  shows "library_ok l' \<and>
    (if r = Ok then library_peers l h p \<noteq> None \<and>
       library_peers l' h = (library_peers l h)(p := None) \<and> library_links l' h = (library_links l h)(p := None) \<and>
       library_imported l' h = (library_imported l h)(p := {}) \<and>
       library_owner l' h = (\<lambda>k. if library_owner l h k = Some p then None else library_owner l h k)
     else library_peers l' h = library_peers l h \<and> library_links l' h = library_links l h \<and>
       library_imported l' h = library_imported l h \<and> library_owner l' h = library_owner l h)"
proof -
  from run have "engine_call h (fake_destroy_peer p) l = (r, l')" by (simp add: memory_engine_def)
  then show ?thesis unfolding engine_call_eq
  proof (elim disjE exE conjE)
    fix x assume "fake_destroy_peer p l = (Inl x, l')" and r: "r = Invalid"
    with fake_destroy_Inl have "l' = l" by blast
    with l r show ?thesis by simp
  next
    fix u assume run: "fake_destroy_peer p l = (Inr u, l')" and r: "r = Ok" and h: "h = 1"
    have "fake_ok l" using l unfolding library_ok_def by blast
    note views = fake_destroy_Inr [OF this run]
    have "library_owner l' 1 = (\<lambda>k. if library_owner l 1 k = Some p then None else library_owner l 1 k)"
      "library_ok l'" using library_destroy [OF l run] by blast+
    with views r show ?thesis unfolding h by (simp add: library_views)
  qed (use l in simp)
qed

lemma library_create_peer:
  assumes l: "library_ok l" and run: "cx_create_peer memory_engine h l = ((result, p, a, n), l')"
  shows "library_ok l' \<and> library_links l' h = library_links l h \<and>
    library_imported l' h = library_imported l h \<and> library_owner l' h = library_owner l h \<and>
    (if result = Ok
     then p \<noteq> 0 \<and> a \<noteq> 0 \<and> n \<noteq> 0 \<and> library_peers l h p = None \<and>
       library_peers l' h = (library_peers l h)(p \<mapsto> fi_bytes memory_cffi l' a n)
     else library_peers l' h = library_peers l h)"
proof (cases "h = 1 \<and> fk_next l < 2 ^ 32")
  case False
  with run l show ?thesis by (auto simp: memory_engine_def split: if_splits)
next
  case granted: True
  then have True: "h = 1" by blast
  obtain x m where create: "fake_create_peer l = (x, m)" by fastforce
  have ok: "fake_ok l" "0 < fk_next l" using l unfolding library_ok_def by blast+
  from fake_create [OF ok(1) create] obtain pm where pm: "x = Inr pm" "fake_ok m"
    "fake_live l (pm_peer pm) = None" "fake_live m = (fake_live l)(pm_peer pm \<mapsto> pm_metadata pm)"
    "fake_conn m = fake_conn l" "fake_imps m = fake_imps l" by blast
  from pm(4) have "map_of (fk_peers m) (pm_peer pm) = Some (pm_metadata pm)"
    by (metis fake_live_def fun_upd_same)
  with run granted create pm have "result = Ok" "p = pm_peer pm" "a = pm_peer pm" "n = 1" "l' = m"
    "fi_bytes memory_cffi l' (pm_peer pm) 1 = pm_metadata pm"
    by (simp_all add: memory_engine_def memory_cffi_def)
  moreover note frame = fake_imports_frame(1) [OF create]
  moreover have "tidy l" using l unfolding library_ok_def by blast
  then have "tidy m" using tidy_create create granted by blast
  then have "library_ok m" using library_ok_cong [OF l pm(2)] frame by blast
  moreover have "pm_peer pm \<noteq> 0" using frame pm(1) ok(2) by simp
  moreover have "library_owner m h = library_owner l h" using library_owner_cong frame by blast
  ultimately show ?thesis using pm True by (simp add: library_views)
qed

lemma library_import_remote:
  assumes l: "library_ok l" and run: "cx_import_remote_memory memory_engine h p b l = ((result, k), l')"
  shows "library_ok l' \<and> library_peers l' h = library_peers l h \<and> library_links l' h = library_links l h \<and>
    (if result = Ok
     then k \<noteq> 0 \<and> library_links l h p \<noteq> None \<and> (library_owner l h k = None \<or> library_owner l h k = Some p) \<and>
       library_owner l' h = (library_owner l h)(k \<mapsto> p) \<and>
       library_imported l' h = (library_imported l h)(p := insert b (library_imported l h p))
     else library_imported l' h = library_imported l h \<and> library_owner l' h = library_owner l h)"
proof (cases "h = 1")
  case False
  with run l show ?thesis by (auto simp: memory_engine_def)
next
  case True
  obtain x m where import: "fake_import_remote_memory p (Bytes b) l = (x, m)" by fastforce
  have ok: "fake_ok l" using l unfolding library_ok_def by blast
  show ?thesis
  proof (cases x)
    case (Inl e)
    with import fake_import_Inl have "m = l" by blast
    with run import True Inl l show ?thesis by (auto simp: memory_engine_def)
  next
    case (Inr i)
    with run import True have "result = Ok" "k = i" "l' = m" by (auto simp: memory_engine_def)
    moreover note fake_import_Inr [OF ok import [unfolded Inr]]
    moreover note library_import [OF l import [unfolded Inr]]
    ultimately show ?thesis
      using True by (auto simp: library_peers_def library_links_def library_imported_def)
  qed
qed

lemma library_register:
  assumes "library_ok l" and "cx_register_local_memory memory_engine h a n access l = (r, l')"
  shows "library_ok l' \<and> library_peers l' h = library_peers l h \<and> library_links l' h = library_links l h \<and>
    library_imported l' h = library_imported l h \<and> library_owner l' h = library_owner l h"
proof -
  have l': "l' = l \<or> l' = l\<lparr>fk_next := Suc (fk_next l)\<rparr>"
    using assms(2) by (auto simp: memory_engine_def split: if_splits)
  then have frame: "fk_imports l' = fk_imports l" "fk_next l \<le> fk_next l'" "fk_peers l' = fk_peers l"
    "fk_connected l' = fk_connected l" and label: "fk_label l' = fk_label l" by auto
  have "tidy l" using assms(1) unfolding library_ok_def by blast
  from tidy_cong [OF this label frame(3,2)] have "tidy l'" .
  moreover have "fake_ok l" using assms(1) unfolding library_ok_def by blast
  from fake_views_cong [OF frame(3,4,1,2) this] have "fake_ok l'" "fake_live l' = fake_live l"
    "fake_conn l' = fake_conn l" "fake_imps l' = fake_imps l" by blast+
  ultimately show ?thesis using library_ok_cong [OF assms(1) _ _ frame(1,2)] library_owner_cong [OF frame(1)]
    by (simp add: library_views)
qed

lemma library_ok_init: "length label \<le> 100 \<Longrightarrow> library_ok (fake_init label)"
  by (simp add: library_ok_def fake_ok_init) (simp add: fake_init_def tidy_def)

lemma library_delete:
  assumes "library_ok l"
  shows "library_ok (cx_delete memory_engine h l)"
proof -
  have "0 < fk_next l" "tidy l" using assms unfolding library_ok_def by blast+
  with assms show ?thesis
    by (auto simp: memory_engine_def fake_close_def py_defs library_ok_def fake_ok_def tidy_def)
qed

lemma memory_cffi_ok: "cffi_ok memory_cffi"
  by (simp add: cffi_ok_def memory_cffi_def)

interpretation fake_stack: cpp_contract memory_cffi plenty memory_engine library_ok library_peers library_links
  library_imported library_owner
proof (unfold_locales, goal_cases)
  case 1 show ?case by (rule memory_cffi_ok)
next
  case (2 l p) then show ?case by (simp add: library_peers_def)
next
  case (3 l h p)
  then have "fake_ok l" unfolding library_ok_def by blast
  with 3 fake_dead show ?case by (auto simp: library_views split: if_splits)
next
  case (4 l h result p a n l') then show ?case by (intro library_create_peer)
next
  case (5 l h p b result l') then show ?case by (intro library_connect)
next
  case (6 l h p b result k l') then show ?case by (intro library_import_remote)
next
  case (7 l h p result l') then show ?case by (intro library_destroy_peer)
next
  case (8 l h address len flags r1 l') then show ?case by (intro library_register)
next
  case (9 l h requests r2 l') then show ?case by (simp add: memory_engine_def)
next
  case (10 l h batch r3 l') then show ?case by (simp add: memory_engine_def)
next
  case (11 l config result h l')
  then have "l' = fake_init ''library''" "h = 1" by (auto simp: memory_engine_def)
  moreover have "library_peers (fake_init ''library'') 1 = (\<lambda>_. None)"
    by (simp add: library_peers_def fake_live_def fake_init_def)
  ultimately show ?case using library_ok_init by simp
next
  case (12 l h) then show ?case by (intro library_delete)
qed

section \<open>The whole stack\<close>

text \<open>
  C14: the engine an application constructs, over any C library that keeps the documented contract of
  \<^verbatim>\<open>transfer_engine.h\<close>, stays well formed through every sequence of operations and handlers: the
  peers of its control plane are exactly live in the library, none shares a handle, and each is
  connected there just when its state says so.
\<close>

theorem constructed_engine_stays_well_formed:
  assumes "c_engine C lok peers links imported owner" and "lok l" and "\<forall>k. uuid k \<noteq> []"
    and "Engine_init C dlopen path config timeout listen advertise add_port start l = Inr s"
  shows "engine_wf (c_engine.nok lok peers owner) (c_engine.nlive peers) (c_engine.nconn links)
    (engine_run (native_env C uuid) ops s)"
proof -
  have plane: "engine_plane (native_env C uuid) (c_engine.nok lok peers owner) (c_engine.nlive peers)
      (c_engine.nconn links) (c_engine.nimps imported)"
    using c_engine.real_plane [OF assms(1)] assms(3) by blast
  show ?thesis
    by (rule engine_plane.run_wf [OF plane c_engine.real_init [OF assms(1,2,4)]])
qed

lemma fake_library_starts:
  "ffi_new_config fake_library = Inr"
  "r101_create_engine fake_library \<lparr>cc_abi_version = R101_ABI_VERSION, cc_device = d, cc_port = p, cc_gid_index = g\<rparr> l
    = (Inr (R101_OK, 1), fake_init ''library'')"
  by (simp_all add: fake_library_def adapter_def c_call_def cpp_create_engine_def memory_cffi_def
      memory_engine_def plenty_def split: option.split)

theorem constructed_engine_stays_well_formed_witness:
  "\<exists>s. Engine_init fake_library (\<lambda>_. Inr (\<lambda>_. True)) ''lib.so'' NoConfig (Fin 10) ''h:0'' None (\<lambda>_. Inr 5) None
      (fake_init ''library'') = Inr s \<and>
    engine_wf fake_stack.as_library.nok fake_stack.as_library.nlive fake_stack.as_library.nconn
      (engine_run (native_env fake_library demo_uuid)
         [EnServe (CallConnect \<lparr>of_connection = \<lparr>cn_endpoint = ''n1:1'', cn_id = ''r0''\<rparr>, of_metadata = [9]\<rparr>)] s)"
proof -
  have "\<exists>s. Engine_init fake_library (\<lambda>_. Inr (\<lambda>_. True)) ''lib.so'' NoConfig (Fin 10) ''h:0'' None (\<lambda>_. Inr 5) None
      (fake_init ''library'') = Inr s"
    by (simp add: Engine_init_def NativeEngine_init_def resolve_config_def library_def FUNCTIONS_eval
        fake_library_starts ControlPlane_init_def rpartition_colon_def isdecimal_def
        is_digit_def parse_decimal_def digit_value_def)
  then obtain s where init: "Engine_init fake_library (\<lambda>_. Inr (\<lambda>_. True)) ''lib.so'' NoConfig (Fin 10) ''h:0'' None
      (\<lambda>_. Inr 5) None (fake_init ''library'') = Inr s" ..
  have label: "library_ok (fake_init ''library'')" by (rule library_ok_init) simp
  have "\<forall>k. demo_uuid k \<noteq> []" by (simp add: demo_uuid_def)
  from constructed_engine_stays_well_formed [OF fake_stack.as_library.c_engine_axioms [folded fake_library_def] label this init] init
  show ?thesis by blast
qed

section \<open>The adapter and the skeleton\<close>

text \<open>
  C19: whatever engine with the contract of \<^verbatim>\<open>engine.hpp\<close> it wraps, the adapter is a C library with the
  contract of \<^verbatim>\<open>transfer_engine.h\<close>, over the same views of the same state: its guards turn the calls the
  contract does not speak of into errors without effect, and a granted call, and only that, stores what
  the engine returned.
\<close>

theorem adapter_keeps_contract:
  assumes "cpp_contract X A lok peers links imported owner"
  shows "c_engine (adapter X M A) lok peers links imported owner"
  by (rule cpp_contract.library_contract [OF assms])

theorem adapter_keeps_contract_witness:
  "c_engine (adapter memory_cffi plenty memory_engine) library_ok library_peers library_links library_imported
     library_owner"
  by (rule adapter_keeps_contract [OF fake_stack.cpp_contract_axioms])

text \<open>The skeleton of the course, \<^verbatim>\<open>engine.cpp\<close>: no \<open>Engine\<close> can be made of it.\<close>

definition skeleton :: "'l cpp_engine" where
  "skeleton = \<lparr>cx_create = (\<lambda>_ l. ((Unimplemented, 0), l)), cx_delete = (\<lambda>_ l. l),
     cx_register_local_memory = (\<lambda>_ _ _ _ l. ((Unimplemented, 0, 0, 0), l)),
     cx_deregister_local_memory = (\<lambda>_ _ l. (Unimplemented, l)),
     cx_import_remote_memory = (\<lambda>_ _ _ l. ((Unimplemented, 0), l)),
     cx_remove_remote_memory = (\<lambda>_ _ l. (Unimplemented, l)),
     cx_create_peer = (\<lambda>_ l. ((Unimplemented, 0, 0, 0), l)),
     cx_connect_peer = (\<lambda>_ _ _ l. (Unimplemented, l)),
     cx_destroy_peer = (\<lambda>_ _ l. (Unimplemented, l)),
     cx_submit_transfer = (\<lambda>_ _ l. ((Unimplemented, 0), l)),
     cx_get_transfer_statuses = (\<lambda>_ _ native _. (Unimplemented, native)),
     cx_free_batch = (\<lambda>_ _ l. (Unimplemented, l))\<rparr>"

lemma skeleton_refuses:
  assumes "cffi_ok X" and "resolve_config c = Inr config" and "library dlopen path = Inr functions"
    and "fi_new_config X \<lparr>cc_abi_version = R101_ABI_VERSION, cc_device = config_device config,
      cc_port = config_port config, cc_gid_index = config_gid_index config\<rparr> = Inr storage"
    and "\<And>name. config_device config = Some name \<Longrightarrow> fits_device M name"
  shows "NativeEngine_init (adapter X M skeleton) dlopen path c l =
    Inl (EngineError (Msg ''create_engine'') UNIMPLEMENTED, l)"
proof -
  have "storage = \<lparr>cc_abi_version = R101_ABI_VERSION, cc_device = config_device config,
      cc_port = config_port config, cc_gid_index = config_gid_index config\<rparr>" "fi_cell X 0 \<noteq> 0"
    using assms(1,4) by (auto simp: cffi_ok_def)
  then have "r101_create_engine (adapter X M skeleton) storage l = (Inr (encode_result Unimplemented, 0), l)"
    using assms(5) by (auto simp: adapter_def c_call_def cpp_create_engine_def skeleton_def split: option.splits)
  with assms(2-4) show ?thesis
    by (simp add: NativeEngine_init_def check_code_result [of _ Unimplemented, simplified])
qed

section \<open>A transfer\<close>

text \<open>An engine that accepts a batch and reports its tasks as completed.\<close>

definition eager_engine :: "fake cpp_engine" where
  "eager_engine = memory_engine\<lparr>cx_submit_transfer := (\<lambda>_ _ l. ((Ok, 7), l)),
     cx_get_transfer_statuses := (\<lambda>_ _ native _. (Ok, map (\<lambda>_. NativeCompleted None) native))\<rparr>"

definition eager_native :: "fake native" where
  "eager_native = \<lparr>ne_lib = fake_init ''library'', ne_handle = 1, ne_memories = [], ne_remote_memories = [],
     ne_batches = [], ne_peers = {}\<rparr>"

definition demo_write :: request where
  "demo_write = \<lparr>req_peer = 1, req_local_address = 64, req_length = 8, req_operation = Op (Write 128 False)\<rparr>"

theorem submit_reaches_engine_witness:
  "native_submit_transfer (adapter memory_cffi plenty eager_engine) [Request demo_write] eager_native =
     (Inr 7, eager_native\<lparr>ne_batches := [(7, [WriteT])]\<rparr>)"
proof -
  have "transmits memory_cffi plenty (ne_handle eager_native) [demo_write]"
    by (simp add: transmits_def memory_cffi_def plenty_def eager_native_def demo_write_def encode_request_def)
  then show ?thesis
    using submit_reaches_engine [OF memory_cffi_ok, of plenty eager_native "[demo_write]" eager_engine]
    by (simp add: eager_engine_def eager_native_def demo_write_def)
qed

theorem statuses_reach_python_witness:
  "native_get_transfer_statuses (adapter memory_cffi plenty eager_engine) 7
     (eager_native\<lparr>ne_batches := [(7, [WriteT])]\<rparr>) =
   (Inr [Completed None], eager_native\<lparr>ne_batches := [(7, [WriteT])]\<rparr>)"
proof -
  let ?s = "eager_native\<lparr>ne_batches := [(7, [WriteT])]\<rparr>"
  have suits: "list_all2 suits [NativeCompleted None] [WriteT]" by (simp add: suits_def)
  have batch: "map_of (ne_batches ?s) 7 = Some [WriteT]" "ne_handle ?s \<noteq> 0"
    "(0::int) < 7 \<and> (7::int) < 2 ^ 64" "0 < length [WriteT]" "int (length [WriteT]) \<le> (2 ^ 63 - 1) div 24"
    "fits_statuses plenty (length [WriteT])"
    by (simp_all add: eager_native_def plenty_def)
  have "cx_get_transfer_statuses eager_engine (ne_handle ?s) 7 (replicate (length [WriteT]) NativePending)
      (ne_lib ?s) = (Ok, [NativeCompleted None])"
    by (simp add: eager_engine_def)
  from statuses_reach_python [OF memory_cffi_ok batch this suits] show ?thesis by simp
qed

end
