(* ===== verification/Rust_Adapter.thy ===== *)
theory Rust_Adapter
  imports Stack
begin

text \<open>
  The other implementation of \<^verbatim>\<open>transfer_engine.h\<close>: the entry points of \<^verbatim>\<open>transfer-engine/rust/src/ffi.rs\<close> over any
  engine with the interface of \<^verbatim>\<open>rust/src/engine.rs\<close>. A Rust engine is a C++ one in other types, and over it
  the two adapters are the same library, but for a device name that is not UTF-8.
\<close>

section \<open>The Rust engine\<close>

datatype rust_error =
    Error_Unimplemented | Error_Invalid | Error_Busy | Error_Io | Error_Timeout | Error_Unsupported
  | Error_NoMemory | Error_InvalidState | Error_Canceled

datatype rust_status = RPending | RCompleted "receive_result option" | RFailed rust_error

record rust_config =
  rc_port :: int
  rc_gid_index :: int
  rc_device :: "string option"

text \<open>
  The methods of \<^verbatim>\<open>Engine\<close>, over a state of its own; the first argument is the address of the object. Metadata
  is lent as the data pointer and the length of a slice. \<^verbatim>\<open>get_transfer_statuses\<close> has a shared reference to the
  engine and returns with what it left in the slice.
\<close>

record 'l rust_engine =
  rx_create :: "rust_config \<Rightarrow> ('l, rust_error, int) py"
  rx_drop :: "int \<Rightarrow> 'l \<Rightarrow> 'l"
  rx_register_local_memory :: "int \<Rightarrow> int \<Rightarrow> int \<Rightarrow> int \<Rightarrow> ('l, rust_error, int \<times> int \<times> int) py"
  rx_deregister_local_memory :: "int \<Rightarrow> int \<Rightarrow> ('l, rust_error, unit) py"
  rx_import_remote_memory :: "int \<Rightarrow> int \<Rightarrow> bytes \<Rightarrow> ('l, rust_error, int) py"
  rx_remove_remote_memory :: "int \<Rightarrow> int \<Rightarrow> ('l, rust_error, unit) py"
  rx_create_peer :: "int \<Rightarrow> ('l, rust_error, int \<times> int \<times> int) py"
  rx_connect_peer :: "int \<Rightarrow> int \<Rightarrow> bytes \<Rightarrow> ('l, rust_error, unit) py"
  rx_destroy_peer :: "int \<Rightarrow> int \<Rightarrow> ('l, rust_error, unit) py"
  rx_submit_transfer :: "int \<Rightarrow> request list \<Rightarrow> ('l, rust_error, int) py"
  rx_get_transfer_statuses :: "int \<Rightarrow> int \<Rightarrow> rust_status list \<Rightarrow> 'l \<Rightarrow> (rust_error + unit) \<times> rust_status list"
  rx_free_batch :: "int \<Rightarrow> int \<Rightarrow> ('l, rust_error, unit) py"

text \<open>The constants of \<^verbatim>\<open>MemoryAccess\<close>.\<close>

definition rust_LOCAL_WRITE :: int where "rust_LOCAL_WRITE = push_bit 0 1"

definition rust_REMOTE_WRITE :: int where "rust_REMOTE_WRITE = push_bit 1 1"

definition rust_REMOTE_READ :: int where "rust_REMOTE_READ = push_bit 2 1"

definition rust_REMOTE_ATOMIC :: int where "rust_REMOTE_ATOMIC = push_bit 3 1"

lemmas rust_access_defs = rust_LOCAL_WRITE_def rust_REMOTE_WRITE_def rust_REMOTE_READ_def rust_REMOTE_ATOMIC_def

section \<open>Conversions\<close>

fun encode_error :: "rust_error \<Rightarrow> int" where
  "encode_error Error_Unimplemented = R101_UNIMPLEMENTED"
| "encode_error Error_Invalid = R101_INVALID"
| "encode_error Error_Busy = R101_BUSY"
| "encode_error Error_Io = R101_IO_ERROR"
| "encode_error Error_Timeout = R101_TIMEOUT"
| "encode_error Error_Unsupported = R101_UNSUPPORTED"
| "encode_error Error_NoMemory = R101_NO_MEMORY"
| "encode_error Error_InvalidState = R101_INVALID_STATE"
| "encode_error Error_Canceled = R101_CANCELED"

text \<open>\<open>call(operation)\<close>; what the operation stores through its pointers is the value it returns, else \<open>zero\<close>.\<close>

definition rust_call :: "'a \<Rightarrow> ('l, rust_error, 'a) py \<Rightarrow> 'l \<Rightarrow> (int \<times> 'a) \<times> 'l" where
  "rust_call zero operation l = (case operation l of
     (Inr x, l') \<Rightarrow> ((R101_OK, x), l')
   | (Inl error, l') \<Rightarrow> ((encode_error error, zero), l'))"

text \<open>
  \<open>array_len(data, count)\<close> for elements of \<open>width\<close> bytes with the alignment \<open>alignment\<close>; a \<^verbatim>\<open>u64\<close> fits a
  \<^verbatim>\<open>usize\<close> of 64 bits.
\<close>

definition array_len :: "int \<Rightarrow> int \<Rightarrow> int \<Rightarrow> int \<Rightarrow> rust_error + int" where
  "array_len width alignment data count =
     (if data = 0 \<or> count = 0 \<or> (2 ^ 63 - 1) div width < count \<or> data mod alignment \<noteq> 0
      then Inl Error_Invalid else Inr count)"

definition engine_mut :: "int \<Rightarrow> ('l, rust_error, int) py" where
  "engine_mut engine = (if engine = 0 then py_raise Error_Invalid else py_return engine)"

text \<open>\<^verbatim>\<open>CStr::to_str\<close> of the standard library: whether the bytes are well-formed UTF-8.\<close>

definition continues :: "nat \<Rightarrow> nat \<Rightarrow> nat \<Rightarrow> bool" where
  "continues low high b \<longleftrightarrow> low \<le> b \<and> b \<le> high"

fun utf8_bytes :: "nat list \<Rightarrow> bool" where
  "utf8_bytes [] = True"
| "utf8_bytes (a # bs) =
     (if a < 0x80 then utf8_bytes bs
      else case bs of
        [] \<Rightarrow> False
      | b # cs \<Rightarrow>
          if continues 0xC2 0xDF a then continues 0x80 0xBF b \<and> utf8_bytes cs
          else (case cs of
            [] \<Rightarrow> False
          | c # ds \<Rightarrow>
              if continues 0xE0 0xEF a
              then continues (if a = 0xE0 then 0xA0 else 0x80) (if a = 0xED then 0x9F else 0xBF) b \<and>
                continues 0x80 0xBF c \<and> utf8_bytes ds
              else (case ds of
                [] \<Rightarrow> False
              | d # es \<Rightarrow>
                  continues 0xF0 0xF4 a \<and>
                  continues (if a = 0xF0 then 0x90 else 0x80) (if a = 0xF4 then 0x8F else 0xBF) b \<and>
                  continues 0x80 0xBF c \<and> continues 0x80 0xBF d \<and> utf8_bytes es)))"

definition utf8 :: "string \<Rightarrow> bool" where
  "utf8 name = utf8_bytes (map of_char name)"

definition decode_config :: "cpp_heap \<Rightarrow> c_config \<Rightarrow> rust_error + rust_config" where
  "decode_config M input =
     (if cc_abi_version input \<noteq> R101_ABI_VERSION then Inl Error_Invalid
      else let config = (\<lambda>device. \<lparr>rc_port = cc_port input, rc_gid_index = cc_gid_index input, rc_device = device\<rparr>)
      in case cc_device input of
        None \<Rightarrow> Inr (config None)
      | Some name \<Rightarrow>
          if \<not> utf8 name then Inl Error_Invalid
          else if \<not> fits_device M name then Inl Error_NoMemory
          else Inr (config (Some name)))"

definition rust_decode_access :: "int \<Rightarrow> rust_error + int" where
  "rust_decode_access flags =
     (if flags AND NOT known_access \<noteq> 0 then Inl Error_Invalid
      else Inr (fold (\<lambda>(flag, native) access. if flags AND flag \<noteq> 0 then access OR native else access)
        [(R101_LOCAL_WRITE, rust_LOCAL_WRITE), (R101_REMOTE_WRITE, rust_REMOTE_WRITE),
         (R101_REMOTE_READ, rust_REMOTE_READ), (R101_REMOTE_ATOMIC, rust_REMOTE_ATOMIC)] 0))"

text \<open>The native request and its operations have the fields of the Python ones.\<close>

definition rust_operation :: "c_request \<Rightarrow> bool \<Rightarrow> rust_error + operation" where
  "rust_operation input inlined =
     (let opcode = cr_opcode input; u = cr_args input
      in if opcode = R101_WRITE then Inr (Write (union_remote_address u) inlined)
         else if opcode = R101_READ then Inr (Read (union_remote_address u))
         else if opcode = R101_SEND then Inr (Send inlined)
         else if opcode = R101_RECV then Inr Recv
         else if opcode = R101_WRITE_IMM
         then Inr (WriteImm (union_remote_address u) (union_immediate u) inlined)
         else if opcode = R101_COMPARE_SWAP
         then Inr (CompareSwap (union_remote_address u) (union_compare u) (union_value u))
         else if opcode = R101_FETCH_ADD then Inr (FetchAdd (union_remote_address u) (union_value u))
         else Inl Error_Invalid)"

definition rust_decode_request :: "c_request \<Rightarrow> rust_error + request" where
  "rust_decode_request input =
     (if cr_flags input \<noteq> 0 \<and> cr_flags input \<noteq> R101_INLINE then Inl Error_Invalid
      else let inlined = (cr_flags input = R101_INLINE);
               supports_inline = (cr_opcode input \<in> {R101_WRITE, R101_SEND, R101_WRITE_IMM})
           in if inlined \<and> \<not> supports_inline then Inl Error_Invalid
              else (case rust_operation input inlined of
                Inl error \<Rightarrow> Inl error
              | Inr op \<Rightarrow> Inr \<lparr>req_peer = cr_peer input, req_local_address = cr_local_address input,
                  req_length = cr_length input, req_operation = Op op\<rparr>))"

fun rust_decode_requests :: "c_request list \<Rightarrow> rust_error + request list" where
  "rust_decode_requests [] = Inr []"
| "rust_decode_requests (c # cs) = (case rust_decode_request c of
     Inl error \<Rightarrow> Inl error
   | Inr r \<Rightarrow> map_sum id (\<lambda>rs. r # rs) (rust_decode_requests cs))"

definition rust_encode_status :: "rust_status \<Rightarrow> c_status" where
  "rust_encode_status input =
     (let output = \<lparr>cs_state = R101_PENDING, cs_error = R101_OK, cs_receive_kind = 0, cs_receive_immediate = 0,
        cs_receive_length = 0\<rparr>
      in case input of
        RPending \<Rightarrow> output
      | RFailed error \<Rightarrow> output\<lparr>cs_state := R101_FAILED, cs_error := encode_error error\<rparr>
      | RCompleted receive \<Rightarrow> (let output = output\<lparr>cs_state := R101_COMPLETED\<rparr> in case receive of
          Some (Message l) \<Rightarrow> output\<lparr>cs_receive_kind := R101_RECV_MESSAGE, cs_receive_length := l\<rparr>
        | Some (WriteNotice i) \<Rightarrow> output\<lparr>cs_receive_kind := R101_RECV_WRITE_IMM, cs_receive_immediate := i\<rparr>
        | None \<Rightarrow> output))"

section \<open>The entry points\<close>

text \<open>
  As in \<^verbatim>\<open>Adapter\<close>, output parameters are a list of pointers that must not be null and the values stored through
  them; zeros stand for what an entry point does not store.
\<close>

definition rust_create_engine ::
  "cpp_heap \<Rightarrow> 'l rust_engine \<Rightarrow> c_config option \<Rightarrow> int list \<Rightarrow> 'l \<Rightarrow> (int \<times> int) \<times> 'l" where
  "rust_create_engine M R config outputs l =
     (if 0 \<in> set outputs then ((R101_INVALID, 0), l)
      else case config of
        None \<Rightarrow> ((R101_INVALID, 0), l)
      | Some c \<Rightarrow> rust_call 0 (py_bind (py_lift (decode_config M c)) (rx_create R)) l)"

definition rust_destroy_engine :: "'l rust_engine \<Rightarrow> int \<Rightarrow> 'l \<Rightarrow> int \<times> 'l" where
  "rust_destroy_engine R engine l =
     (if engine = 0 then (R101_INVALID, l) else (R101_OK, rx_drop R engine l))"

definition rust_register_local_memory ::
  "'l rust_engine \<Rightarrow> int \<Rightarrow> int \<Rightarrow> int \<Rightarrow> int \<Rightarrow> int list \<Rightarrow> 'l \<Rightarrow> (int \<times> int \<times> int \<times> int) \<times> 'l" where
  "rust_register_local_memory R engine address len access outputs l =
     (if 0 \<in> set outputs then ((R101_INVALID, 0, 0, 0), l)
      else rust_call (0, 0, 0)
        (py_bind (py_lift (array_len 1 1 address len)) (\<lambda>len.
         py_bind (engine_mut engine) (\<lambda>e.
         py_bind (py_lift (rust_decode_access access)) (\<lambda>access.
           rx_register_local_memory R e address len access)))) l)"

definition rust_deregister_local_memory :: "'l rust_engine \<Rightarrow> int \<Rightarrow> int \<Rightarrow> 'l \<Rightarrow> int \<times> 'l" where
  "rust_deregister_local_memory R engine memory l =
     (if memory = 0 then (R101_INVALID, l)
      else apfst fst (rust_call () (py_bind (engine_mut engine) (\<lambda>e. rx_deregister_local_memory R e memory)) l))"

definition rust_import_remote_memory ::
  "'l rust_engine \<Rightarrow> int \<Rightarrow> int \<Rightarrow> int \<Rightarrow> bytes \<Rightarrow> int list \<Rightarrow> 'l \<Rightarrow> (int \<times> int) \<times> 'l" where
  "rust_import_remote_memory R engine peer address metadata outputs l =
     (if 0 \<in> set outputs then ((R101_INVALID, 0), l)
      else if peer = 0 then ((R101_INVALID, 0), l)
      else rust_call 0
        (py_bind (py_lift (array_len 1 1 address (int (length metadata)))) (\<lambda>_.
         py_bind (engine_mut engine) (\<lambda>e. rx_import_remote_memory R e peer metadata))) l)"

definition rust_remove_remote_memory :: "'l rust_engine \<Rightarrow> int \<Rightarrow> int \<Rightarrow> 'l \<Rightarrow> int \<times> 'l" where
  "rust_remove_remote_memory R engine remote_memory l =
     (if remote_memory = 0 then (R101_INVALID, l)
      else apfst fst (rust_call () (py_bind (engine_mut engine) (\<lambda>e. rx_remove_remote_memory R e remote_memory)) l))"

definition rust_create_peer ::
  "'l rust_engine \<Rightarrow> int \<Rightarrow> int list \<Rightarrow> 'l \<Rightarrow> (int \<times> int \<times> int \<times> int) \<times> 'l" where
  "rust_create_peer R engine outputs l =
     (if 0 \<in> set outputs then ((R101_INVALID, 0, 0, 0), l)
      else rust_call (0, 0, 0) (py_bind (engine_mut engine) (rx_create_peer R)) l)"

definition rust_connect_peer ::
  "'l rust_engine \<Rightarrow> int \<Rightarrow> int \<Rightarrow> int \<Rightarrow> bytes \<Rightarrow> 'l \<Rightarrow> int \<times> 'l" where
  "rust_connect_peer R engine peer address metadata l =
     (if peer = 0 then (R101_INVALID, l)
      else apfst fst (rust_call ()
        (py_bind (py_lift (array_len 1 1 address (int (length metadata)))) (\<lambda>_.
         py_bind (engine_mut engine) (\<lambda>e. rx_connect_peer R e peer metadata))) l))"

definition rust_destroy_peer :: "'l rust_engine \<Rightarrow> int \<Rightarrow> int \<Rightarrow> 'l \<Rightarrow> int \<times> 'l" where
  "rust_destroy_peer R engine peer l =
     (if peer = 0 then (R101_INVALID, l)
      else apfst fst (rust_call () (py_bind (engine_mut engine) (\<lambda>e. rx_destroy_peer R e peer)) l))"

text \<open>\<^verbatim>\<open>try_reserve_exact\<close> of a vector of requests or statuses may fail.\<close>

definition reserve :: "bool \<Rightarrow> ('l, rust_error, unit) py" where
  "reserve fits = py_raise_if (\<not> fits) Error_NoMemory"

definition rust_submit_transfer ::
  "cpp_heap \<Rightarrow> 'l rust_engine \<Rightarrow> int \<Rightarrow> int \<Rightarrow> c_request list \<Rightarrow> int list \<Rightarrow> 'l \<Rightarrow> (int \<times> int) \<times> 'l"
where
  "rust_submit_transfer M R engine address requests outputs l =
     (if 0 \<in> set outputs then ((R101_INVALID, 0), l)
      else rust_call 0
        (py_bind (py_lift (array_len 56 8 address (int (length requests)))) (\<lambda>_.
         py_bind (engine_mut engine) (\<lambda>e.
         py_then (reserve (fits_requests M (length requests)))
        (py_bind (py_lift (rust_decode_requests requests)) (\<lambda>native.
           rx_submit_transfer R e native))))) l)"

definition rust_get_transfer_statuses ::
  "cpp_heap \<Rightarrow> 'l rust_engine \<Rightarrow> int \<Rightarrow> int \<Rightarrow> int \<Rightarrow> nat \<Rightarrow> 'l \<Rightarrow> int \<times> c_status list" where
  "rust_get_transfer_statuses M R engine batch address count l =
     (let untouched = replicate count zero_status in
      if batch = 0 then (R101_INVALID, untouched)
      else fst (rust_call untouched
        (py_bind (py_lift (array_len 24 8 address (int count))) (\<lambda>_.
         py_bind (engine_mut engine) (\<lambda>e.
         py_then (reserve (fits_statuses M count)) (\<lambda>l.
           case rx_get_transfer_statuses R e batch (replicate count RPending) l of
             (Inl error, _) \<Rightarrow> (Inl error, l)
           | (Inr _, native) \<Rightarrow> (Inr (map rust_encode_status native), l))))) l))"

definition rust_free_batch :: "'l rust_engine \<Rightarrow> int \<Rightarrow> int \<Rightarrow> 'l \<Rightarrow> int \<times> 'l" where
  "rust_free_batch R engine batch l =
     (if batch = 0 then (R101_INVALID, l)
      else apfst fst (rust_call () (py_bind (engine_mut engine) (\<lambda>e. rx_free_batch R e batch)) l))"

text \<open>The C library Python loads.\<close>

definition rust_adapter :: "'l cffi \<Rightarrow> cpp_heap \<Rightarrow> 'l rust_engine \<Rightarrow> 'l c_api" where
  "rust_adapter X M R = \<lparr>ffi_void_ptr = fi_void_ptr X, ffi_new_config = fi_new_config X,
     ffi_new_requests = fi_new_requests X, ffi_bytes = fi_bytes X,
     r101_create_engine = (\<lambda>c. c_call (rust_create_engine M R (Some c) [fi_cell X 0])),
     r101_destroy_engine = (\<lambda>h. c_call (rust_destroy_engine R h)),
     r101_register_local_memory = (\<lambda>h a n access. c_ints [(64, n), (32, access)]
       (c_call (rust_register_local_memory R h a n access (map (fi_cell X) [0..<3])))),
     r101_deregister_local_memory = (\<lambda>h k. c_ints [(64, k)] (c_call (rust_deregister_local_memory R h k))),
     r101_import_remote_memory = (\<lambda>h p b. c_ints [(64, p)]
       (c_call (rust_import_remote_memory R h p (fi_buffer X b) b [fi_cell X 0]))),
     r101_remove_remote_memory = (\<lambda>h k. c_ints [(64, k)] (c_call (rust_remove_remote_memory R h k))),
     r101_create_peer = (\<lambda>h. c_call (rust_create_peer R h (map (fi_cell X) [0..<3]))),
     r101_connect_peer = (\<lambda>h p b. c_ints [(64, p)] (c_call (rust_connect_peer R h p (fi_buffer X b) b))),
     r101_destroy_peer = (\<lambda>h p. c_ints [(64, p)] (c_call (rust_destroy_peer R h p))),
     r101_submit_transfer = (\<lambda>h cs. c_call (rust_submit_transfer M R h (fi_requests X cs) cs [fi_cell X 0])),
     r101_get_transfer_statuses = (\<lambda>h batch n. c_ints [(64, batch)] (\<lambda>l.
       (Inr (rust_get_transfer_statuses M R h batch (fi_statuses X n) n l), l))),
     r101_free_batch = (\<lambda>h batch. c_ints [(64, batch)] (c_call (rust_free_batch R h batch)))\<rparr>"

section \<open>A Rust engine as a C++ engine\<close>

fun code_of :: "rust_error \<Rightarrow> result_code" where
  "code_of Error_Unimplemented = Unimplemented"
| "code_of Error_Invalid = Invalid"
| "code_of Error_Busy = Busy"
| "code_of Error_Io = IoError"
| "code_of Error_Timeout = Timeout"
| "code_of Error_Unsupported = Unsupported"
| "code_of Error_NoMemory = NoMemory"
| "code_of Error_InvalidState = InvalidState"
| "code_of Error_Canceled = Canceled"

fun status_of :: "rust_status \<Rightarrow> native_status" where
  "status_of RPending = NativePending"
| "status_of (RCompleted receive) = NativeCompleted receive"
| "status_of (RFailed error) = NativeFailed (code_of error)"

text \<open>A \<^verbatim>\<open>Result\<close> as a code and the output parameters, which an error leaves zero.\<close>

definition with_output :: "'a \<Rightarrow> ('l, rust_error, 'a) py \<Rightarrow> 'l \<Rightarrow> (result_code \<times> 'a) \<times> 'l" where
  "with_output zero m l = (case m l of
     (Inr x, l') \<Rightarrow> ((Ok, x), l') | (Inl error, l') \<Rightarrow> ((code_of error, zero), l'))"

definition as_cpp :: "'l rust_engine \<Rightarrow> 'l cpp_engine" where
  "as_cpp R = \<lparr>cx_create = (\<lambda>c. with_output 0 (rx_create R
         \<lparr>rc_port = pc_port c, rc_gid_index = pc_gid_index c, rc_device = pc_device c\<rparr>)),
     cx_delete = rx_drop R,
     cx_register_local_memory = (\<lambda>h a n access. with_output (0, 0, 0) (rx_register_local_memory R h a n access)),
     cx_deregister_local_memory = (\<lambda>h k l. apfst fst (with_output () (rx_deregister_local_memory R h k) l)),
     cx_import_remote_memory = (\<lambda>h p b. with_output 0 (rx_import_remote_memory R h p b)),
     cx_remove_remote_memory = (\<lambda>h k l. apfst fst (with_output () (rx_remove_remote_memory R h k) l)),
     cx_create_peer = (\<lambda>h. with_output (0, 0, 0) (rx_create_peer R h)),
     cx_connect_peer = (\<lambda>h p b l. apfst fst (with_output () (rx_connect_peer R h p b) l)),
     cx_destroy_peer = (\<lambda>h p l. apfst fst (with_output () (rx_destroy_peer R h p) l)),
     cx_submit_transfer = (\<lambda>h rs. with_output 0 (rx_submit_transfer R h rs)),
     cx_get_transfer_statuses = (\<lambda>h batch native l.
       case rx_get_transfer_statuses R h batch (replicate (length native) RPending) l of
         (r, sts) \<Rightarrow> (case r of Inl error \<Rightarrow> code_of error | Inr _ \<Rightarrow> Ok, map status_of sts)),
     cx_free_batch = (\<lambda>h batch l. apfst fst (with_output () (rx_free_batch R h batch) l))\<rparr>"

section \<open>The conversions agree\<close>

lemma encode_error_code [simp]: "encode_result (code_of error) = encode_error error"
  by (cases error) simp_all

lemma code_of_error [simp]: "code_of error \<noteq> Ok"
  by (cases error) simp_all

lemma encode_status_of [simp]: "encode_status (status_of st) = Some (rust_encode_status st)"
  by (cases st) (auto simp: rust_encode_status_def encode_status_def zero_status_def Let_def R101_defs
      split: option.splits receive_result.splits)

lemma encode_statuses_of [simp]: "those (map encode_status (map status_of sts)) = Some (map rust_encode_status sts)"
  by (induction sts) simp_all

lemma rust_access: "rust_decode_access flags =
    (case decode_access flags of None \<Rightarrow> Inl Error_Invalid | Some access \<Rightarrow> Inr access)"
  by (simp add: rust_decode_access_def decode_access_def rust_access_defs access_flag_defs Let_def)

lemma rust_request: "rust_decode_request c =
    (case decode_request c of None \<Rightarrow> Inl Error_Invalid | Some r \<Rightarrow> Inr r)"
  by (simp add: rust_decode_request_def decode_request_def rust_operation_def Let_def R101_defs)

lemma rust_requests: "rust_decode_requests cs =
    (case decode_requests cs of None \<Rightarrow> Inl Error_Invalid | Some rs \<Rightarrow> Inr rs)"
  by (induction cs) (simp_all add: rust_request split: option.splits)

lemma rust_array: "0 \<le> count \<Longrightarrow> array_len width alignment data count =
    (if valid_array width alignment data count then Inr count else Inl Error_Invalid)"
  by (auto simp: array_len_def valid_array_def)

section \<open>The entry points agree\<close>

lemma rust_call_eq:
  "rust_call zero m l = (case with_output zero m l of ((result, x), l') \<Rightarrow> ((encode_result result, x), l'))"
  by (simp add: rust_call_def with_output_def split: prod.split sum.split)

lemma rust_call_unit:
  "apfst fst (rust_call () m l) = apfst encode_result (apfst fst (with_output () m l))"
  by (simp add: rust_call_def with_output_def split: prod.split sum.split)

lemma with_output_bind:
  "with_output zero (py_bind (py_lift (Inl e)) f) l = ((code_of e, zero), l)"
  "with_output zero (py_bind (py_lift (Inr x)) f) l = with_output zero (f x) l"
  "with_output zero (py_bind (engine_mut engine) g) l =
     (if engine = 0 then ((Invalid, zero), l) else with_output zero (g engine) l)"
  "with_output zero (py_then (reserve fits) m) l = (if fits then with_output zero m l else ((NoMemory, zero), l))"
  by (simp_all add: with_output_def engine_mut_def reserve_def py_defs)

text \<open>An output parameter is zero unless the result is \<open>Ok\<close>.\<close>

lemma with_output_zero: "with_output zero m l = ((result, x), l') \<Longrightarrow> (if result = Ok then x else zero) = x"
  by (auto simp: with_output_def split: prod.splits sum.splits)

lemmas entry_eqs = rust_call_eq rust_call_unit with_output_bind rust_array rust_access rust_requests

definition not_utf8 :: "c_config \<Rightarrow> bool" where
  "not_utf8 c = (case cc_device c of None \<Rightarrow> False | Some name \<Rightarrow> \<not> utf8 name)"

lemma rust_create: "rust_create_engine M R (Some c) outputs l =
    (if not_utf8 c then ((R101_INVALID, 0), l)
     else cpp_create_engine M (as_cpp R) (Some c) outputs l)"
  by (auto simp: rust_create_engine_def cpp_create_engine_def decode_config_def as_cpp_def Let_def entry_eqs not_utf8_def
      dest: with_output_zero split: prod.splits option.splits if_splits)

lemma rust_entries:
  "rust_destroy_engine R engine = cpp_destroy_engine (as_cpp R) engine"
  "rust_deregister_local_memory R engine k = cpp_deregister_local_memory (as_cpp R) engine k"
  "rust_import_remote_memory R engine p address b outputs = cpp_import_remote_memory (as_cpp R) engine p address b outputs"
  "rust_remove_remote_memory R engine k = cpp_remove_remote_memory (as_cpp R) engine k"
  "rust_create_peer R engine outputs = cpp_create_peer (as_cpp R) engine outputs"
  "rust_connect_peer R engine p address b = cpp_connect_peer (as_cpp R) engine p address b"
  "rust_destroy_peer R engine p = cpp_destroy_peer (as_cpp R) engine p"
  "rust_free_batch R engine batch = cpp_free_batch (as_cpp R) engine batch"
  by (auto simp: fun_eq_iff as_cpp_def entry_eqs
      rust_destroy_engine_def cpp_destroy_engine_def rust_deregister_local_memory_def cpp_deregister_local_memory_def
      rust_import_remote_memory_def cpp_import_remote_memory_def rust_remove_remote_memory_def
      cpp_remove_remote_memory_def rust_create_peer_def cpp_create_peer_def rust_connect_peer_def cpp_connect_peer_def
      rust_destroy_peer_def cpp_destroy_peer_def rust_free_batch_def cpp_free_batch_def
      dest: with_output_zero split: prod.splits)

lemma rust_register:
  "0 \<le> n \<Longrightarrow> rust_register_local_memory R engine a n access outputs =
     cpp_register_local_memory (as_cpp R) engine a n access outputs"
  by (auto simp: fun_eq_iff as_cpp_def entry_eqs rust_register_local_memory_def cpp_register_local_memory_def
      dest: with_output_zero split: prod.splits option.splits)

lemma rust_submit:
  "rust_submit_transfer M R engine address cs outputs = cpp_submit_transfer M (as_cpp R) engine address cs outputs"
  by (auto simp: fun_eq_iff as_cpp_def entry_eqs rust_submit_transfer_def cpp_submit_transfer_def valid_requests_def
      dest: with_output_zero split: prod.splits option.splits)

lemma cx_statuses: "cx_get_transfer_statuses (as_cpp R) engine batch (replicate count NativePending) l =
    (case rx_get_transfer_statuses R engine batch (replicate count RPending) l of
       (Inl error, sts) \<Rightarrow> (code_of error, map status_of sts) | (Inr _, sts) \<Rightarrow> (Ok, map status_of sts))"
  by (simp add: as_cpp_def split: prod.split sum.split)

lemma rust_statuses:
  "cpp_get_transfer_statuses M (as_cpp R) engine batch address count l =
     Some (rust_get_transfer_statuses M R engine batch address count l)"
  by (cases "rx_get_transfer_statuses R engine batch (replicate count RPending) l"; cases "fst (rx_get_transfer_statuses R engine batch (replicate count RPending) l)")
    (simp_all add: rust_get_transfer_statuses_def cpp_get_transfer_statuses_def cx_statuses rust_array Let_def
      valid_statuses_def rust_call_def engine_mut_def reserve_def py_defs del: map_map)

lemma c_ints_cong:
  "(\<forall>(w, n) \<in> set args. 0 \<le> n \<and> n < 2 ^ w \<Longrightarrow> m = m') \<Longrightarrow> c_ints args m = c_ints args m'"
  by (cases "\<forall>(w, n) \<in> set args. 0 \<le> n \<and> n < 2 ^ w")
    (auto simp: fun_eq_iff c_ints_def py_defs not_less case_prod_unfold)

lemma adapter_agrees:
  "rust_adapter X M R = (adapter X M (as_cpp R))\<lparr>r101_create_engine := (\<lambda>c.
     if not_utf8 c then (\<lambda>l. (Inr (R101_INVALID, 0), l))
     else r101_create_engine (adapter X M (as_cpp R)) c)\<rparr>"
proof -
  have register: "c_ints [(64, n), (32, access)] (c_call (rust_register_local_memory R h a n access outputs)) =
      c_ints [(64, n), (32, access)] (c_call (cpp_register_local_memory (as_cpp R) h a n access outputs))"
    for h a n access outputs
    by (rule c_ints_cong) (simp add: rust_register)
  have create: "c_call (rust_create_engine M R (Some c) outputs) =
      (if not_utf8 c then (\<lambda>l. (Inr (R101_INVALID, 0), l))
       else c_call (cpp_create_engine M (as_cpp R) (Some c) outputs))" for c outputs
    by (simp add: fun_eq_iff c_call_def rust_create)
  show ?thesis
    by (simp add: rust_adapter_def adapter_def register rust_entries rust_submit rust_statuses create
        cong: if_cong)
qed

text \<open>
  C20: the two adapters are interchangeable. Over any Rust engine, the C library that \<^verbatim>\<open>rust/src/ffi.rs\<close> makes of it
  answers every call, for every state and every argument, exactly as the one that \<^verbatim>\<open>cpp/ffi.cpp\<close> would make of the
  same engine written in C++: the same results, the same outputs, the same effects. The one difference is a device
  name that is not UTF-8, which the Rust adapter refuses as invalid.
\<close>

theorem rust_adapter_agrees:
  "rust_adapter X M R = (adapter X M (as_cpp R))\<lparr>r101_create_engine := (\<lambda>c.
     if not_utf8 c then (\<lambda>l. (Inr (R101_INVALID, 0), l))
     else r101_create_engine (adapter X M (as_cpp R)) c)\<rparr>"
  by (rule adapter_agrees)

text \<open>So an engine with the contract of \<^verbatim>\<open>engine.rs\<close>, which is that of \<^verbatim>\<open>engine.hpp\<close>, serves Python as well.\<close>

lemma rust_adapter_keeps_contract:
  assumes "cpp_contract X (as_cpp R) lok peers links imported owner"
  shows "c_engine (rust_adapter X M R) lok peers links imported owner"
proof -
  note library = cpp_contract.library_contract [OF assms, of M]
  have same: "ffi_bytes (rust_adapter X M R) = ffi_bytes (adapter X M (as_cpp R))"
    "r101_create_peer (rust_adapter X M R) = r101_create_peer (adapter X M (as_cpp R))"
    "r101_connect_peer (rust_adapter X M R) = r101_connect_peer (adapter X M (as_cpp R))"
    "r101_import_remote_memory (rust_adapter X M R) = r101_import_remote_memory (adapter X M (as_cpp R))"
    "r101_destroy_peer (rust_adapter X M R) = r101_destroy_peer (adapter X M (as_cpp R))"
    "r101_register_local_memory (rust_adapter X M R) = r101_register_local_memory (adapter X M (as_cpp R))"
    "r101_submit_transfer (rust_adapter X M R) = r101_submit_transfer (adapter X M (as_cpp R))"
    "r101_get_transfer_statuses (rust_adapter X M R) = r101_get_transfer_statuses (adapter X M (as_cpp R))"
    "r101_free_batch (rust_adapter X M R) = r101_free_batch (adapter X M (as_cpp R))"
    "r101_destroy_engine (rust_adapter X M R) = r101_destroy_engine (adapter X M (as_cpp R))"
    by (simp_all add: adapter_agrees)
  have create: "lok l \<Longrightarrow> r101_create_engine (rust_adapter X M R) config l = (r, l') \<Longrightarrow>
      lok l' \<and> (\<forall>h. r = Inr (R101_OK, h) \<longrightarrow> peers l' h = (\<lambda>_. None))" for l config r l'
    using c_engine.c_engine_created [OF library, of l config r l']
    by (auto simp: adapter_agrees R101_defs split: if_splits)
  show ?thesis
    using library unfolding c_engine_def same
    by (elim conjE, intro conjI) (assumption | (intro allI impI, rule create, assumption+))+
qed

text \<open>ASCII is UTF-8.\<close>

lemma ascii_utf8: "list_all (\<lambda>b. b < 128) bs \<Longrightarrow> utf8_bytes bs"
  by (induction bs rule: utf8_bytes.induct) auto

lemma utf8_examples:
  "utf8_bytes [0xC3, 0xA9]" "\<not> utf8_bytes [0xC0, 0x80]" "utf8_bytes [0xED, 0x9F, 0xBF]" "\<not> utf8_bytes [0xED, 0xA0, 0x80]"
  "utf8_bytes [0xF4, 0x8F, 0xBF, 0xBF]" "\<not> utf8_bytes [0xF4, 0x90, 0x80, 0x80]" "\<not> utf8_bytes [0x80]" "\<not> utf8_bytes [0xE2, 0x82]"
  by (simp_all add: continues_def)

section \<open>The skeleton\<close>

text \<open>\<^verbatim>\<open>engine.rs\<close> as the course starts from it; it makes the library the C++ skeleton makes.\<close>

definition rust_skeleton :: "'l rust_engine" where
  "rust_skeleton = \<lparr>rx_create = (\<lambda>_. py_raise Error_Unimplemented), rx_drop = (\<lambda>_ l. l),
     rx_register_local_memory = (\<lambda>_ _ _ _. py_raise Error_Unimplemented),
     rx_deregister_local_memory = (\<lambda>_ _. py_raise Error_Unimplemented),
     rx_import_remote_memory = (\<lambda>_ _ _. py_raise Error_Unimplemented),
     rx_remove_remote_memory = (\<lambda>_ _. py_raise Error_Unimplemented),
     rx_create_peer = (\<lambda>_. py_raise Error_Unimplemented),
     rx_connect_peer = (\<lambda>_ _ _. py_raise Error_Unimplemented),
     rx_destroy_peer = (\<lambda>_ _. py_raise Error_Unimplemented),
     rx_submit_transfer = (\<lambda>_ _. py_raise Error_Unimplemented),
     rx_get_transfer_statuses = (\<lambda>_ _ statuses _. (Inl Error_Unimplemented, statuses)),
     rx_free_batch = (\<lambda>_ _. py_raise Error_Unimplemented)\<rparr>"

lemma rust_skeleton_refuses:
  "r101_create_engine (rust_adapter X M rust_skeleton) c l =
     (if not_utf8 c then (Inr (R101_INVALID, 0), l)
      else r101_create_engine (adapter X M skeleton) c l)"
proof -
  have refused: "cx_create (as_cpp rust_skeleton) config l = ((Unimplemented, 0), l)" for config l
    by (simp add: as_cpp_def rust_skeleton_def with_output_def py_defs)
  have "cpp_create_engine M (as_cpp rust_skeleton) (Some c) outputs l = cpp_create_engine M skeleton (Some c) outputs l"
    for outputs by (simp add: cpp_create_engine_def refused) (simp add: skeleton_def)
  then show ?thesis by (simp add: adapter_agrees adapter_def c_call_def)
qed

end
