(* ===== verification/Grounding.thy ===== *)
theory Grounding
  imports Control_Invariants
begin

text \<open>
  What one control plane learns from the others. Every critical section of \<^verbatim>\<open>ControlPlane\<close> connects
  peers only to metadata another plane offered to it, and imports only memories from snapshots of the
  peer's endpoint; the theory \<^verbatim>\<open>Network\<close> puts planes together.
\<close>

section \<open>What a plane knows of the others\<close>

text \<open>
  \<open>offer_facts\<close> holds the offers in circulation as (sender, addressee, connection id, metadata),
  \<open>snapshot_facts\<close> the snapshots with their senders. A plane is grounded in them when every
  connected peer is connected to metadata that was offered under the connection id it records, and
  every import and every imported version come from snapshots of the peer's endpoint.
\<close>

type_synonym offer_facts = "(string \<times> string \<times> string \<times> bytes) set"
type_synonym snapshot_facts = "(string \<times> snapshot) set"

definition grounded ::
  "('n \<Rightarrow> int \<Rightarrow> bytes option) \<Rightarrow> ('n \<Rightarrow> int \<Rightarrow> bytes set) \<Rightarrow> offer_facts \<Rightarrow> snapshot_facts
     \<Rightarrow> 'n control \<Rightarrow> bool" where
  "grounded conn imps K S s \<longleftrightarrow>
     (\<forall>e ref. map_of (cp_peers s) e = Some ref \<longrightarrow>
        (p_state (deref ref s) \<noteq> CREATED \<longrightarrow>
           (\<exists>md. conn (cp_native s) (p_handle (deref ref s)) = Some md \<and>
              (e, cp_endpoint s, p_remote_connection_id (deref ref s), md) \<in> K)) \<and>
        (\<forall>m \<in> imps (cp_native s) (p_handle (deref ref s)). \<exists>sn. (e, sn) \<in> S \<and> m \<in> set (sn_memories sn)) \<and>
        (p_remote_version (deref ref s) = - 1 \<or>
           (\<exists>sn. (e, sn) \<in> S \<and> sn_version sn = p_remote_version (deref ref s) \<and>
              set (sn_memories sn) \<subseteq> imps (cp_native s) (p_handle (deref ref s)))))"

lemma grounded_mono: "grounded conn imps K S s \<Longrightarrow> K \<subseteq> K' \<Longrightarrow> S \<subseteq> S' \<Longrightarrow> grounded conn imps K' S' s"
  unfolding grounded_def by (meson subsetD)

text \<open>The object a remote process means by a connection.\<close>

definition known_as :: "connection \<Rightarrow> nat \<Rightarrow> 'n control \<Rightarrow> bool" where
  "known_as c ref s \<longleftrightarrow> ref < cp_next_ref s \<and> p_endpoint (deref ref s) = cn_endpoint c \<and>
     p_remote_connection_id (deref ref s) = cn_id c \<and> cn_id c \<noteq> []"

lemma known_as_stable: "known_as c ref s \<Longrightarrow> evolves s t \<Longrightarrow> known_as c ref t"
  unfolding known_as_def evolves_def peer_le_def by (metis order_less_le_trans)

context control_store
begin

abbreviation known :: "offer_facts \<Rightarrow> snapshot_facts \<Rightarrow> 'n control \<Rightarrow> bool" where
  "known K S s \<equiv> wf s \<and> grounded conn imps K S s"

text \<open>
  A critical section that also keeps the plane grounded and leaves its published memories and the
  closed flag alone.
\<close>

abbreviation quiet :: "'n control \<Rightarrow> 'n control \<Rightarrow> bool" where
  "quiet s t \<equiv> evolves s t \<and> cp_memory_metadata t = cp_memory_metadata s \<and> cp_closed t = cp_closed s"

abbreviation ksec :: "offer_facts \<Rightarrow> snapshot_facts \<Rightarrow> ('n control \<Rightarrow> bool) \<Rightarrow> ('n, 'a) control_call
    \<Rightarrow> ('a \<Rightarrow> 'n control \<Rightarrow> bool) \<Rightarrow> bool" where
  "ksec K S \<equiv> guarded (known K S) quiet"

lemma ksecI:
  assumes "sec P m Q"
    and "\<And>s r t. wf s \<Longrightarrow> grounded conn imps K S s \<Longrightarrow> P s \<Longrightarrow> R s \<Longrightarrow> m s = (r, t) \<Longrightarrow>
      grounded conn imps K S t \<and> cp_memory_metadata t = cp_memory_metadata s \<and> cp_closed t = cp_closed s"
  shows "ksec K S (\<lambda>s. P s \<and> R s) m Q"
  using assms unfolding guarded_def by blast

lemma quiet_order: "reflp quiet" "transp quiet"
  by (auto simp: reflp_def transp_def intro: evolves_trans)

lemmas ksec_bind = guarded_bind [OF quiet_order(2)]
lemmas ksec_then = guarded_then [OF quiet_order(2)]
lemmas ksec_return = guarded_return [OF quiet_order(1)]
lemmas ksec_gets = guarded_gets [OF quiet_order(1)]
lemmas ksec_raise = guarded_raise [OF quiet_order(1)]

text \<open>Changes of one peer and of its native side leave what is known of the other peers.\<close>

lemma grounded_update:
  assumes s: "wf s" and known: "grounded conn imps K S s" and ref: "registered ref s"
    and le: "peer_le (deref ref s) p"
    and others: "\<And>h. h \<noteq> p_handle (deref ref s) \<Longrightarrow> conn n h = conn (cp_native s) h \<and> imps n h = imps (cp_native s) h"
    and linked: "p_state p \<noteq> CREATED \<Longrightarrow> \<exists>md. conn n (p_handle p) = Some md \<and>
      (p_endpoint p, cp_endpoint s, p_remote_connection_id p, md) \<in> K"
    and imported: "\<And>m. m \<in> imps n (p_handle p) \<Longrightarrow> \<exists>sn. (p_endpoint p, sn) \<in> S \<and> m \<in> set (sn_memories sn)"
    and version: "p_remote_version p = - 1 \<or> (\<exists>sn. (p_endpoint p, sn) \<in> S \<and>
      sn_version sn = p_remote_version p \<and> set (sn_memories sn) \<subseteq> imps n (p_handle p))"
  shows "grounded conn imps K S (s\<lparr>cp_native := n, cp_heap := (cp_heap s)(ref := p)\<rparr>)"
  unfolding grounded_def
proof (intro allI impI, goal_cases)
  case (1 e r)
  then have at: "map_of (cp_peers s) e = Some r" by simp
  show ?case
  proof (cases "r = ref")
    case True
    with wf_peer(4) [OF s at] le have "p_endpoint p = e" by (simp add: peer_le_def)
    with True linked imported version show ?thesis by simp
  next
    case False
    with wf_handle [OF s at] ref have "p_handle (deref r s) \<noteq> p_handle (deref ref s)"
      unfolding registered_def by blast
    with False others known at show ?thesis by (simp add: grounded_def)
  qed
qed

lemma grounded_peer:
  assumes "grounded conn imps K S s" and "registered ref s"
  shows "p_state (deref ref s) \<noteq> CREATED \<Longrightarrow> \<exists>md. conn (cp_native s) (p_handle (deref ref s)) = Some md \<and>
      (p_endpoint (deref ref s), cp_endpoint s, p_remote_connection_id (deref ref s), md) \<in> K"
    and "m \<in> imps (cp_native s) (p_handle (deref ref s)) \<Longrightarrow>
      \<exists>sn. (p_endpoint (deref ref s), sn) \<in> S \<and> m \<in> set (sn_memories sn)"
    and "p_remote_version (deref ref s) = - 1 \<or> (\<exists>sn. (p_endpoint (deref ref s), sn) \<in> S \<and>
      sn_version sn = p_remote_version (deref ref s) \<and>
      set (sn_memories sn) \<subseteq> imps (cp_native s) (p_handle (deref ref s)))"
  using assms unfolding grounded_def registered_def by blast+

text \<open>The native state may change as long as connections and imports look the same.\<close>

lemma grounded_native:
  "grounded conn imps K S s \<Longrightarrow> conn n = conn (cp_native s) \<Longrightarrow> imps n = imps (cp_native s) \<Longrightarrow>
     grounded conn imps K S (s\<lparr>cp_native := n\<rparr>)"
  by (simp add: grounded_def)

lemma grounded_frame:
  "grounded conn imps K S s \<Longrightarrow> cp_native t = cp_native s \<Longrightarrow> cp_peers t = cp_peers s \<Longrightarrow>
     cp_heap t = cp_heap s \<Longrightarrow> cp_endpoint t = cp_endpoint s \<Longrightarrow> grounded conn imps K S t"
  by (simp add: grounded_def deref_def del: heap_deref)

text \<open>The helpers.\<close>

lemma ksec_same:
  assumes "sec P m Q" and "\<And>s r t. m s = (r, t) \<Longrightarrow> \<exists>c. t = s\<lparr>cp_channels := c\<rparr>"
  shows "ksec K S P m Q"
proof (rule guarded_pre [OF ksecI [OF assms(1), where R = "\<lambda>_. True"]], goal_cases)
  case (1 s r t)
  from assms(2) [OF 1(5)] obtain c where "t = s\<lparr>cp_channels := c\<rparr>" by blast
  with 1(2) show ?case using grounded_frame [of K S s t] by simp
qed simp

lemma id_frame: "\<exists>c. s = s\<lparr>cp_channels := c\<rparr>"
  by (rule exI [of _ "cp_channels s"]) simp

lemma ksec_check_endpoint:
  "ksec K S (\<lambda>_. True) (check_endpoint e) (\<lambda>_ s. e \<noteq> [] \<and> e \<noteq> cp_endpoint s)"
  by (rule ksec_same [OF sec_check_endpoint]) (auto simp: check_endpoint_def py_defs intro: id_frame split: if_splits)

lemma ksec_check_open: "ksec K S P check_open (\<lambda>_. P)"
  by (rule ksec_same [OF sec_check_open]) (auto simp: check_open_def py_defs intro: id_frame split: if_splits)

lemma ksec_stub: "(\<And>s c. P s \<Longrightarrow> P (s\<lparr>cp_channels := c\<rparr>)) \<Longrightarrow> ksec K S P (stub e) (\<lambda>_. P)"
  by (rule ksec_same [OF sec_stub]) (auto dest: stub_eq)

lemma ksec_require_peer: "ksec K S P (require_peer ref) (\<lambda>_ s. P s \<and> registered ref s)"
  by (rule ksec_same [OF sec_require_peer]) (auto simp: require_peer_def py_defs intro: id_frame split: if_splits)

lemma ksec_find_connection:
  "ksec K S (\<lambda>_. True) (find_connection c) (\<lambda>ref s. linked ref s \<and> known_as c ref s)"
proof (rule ksec_same [OF guardedI], goal_cases)
  case (1 s r t)
  then show ?case
  proof (cases r)
    case (Inr ref)
    with 1 have found: "map_of (cp_peers s) (cn_endpoint c) = Some ref" "cn_id c \<noteq> []" "t = s"
      by (auto simp: find_connection_eq)
    with 1 Inr guardedD(1,2) [OF sec_find_connection 1(1,2,3)]
      guardedD(3) [OF sec_find_connection 1(1,2,3), of ref] show ?thesis
      using wf_peer(1,4) [OF 1(1) found(1)] by (simp add: known_as_def)
  qed (auto dest: find_connection_eq(2))
next
  case (2 s r t)
  then have "t = s" by (cases r) (auto simp: find_connection_eq(1) dest: find_connection_eq(2))
  with id_frame show ?case by blast
qed

text \<open>The steps that change a peer.\<close>

lemma ksec_create_peer:
  "ksec K S (\<lambda>s. map_of (cp_peers s) e = None \<and> e \<noteq> [] \<and> e \<noteq> cp_endpoint s) (create_peer E e)
     (\<lambda>ref s. map_of (cp_peers s) e = Some ref)"
proof (rule guarded_pre [OF ksecI [OF sec_create_peer, where R = "\<lambda>_. True"]], goal_cases)
  case (1 s r t)
  note s = 1(1) and known = 1(2)
  from create_peer_run [OF 1(5)] show ?case
  proof (elim disjE exE conjE)
    fix x n
    assume "na_create_peer E (cp_native s) = (Inl x, n)" "t = s\<lparr>cp_native := n\<rparr>"
    with create_Inl [OF wf_ok [OF s]] grounded_native [OF known] show ?thesis by simp
  next
    fix pm n
    assume pm: "na_create_peer E (cp_native s) = (Inr pm, n)"
      and t: "t = s\<lparr>cp_native := n, cp_peers := AList.update e (cp_next_ref s) (cp_peers s),
         cp_heap := (cp_heap s)(cp_next_ref s := \<lparr>p_handle = pm_peer pm, p_endpoint = e,
           p_metadata = pm_metadata pm, p_connection_id = uuid4_hex E (cp_uuids s),
           p_remote_connection_id = [], p_state = CREATED, p_remote_version = - 1\<rparr>),
         cp_next_ref := Suc (cp_next_ref s), cp_uuids := Suc (cp_uuids s)\<rparr>"
    note native = create_Inr [OF wf_ok [OF s] pm]
    then have "imps (cp_native s) (pm_peer pm) = {}" using dead [OF wf_ok [OF s]] by blast
    moreover have "ref < cp_next_ref s" if "map_of (cp_peers s) e' = Some ref" for e' ref
      using wf_peer(1) [OF s that] .
    ultimately have "grounded conn imps K S t"
      using known native unfolding t grounded_def by (auto simp: dict_get_update)
    then show ?thesis by (simp add: t)
  qed
qed simp

lemma ksec_get_or_create_peer:
  "ksec K S (\<lambda>s. e \<noteq> [] \<and> e \<noteq> cp_endpoint s) (get_or_create_peer E e)
     (\<lambda>ref s. map_of (cp_peers s) e = Some ref)"
proof (rule guardedI)
  fix s r t
  assume "known K S s" and "e \<noteq> [] \<and> e \<noteq> cp_endpoint s" and "get_or_create_peer E e s = (r, t)"
  then show "known K S t \<and> quiet s t \<and> (\<forall>x. r = Inr x \<longrightarrow> map_of (cp_peers t) e = Some x)"
    using guardedD [OF ksec_create_peer [of K S e], of s r t]
    by (cases "map_of (cp_peers s) e") (auto simp: get_or_create_peer_def py_bind_def py_gets_def)
qed

text \<open>The offer a peer is connected to must be in circulation.\<close>

abbreviation offered :: "offer_facts \<Rightarrow> string \<Rightarrow> offer \<Rightarrow> 'n control \<Rightarrow> bool" where
  "offered K e off s \<equiv> (e, cp_endpoint s, cn_id (of_connection off), of_metadata off) \<in> K"

lemma ksec_connect_native:
  "ksec K S (\<lambda>s. registered ref s \<and> offered K (p_endpoint (deref ref s)) off s) (connect_native E ref off)
     (\<lambda>_ s. linked ref s \<and> p_remote_connection_id (deref ref s) = cn_id (of_connection off))"
proof (rule ksecI [OF sec_connect_native], goal_cases)
  case (1 s r t)
  note s = 1(1) and known = 1(2) and ref = 1(3)
  note less = wf_registered_less [OF s ref]
  from connect_native_run [OF 1(5)] show ?case
  proof (elim disjE exE conjE)
    fix x n
    assume "t = s\<lparr>cp_native := n\<rparr>"
      "na_connect_peer E (p_handle (deref ref s)) (Bytes (of_metadata off)) (cp_native s) = (Inl x, n)"
    with connect_Inl [OF wf_ok [OF s]] grounded_native [OF known] show ?thesis by simp
  next
    let ?p = "(deref ref s)\<lparr>p_remote_connection_id := cn_id (of_connection off), p_state := CONNECTED\<rparr>"
    fix u n
    assume state: "p_state (deref ref s) = CREATED"
      and call: "na_connect_peer E (p_handle (deref ref s)) (Bytes (of_metadata off)) (cp_native s) = (Inr u, n)"
      and t: "t = s\<lparr>cp_native := n, cp_heap := (cp_heap s)(ref := ?p)\<rparr>"
    have le: "peer_le (deref ref s) ?p"
      using state wf_state(2) [OF s less] by (simp add: peer_le_def)
    note native = connect_Inr [OF wf_ok [OF s] call]
    have "grounded conn imps K S t"
      unfolding t using native 1(4) grounded_peer(2,3) [OF known ref]
      by (intro grounded_update [OF s known ref le]) auto
    then show ?thesis by (simp add: t)
  qed (use known in simp)
qed

lemma ksec_import_snapshot:
  "ksec K S (\<lambda>s. linked ref s \<and> (p_endpoint (deref ref s), sn) \<in> S) (import_snapshot E ref sn)
     (\<lambda>_ s. linked ref s \<and> sn_version sn \<le> p_remote_version (deref ref s))"
proof (rule ksecI [OF sec_import_snapshot], goal_cases)
  case (1 s r t)
  note s = 1(1) and known = 1(2) and facts = 1(4)
  have ref: "registered ref s" using 1(3) by simp
  from import_snapshot_run [OF 1(5)] show ?case
  proof (elim disjE exE conjE)
    let ?h = "p_handle (deref ref s)"
    let ?p = "\<lambda>v. (deref ref s)\<lparr>p_remote_version := v\<rparr>"
    fix x n
    assume newer: "sn_version sn > p_remote_version (deref ref s)"
      and each: "py_each (\<lambda>metadata. na_import_remote_memory E ?h (Bytes metadata)) (sn_memories sn)
        (cp_native s) = (x, n)"
      and result: "case x of Inl e \<Rightarrow> r = Inl e \<and> t = s\<lparr>cp_native := n\<rparr>
        | Inr _ \<Rightarrow> r = Inr () \<and> t = s\<lparr>cp_native := n, cp_heap := (cp_heap s)(ref := ?p (sn_version sn))\<rparr>"
    from import_list [OF wf_ok [OF s] each] obtain k where
      n: "conn n = conn (cp_native s)" "imps n = (imps (cp_native s))(?h := set (take k (sn_memories sn)) \<union>
        imps (cp_native s) ?h)" "x = Inr () \<longrightarrow> k = length (sn_memories sn)" by blast
    have some: "\<exists>sn. (p_endpoint (deref ref s), sn) \<in> S \<and> m \<in> set (sn_memories sn)" if "m \<in> imps n ?h" for m
      using that n(2) facts grounded_peer(2) [OF known ref, of m] by (auto dest: in_set_takeD)
    have more: "imps (cp_native s) ?h \<subseteq> imps n ?h" using n(2) by auto
    have update: "grounded conn imps K S (s\<lparr>cp_native := n, cp_heap := (cp_heap s)(ref := ?p v)\<rparr>)"
      if "v = p_remote_version (deref ref s) \<or> v = sn_version sn \<and> set (sn_memories sn) \<subseteq> imps n ?h" for v
    proof (rule grounded_update [OF s known ref])
      show "peer_le (deref ref s) (?p v)" using that newer by (auto simp: peer_le_def)
      show "p_remote_version (?p v) = - 1 \<or> (\<exists>sn. (p_endpoint (?p v), sn) \<in> S \<and>
          sn_version sn = p_remote_version (?p v) \<and> set (sn_memories sn) \<subseteq> imps n (p_handle (?p v)))"
        using that more facts grounded_peer(3) [OF known ref] by auto
    qed (use n some grounded_peer(1) [OF known ref] in auto)
    show ?thesis
    proof (cases x)
      case (Inl e)
      with result update [of "p_remote_version (deref ref s)"] show ?thesis
        by (simp add: fun_upd_idem deref_def del: heap_deref)
    next
      case (Inr u)
      with result n update [of "sn_version sn"] show ?thesis by simp
    qed
  qed (use known in simp)
qed

lemma ksec_mark_ready:
  "ksec K S (\<lambda>s. linked ref s \<and> v \<le> p_remote_version (deref ref s))
     (update_peer ref (\<lambda>p. p\<lparr>p_state := READY\<rparr>))
     (\<lambda>_ s. registered ref s \<and> p_state (deref ref s) = READY \<and> v \<le> p_remote_version (deref ref s))"
proof (rule guarded_pre [OF ksecI [OF sec_mark_ready, where R = "\<lambda>_. True"]], goal_cases)
  case (1 s r t)
  from 1(5) have t: "t = s\<lparr>cp_native := cp_native s, cp_heap := (cp_heap s)(ref := (deref ref s)\<lparr>p_state := READY\<rparr>)\<rparr>"
    by (simp add: update_peer_eq)
  have ref: "registered ref s" using 1(3) by simp
  have "grounded conn imps K S t"
    unfolding t using 1(3) grounded_peer [OF 1(2) ref]
    by (intro grounded_update [OF 1(1,2) ref]) (auto simp: peer_le_def)
  then show ?case by (simp add: t)
qed simp

lemma drop_peer_grounded:
  assumes s: "wf s" and known: "grounded conn imps K S s" and ref: "map_of (cp_peers s) e = Some ref"
    and run: "drop_peer (p_handle (deref ref s)) e s = (r, t)"
  shows "grounded conn imps K S t \<and> quiet s t"
proof -
  note keeps = drop_peer_keeps [OF s ref run]
  from drop_peer_run [OF s ref run] show ?thesis
  proof (elim disjE exE conjE)
    fix x n
    assume "t = s\<lparr>cp_native := n\<rparr>" "na_destroy_peer E (p_handle (deref ref s)) (cp_native s) = (Inl x, n)"
    with destroy_Inl [OF wf_ok [OF s]] grounded_native [OF known] keeps show ?thesis by simp
  next
    fix n u
    assume t: "t = s\<lparr>cp_native := n, cp_peers := AList.delete e (cp_peers s)\<rparr>"
      and "na_destroy_peer E (p_handle (deref ref s)) (cp_native s) = (Inr u, n)"
    note native = destroy_Inr [OF wf_ok [OF s] this(2)]
    have other: "p_handle (deref r s) \<noteq> p_handle (deref ref s)"
      if "map_of (cp_peers s) e' = Some r" "e' \<noteq> e" for e' r
      using wf_handle [OF s that(1) ref] that(2) by blast
    have "grounded conn imps K S t"
      using known native other unfolding t grounded_def
      by (auto simp: dict_get_delete split: if_splits)
    with keeps show ?thesis by (simp add: t)
  qed
qed

lemma ksec_frame:
  assumes "ksec K S P m Q" and "\<And>s t. R s \<Longrightarrow> evolves s t \<Longrightarrow> R t"
  shows "ksec K S (\<lambda>s. P s \<and> R s) m (\<lambda>x s. Q x s \<and> R s)"
  using assms unfolding guarded_def by blast

lemma evolves_endpoint: "evolves s t \<Longrightarrow> cp_endpoint t = cp_endpoint s"
  by (simp add: evolves_def)

text \<open>The critical sections of the methods.\<close>

lemma ksec_connect_begin:
  "ksec K S (\<lambda>_. True) (connect_begin E e)
     (\<lambda>x s. case x of Already h \<Rightarrow> True
      | Exchange ref off \<Rightarrow> made_for e ref s \<and> off = offer_of s (deref ref s))"
  unfolding connect_begin_def
  apply (rule ksec_then [OF ksec_check_endpoint])
  apply (rule ksec_then [OF ksec_check_open])
  apply (rule ksec_bind [OF guarded_post [OF ksec_get_or_create_peer, where Q = "made_for e"]])
   apply (simp add: wf_peer made_for_def)
  apply (rule ksec_bind [where R = "\<lambda>p s. made_for e x s \<and> p = deref x s" for x])
   apply (rule ksec_gets, simp)
  apply (rule guarded_if)
   apply (rule ksec_return, simp)
  apply (rule ksec_then [OF ksec_stub])
   apply (simp add: made_for_def)
  apply (rule ksec_gets)
  apply simp
  done

lemma ksec_linked_joined: "wf s \<Longrightarrow> linked ref s \<Longrightarrow> joined ref s"
  using wf_registered_less [of s ref] by (simp add: joined_def)

lemma ksec_connect_local:
  "ksec K S (\<lambda>s. made_for e ref s \<and> offered K e remote s) (connect_local E ref remote)
     (\<lambda>up s. joined ref s \<and> made_for e ref s \<and> cn_endpoint (up_connection up) = cp_endpoint s \<and>
        up_snapshot up = snapshot_of s)"
proof -
  have native: "ksec K S (\<lambda>s. (registered ref s \<and> offered K (p_endpoint (deref ref s)) remote s) \<and>
        made_for e ref s) (connect_native E ref remote) (\<lambda>_ s. joined ref s \<and> made_for e ref s)"
    by (rule guarded_post [OF ksec_frame [OF ksec_connect_native made_for_stable]])
      (auto intro: ksec_linked_joined)
  show ?thesis
    unfolding connect_local_def
    apply (rule ksec_then [OF ksec_require_peer])
    apply (rule ksec_then [OF guarded_pre [OF native]])
     apply (simp add: made_for_def)
    apply (rule ksec_gets)
    apply (simp add: connection_of_def)
    done
qed

lemma ksec_connect_ready:
  "ksec K S (\<lambda>s. joined ref s \<and> made_for e ref s \<and> (e, sn) \<in> S) (connect_ready E ref sn) (\<lambda>_ _. True)"
  unfolding connect_ready_def
  apply (rule ksec_then [OF guarded_post [OF ksec_require_peer,
        where Q = "\<lambda>_ s. linked ref s \<and> (p_endpoint (deref ref s), sn) \<in> S"]])
   apply (simp add: joined_def made_for_def)
  apply (rule ksec_then [OF ksec_import_snapshot])
  apply (rule ksec_then [OF ksec_mark_ready])
  apply (rule ksec_gets, simp)
  done

lemma ksec_handle_Connect:
  "ksec K S (offered K (cn_endpoint (of_connection request)) request) (handle_Connect E request)
     (\<lambda>reply s. \<exists>ref. made_for (cn_endpoint (of_connection request)) ref s \<and>
        reply = offer_of s (deref ref s))"
proof -
  let ?e = "cn_endpoint (of_connection request)"
  let ?R = "\<lambda>ref s. made_for ?e ref s \<and> offered K ?e request s"
  have stable: "?R ref s \<Longrightarrow> evolves s t \<Longrightarrow> ?R ref t" for ref s t
    using made_for_stable evolves_endpoint by fastforce
  have offered: "offered K ?e request s \<Longrightarrow> evolves s t \<Longrightarrow> offered K ?e request t" for s t
    using evolves_endpoint by fastforce
  have native: "ksec K S (\<lambda>s. registered ref s \<and> ?R ref s) (connect_native E ref request)
      (\<lambda>_ s. made_for ?e ref s)" for ref
    by (rule guarded_post [OF guarded_pre [OF ksec_frame [OF ksec_connect_native made_for_stable]]])
      (auto simp: made_for_def)
  have got: "ksec K S (\<lambda>s. (?e \<noteq> [] \<and> ?e \<noteq> cp_endpoint s) \<and> offered K ?e request s) (get_or_create_peer E ?e)
      (\<lambda>ref s. registered ref s \<and> ?R ref s)"
    by (rule guarded_post [OF ksec_frame [OF ksec_get_or_create_peer offered]])
      (auto simp: made_for_def dest: wf_peer wf_registered)
  show ?thesis
    unfolding handle_Connect_def
    apply (rule guarded_pre [where P' = "\<lambda>s. True \<and> offered K ?e request s"])
     apply (rule ksec_then [OF ksec_frame [OF ksec_check_endpoint offered]], assumption+)
     apply (rule ksec_then [OF ksec_check_open])
     apply (rule ksec_bind [OF got])
     apply (rule ksec_then [OF native])
     apply (rule ksec_gets, blast)
    apply simp
    done
qed

lemma ksec_find_source:
  "(cn_endpoint c, sn) \<in> S \<Longrightarrow> ksec K S (\<lambda>_. True) (find_connection c)
     (\<lambda>ref s. (linked ref s \<and> (p_endpoint (deref ref s), sn) \<in> S) \<and> known_as c ref s)"
  by (rule guarded_post [OF ksec_find_connection]) (simp add: known_as_def)

lemma ksec_handle_Ready:
  assumes "(cn_endpoint (up_connection request), up_snapshot request) \<in> S"
  shows "ksec K S (\<lambda>_. True) (handle_Ready E request)
    (\<lambda>reply s. reply = snapshot_of s \<and> (\<exists>ref. registered ref s \<and> known_as (up_connection request) ref s \<and>
       p_state (deref ref s) = READY \<and> sn_version (up_snapshot request) \<le> p_remote_version (deref ref s)))"
  unfolding handle_Ready_def
  apply (rule ksec_then [OF ksec_check_open])
  apply (rule ksec_bind [OF ksec_find_source [OF assms]])
  apply (rule ksec_then [OF ksec_frame [OF ksec_import_snapshot known_as_stable]], assumption+)
  apply (rule ksec_then [OF ksec_frame [OF ksec_mark_ready known_as_stable]], assumption+)
  apply (rule ksec_gets, blast)
  done

lemma ksec_handle_Changed:
  assumes "(cn_endpoint (up_connection request), up_snapshot request) \<in> S"
  shows "ksec K S (\<lambda>_. True) (handle_Changed E request) (\<lambda>_ _. True)"
  unfolding handle_Changed_def
  apply (rule ksec_then [OF ksec_check_open])
  apply (rule ksec_bind [OF ksec_find_source [OF assms]])
  apply (rule guarded_post [OF guarded_pre [OF ksec_import_snapshot]], simp_all)
  done

lemma ksec_drop_peer:
  "ksec K S (\<lambda>s. map_of (cp_peers s) e = Some ref \<and> p = deref ref s) (drop_peer (p_handle p) e) (\<lambda>_ _. True)"
  by (rule guardedI) (use drop_peer_grounded drop_peer_keeps in blast)

lemma ksec_handle_Close: "ksec K S (\<lambda>_. True) (handle_Close E request) (\<lambda>_ _. True)"
  unfolding handle_Close_def
proof (rule ksec_then [OF ksec_check_open], rule ksec_bind [where R = "\<lambda>x s. s = x"], goal_cases)
  case 1
  show ?case by (rule ksec_gets) simp
next
  case (2 s)
  show ?case
  proof (rule guardedI, goal_cases)
    case (1 s' r t)
    show ?case
    proof (cases "map_of (cp_peers s) (cn_endpoint request)")
      case None
      with 1 show ?thesis by simp
    next
      case (Some ref)
      from 1 have s: "wf s" "grounded conn imps K S s" by simp_all
      from wf_peer(4) [OF s(1) Some] Some
      have at: "map_of (cp_peers s) (p_endpoint (deref ref s)) = Some ref" by simp
      note drop = drop_peer_grounded [OF s at] drop_peer_keeps [OF s(1) at]
      show ?thesis
      proof (cases "p_remote_connection_id (deref ref s) = cn_id request")
        case True
        with 1 Some have "drop_peer (p_handle (deref ref s)) (p_endpoint (deref ref s)) s = (r, t)" by simp
        with drop 1(2) show ?thesis by blast
      next
        case False
        with 1 Some show ?thesis by simp
      qed
    qed
  qed
qed

lemma ksec_disconnect_begin: "ksec K S (\<lambda>_. True) (disconnect_begin E h) (\<lambda>_ _. True)"
  unfolding disconnect_begin_def py_then_assoc
proof (rule ksec_then [OF ksec_check_open], rule ksec_bind [where R = "\<lambda>x s. x = find_handle s h"], goal_cases)
  case 1
  show ?case by (rule ksec_gets) simp
next
  case (2 found)
  show ?case
  proof (cases found)
    case None
    then show ?thesis by (simp add: ksec_raise)
  next
    case (Some ref)
    let ?R = "\<lambda>p s. map_of (cp_peers s) (p_endpoint p) = Some ref \<and> p = deref ref s"
    have rest: "ksec K S (?R p) (py_then (stub (p_endpoint p)) (py_bind (py_gets (\<lambda>s. connection_of s p))
        (\<lambda>c. py_then (drop_peer (p_handle p) (p_endpoint p)) (py_return (p_endpoint p, c)))))
        (\<lambda>_ _. True)" for p
      apply (rule ksec_then [OF ksec_stub])
       apply auto[1]
      apply (rule ksec_bind [OF ksec_gets [where Q = "\<lambda>_. ?R p"]])
       apply auto[1]
      apply (rule ksec_then [OF ksec_drop_peer])
      apply (rule ksec_return, simp)
      done
    have "ksec K S (\<lambda>s. Some ref = find_handle s h) (py_gets (deref ref)) ?R"
      using find_handle_Some(1) by (auto intro!: guardedI)
    then show ?thesis
      unfolding Some using ksec_bind [OF _ rest] by simp
  qed
qed

end

end
