(* ===== verification/Network.thy ===== *)
theory Network
  imports Control_Facts Grounding
begin

text \<open>
  Several processes: control planes that exchange the messages of \<^verbatim>\<open>rdma101/control.proto\<close>. The
  network may delay and repeat messages and lose them. The properties are about pairs of processes:
  which queue pairs end up connected to each other, and which memories one process imports from
  another.
\<close>

section \<open>Processes and messages\<close>

text \<open>
  Requests and replies with their sender and addressee. \<open>OfferTo\<close>, \<open>ReadyTo\<close>, \<open>ChangedTo\<close> and
  \<open>CloseTo\<close> are the requests of the service \<^verbatim>\<open>Control\<close>, \<open>AnswerTo\<close> and \<open>SnapshotTo\<close> the replies that
  carry something.
\<close>

datatype message =
    OfferTo string string offer
  | AnswerTo string string offer
  | ReadyTo string string update
  | SnapshotTo string string snapshot
  | ChangedTo string string update
  | CloseTo string string connection

text \<open>
  Where the outgoing call of a process stands: \<^verbatim>\<open>Engine\<close> runs one at a time under \<^verbatim>\<open>_resource_lock\<close>.
\<close>

datatype outgoing = Idle | AwaitOffer string nat | AwaitSnapshot string nat

text \<open>
  The processes by endpoint, their outgoing calls, every message sent so far, and what each process
  has published, which \<open>close\<close> forgets.
\<close>

record 'n network =
  nw_node :: "string \<Rightarrow> 'n control option"
  nw_call :: "string \<Rightarrow> outgoing"
  nw_sent :: "message set"
  nw_published :: "string \<Rightarrow> bytes list"

definition no_network :: "'n network" where
  "no_network = \<lparr>nw_node = (\<lambda>_. None), nw_call = (\<lambda>_. Idle), nw_sent = {}, nw_published = (\<lambda>_. [])\<rparr>"

text \<open>Process \<open>a\<close> takes state \<open>t\<close>, its outgoing call stands at \<open>c\<close>, and it sends \<open>M\<close>.\<close>

definition commit :: "string \<Rightarrow> 'n control \<Rightarrow> outgoing \<Rightarrow> message set \<Rightarrow> 'n network \<Rightarrow> 'n network" where
  "commit a t c M N = N\<lparr>nw_node := (nw_node N)(a \<mapsto> t), nw_call := (nw_call N)(a := c),
     nw_sent := nw_sent N \<union> M\<rparr>"

fun reply_with :: "('a \<Rightarrow> message) \<Rightarrow> exn + 'a \<Rightarrow> message set" where
  "reply_with f (Inl e) = {}"
| "reply_with f (Inr x) = {f x}"

definition changed_to :: "string \<Rightarrow> 'n control \<Rightarrow> snapshot \<Rightarrow> nat \<Rightarrow> message" where
  "changed_to a s sn ref = ChangedTo a (p_endpoint (deref ref s))
     \<lparr>up_connection = connection_of s (deref ref s), up_snapshot = sn\<rparr>"

text \<open>
  One critical section of one process, or the loss of an outgoing call. A handler that raises changes
  its process and sends nothing.
\<close>

inductive net_step ::
  "(string \<Rightarrow> ('n, 'z) control_env_scheme) \<Rightarrow> ('n \<Rightarrow> bool) \<Rightarrow> 'n network \<Rightarrow> 'n network \<Rightarrow> bool"
  for E :: "string \<Rightarrow> ('n, 'z) control_env_scheme" and ok :: "'n \<Rightarrow> bool" where
  start: "ControlPlane_init n listen advertise add_port started = Inr s \<Longrightarrow> ok n \<Longrightarrow>
    nw_node N (cp_endpoint s) = None \<Longrightarrow> net_step E ok N (commit (cp_endpoint s) s Idle {} N)"
| connect_first: "nw_node N a = Some s \<Longrightarrow> nw_call N a = Idle \<Longrightarrow>
    connect_begin (E a) e s = (Inr (Exchange ref off), t) \<Longrightarrow>
    net_step E ok N (commit a t (AwaitOffer e ref) {OfferTo a e off} N)"
| connect_alone: "nw_node N a = Some s \<Longrightarrow> nw_call N a = Idle \<Longrightarrow>
    connect_begin (E a) e s = (r, t) \<Longrightarrow> (case r of Inr (Exchange _ _) \<Rightarrow> False | _ \<Rightarrow> True) \<Longrightarrow>
    net_step E ok N (commit a t Idle {} N)"
| accept: "nw_node N a = Some s \<Longrightarrow> OfferTo x a off \<in> nw_sent N \<Longrightarrow>
    handle_Connect (E a) off s = (r, t) \<Longrightarrow>
    net_step E ok N (commit a t (nw_call N a) (reply_with (AnswerTo a x) r) N)"
| connect_second: "nw_node N a = Some s \<Longrightarrow> nw_call N a = AwaitOffer e ref \<Longrightarrow>
    AnswerTo e a off \<in> nw_sent N \<Longrightarrow> connect_local (E a) ref off s = (r, t) \<Longrightarrow>
    net_step E ok N (commit a t (case r of Inl _ \<Rightarrow> Idle | Inr _ \<Rightarrow> AwaitSnapshot e ref)
      (reply_with (ReadyTo a e) r) N)"
| ready: "nw_node N a = Some s \<Longrightarrow> ReadyTo x a up \<in> nw_sent N \<Longrightarrow>
    handle_Ready (E a) up s = (r, t) \<Longrightarrow>
    net_step E ok N (commit a t (nw_call N a) (reply_with (SnapshotTo a x) r) N)"
| connect_third: "nw_node N a = Some s \<Longrightarrow> nw_call N a = AwaitSnapshot e ref \<Longrightarrow>
    SnapshotTo e a sn \<in> nw_sent N \<Longrightarrow> connect_ready (E a) ref sn s = (r, t) \<Longrightarrow>
    net_step E ok N (commit a t Idle {} N)"
| give_up: "nw_node N a = Some s \<Longrightarrow> net_step E ok N (commit a s Idle {} N)"
| publish_ok: "nw_node N a = Some s \<Longrightarrow> nw_call N a = Idle \<Longrightarrow>
    publish_begin md s = (Inr (sn, refs), t) \<Longrightarrow>
    net_step E ok N ((commit a t Idle (changed_to a t sn ` set refs) N)
      \<lparr>nw_published := (nw_published N)(a := nw_published N a @ [md])\<rparr>)"
| changed: "nw_node N a = Some s \<Longrightarrow> ChangedTo x a up \<in> nw_sent N \<Longrightarrow>
    handle_Changed (E a) up s = (r, t) \<Longrightarrow> net_step E ok N (commit a t (nw_call N a) {} N)"
| disconnect_one: "nw_node N a = Some s \<Longrightarrow> nw_call N a = Idle \<Longrightarrow>
    disconnect_begin (E a) h s = (r, t) \<Longrightarrow>
    net_step E ok N (commit a t Idle (reply_with (\<lambda>(e, c). CloseTo a e c) r) N)"
| close_peer: "nw_node N a = Some s \<Longrightarrow> CloseTo x a c \<in> nw_sent N \<Longrightarrow>
    handle_Close (E a) c s = (r, t) \<Longrightarrow> net_step E ok N (commit a t (nw_call N a) {} N)"
| shutdown: "nw_node N a = Some s \<Longrightarrow> nw_call N a = Idle \<Longrightarrow>
    control_close (py_return ()) s = (r, t) \<Longrightarrow> net_step E ok N (commit a t Idle {} N)"

definition reachable ::
  "(string \<Rightarrow> ('n, 'z) control_env_scheme) \<Rightarrow> ('n \<Rightarrow> bool) \<Rightarrow> 'n network \<Rightarrow> bool" where
  "reachable E ok N \<longleftrightarrow> (net_step E ok)\<^sup>*\<^sup>* no_network N"

section \<open>The invariant\<close>

text \<open>The facts the messages of a network carry.\<close>

definition net_offers :: "'n network \<Rightarrow> offer_facts" where
  "net_offers N = {(x, y, cn_id (of_connection off), of_metadata off) | x y off.
     OfferTo x y off \<in> nw_sent N \<or> AnswerTo x y off \<in> nw_sent N}"

definition net_snapshots :: "'n network \<Rightarrow> snapshot_facts" where
  "net_snapshots N = {(x, sn). \<exists>y. SnapshotTo x y sn \<in> nw_sent N \<or>
     (\<exists>up. sn = up_snapshot up \<and> (ReadyTo x y up \<in> nw_sent N \<or> ChangedTo x y up \<in> nw_sent N))}"

text \<open>An offer describes an object its sender made for the addressee, a snapshot a prefix of what was published.\<close>

definition offer_made :: "'n network \<Rightarrow> string \<Rightarrow> string \<Rightarrow> offer \<Rightarrow> bool" where
  "offer_made N x y off \<longleftrightarrow>
     (\<exists>s ref. nw_node N x = Some s \<and> made_for y ref s \<and> off = offer_of s (deref ref s))"

definition snapshot_made :: "'n network \<Rightarrow> string \<Rightarrow> snapshot \<Rightarrow> bool" where
  "snapshot_made N x sn \<longleftrightarrow> (\<exists>k \<le> length (nw_published N x).
     sn = \<lparr>sn_version = int k, sn_memories = take k (nw_published N x)\<rparr>)"

definition update_made :: "'n network \<Rightarrow> string \<Rightarrow> update \<Rightarrow> bool" where
  "update_made N x up \<longleftrightarrow> cn_endpoint (up_connection up) = x \<and> snapshot_made N x (up_snapshot up)"

fun message_ok :: "'n network \<Rightarrow> message \<Rightarrow> bool" where
  "message_ok N (OfferTo x y off) = offer_made N x y off"
| "message_ok N (AnswerTo x y off) = offer_made N x y off"
| "message_ok N (ReadyTo x y up) = update_made N x up"
| "message_ok N (SnapshotTo x y sn) = snapshot_made N x sn"
| "message_ok N (ChangedTo x y up) = update_made N x up"
| "message_ok N (CloseTo x y c) = True"

fun call_ok :: "'n control \<Rightarrow> outgoing \<Rightarrow> bool" where
  "call_ok s Idle = True"
| "call_ok s (AwaitOffer e ref) = made_for e ref s"
| "call_ok s (AwaitSnapshot e ref) = (made_for e ref s \<and> joined ref s)"

definition publishes :: "'n control \<Rightarrow> bytes list \<Rightarrow> bool" where
  "publishes s mds \<longleftrightarrow> cp_memory_metadata s = mds \<or> cp_closed s \<and> cp_memory_metadata s = []"

definition net_ok ::
  "('n \<Rightarrow> bool) \<Rightarrow> ('n \<Rightarrow> int \<Rightarrow> bytes option) \<Rightarrow> ('n \<Rightarrow> int \<Rightarrow> bytes option) \<Rightarrow> ('n \<Rightarrow> int \<Rightarrow> bytes set)
     \<Rightarrow> 'n network \<Rightarrow> bool" where
  "net_ok ok live conn imps N \<longleftrightarrow>
     (\<forall>a s. nw_node N a = Some s \<longrightarrow>
        control_wf ok live conn s \<and> grounded conn imps (net_offers N) (net_snapshots N) s \<and>
        cp_endpoint s = a \<and> publishes s (nw_published N a) \<and> call_ok s (nw_call N a)) \<and>
     (\<forall>a. nw_node N a = None \<longrightarrow> nw_published N a = []) \<and>
     (\<forall>m \<in> nw_sent N. message_ok N m)"

lemma call_ok_stable: "call_ok s c \<Longrightarrow> evolves s t \<Longrightarrow> call_ok t c"
  by (cases c) (auto intro: made_for_stable joined_stable)

lemma offer_stable:
  "made_for y ref s \<Longrightarrow> evolves s t \<Longrightarrow> offer_of t (deref ref t) = offer_of s (deref ref s)"
  by (simp add: evolves_def made_for_def peer_le_def offer_of_def connection_of_def)

lemma snapshot_of_made:
  "publishes s mds \<Longrightarrow> \<exists>k \<le> length mds. snapshot_of s = \<lparr>sn_version = int k, sn_memories = take k mds\<rparr>"
  unfolding publishes_def snapshot_of_def
  by (elim disjE conjE, rule exI [of _ "length mds"], simp, rule exI [of _ 0], simp)

lemma facts_mono:
  "nw_sent N \<subseteq> nw_sent N' \<Longrightarrow> net_offers N \<subseteq> net_offers N'"
  "nw_sent N \<subseteq> nw_sent N' \<Longrightarrow> net_snapshots N \<subseteq> net_snapshots N'"
  unfolding net_offers_def net_snapshots_def by blast+

text \<open>A process moves forward, publishes more or nothing, and sends messages that are true.\<close>

lemma net_ok_commit:
  assumes N: "net_ok ok live conn imps N"
    and old: "\<And>s. nw_node N a = Some s \<Longrightarrow> evolves s t"
    and t: "control_wf ok live conn t" "grounded conn imps (net_offers N) (net_snapshots N) t"
      "cp_endpoint t = a" "publishes t (nw_published N a @ new)" "call_ok t c"
    and N': "N' = (commit a t c M N)\<lparr>nw_published := (nw_published N)(a := nw_published N a @ new)\<rparr>"
    and M: "\<And>m. m \<in> M \<Longrightarrow> message_ok N' m"
  shows "net_ok ok live conn imps N'"
proof -
  have nodes: "nw_node N' = (nw_node N)(a \<mapsto> t)" "nw_call N' = (nw_call N)(a := c)"
    "nw_sent N' = nw_sent N \<union> M" "nw_published N' = (nw_published N)(a := nw_published N a @ new)"
    by (simp_all add: N' commit_def)
  have "nw_sent N \<subseteq> nw_sent N'" by (simp add: nodes)
  note mono = facts_mono [OF this]
  have offer: "offer_made N' x y off" if "offer_made N x y off" for x y off
    using that old made_for_stable [of y _ _ t] offer_stable [of y _ _ t] unfolding offer_made_def nodes
    by (cases "x = a") fastforce+
  have snapshot: "snapshot_made N' x sn" if "snapshot_made N x sn" for x sn
    using that unfolding snapshot_made_def nodes by (cases "x = a") fastforce+
  have "message_ok N' m" if "message_ok N m" for m
    using that offer snapshot by (cases m) (auto simp: update_made_def)
  then have "\<forall>m \<in> nw_sent N'. message_ok N' m"
    using N M unfolding net_ok_def nodes by blast
  then show ?thesis
    using N t grounded_mono [OF _ mono] unfolding net_ok_def nodes by auto
qed

lemma net_ok_quiet:
  assumes "net_ok ok live conn imps N"
    and "\<And>s. nw_node N a = Some s \<Longrightarrow> evolves s t"
    and "control_wf ok live conn t" "grounded conn imps (net_offers N) (net_snapshots N) t"
      "cp_endpoint t = a" "publishes t (nw_published N a)" "call_ok t c"
    and "\<And>m. m \<in> M \<Longrightarrow> message_ok (commit a t c M N) m"
  shows "net_ok ok live conn imps (commit a t c M N)"
  by (rule net_ok_commit [where new = "[]" and a = a and t = t and c = c and M = M])
    (use assms in \<open>simp_all add: commit_def\<close>)

text \<open>Planes that all keep the contract of \<^verbatim>\<open>ControlPlane\<close>.\<close>

locale planes =
  fixes E :: "string \<Rightarrow> ('n, 'z) control_env_scheme" and ok live conn imps
  assumes plane: "control_store (E a) ok live conn imps"
begin

abbreviation good :: "'n network \<Rightarrow> bool" where
  "good \<equiv> net_ok ok live conn imps"

abbreviation section_of :: "'n network \<Rightarrow> ('n control \<Rightarrow> bool) \<Rightarrow> ('n, 'a) control_call
    \<Rightarrow> ('a \<Rightarrow> 'n control \<Rightarrow> bool) \<Rightarrow> bool" where
  "section_of N \<equiv> guarded (\<lambda>s. control_wf ok live conn s \<and> grounded conn imps (net_offers N) (net_snapshots N) s)
     (\<lambda>s t. evolves s t \<and> cp_memory_metadata t = cp_memory_metadata s \<and> cp_closed t = cp_closed s)"

lemma good_node:
  assumes "good N" and "nw_node N a = Some s"
  shows "control_wf ok live conn s" "grounded conn imps (net_offers N) (net_snapshots N) s"
    "cp_endpoint s = a" "publishes s (nw_published N a)" "call_ok s (nw_call N a)"
  using assms by (simp_all add: net_ok_def)

lemma good_message: "good N \<Longrightarrow> m \<in> nw_sent N \<Longrightarrow> message_ok N m"
  by (simp add: net_ok_def)

text \<open>What a section leaves for the others.\<close>

lemma section_run:
  assumes N: "good N" and s: "nw_node N a = Some s" and m: "section_of N P m Q" and "P s" and "m s = (r, t)"
  shows "control_wf ok live conn t" "grounded conn imps (net_offers N) (net_snapshots N) t" "evolves s t"
    "cp_endpoint t = a" "publishes t (nw_published N a)" "call_ok t (nw_call N a)" "r = Inr x \<Longrightarrow> Q x t"
proof -
  note node = good_node [OF N s]
  note run = guardedD(1,2) [OF m conjI [OF node(1,2)] assms(4,5)]
  show "control_wf ok live conn t" "grounded conn imps (net_offers N) (net_snapshots N) t" "evolves s t"
    using run by simp_all
  show "cp_endpoint t = a" using run node(3) by (simp add: evolves_def)
  show "publishes t (nw_published N a)" using run node(4) by (simp add: publishes_def)
  show "call_ok t (nw_call N a)" using run node(5) call_ok_stable by blast
  show "Q x t" if "r = Inr x"
    by (rule guardedD(3) [OF m conjI [OF node(1,2)] assms(4,5) that])
qed

lemma good_commit:
  assumes N: "good N" and s: "nw_node N a = Some s" and m: "section_of N P m Q" and P: "P s"
    and run: "m s = (r, t)" and c: "call_ok t c"
    and M: "\<And>x msg. r = Inr x \<Longrightarrow> msg \<in> M \<Longrightarrow> Q x t \<Longrightarrow> message_ok (commit a t c M N) msg"
    and none: "\<And>e. r = Inl e \<Longrightarrow> M = {}"
  shows "good (commit a t c M N)"
proof (rule net_ok_quiet [OF N _ section_run(1,2,4,5) [OF N s m P run] c])
  show "evolves s' t" if "nw_node N a = Some s'" for s'
    using section_run(3) [OF N s m P run] that s by simp
  show "message_ok (commit a t c M N) msg" if "msg \<in> M" for msg
    using that M none section_run(7) [OF N s m P run] by (cases r) auto
qed

text \<open>What arrives was made by its sender.\<close>

lemma arrived_offer:
  assumes "good N" and "OfferTo x y off \<in> nw_sent N \<or> AnswerTo x y off \<in> nw_sent N"
  shows "cn_endpoint (of_connection off) = x"
    "(x, y, cn_id (of_connection off), of_metadata off) \<in> net_offers N"
proof -
  from assms good_message have "offer_made N x y off" by fastforce
  then show "cn_endpoint (of_connection off) = x"
    using good_node(3) [OF assms(1)] by (auto simp: offer_made_def offer_of_def connection_of_def)
  show "(x, y, cn_id (of_connection off), of_metadata off) \<in> net_offers N"
    using assms(2) by (auto simp: net_offers_def)
qed

lemma arrived_update:
  assumes "good N" and "ReadyTo x y up \<in> nw_sent N \<or> ChangedTo x y up \<in> nw_sent N"
  shows "(cn_endpoint (up_connection up), up_snapshot up) \<in> net_snapshots N"
proof -
  from assms good_message have "update_made N x up" by fastforce
  with assms(2) show ?thesis by (auto simp: update_made_def net_snapshots_def)
qed

lemma commit_offer:
  "made_for e ref t \<Longrightarrow> offer_made (commit a t c M N) a e (offer_of t (deref ref t))"
  by (auto simp: offer_made_def commit_def)

lemma commit_snapshot:
  "publishes t (nw_published N a) \<Longrightarrow> snapshot_made (commit a t c M N) a (snapshot_of t)"
  using snapshot_of_made [of t "nw_published N a"] by (simp add: snapshot_made_def commit_def)

text \<open>The steps.\<close>

lemma good_start:
  assumes N: "good N" and "ControlPlane_init n listen advertise add_port started = Inr s" and "ok n"
    and "nw_node N (cp_endpoint s) = None"
  shows "good (commit (cp_endpoint s) s Idle {} N)"
proof (rule net_ok_quiet [OF N])
  from assms have fresh: "cp_peers s = []" "cp_memory_metadata s = []"
    by (auto simp: ControlPlane_init_def split: prod.splits if_splits sum.splits option.splits)
  show "control_wf ok live conn s" using control_store.wf_init [OF plane assms(2,3)] .
  show "grounded conn imps (net_offers N) (net_snapshots N) s" by (simp add: grounded_def fresh)
  show "publishes s (nw_published N (cp_endpoint s))"
    using N assms(4) by (simp add: net_ok_def publishes_def fresh)
qed (use assms in simp_all)

lemma good_first:
  assumes N: "good N" and s: "nw_node N a = Some s"
    and run: "connect_begin (E a) e s = (Inr (Exchange ref off), t)"
  shows "good (commit a t (AwaitOffer e ref) {OfferTo a e off} N)"
proof -
  note sec = control_store.ksec_connect_begin [OF plane]
  from section_run(7) [OF N s sec TrueI run refl] have "made_for e ref t \<and> off = offer_of t (deref ref t)"
    by simp
  then show ?thesis
    by (intro good_commit [OF N s sec TrueI run]) (auto intro: commit_offer)
qed

lemma good_accept:
  assumes N: "good N" and s: "nw_node N a = Some s" and off: "OfferTo x a off \<in> nw_sent N"
    and run: "handle_Connect (E a) off s = (r, t)"
  shows "good (commit a t (nw_call N a) (reply_with (AnswerTo a x) r) N)"
proof -
  note sec = control_store.ksec_handle_Connect [OF plane]
  note known = arrived_offer [OF N disjI1 [OF off]]
  then have pre: "(cn_endpoint (of_connection off), cp_endpoint s, cn_id (of_connection off), of_metadata off)
      \<in> net_offers N" using good_node(3) [OF N s] by simp
  show ?thesis
    by (rule good_commit [OF N s sec pre run section_run(6) [OF N s sec pre run]])
      (auto simp: known intro: commit_offer)
qed

lemma good_second:
  assumes N: "good N" and s: "nw_node N a = Some s" and call: "nw_call N a = AwaitOffer e ref"
    and off: "AnswerTo e a off \<in> nw_sent N" and run: "connect_local (E a) ref off s = (r, t)"
  shows "good (commit a t (case r of Inl _ \<Rightarrow> Idle | Inr _ \<Rightarrow> AwaitSnapshot e ref)
    (reply_with (ReadyTo a e) r) N)"
proof -
  note sec = control_store.ksec_connect_local [OF plane]
  note known = arrived_offer [OF N disjI2 [OF off]]
  note node = good_node [OF N s]
  have pre: "made_for e ref s \<and> (e, cp_endpoint s, cn_id (of_connection off), of_metadata off) \<in> net_offers N"
    using known node(3,5) call by simp
  note after = section_run [OF N s sec pre run]
  show ?thesis
  proof (rule good_commit [OF N s sec pre run])
    show "call_ok t (case r of Inl _ \<Rightarrow> Idle | Inr _ \<Rightarrow> AwaitSnapshot e ref)"
      using after(7) by (cases r) auto
  qed (use commit_snapshot [OF after(5)] after(4) in \<open>auto simp: update_made_def\<close>)
qed

lemma good_ready:
  assumes N: "good N" and s: "nw_node N a = Some s" and up: "ReadyTo x a up \<in> nw_sent N"
    and run: "handle_Ready (E a) up s = (r, t)"
  shows "good (commit a t (nw_call N a) (reply_with (SnapshotTo a x) r) N)"
proof -
  note sec = control_store.ksec_handle_Ready [OF plane arrived_update [OF N disjI1 [OF up]]]
  note after = section_run [OF N s sec TrueI run]
  show ?thesis
    by (rule good_commit [OF N s sec TrueI run after(6)]) (auto intro: commit_snapshot after(5))
qed

lemma good_third:
  assumes N: "good N" and s: "nw_node N a = Some s" and call: "nw_call N a = AwaitSnapshot e ref"
    and sn: "SnapshotTo e a sn \<in> nw_sent N" and run: "connect_ready (E a) ref sn s = (r, t)"
  shows "good (commit a t Idle {} N)"
proof -
  have "(e, sn) \<in> net_snapshots N" using sn by (auto simp: net_snapshots_def)
  then have pre: "joined ref s \<and> made_for e ref s \<and> (e, sn) \<in> net_snapshots N"
    using good_node(5) [OF N s] call by simp
  show ?thesis
    by (rule good_commit [OF N s control_store.ksec_connect_ready [OF plane] pre run]) simp_all
qed

lemma publish_begin_run:
  assumes "publish_begin md s = (Inr (sn, refs), t)"
  shows "\<not> cp_closed s" "t = s\<lparr>cp_memory_metadata := cp_memory_metadata s @ [md]\<rparr>" "sn = snapshot_of t"
  using assms by (auto simp: publish_begin_def check_open_eq py_eqs)

lemma good_publish:
  assumes N: "good N" and s: "nw_node N a = Some s" and run: "publish_begin md s = (Inr (sn, refs), t)"
  shows "good ((commit a t Idle (changed_to a t sn ` set refs) N)
    \<lparr>nw_published := (nw_published N)(a := nw_published N a @ [md])\<rparr>)"
proof (rule net_ok_commit [OF N _ _ _ _ _ _ refl])
  note node = good_node [OF N s] and run = publish_begin_run [OF run]
  note sec = guardedD(1,2) [OF control_store.sec_publish_begin [OF plane [of a], of md] node(1) TrueI assms(3)]
  show "control_wf ok live conn t" using sec by simp
  show "evolves s' t" if "nw_node N a = Some s'" for s' using sec that s by simp
  show "grounded conn imps (net_offers N) (net_snapshots N) t"
    using node(2) by (simp add: run(2) grounded_def)
  show endpoint: "cp_endpoint t = a" using node(3) run(2) by simp
  show published: "publishes t (nw_published N a @ [md])"
    using node(4) run(1,2) by (simp add: publishes_def)
  fix msg
  assume "msg \<in> changed_to a t sn ` set refs"
  then obtain ref where "msg = changed_to a t sn ref" by blast
  moreover have "snapshot_made ((commit a t Idle (changed_to a t sn ` set refs) N)
      \<lparr>nw_published := (nw_published N)(a := nw_published N a @ [md])\<rparr>) a sn"
    using snapshot_of_made [OF published] by (simp add: snapshot_made_def commit_def run(3))
  ultimately show "message_ok ((commit a t Idle (changed_to a t sn ` set refs) N)
      \<lparr>nw_published := (nw_published N)(a := nw_published N a @ [md])\<rparr>) msg"
    by (simp add: changed_to_def update_made_def connection_of_def endpoint)
qed simp

lemma good_shutdown:
  assumes N: "good N" and s: "nw_node N a = Some s" and run: "control_close (py_return ()) s = (r, t)"
  shows "good (commit a t Idle {} N)"
proof (rule net_ok_quiet [OF N])
  note node = good_node [OF N s]
  have "guarded (control_wf ok live conn) evolves (\<lambda>_. True) (py_return ()) (\<lambda>_ _. True)"
    by (rule guarded_return [OF reflp_evolves]) simp
  note sec = guardedD(1,2) [OF control_store.sec_control_close [OF plane [of a] this] node(1) TrueI run]
  have t: "t = s \<or> t = s\<lparr>cp_closed := True, cp_channels := [], cp_peers := [], cp_memory_metadata := []\<rparr>"
    using run by (auto simp: control_close_def py_defs split: if_splits)
  show "control_wf ok live conn t" using sec by simp
  show "evolves s' t" if "nw_node N a = Some s'" for s' using sec that s by simp
  show "grounded conn imps (net_offers N) (net_snapshots N) t"
    using t node(2) by (auto simp: grounded_def)
  show "cp_endpoint t = a" using t node(3) by auto
  show "publishes t (nw_published N a)" using t node(4) by (auto simp: publishes_def)
qed simp_all

lemma good_step: "net_step E ok N N' \<Longrightarrow> good N \<Longrightarrow> good N'"
proof (induction rule: net_step.induct)
  case (connect_alone N a s e r t)
  then show ?case
    by (intro good_commit [OF _ _ control_store.ksec_connect_begin [OF plane] TrueI]) auto
next
  case (give_up N a s)
  then show ?case
    by (intro net_ok_quiet) (auto dest: good_node)
next
  case (changed N a s x up r t)
  note sec = control_store.ksec_handle_Changed [OF plane arrived_update [OF changed(4) disjI2 [OF changed(2)]]]
  show ?case
    by (rule good_commit [OF changed(4,1) sec TrueI changed(3) section_run(6) [OF changed(4,1) sec TrueI changed(3)]])
      simp_all
next
  case (disconnect_one N a s h r t)
  then show ?case
    by (intro good_commit [OF _ _ control_store.ksec_disconnect_begin [OF plane] TrueI])
      (auto split: prod.splits)
next
  case (close_peer N a s x c r t)
  note sec = control_store.ksec_handle_Close [OF plane]
  show ?case
    by (rule good_commit [OF close_peer(4,1) sec TrueI close_peer(3)
          section_run(6) [OF close_peer(4,1) sec TrueI close_peer(3)]]) simp_all
qed (simp_all add: good_start good_first good_accept good_second good_ready good_third good_publish good_shutdown)

lemma good_empty: "good no_network"
  by (simp add: net_ok_def no_network_def)

lemma good_reachable: "reachable E ok N \<Longrightarrow> good N"
  unfolding reachable_def by (induction rule: rtranclp_induct) (auto intro: good_step good_empty)

end

interpretation fake_planes: planes "\<lambda>_. demo_env" fake_ok fake_live fake_conn fake_imps
  by unfold_locales

section \<open>Properties of pairs of processes\<close>

text \<open>
  C4: queue pairs are wired to each other. In every reachable network, a peer that process \<open>a\<close> holds
  for \<open>b\<close> and that is not merely created is natively connected to exactly the metadata of one peer
  object of \<open>b\<close>: an object \<open>b\<close> made for \<open>a\<close>, whose connection id is the remote id \<open>a\<close> recorded. No
  delay, repetition or loss of messages connects it to a third process, to metadata of another
  connection, or to metadata nobody made.
\<close>

theorem connected_peers_are_paired:
  assumes planes: "\<forall>a. control_store (E a) ok live conn imps" and N: "reachable E ok N"
    and s: "nw_node N a = Some s" and peer: "map_of (cp_peers s) b = Some ref" "p_state (deref ref s) \<noteq> CREATED"
  shows "\<exists>t r. nw_node N b = Some t \<and> r < cp_next_ref t \<and> p_endpoint (deref r t) = a \<and>
    p_connection_id (deref r t) = p_remote_connection_id (deref ref s) \<and>
    conn (cp_native s) (p_handle (deref ref s)) = Some (p_metadata (deref r t))"
proof -
  have P: "planes E ok live conn imps" using planes by (simp add: planes_def)
  note good = planes.good_reachable [OF P N]
  note node = planes.good_node [OF P good s]
  from node(2,3) peer obtain md where linked: "conn (cp_native s) (p_handle (deref ref s)) = Some md"
    "(b, a, p_remote_connection_id (deref ref s), md) \<in> net_offers N"
    unfolding grounded_def by blast
  then obtain off where off: "OfferTo b a off \<in> nw_sent N \<or> AnswerTo b a off \<in> nw_sent N"
    "cn_id (of_connection off) = p_remote_connection_id (deref ref s)" "of_metadata off = md"
    unfolding net_offers_def by fastforce
  from off(1) planes.good_message [OF P good] have "offer_made N b a off" by fastforce
  then obtain t r where "nw_node N b = Some t" "made_for a r t" "off = offer_of t (deref r t)"
    unfolding offer_made_def by blast
  with linked(1) off(2,3) show ?thesis
    by (auto simp: made_for_def offer_of_def connection_of_def)
qed

text \<open>
  C5: what a process imports was published. In every reachable network, each memory that \<open>a\<close> has
  imported for \<open>b\<close> was published by \<open>b\<close>, and when \<open>a\<close> has recorded version \<open>v\<close> of \<open>b\<close>'s memories, \<open>b\<close>
  has published at least \<open>v\<close> and \<open>a\<close> has imported the first \<open>v\<close> of them: updates that arrive late,
  twice or out of order lose nothing and invent nothing.
\<close>

theorem imports_were_published:
  assumes planes: "\<forall>a. control_store (E a) ok live conn imps" and N: "reachable E ok N"
    and s: "nw_node N a = Some s" and peer: "map_of (cp_peers s) b = Some ref"
  shows "imps (cp_native s) (p_handle (deref ref s)) \<subseteq> set (nw_published N b) \<and>
    p_remote_version (deref ref s) \<le> int (length (nw_published N b)) \<and>
    set (take (nat (p_remote_version (deref ref s))) (nw_published N b))
      \<subseteq> imps (cp_native s) (p_handle (deref ref s))"
proof -
  have P: "planes E ok live conn imps" using planes by (simp add: planes_def)
  note good = planes.good_reachable [OF P N]
  note node = planes.good_node [OF P good s]
  have made: "snapshot_made N b sn" if "(b, sn) \<in> net_snapshots N" for sn
    using that planes.good_message [OF P good] by (fastforce simp: net_snapshots_def update_made_def)
  have "imps (cp_native s) (p_handle (deref ref s)) \<subseteq> set (nw_published N b)"
  proof
    fix m
    assume "m \<in> imps (cp_native s) (p_handle (deref ref s))"
    with node(2) peer obtain sn where "(b, sn) \<in> net_snapshots N" "m \<in> set (sn_memories sn)"
      unfolding grounded_def by blast
    with made [of sn] show "m \<in> set (nw_published N b)" by (auto simp: snapshot_made_def dest: in_set_takeD)
  qed
  moreover from node(2) peer have "p_remote_version (deref ref s) = - 1 \<or>
      (\<exists>sn. (b, sn) \<in> net_snapshots N \<and> sn_version sn = p_remote_version (deref ref s) \<and>
         set (sn_memories sn) \<subseteq> imps (cp_native s) (p_handle (deref ref s)))"
    unfolding grounded_def by blast
  moreover have "v \<le> int (length (nw_published N b)) \<and> set (take (nat v) (nw_published N b)) \<subseteq> A"
    if "(b, sn) \<in> net_snapshots N" "sn_version sn = v" "set (sn_memories sn) \<subseteq> A" for sn v A
    using made [OF that(1)] that(2,3) by (auto simp: snapshot_made_def)
  ultimately show ?thesis by fastforce
qed

section \<open>A network that runs\<close>

text \<open>
  Two processes of the tests. \<open>n0\<close> publishes a memory and calls \<open>connect\<close>; both of its requests are
  handled by \<open>n1\<close>.
\<close>

definition demo_start :: "string \<Rightarrow> fake control" where
  "demo_start host = \<lparr>cp_native = fake_init host, cp_endpoint = host @ '':1'', cp_closed = False,
     cp_peers = [], cp_heap = (\<lambda>_. blank_peer), cp_next_ref = 0, cp_channels = [],
     cp_memory_metadata = [], cp_uuids = 0\<rparr>"

lemma decimal_digits: "decimal 0 = ''0''" "decimal (Suc 0) = ''1''"
  by code_simp+

lemma demo_started:
  "ControlPlane_init (fake_init ''n0'') ''n0:0'' None (\<lambda>_. Inr 1) None = Inr (demo_start ''n0'')"
  "ControlPlane_init (fake_init ''n1'') ''n1:0'' None (\<lambda>_. Inr 1) None = Inr (demo_start ''n1'')"
  by (simp_all add: ControlPlane_init_def rpartition_colon_def isdecimal_def is_digit_def
      parse_decimal_def digit_value_def demo_start_def decimal_digits Let_def)

text \<open>The states \<open>n0\<close> and \<open>n1\<close> go through, and what they send.\<close>

definition demo_published :: "fake control" where
  "demo_published = snd (publish_begin [5] (demo_start ''n0''))"

definition demo_offering :: "fake control" where
  "demo_offering = snd (connect_begin demo_env ''n1:1'' demo_published)"

definition demo_offer :: offer where
  "demo_offer = offer_of demo_offering (deref 0 demo_offering)"

definition demo_accepted :: "fake control" where
  "demo_accepted = snd (handle_Connect demo_env demo_offer (demo_start ''n1''))"

definition demo_answer :: offer where
  "demo_answer = offer_of demo_accepted (deref 0 demo_accepted)"

definition demo_linked :: "fake control" where
  "demo_linked = snd (connect_local demo_env 0 demo_answer demo_offering)"

definition demo_update :: update where
  "demo_update = \<lparr>up_connection = \<lparr>cn_endpoint = ''n0:1'', cn_id = ''id0''\<rparr>,
     up_snapshot = \<lparr>sn_version = 1, sn_memories = [[5]]\<rparr>\<rparr>"

definition demo_served :: "fake control" where
  "demo_served = snd (handle_Ready demo_env demo_update demo_accepted)"

lemmas demo_state_defs = demo_served_def demo_update_def demo_linked_def demo_answer_def
  demo_accepted_def demo_offer_def demo_offering_def demo_published_def demo_start_def

lemma demo_steps:
  "publish_begin [5] (demo_start ''n0'') = (Inr (\<lparr>sn_version = 1, sn_memories = [[5]]\<rparr>, []), demo_published)"
  "connect_begin demo_env ''n1:1'' demo_published = (Inr (Exchange 0 demo_offer), demo_offering)"
  "handle_Connect demo_env demo_offer (demo_start ''n1'') = (Inr demo_answer, demo_accepted)"
  "connect_local demo_env 0 demo_answer demo_offering = (Inr demo_update, demo_linked)"
  "handle_Ready demo_env demo_update demo_accepted = (Inr \<lparr>sn_version = 0, sn_memories = []\<rparr>, demo_served)"
  apply (simp_all add: demo_state_defs control_run_defs fake_create_peer_def fake_init_def deref_def demo_uuid_def decimal_digits
      del: heap_deref)
  done

text \<open>The network after \<open>n1\<close> accepted the offer, and after it handled \<open>Ready\<close>.\<close>

definition demo_begun :: "fake network" where
  "demo_begun = (let N0 = commit ''n1:1'' (demo_start ''n1'') Idle {} (commit ''n0:1'' (demo_start ''n0'') Idle {} no_network);
     N1 = (commit ''n0:1'' demo_published Idle {} N0)\<lparr>nw_published := (\<lambda>_. [])(''n0:1'' := [[5]])\<rparr>;
     N2 = commit ''n0:1'' demo_offering (AwaitOffer ''n1:1'' 0) {OfferTo ''n0:1'' ''n1:1'' demo_offer} N1
   in commit ''n1:1'' demo_accepted Idle {AnswerTo ''n1:1'' ''n0:1'' demo_answer} N2)"

definition demo_network :: "fake network" where
  "demo_network = commit ''n1:1'' demo_served Idle
     {SnapshotTo ''n1:1'' ''n0:1'' \<lparr>sn_version = 0, sn_memories = []\<rparr>}
     (commit ''n0:1'' demo_linked (AwaitSnapshot ''n1:1'' 0) {ReadyTo ''n0:1'' ''n1:1'' demo_update} demo_begun)"

lemma demo_reachable: "reachable (\<lambda>_. demo_env) fake_ok demo_network"
proof -
  let ?step = "net_step (\<lambda>_. demo_env) fake_ok"
  let ?N0 = "commit ''n0:1'' (demo_start ''n0'') Idle {} no_network"
  let ?N1 = "commit ''n1:1'' (demo_start ''n1'') Idle {} ?N0"
  let ?N2 = "(commit ''n0:1'' demo_published Idle {} ?N1)\<lparr>nw_published := (\<lambda>_. [])(''n0:1'' := [[5]])\<rparr>"
  let ?N3 = "commit ''n0:1'' demo_offering (AwaitOffer ''n1:1'' 0) {OfferTo ''n0:1'' ''n1:1'' demo_offer} ?N2"
  let ?N4 = "commit ''n0:1'' demo_linked (AwaitSnapshot ''n1:1'' 0) {ReadyTo ''n0:1'' ''n1:1'' demo_update} demo_begun"
  note net = commit_def no_network_def demo_begun_def
  have ends: "cp_endpoint (demo_start ''n0'') = ''n0:1''" "cp_endpoint (demo_start ''n1'') = ''n1:1''"
    by (simp_all add: demo_start_def)
  have "?step no_network ?N0"
    using net_step.start [where E = "\<lambda>_. demo_env" and ok = fake_ok
        and N = no_network, OF demo_started(1) fake_ok_init] by (simp add: net ends)
  moreover have "?step ?N0 ?N1"
    using net_step.start [where E = "\<lambda>_. demo_env" and ok = fake_ok
        and N = "?N0", OF demo_started(2) fake_ok_init] by (simp add: net ends)
  moreover have "?step ?N1 ?N2"
    using net_step.publish_ok [where E = "\<lambda>_. demo_env" and ok = fake_ok
        and N = "?N1" and a = "''n0:1''", OF _ _ demo_steps(1)] by (simp add: net)
  moreover have "?step ?N2 ?N3"
    using net_step.connect_first [where E = "\<lambda>_. demo_env" and ok = fake_ok
        and N = "?N2" and a = "''n0:1''", OF _ _ demo_steps(2)] by (simp add: net)
  moreover have "?step ?N3 demo_begun"
    using net_step.accept [where E = "\<lambda>_. demo_env" and ok = fake_ok
        and N = "?N3" and a = "''n1:1''", OF _ _ demo_steps(3)] by (simp add: net)
  moreover have "?step demo_begun ?N4"
    using net_step.connect_second [where E = "\<lambda>_. demo_env" and ok = fake_ok
        and N = demo_begun and a = "''n0:1''", OF _ _ _ demo_steps(4)] by (simp add: net)
  moreover have "nw_node ?N4 ''n1:1'' = Some demo_accepted" "nw_call ?N4 ''n1:1'' = Idle"
    "ReadyTo ''n0:1'' ''n1:1'' demo_update \<in> nw_sent ?N4"
    by (simp_all add: net)
  then have "?step ?N4 demo_network"
    using net_step.ready [where E = "\<lambda>_. demo_env" and ok = fake_ok
        and N = "?N4" and a = "''n1:1''"
        and x = "''n0:1''", OF _ _ demo_steps(5)]
    by (simp add: demo_network_def)
  ultimately show ?thesis unfolding reachable_def by (meson rtranclp.intros)
qed

lemma demo_served_sel:
  "map_of (cp_peers demo_served) ''n0:1'' = Some 0" "p_state (deref 0 demo_served) = READY"
  "p_remote_version (deref 0 demo_served) = 1" "p_handle (deref 0 demo_served) = 1"
  by (simp_all add: demo_state_defs control_run_defs fake_create_peer_def fake_init_def deref_def
      demo_uuid_def decimal_digits del: heap_deref)

lemma demo_network_sel:
  "nw_node demo_network ''n1:1'' = Some demo_served" "nw_node demo_network ''n0:1'' = Some demo_linked"
  "nw_published demo_network ''n0:1'' = [[5]]"
  by (simp_all add: demo_network_def demo_begun_def commit_def no_network_def)

theorem connected_peers_are_paired_witness:
  "\<exists>r. r < cp_next_ref demo_linked \<and> p_endpoint (deref r demo_linked) = ''n1:1'' \<and>
     p_connection_id (deref r demo_linked) = p_remote_connection_id (deref 0 demo_served) \<and>
     fake_conn (cp_native demo_served) 1 = Some (p_metadata (deref r demo_linked))"
  using connected_peers_are_paired [of "\<lambda>_. demo_env", OF _ demo_reachable demo_network_sel(1) demo_served_sel(1)]
    fake_control.control_store_axioms
  by (simp add: demo_served_sel demo_network_sel)

theorem imports_were_published_witness:
  "set [[5]] \<subseteq> fake_imps (cp_native demo_served) 1"
  using imports_were_published [of "\<lambda>_. demo_env", OF _ demo_reachable demo_network_sel(1) demo_served_sel(1)]
    fake_control.control_store_axioms
  by (simp add: demo_served_sel demo_network_sel)

end
