(* ===== verification/Handshake.thy ===== *)
theory Handshake
  imports Network Kept
begin

text \<open>
  The handshake of two planes when nothing else happens: \<open>connect\<close> on one side, with its two remote
  calls served by the handlers of the other. Its end state is mutual: both sides are ready, each
  queue pair is connected to the other, and each side has imported what the other had published.
\<close>

section \<open>Two planes\<close>

definition here :: "('m, exn, 'a) py \<Rightarrow> ('m \<times> 'k, exn, 'a) py" where
  "here m = py_zoom fst (\<lambda>s p. (s, snd p)) m"

definition there :: "('k, exn, 'a) py \<Rightarrow> ('m \<times> 'k, exn, 'a) py" where
  "there m = py_zoom snd (\<lambda>t p. (fst p, t)) m"

text \<open>\<open>connect(endpoint)\<close> on the first plane, its requests handled by the second.\<close>

definition handshake ::
  "('n, 'z) control_env_scheme \<Rightarrow> ('k, 'y) control_env_scheme \<Rightarrow> string
     \<Rightarrow> ('n control \<times> 'k control, exn, int) py" where
  "handshake E F endpoint =
     py_bind (here (connect_begin E endpoint)) (\<lambda>start. case start of
       Already handle \<Rightarrow> py_return handle
     | Exchange ref offer \<Rightarrow>
         py_bind (there (handle_Connect F offer)) (\<lambda>remote.
         py_bind (here (connect_local E ref remote)) (\<lambda>update.
         py_bind (there (handle_Ready F update)) (\<lambda>snapshot.
           here (connect_ready E ref snapshot)))))"

lemma here_eq: "here m p = (r, q) \<longleftrightarrow> (\<exists>s. m (fst p) = (r, s) \<and> q = (s, snd p))"
  by (simp add: here_def py_zoom_eq)

lemma there_eq: "there m p = (r, q) \<longleftrightarrow> (\<exists>t. m (snd p) = (r, t) \<and> q = (fst p, t))"
  by (simp add: there_def py_zoom_eq)

text \<open>The first plane of a handshake runs its own \<open>connect\<close>.\<close>

lemma handshake_connect:
  assumes "handshake E F e (s, t) = (r, s', t')"
  shows "\<exists>reply1 reply2. connect E (\<lambda>_ _. during E [] reply1) (\<lambda>_ _. during E [] reply2) e s = (r, s')"
proof (cases "connect_begin E e s")
  case first: (Pair x s1)
  show ?thesis
  proof (cases x)
    case (Inl err)
    with first assms show ?thesis by (simp add: handshake_def connect_def py_bind_def here_def py_zoom_def)
  next
    case (Inr start)
    show ?thesis
    proof (cases start)
      case (Already h)
      with Inr first assms show ?thesis
        by (simp add: handshake_def connect_def py_bind_def here_def py_zoom_def)
    next
      case (Exchange ref off)
      obtain r1 t1 where accept: "handle_Connect F off t = (r1, t1)" by fastforce
      show ?thesis
      proof (cases r1)
        case (Inl err)
        with Exchange Inr first accept assms show ?thesis
          by (intro exI [of _ r1]) (simp add: handshake_def connect_def py_bind_def here_def there_def
              py_zoom_def during_def serve_def)
      next
        case answer: (Inr remote)
        obtain r2 s2 where local: "connect_local E ref remote s1 = (r2, s2)" by fastforce
        obtain r3 t2 where ready: "handle_Ready F (projr r2) t1 = (r3, t2)" by fastforce
        have "connect E (\<lambda>_ _. during E [] r1) (\<lambda>_ _. during E [] r3) e s = (r, s')"
          using Exchange Inr first accept answer local ready assms
          by (cases r2; cases r3) (auto simp: handshake_def connect_def py_bind_def here_def there_def
              py_zoom_def during_def serve_def split: prod.splits)
        then show ?thesis by blast
      qed
    qed
  qed
qed

section \<open>The end state\<close>

text \<open>Facts in which everything about other endpoints holds, and of one endpoint only what is given.\<close>

definition offers_but :: "string \<Rightarrow> (string \<times> bytes) set \<Rightarrow> offer_facts" where
  "offers_but e A = {(x, y, i, md). x \<noteq> e \<or> (i, md) \<in> A}"

definition snapshots_but :: "string \<Rightarrow> snapshot set \<Rightarrow> snapshot_facts" where
  "snapshots_but e A = {(x, sn). x \<noteq> e \<or> sn \<in> A}"

lemma offers_but_mono: "A \<subseteq> B \<Longrightarrow> offers_but e A \<subseteq> offers_but e B"
  by (auto simp: offers_but_def)

lemma snapshots_but_mono: "A \<subseteq> B \<Longrightarrow> snapshots_but e A \<subseteq> snapshots_but e B"
  by (auto simp: snapshots_but_def)

context control_store
begin

text \<open>A plane without a peer for the endpoint has nothing to justify.\<close>

lemma grounded_but:
  assumes "wf s" and "map_of (cp_peers s) e = None"
  shows "grounded conn imps (offers_but e {}) (snapshots_but e {}) s"
  unfolding grounded_def
proof (intro allI impI, goal_cases)
  case (1 x ref)
  then have "x \<noteq> e" using assms(2) by auto
  moreover have "\<exists>sn::snapshot. m \<in> set (sn_memories sn)" for m
    by (rule exI [of _ "\<lparr>sn_version = 0, sn_memories = [m]\<rparr>"]) simp
  moreover have "\<exists>sn::snapshot. sn_version sn = v \<and> set (sn_memories sn) \<subseteq> A" for v A
    by (rule exI [of _ "\<lparr>sn_version = v, sn_memories = []\<rparr>"]) simp
  ultimately show ?case
    using wf_peer(6) [OF assms(1) 1] by (auto simp: offers_but_def snapshots_but_def)
qed

text \<open>What grounding then says of the peer for the endpoint.\<close>

lemma grounded_exact:
  assumes "grounded conn imps (offers_but e {(i, md)}) S s" and "map_of (cp_peers s) e = Some ref"
    and "p_state (deref ref s) \<noteq> CREATED"
  shows "p_remote_connection_id (deref ref s) = i" "conn (cp_native s) (p_handle (deref ref s)) = Some md"
  using assms unfolding grounded_def offers_but_def by fastforce+

lemma grounded_unconnected:
  assumes "grounded conn imps (offers_but e {}) S s" and "map_of (cp_peers s) e = Some ref"
  shows "p_state (deref ref s) = CREATED"
  using assms unfolding grounded_def offers_but_def by fastforce

lemma grounded_imported:
  assumes "grounded conn imps K (snapshots_but e {sn}) s" and "map_of (cp_peers s) e = Some ref"
    and "sn_version sn \<le> p_remote_version (deref ref s)" and "0 \<le> sn_version sn"
  shows "set (sn_memories sn) \<subseteq> imps (cp_native s) (p_handle (deref ref s))"
  using assms unfolding grounded_def snapshots_but_def by fastforce

text \<open>The plane that serves the two requests.\<close>

lemma handle_Ready_peers: "handle_Ready E up t = (r, t') \<Longrightarrow> cp_peers t' = cp_peers t"
  by (cases r) (auto simp: handle_Ready_def control_eqs check_open_eq find_connection_eq(1)
      dest!: find_connection_eq(2) import_snapshot_run split: sum.splits)

lemma handle_Connect_open:
  assumes t: "wf t" "map_of (cp_peers t) (cn_endpoint (of_connection off)) = None"
    and accept: "handle_Connect E off t = (r, t1)"
  shows "cp_closed t1 = cp_closed t"
proof -
  let ?e = "cn_endpoint (of_connection off)"
  let ?K = "offers_but ?e {(cn_id (of_connection off), of_metadata off)}"
  have "known ?K (snapshots_but ?e {}) t"
    using t grounded_mono [OF grounded_but [OF t] offers_but_mono subset_refl] by simp
  from guardedD(2) [OF ksec_handle_Connect this _ accept] show ?thesis by (simp add: offers_but_def)
qed

lemma serve_side:
  assumes t: "wf t" "map_of (cp_peers t) (cn_endpoint (of_connection off)) = None"
    and accept: "handle_Connect E off t = (Inr remote, t1)" and ready: "handle_Ready E up t1 = (Inr sn, t2)"
    and up: "cn_endpoint (up_connection up) = cn_endpoint (of_connection off)" "0 \<le> sn_version (up_snapshot up)"
  shows "\<exists>b. map_of (cp_peers t2) (cn_endpoint (of_connection off)) = Some b \<and> p_state (deref b t2) = READY \<and>
    remote = offer_of t2 (deref b t2) \<and> p_remote_connection_id (deref b t2) = cn_id (of_connection off) \<and>
    conn (cp_native t2) (p_handle (deref b t2)) = Some (of_metadata off) \<and> sn = snapshot_of t2 \<and>
    set (sn_memories (up_snapshot up)) \<subseteq> imps (cp_native t2) (p_handle (deref b t2))"
proof -
  let ?e = "cn_endpoint (of_connection off)"
  let ?K = "offers_but ?e {(cn_id (of_connection off), of_metadata off)}"
  let ?S = "snapshots_but ?e {up_snapshot up}"
  have known: "known ?K ?S t"
    using t grounded_mono [OF grounded_but [OF t] offers_but_mono snapshots_but_mono] by simp
  have offered: "(?e, cp_endpoint t, cn_id (of_connection off), of_metadata off) \<in> ?K"
    by (simp add: offers_but_def)
  note one = guardedD [OF ksec_handle_Connect known offered accept]
  have "wf t1" using one(1) by simp
  from guardedD(3) [OF sec_handle_Connect t(1) TrueI accept refl] obtain b where
    b: "map_of (cp_peers t1) ?e = Some b" "remote = offer_of t1 (deref b t1)" by blast
  have source: "(cn_endpoint (up_connection up), up_snapshot up) \<in> ?S"
    using up(1) by (simp add: snapshots_but_def)
  note two = guardedD [OF ksec_handle_Ready [OF source] one(1) TrueI ready]
  from two(3) [OF refl] obtain b' where
    b': "registered b' t2" "known_as (up_connection up) b' t2" "p_state (deref b' t2) = READY"
      "sn_version (up_snapshot up) \<le> p_remote_version (deref b' t2)" and sn: "sn = snapshot_of t2" by blast
  then have at: "map_of (cp_peers t2) ?e = Some b'" using up(1) by (simp add: registered_def known_as_def)
  with b(1) handle_Ready_peers [OF ready] have same: "b' = b" by simp
  have "made_for ?e b t1" using wf_peer [OF \<open>wf t1\<close> b(1)] by (simp add: made_for_def)
  moreover have "evolves t1 t2" using two(2) by simp
  ultimately have "remote = offer_of t2 (deref b t2)" using b(2) offer_stable [of ?e b t1 t2] by simp
  moreover have "grounded conn imps ?K ?S t2" using two(1) by simp
  note grounded_exact [OF this at] grounded_imported [OF this at b'(4) up(2)]
  ultimately show ?thesis using at b'(3) same sn by auto
qed

text \<open>The plane that connects.\<close>

lemma connect_side:
  assumes s: "wf s" "map_of (cp_peers s) e = None" and start: "connect_begin E e s = (Inr start, s1)"
    and go: "\<And>ref off. start = Exchange ref off \<Longrightarrow>
      connect_local E ref remote s1 = (Inr up, s2) \<and> connect_ready E ref sn s2 = (Inr h, s3)"
    and sn: "0 \<le> sn_version sn"
  shows "\<exists>a off. start = Exchange a off \<and> off = offer_of s3 (deref a s3) \<and> up_connection up = of_connection off \<and>
    up_snapshot up = snapshot_of s3 \<and> cp_endpoint s3 = cp_endpoint s \<and>
    map_of (cp_peers s3) e = Some a \<and> p_state (deref a s3) = READY \<and> h = p_handle (deref a s3) \<and>
    p_remote_connection_id (deref a s3) = cn_id (of_connection remote) \<and>
    conn (cp_native s3) h = Some (of_metadata remote) \<and> set (sn_memories sn) \<subseteq> imps (cp_native s3) h"
proof -
  let ?K = "offers_but e {(cn_id (of_connection remote), of_metadata remote)}"
  let ?S = "snapshots_but e {sn}"
  have known: "known (offers_but e {}) ?S s" "known ?K ?S s"
    using s grounded_mono [OF grounded_but [OF s] offers_but_mono snapshots_but_mono] by simp_all
  note none = guardedD [OF ksec_connect_begin known(1) TrueI start]
  note one = guardedD [OF ksec_connect_begin known(2) TrueI start]
  note begun = guardedD(3) [OF sec_connect_begin s(1) TrueI start refl]
  obtain a off where x: "start = Exchange a off"
  proof (cases start)
    case (Already h)
    with begun obtain ref where "map_of (cp_peers s1) e = Some ref" "p_state (deref ref s1) = READY" by auto
    with grounded_unconnected [of e ?S s1 ref] none(1) show ?thesis by simp
  qed blast
  note run = go [OF x, THEN conjunct1] go [OF x, THEN conjunct2]
  from one(3) [OF refl] x have made: "made_for e a s1" and off: "off = offer_of s1 (deref a s1)" by simp_all
  have offered: "made_for e a s1 \<and> (e, cp_endpoint s1, cn_id (of_connection remote), of_metadata remote) \<in> ?K"
    using made by (simp add: offers_but_def)
  note two = guardedD [OF ksec_connect_local one(1) offered run(1)]
  have "wf s1" "a < cp_next_ref s1" using one(1) made by (simp_all add: made_for_def)
  note linked = guardedD(3) [OF sec_connect_local this run(1) refl]
  have pre: "joined a s2 \<and> made_for e a s2 \<and> (e, sn) \<in> ?S"
    using two(3) [OF refl] by (simp add: snapshots_but_def)
  note three = guardedD(1,2) [OF ksec_connect_ready two(1) pre run(2)]
  have "wf s2" "joined a s2" using two(1) pre by simp_all
  note ready = guardedD(3) [OF sec_connect_ready this run(2) refl]
  have forward: "evolves s1 s2" "evolves s2 s3" using two(2) three(2) by simp_all
  then have s13: "evolves s1 s3" by (rule evolves_trans)
  have at: "map_of (cp_peers s3) e = Some a"
    using ready made_for_stable [OF conjunct1 [OF conjunct2 [OF pre]] forward(2)]
    by (simp add: registered_def made_for_def)
  have id: "p_connection_id (deref a s2) = p_connection_id (deref a s1)"
    using forward(1) made by (simp add: evolves_def made_for_def peer_le_def)
  have final: "off = offer_of s3 (deref a s3)" using off offer_stable [OF made s13] by simp
  have "up_connection up = of_connection off"
    using linked id evolves_endpoint [OF forward(1)] by (simp add: off offer_of_def connection_of_def)
  moreover have "up_snapshot up = snapshot_of s3"
    using linked three(2) by (simp add: snapshot_of_def)
  moreover have "cp_endpoint s3 = cp_endpoint s"
    using s13 one(2) by (simp add: evolves_def)
  moreover have g: "grounded conn imps ?K ?S s3" using three(1) by simp
  note grounded_exact [OF g at] grounded_imported [OF g at _ sn]
  ultimately show ?thesis using x final at ready by auto
qed

end

text \<open>
  C6: a handshake wires both ends. When \<open>connect\<close> returns to a plane that had no peer for the
  endpoint, and the other plane, which had none either, served its requests, then both planes hold a
  ready peer for each other, each records the other's connection id, each queue pair is connected to
  exactly the metadata of the other, and each side has imported every memory the other had published.
\<close>

theorem handshake_links_both_ends:
  assumes E: "control_store E ok live conn imps" and F: "control_store F ok' live' conn' imps'"
    and s: "control_wf ok live conn s" "map_of (cp_peers s) e = None"
    and t: "control_wf ok' live' conn' t" "map_of (cp_peers t) (cp_endpoint s) = None"
    and run: "handshake E F e (s, t) = (Inr h, s', t')"
  shows "\<exists>a b. map_of (cp_peers s') e = Some a \<and> map_of (cp_peers t') (cp_endpoint s) = Some b \<and>
    p_state (deref a s') = READY \<and> p_state (deref b t') = READY \<and> h = p_handle (deref a s') \<and>
    p_remote_connection_id (deref a s') = p_connection_id (deref b t') \<and>
    p_remote_connection_id (deref b t') = p_connection_id (deref a s') \<and>
    conn (cp_native s') h = Some (p_metadata (deref b t')) \<and>
    conn' (cp_native t') (p_handle (deref b t')) = Some (p_metadata (deref a s')) \<and>
    set (cp_memory_metadata t') \<subseteq> imps (cp_native s') h \<and>
    set (cp_memory_metadata s') \<subseteq> imps' (cp_native t') (p_handle (deref b t'))"
proof -
  from run obtain start s1 where start: "connect_begin E e s = (Inr start, s1)"
    by (auto simp: handshake_def py_eqs here_eq)
  have begun: "cp_endpoint s1 = cp_endpoint s"
    using guardedD(2) [OF control_store.sec_connect_begin [OF E] s(1) TrueI start] by (simp add: evolves_def)
  note side = control_store.connect_side [OF E s start]
  have "0 \<le> sn_version \<lparr>sn_version = 0, sn_memories = []\<rparr>" by simp
  then obtain ref off where x: "start = Exchange ref off"
    using side [of undefined undefined undefined "\<lparr>sn_version = 0, sn_memories = []\<rparr>" undefined undefined]
    by (cases start) auto
  with run start obtain remote t1 up s2 sn where
    accept: "handle_Connect F off t = (Inr remote, t1)" and
    local: "connect_local E ref remote s1 = (Inr up, s2)" and
    ready: "handle_Ready F up t1 = (Inr sn, t')" and finish: "connect_ready E ref sn s2 = (Inr h, s')"
    by (auto simp: handshake_def py_eqs here_eq there_eq)
  have off: "cn_endpoint (of_connection off) = cp_endpoint s"
    using guardedD(3) [OF control_store.sec_connect_begin [OF E] s(1) TrueI start refl] x begun
    by (simp add: offer_of_def connection_of_def)
  have "control_wf ok' live' conn' t1"
    using guardedD(1) [OF control_store.sec_handle_Connect [OF F] t(1) TrueI accept] .
  from guardedD(3) [OF control_store.sec_handle_Ready [OF F] this TrueI ready refl]
  have "0 \<le> sn_version sn" by (simp add: snapshot_of_def)
  from side [OF _ this, of remote up s2 h s'] x local finish
  have here: "off = offer_of s' (deref ref s')" "up_connection up = of_connection off"
    "up_snapshot up = snapshot_of s'" "map_of (cp_peers s') e = Some ref" "p_state (deref ref s') = READY"
    "h = p_handle (deref ref s')" "p_remote_connection_id (deref ref s') = cn_id (of_connection remote)"
    "conn (cp_native s') h = Some (of_metadata remote)"
    "set (sn_memories sn) \<subseteq> imps (cp_native s') h" by auto
  have "map_of (cp_peers t) (cn_endpoint (of_connection off)) = None" using t(2) off by simp
  moreover have "cn_endpoint (up_connection up) = cn_endpoint (of_connection off)"
    "0 \<le> sn_version (up_snapshot up)" using here by (simp_all add: snapshot_of_def)
  ultimately obtain b where
    "map_of (cp_peers t') (cp_endpoint s) = Some b" "p_state (deref b t') = READY"
    "remote = offer_of t' (deref b t')" "p_remote_connection_id (deref b t') = cn_id (of_connection off)"
    "conn' (cp_native t') (p_handle (deref b t')) = Some (of_metadata off)" "sn = snapshot_of t'"
    "set (sn_memories (up_snapshot up)) \<subseteq> imps' (cp_native t') (p_handle (deref b t'))"
    using control_store.serve_side [OF F t(1) _ accept ready] off by auto
  with here show ?thesis
    by (intro exI [of _ ref] exI [of _ b]) (simp add: offer_of_def connection_of_def snapshot_of_def)
qed

section \<open>Published memories stay as they are\<close>

lemma import_snapshot_metadata:
  "import_snapshot F ref sn t = (r, t') \<Longrightarrow> cp_memory_metadata t' = cp_memory_metadata t"
  by (cases r) (auto simp: import_snapshot_def control_eqs split: if_splits)

lemma handle_Ready_snapshot:
  "handle_Ready F up t = (Inr sn, t') \<Longrightarrow> sn = snapshot_of t' \<and> cp_memory_metadata t' = cp_memory_metadata t"
  by (auto simp: handle_Ready_def control_eqs check_open_eq find_connection_eq(1) dest!: import_snapshot_metadata)

lemma get_or_create_metadata:
  "get_or_create_peer E e s = (Inr ref, t) \<Longrightarrow> cp_memory_metadata t = cp_memory_metadata s"
  by (auto simp: get_or_create_peer_def create_peer_def new_uuid_def new_peer_def control_eqs split: option.splits)

lemma connect_native_metadata:
  "connect_native E ref off s = (Inr u, t) \<Longrightarrow> cp_memory_metadata t = cp_memory_metadata s"
  by (auto simp: connect_native_def control_eqs split: if_splits)

lemma stub_metadata: "stub e s = (r, t) \<Longrightarrow> cp_memory_metadata t = cp_memory_metadata s"
  by (auto simp: stub_def py_defs split: option.splits)

lemma connect_begin_metadata:
  "connect_begin E e s = (Inr x, t) \<Longrightarrow> cp_memory_metadata t = cp_memory_metadata s"
  by (auto simp: connect_begin_def control_eqs check_open_eq check_endpoint_def
      dest!: get_or_create_metadata stub_metadata split: if_splits)

lemma connect_local_snapshot:
  "connect_local E ref remote s = (Inr up, t) \<Longrightarrow>
     cp_memory_metadata t = cp_memory_metadata s \<and> up_snapshot up = snapshot_of t"
  by (auto simp: connect_local_def require_peer_def control_eqs dest!: connect_native_metadata)

lemma handle_Connect_metadata:
  "handle_Connect F off t = (Inr remote, t') \<Longrightarrow> cp_memory_metadata t' = cp_memory_metadata t"
  by (auto simp: handle_Connect_def control_eqs check_open_eq check_endpoint_def
      dest!: get_or_create_metadata connect_native_metadata)

lemma connect_ready_metadata:
  "connect_ready E ref sn s = (Inr h, t) \<Longrightarrow> cp_memory_metadata t = cp_memory_metadata s"
  by (auto simp: connect_ready_def require_peer_def control_eqs dest!: import_snapshot_metadata)

section \<open>Completion\<close>

text \<open>
  Engines that understand each other and do what is asked of them until they run out of something. Of the metadata,
  which they alone can read, \<open>qp\<close> and \<open>mem\<close> say what is well formed for a peer and for a memory; \<open>spent\<close> says that an
  engine has run out of a resource or is closed, and what it is after every later call. Unless the engine is spent
  then, a peer is created, with metadata in that form; a live peer that is not connected connects to metadata of a peer;
  and a connected peer imports metadata of a memory. Other metadata, as empty bytes, may be refused.
\<close>

locale obliging_store = control_store E ok live conn imps
  for E :: "('n, 'z) control_env_scheme" and ok live conn imps +
  fixes qp :: "bytes \<Rightarrow> bool" and mem :: "bytes \<Rightarrow> bool" and spent :: "'n \<Rightarrow> bool"
  assumes well_formed: "ok n \<Longrightarrow> live n h = Some md \<Longrightarrow> qp md"
    and create_returns: "ok n \<Longrightarrow> na_create_peer E n = (r1, n') \<Longrightarrow> spent n' \<or> (\<exists>pm. r1 = Inr pm)"
    and connect_returns: "ok n \<Longrightarrow> live n h \<noteq> None \<Longrightarrow> conn n h = None \<Longrightarrow> qp md \<Longrightarrow>
      na_connect_peer E h (Bytes md) n = (r2, n') \<Longrightarrow> spent n' \<or> r2 = Inr ()"
    and import_returns: "ok n \<Longrightarrow> conn n h \<noteq> None \<Longrightarrow> mem md \<Longrightarrow>
      na_import_remote_memory E h (Bytes md) n = (r3, n') \<Longrightarrow> spent n' \<or> (\<exists>k. r3 = Inr k)"
    and spent_create: "keeps spent (na_create_peer E)"
    and spent_connect: "keeps spent (na_connect_peer E h data)"
    and spent_import: "keeps spent (na_import_remote_memory E h data)"
    and spent_destroy: "keeps spent (na_destroy_peer E h)"

sublocale obliging_store \<subseteq> spending: native_keeps E "\<lambda>n _ _. spent n"
  by unfold_locales (rule spent_create spent_connect spent_import spent_destroy | assumption)+

context obliging_store
begin

abbreviation sound :: "bytes list \<Rightarrow> bool" where
  "sound mds \<equiv> list_all mem mds"

text \<open>A section that returns unless the engine is spent then.\<close>

definition obliges :: "('n, 'a) control_call \<Rightarrow> 'n control \<Rightarrow> bool" where
  "obliges m s \<longleftrightarrow> (case m s of (r, t) \<Rightarrow> spent (cp_native t) \<or> (\<exists>x. r = Inr x))"

lemma obligesD: "obliges m s \<Longrightarrow> m s = (r, t) \<Longrightarrow> spent (cp_native t) \<or> (\<exists>x. r = Inr x)"
  by (simp add: obliges_def)

lemma obliges_return: "m s = (Inr x, t) \<Longrightarrow> obliges m s"
  by (simp add: obliges_def)

lemma obliges_bind:
  assumes "obliges m s" and "\<And>x t. m s = (Inr x, t) \<Longrightarrow> obliges (f x) t"
  shows "obliges (py_bind m f) s"
proof (cases "m s")
  case (Pair r t)
  with assms show ?thesis by (cases r) (auto simp: obliges_def py_bind_def)
qed

lemma obliges_then:
  "obliges m s \<Longrightarrow> (\<And>x t. m s = (Inr x, t) \<Longrightarrow> obliges k t) \<Longrightarrow> obliges (py_then m k) s"
  unfolding py_then_def by (rule obliges_bind)

lemma obliges_gets: "obliges (py_gets f) s"
  by (simp add: obliges_def py_gets_def)

lemma obliges_gets_bind: "obliges (f (g s)) s \<Longrightarrow> obliges (py_bind (py_gets g) f) s"
  by (simp add: obliges_def py_bind_def py_gets_def)

lemma obliges_raise_if: "\<not> b \<Longrightarrow> obliges (py_raise_if b e) s"
  by (simp add: obliges_def py_raise_if_def py_return_def)

lemma obliges_update: "obliges (update_peer ref f) s"
  by (simp add: obliges_def update_peer_def py_modify_def)

lemma obliges_native:
  "(\<And>r n. m (cp_native s) = (r, n) \<Longrightarrow> spent n \<or> (\<exists>x. r = Inr x)) \<Longrightarrow> obliges (on_native m) s"
  by (auto simp: obliges_def on_native_def py_zoom_def split: prod.splits)

lemma peer_well_formed: "wf s \<Longrightarrow> map_of (cp_peers s) e = Some ref \<Longrightarrow> qp (p_metadata (deref ref s))"
  using well_formed [OF wf_ok wf_peer(5)] .

lemma imports_return:
  "ok n \<Longrightarrow> conn n h \<noteq> None \<Longrightarrow> sound mds \<Longrightarrow>
     py_each (\<lambda>md. na_import_remote_memory E h (Bytes md)) mds n = (r, n') \<Longrightarrow> spent n' \<or> r = Inr ()"
proof (induction mds arbitrary: n)
  case (Cons md mds)
  obtain x n1 where one: "na_import_remote_memory E h (Bytes md) n = (x, n1)" by fastforce
  show ?case
  proof (cases x)
    case (Inl e)
    with Cons.prems one import_returns [OF Cons.prems(1,2) _ one] show ?thesis by (simp add: py_defs)
  next
    case (Inr k)
    from import_Inr [OF Cons.prems(1) one [unfolded Inr]] Cons.prems(2) have "ok n1" "conn n1 h \<noteq> None" by simp_all
    from Cons.IH [OF this] one Inr Cons.prems(3,4) show ?thesis by (simp add: py_defs)
  qed
qed (simp add: py_defs)

lemma create_peer_returns: "wf s \<Longrightarrow> obliges (create_peer E e) s"
  unfolding create_peer_def using create_returns [OF wf_ok]
  by (intro obliges_bind obliges_native) (auto simp: obliges_def new_uuid_def new_peer_def py_defs)

lemma get_or_create_returns: "wf s \<Longrightarrow> obliges (get_or_create_peer E e) s"
  unfolding get_or_create_peer_def using create_peer_returns [of s e]
  by (intro obliges_gets_bind) (auto simp: obliges_def py_return_def split: option.splits)

lemma connect_native_returns:
  assumes s: "wf s" and ref: "registered ref s" "p_state (deref ref s) = CREATED"
    and off: "cn_endpoint (of_connection off) = p_endpoint (deref ref s)" "cn_id (of_connection off) \<noteq> []"
      "qp (of_metadata off)"
  shows "obliges (connect_native E ref off) s"
proof -
  from ref(1) have at: "map_of (cp_peers s) (p_endpoint (deref ref s)) = Some ref" by (simp add: registered_def)
  have "obliges (on_native (na_connect_peer E (p_handle (deref ref s)) (Bytes (of_metadata off)))) s"
    using wf_peer(5,6) [OF s at] ref(2) connect_returns [OF wf_ok [OF s] _ _ off(3), of "p_handle (deref ref s)"]
    by (intro obliges_native) fastforce
  then show ?thesis
    unfolding connect_native_def using ref(2) off
    by (intro obliges_gets_bind obliges_then obliges_raise_if) (simp_all add: obliges_then obliges_update py_raise_if_def py_return_def)
qed

lemma import_snapshot_returns:
  assumes s: "wf s" and ref: "linked ref s" and sound: "sound (sn_memories sn)"
  shows "obliges (import_snapshot E ref sn) s"
proof -
  have "conn (cp_native s) (p_handle (deref ref s)) \<noteq> None"
    using wf_peer(6) [OF s] ref by (auto simp: registered_def)
  note imports_return [OF wf_ok [OF s] this sound]
  then have "obliges (on_native (py_each (\<lambda>metadata. na_import_remote_memory E (p_handle (deref ref s))
      (Bytes metadata)) (sn_memories sn))) s" by (intro obliges_native) blast
  then show ?thesis
    unfolding import_snapshot_def
    by (intro obliges_gets_bind) (auto intro: obliges_then obliges_update obliges_return simp: py_return_def)
qed

text \<open>The sections before the native calls do what they are meant to.\<close>

lemma stub_returns: "obliges (stub e) s"
  using stub_eq [of e s "fst (stub e s)" "snd (stub e s)"] by (auto simp: obliges_def split: prod.splits)

lemma begin_returns:
  assumes "wf s" "\<not> cp_closed s" "e \<noteq> []" "e \<noteq> cp_endpoint s"
  shows "obliges (connect_begin E e) s"
proof -
  have "obliges (py_bind (get_or_create_peer E e) (\<lambda>ref. py_bind (py_gets (deref ref)) (\<lambda>peer.
      if p_state peer = READY then py_return (Already (p_handle peer))
      else py_then (stub e) (py_gets (\<lambda>s. Exchange ref (offer_of s peer)))))) s"
    using get_or_create_returns [OF assms(1)]
    by (intro obliges_bind obliges_gets_bind) (auto intro: obliges_then stub_returns obliges_gets obliges_return simp: py_return_def)
  with assms show ?thesis
    by (simp add: connect_begin_def check_endpoint_def check_open_def py_bind_def py_then_def py_gets_def py_raise_if_def
        py_return_def obliges_def)
qed

lemma connect_begin_offers:
  assumes s: "wf s" "map_of (cp_peers s) e = None" and run: "connect_begin E e s = (Inr x, t)"
  shows "\<exists>ref off. x = Exchange ref off \<and> registered ref t \<and>
    p_state (deref ref t) = CREATED \<and> p_endpoint (deref ref t) = e \<and> off = offer_of t (deref ref t)"
proof -
  from run s(2) have e: "e \<noteq> []" "e \<noteq> cp_endpoint s" by (auto simp: connect_begin_def py_eqs check_endpoint_eq)
  from run s(2) e obtain ref u where new: "create_peer E e s = (Inr ref, u)"
    and rest: "py_bind (py_gets (deref ref)) (\<lambda>peer. if p_state peer = READY then py_return (Already (p_handle peer))
      else py_then (stub e) (py_gets (\<lambda>s. Exchange ref (offer_of s peer)))) u = (Inr x, t)"
    by (auto simp: connect_begin_def get_or_create_peer_def check_endpoint_def py_eqs check_open_eq)
  from create_peer_run [OF new] have state: "p_state (deref ref u) = CREATED" "p_endpoint (deref ref u) = e" by auto
  have "map_of (cp_peers u) e = Some ref"
    using guardedD(3) [OF sec_create_peer s(1) _ new refl] s(2) e by blast
  with rest state show ?thesis
    by (auto simp: py_eqs registered_def offer_of_def connection_of_def dest!: stub_eq)
qed

lemma handle_Connect_returns:
  assumes t: "wf t" "\<not> cp_closed t" "map_of (cp_peers t) (cn_endpoint (of_connection off)) = None"
    and off: "cn_endpoint (of_connection off) \<noteq> []" "cn_endpoint (of_connection off) \<noteq> cp_endpoint t"
      "cn_id (of_connection off) \<noteq> []" "qp (of_metadata off)"
  shows "obliges (handle_Connect E off) t"
proof -
  let ?e = "cn_endpoint (of_connection off)"
  have native: "obliges (connect_native E ref off) u" if new: "create_peer E ?e t = (Inr ref, u)" for ref u
  proof -
    from create_peer_run [OF new] have state: "p_state (deref ref u) = CREATED" "p_endpoint (deref ref u) = ?e"
      by auto
    have pre: "map_of (cp_peers t) ?e = None \<and> ?e \<noteq> [] \<and> ?e \<noteq> cp_endpoint t" using t(3) off by simp
    note made = guardedD [OF sec_create_peer t(1) pre new]
    then have "registered ref u" using state(2) by (simp add: registered_def)
    from connect_native_returns [OF made(1) this state(1)] state(2) off show ?thesis by simp
  qed
  have "obliges (py_bind (create_peer E ?e) (\<lambda>ref. py_then (connect_native E ref off)
      (py_gets (\<lambda>s. offer_of s (deref ref s))))) t"
    by (intro obliges_bind obliges_then create_peer_returns t(1) native obliges_gets)
  with t off show ?thesis
    by (simp add: handle_Connect_def check_endpoint_def check_open_def get_or_create_peer_def obliges_def
        py_bind_def py_then_def py_gets_def py_raise_if_def py_return_def)
qed

lemma require_peer_returns:
  "registered ref s \<Longrightarrow> obliges k s \<Longrightarrow> obliges (py_then (require_peer ref) k) s"
  by (simp add: obliges_def require_peer_def registered_def py_bind_def py_then_def py_gets_def py_raise_if_def
      py_return_def)

lemma connect_local_obliges:
  assumes "registered ref s" and "obliges (connect_native E ref remote) s"
  shows "obliges (connect_local E ref remote) s"
  unfolding connect_local_def by (intro require_peer_returns obliges_then obliges_gets assms)

lemma connect_local_returns:
  assumes "wf s" "registered ref s" "p_state (deref ref s) = CREATED"
    and "cn_endpoint (of_connection remote) = p_endpoint (deref ref s)" "cn_id (of_connection remote) \<noteq> []"
    and "qp (of_metadata remote)"
  shows "obliges (connect_local E ref remote) s"
  by (rule connect_local_obliges [OF assms(2) connect_native_returns [OF assms]])

lemma connect_ready_returns:
  assumes "wf s" "linked ref s" "sound (sn_memories sn)"
  shows "obliges (connect_ready E ref sn) s"
  unfolding connect_ready_def using assms(2)
  by (intro require_peer_returns obliges_then import_snapshot_returns [OF assms] obliges_update obliges_gets) simp

lemma handle_Ready_returns:
  assumes t: "wf t" "\<not> cp_closed t" and b: "map_of (cp_peers t) (cn_endpoint (up_connection up)) = Some b"
    "p_remote_connection_id (deref b t) = cn_id (up_connection up)" "cn_id (up_connection up) \<noteq> []"
    and sound: "sound (sn_memories (up_snapshot up))"
  shows "obliges (handle_Ready E up) t"
proof -
  have "linked b t" using wf_registered [OF t(1) b(1)] wf_state(2) [OF t(1) wf_peer(1) [OF t(1) b(1)]] b(2,3) by simp
  note import_snapshot_returns [OF t(1) this sound]
  then have "obliges (py_then (import_snapshot E b (up_snapshot up)) (py_then (update_peer b (\<lambda>p. p\<lparr>p_state := READY\<rparr>))
      (py_gets snapshot_of))) t"
    by (auto intro: obliges_then obliges_update obliges_gets)
  with t(2) b show ?thesis
    by (simp add: obliges_def handle_Ready_def check_open_def find_connection_def py_bind_def py_then_def
        py_gets_def py_raise_if_def py_return_def)
qed

end

lemma fake_obliging:
  assumes "\<forall>k. u k \<noteq> []"
  shows "obliging_store (fake_env u) fake_ok fake_live fake_conn fake_imps (\<lambda>_. True) (\<lambda>_. True) (\<lambda>_. False)"
proof (intro obliging_store.intro control_store.intro [OF fake_peer_store])
  show "control_store_axioms (fake_env u)" using assms by (simp add: control_store_axioms_def)
  show "obliging_store_axioms (fake_env u) fake_ok fake_live fake_conn (\<lambda>_. True) (\<lambda>_. True) (\<lambda>_. False)"
  proof
    fix n h md r1 r2 r3 n'
    show "False \<or> (\<exists>pm. r1 = Inr pm)" if "na_create_peer (fake_env u) n = (r1, n')"
      using that by (auto simp: fake_create_peer_def fake_id_def py_defs)
    show "False \<or> r2 = Inr ()"
      if "fake_live n h \<noteq> None" "fake_conn n h = None" "na_connect_peer (fake_env u) h (Bytes md) n = (r2, n')"
      using that by (auto simp: fake_connect_peer_def fake_live_def fake_conn_def py_defs)
    show "False \<or> (\<exists>k. r3 = Inr k)"
      if "fake_conn n h \<noteq> None" "na_import_remote_memory (fake_env u) h (Bytes md) n = (r3, n')"
      using that by (auto simp: fake_import_remote_memory_def fake_conn_def fake_id_def py_defs split: option.splits)
  qed (auto intro: keepsI)
qed

interpretation obliging_fake: obliging_store demo_env fake_ok fake_live fake_conn fake_imps "\<lambda>_. True" "\<lambda>_. True" "\<lambda>_. False"
  by (rule fake_obliging) (simp add: demo_uuid_def)

text \<open>A step of two planes that returns unless an engine is spent then.\<close>

definition pair_returns ::
  "('n \<Rightarrow> bool) \<Rightarrow> ('k \<Rightarrow> bool) \<Rightarrow> ('n control \<times> 'k control, exn, 'a) py \<Rightarrow> 'n control \<times> 'k control \<Rightarrow> bool" where
  "pair_returns spent spent' m p \<longleftrightarrow>
     (case m p of (r, s, t) \<Rightarrow> spent (cp_native s) \<or> spent' (cp_native t) \<or> (\<exists>x. r = Inr x))"

lemma pair_returns_bind:
  assumes "pair_returns spent spent' m p" and "\<And>x s t. m p = (Inr x, s, t) \<Longrightarrow> pair_returns spent spent' (f x) (s, t)"
  shows "pair_returns spent spent' (py_bind m f) p"
proof -
  obtain r s t where m: "m p = (r, s, t)" by (metis prod.collapse)
  with assms show ?thesis by (cases r) (auto simp: pair_returns_def py_bind_def)
qed

lemma pair_returns_here:
  "(case m s of (r, s') \<Rightarrow> spent (cp_native s') \<or> (\<exists>x. r = Inr x)) \<Longrightarrow> pair_returns spent spent' (here m) (s, t)"
  by (auto simp: pair_returns_def here_def py_zoom_def split: prod.splits)

lemma pair_returns_there:
  "(case m t of (r, t') \<Rightarrow> spent' (cp_native t') \<or> (\<exists>x. r = Inr x)) \<Longrightarrow> pair_returns spent spent' (there m) (s, t)"
  by (auto simp: pair_returns_def there_def py_zoom_def split: prod.splits)

lemma handshake_returns:
  assumes E: "obliging_store E ok live conn imps qp mem spent"
    and F: "obliging_store F ok' live' conn' imps' qp mem spent'"
    and s: "control_wf ok live conn s" "\<not> cp_closed s" "map_of (cp_peers s) (cp_endpoint t) = None"
    and t: "control_wf ok' live' conn' t" "\<not> cp_closed t" "map_of (cp_peers t) (cp_endpoint s) = None"
    and published: "list_all mem (cp_memory_metadata s)" "list_all mem (cp_memory_metadata t)"
    and ends: "cp_endpoint s \<noteq> []" "cp_endpoint t \<noteq> []" "cp_endpoint s \<noteq> cp_endpoint t"
  shows "pair_returns spent spent' (handshake E F (cp_endpoint t)) (s, t)"
  unfolding handshake_def
proof (intro pair_returns_bind pair_returns_here)
  note ES = obliging_store.axioms(1) [OF E] and FS = obliging_store.axioms(1) [OF F]
  note obligesE = obliging_store.obliges_def [OF E] and obligesF = obliging_store.obliges_def [OF F]
  show "case connect_begin E (cp_endpoint t) s of (r, s') \<Rightarrow> spent (cp_native s') \<or> (\<exists>x. r = Inr x)"
    using obliging_store.begin_returns [OF E s(1,2), of "cp_endpoint t"] ends by (simp add: obligesE)
  fix start s1 t0
  assume "here (connect_begin E (cp_endpoint t)) (s, t) = (Inr start, s1, t0)"
  then have begin_run: "connect_begin E (cp_endpoint t) s = (Inr start, s1)" and "t0 = t" by (simp_all add: here_eq)
  from obliging_store.connect_begin_offers [OF E s(1,3) begin_run] obtain a off where
    start: "start = Exchange a off" and
    a: "registered a s1" "p_state (deref a s1) = CREATED" "p_endpoint (deref a s1) = cp_endpoint t"
      "off = offer_of s1 (deref a s1)" by blast
  note begun = guardedD(1,2) [OF control_store.sec_connect_begin [OF ES] s(1) TrueI begin_run]
  have own: "cp_endpoint s1 = cp_endpoint s" using begun(2) by (simp add: evolves_def)
  have a_less: "a < cp_next_ref s1" by (rule control_store.wf_registered_less [OF ES begun(1) a(1)])
  have off: "cn_endpoint (of_connection off) = cp_endpoint s" "cn_id (of_connection off) = p_connection_id (deref a s1)"
    "cn_id (of_connection off) \<noteq> []"
    using a(4) own control_store.wf_state(1) [OF ES begun(1) a_less] by (simp_all add: offer_of_def connection_of_def)
  have at: "map_of (cp_peers s1) (cp_endpoint t) = Some a" using a(1,3) by (simp add: registered_def)
  have "qp (of_metadata off)"
    using obliging_store.peer_well_formed [OF E begun(1) at] a(4) by (simp add: offer_of_def)
  with obliging_store.handle_Connect_returns [OF F t(1,2), of off] t(3) off ends
  have accept_returns: "case handle_Connect F off t of (r, t') \<Rightarrow> spent' (cp_native t') \<or> (\<exists>x. r = Inr x)"
    by (simp add: obligesF)
  have rest: "pair_returns spent spent' (py_bind (here (connect_local E a remote)) (\<lambda>update.
      py_bind (there (handle_Ready F update)) (\<lambda>snapshot. here (connect_ready E a snapshot)))) (s1, t1)"
    if accept: "handle_Connect F off t = (Inr remote, t1)" for remote t1
  proof (intro pair_returns_bind pair_returns_here pair_returns_there)
    note accepted = guardedD [OF control_store.sec_handle_Connect [OF FS] t(1) TrueI accept]
    from accepted(3) [OF refl] obtain b where
      b: "map_of (cp_peers t1) (cp_endpoint s) = Some b" "remote = offer_of t1 (deref b t1)"
        "p_remote_connection_id (deref b t1) = cn_id (of_connection off)" using off(1) by auto
    have remote: "cn_endpoint (of_connection remote) = cp_endpoint t" "cn_id (of_connection remote) \<noteq> []"
      using b(2) accepted(2) control_store.wf_state(1) [OF FS accepted(1) control_store.wf_peer(1) [OF FS accepted(1) b(1)]]
      by (simp_all add: offer_of_def connection_of_def evolves_def)
    have "qp (of_metadata remote)"
      using obliging_store.peer_well_formed [OF F accepted(1) b(1)] b(2) by (simp add: offer_of_def)
    with obliging_store.connect_local_returns [OF E begun(1) a(1,2), of remote] remote a(3)
    show "case connect_local E a remote s1 of (r, s') \<Rightarrow> spent (cp_native s') \<or> (\<exists>x. r = Inr x)"
      by (simp add: obligesE)
    fix up s2 t2 assume "here (connect_local E a remote) (s1, t1) = (Inr up, s2, t2)"
    then have local: "connect_local E a remote s1 = (Inr up, s2)" and t2: "t2 = t1" by (simp_all add: here_eq)
    note joined = guardedD [OF control_store.sec_connect_local [OF ES] begun(1) a_less local]
    have up: "cn_endpoint (up_connection up) = cp_endpoint s" "cn_id (up_connection up) = cn_id (of_connection off)"
      using joined(2,3) own off(2) a_less by (simp_all add: evolves_def peer_le_def)
    have "\<not> cp_closed t1"
      using control_store.handle_Connect_open [OF FS t(1) _ accept] t(2,3) off(1) by simp
    moreover have "list_all mem (sn_memories (up_snapshot up))"
      using connect_local_snapshot [OF local] connect_begin_metadata [OF begin_run] published(1) by (simp add: snapshot_of_def)
    ultimately show "case handle_Ready F up t2 of (r, t') \<Rightarrow> spent' (cp_native t') \<or> (\<exists>x. r = Inr x)"
      using obliging_store.handle_Ready_returns [OF F accepted(1), of up b] b up off(3) by (simp add: t2 obligesF)
    fix sn s3 t3 assume "there (handle_Ready F up) (s2, t2) = (Inr sn, s3, t3)"
    then have ready: "handle_Ready F up t1 = (Inr sn, t3)" and s3: "s3 = s2" by (simp_all add: there_eq t2)
    have "list_all mem (sn_memories sn)"
      using handle_Ready_snapshot [OF ready] handle_Connect_metadata [OF accept] published(2) by (simp add: snapshot_of_def)
    with obliging_store.connect_ready_returns [OF E joined(1), of a sn] joined(3)
    show "case connect_ready E a sn s3 of (r, s') \<Rightarrow> spent (cp_native s') \<or> (\<exists>x. r = Inr x)"
      by (simp add: s3 obligesE)
  qed
  show "pair_returns spent spent' (case start of Already handle \<Rightarrow> py_return handle
      | Exchange ref offer \<Rightarrow> py_bind (there (handle_Connect F offer)) (\<lambda>remote.
          py_bind (here (connect_local E ref remote)) (\<lambda>update.
          py_bind (there (handle_Ready F update)) (\<lambda>snapshot. here (connect_ready E ref snapshot))))) (s1, t0)"
    unfolding start connect_start.case \<open>t0 = t\<close>
    by (intro pair_returns_bind [where m = "there (handle_Connect F off)"] pair_returns_there)
      (use rest accept_returns in \<open>auto simp: there_eq\<close>)
qed

text \<open>
  C7: a handshake completes. Let two open planes without a peer for each other, at different nonempty endpoints, run
  over engines that understand each other's metadata and do what they are asked for until they run out of something,
  with memories published that both can read. Then \<open>connect\<close> returns a peer, unless an engine is spent by then: no
  step of the protocol refuses what another one made, nor asks an engine for what it may refuse.
\<close>

theorem handshake_completes:
  assumes E: "obliging_store E ok live conn imps qp mem spent"
    and F: "obliging_store F ok' live' conn' imps' qp mem spent'"
    and s: "control_wf ok live conn s" "\<not> cp_closed s" "map_of (cp_peers s) (cp_endpoint t) = None"
    and t: "control_wf ok' live' conn' t" "\<not> cp_closed t" "map_of (cp_peers t) (cp_endpoint s) = None"
    and published: "list_all mem (cp_memory_metadata s)" "list_all mem (cp_memory_metadata t)"
    and ends: "cp_endpoint s \<noteq> []" "cp_endpoint t \<noteq> []" "cp_endpoint s \<noteq> cp_endpoint t"
  shows "\<exists>r s' t'. handshake E F (cp_endpoint t) (s, t) = (r, s', t') \<and>
    ((\<exists>h. r = Inr h) \<or> spent (cp_native s') \<or> spent' (cp_native t'))"
  using handshake_returns [OF assms] by (auto simp: pair_returns_def split: prod.splits)

section \<open>Two processes of the tests\<close>

text \<open>\<open>n0\<close> has published a memory and connects to the fresh \<open>n1\<close>.\<close>

lemma demo_planes_wf:
  "control_wf fake_ok fake_live fake_conn demo_published"
  "control_wf fake_ok fake_live fake_conn (demo_start ''n1'')"
  using fake_ok_init by (simp_all add: control_wf_def demo_published_def demo_start_def publish_begin_def
      check_open_def py_defs dict_ok_def)

lemma demo_planes_sel:
  "cp_peers demo_published = []" "cp_peers (demo_start h) = []" "cp_endpoint demo_published = ''n0:1''"
  "cp_endpoint (demo_start h) = h @ '':1''" "\<not> cp_closed demo_published" "\<not> cp_closed (demo_start h)"
  by (simp_all add: demo_published_def demo_start_def publish_begin_def check_open_def py_defs)

theorem handshake_completes_witness:
  "\<exists>h s t. handshake demo_env demo_env ''n1:1'' (demo_published, demo_start ''n1'') = (Inr h, s, t)"
  using handshake_completes [OF obliging_fake.obliging_store_axioms obliging_fake.obliging_store_axioms
      demo_planes_wf(1) _ _ demo_planes_wf(2)]
  by (auto simp: demo_planes_sel list_all_iff)

lemma demo_handshake: "fst (handshake demo_env demo_env ''n1:1'' (demo_published, demo_start ''n1'')) = Inr 1"
  by (simp add: handshake_def here_def there_def demo_state_defs control_run_defs fake_create_peer_def
      fake_init_def deref_def demo_uuid_def decimal_digits del: heap_deref)

theorem handshake_links_both_ends_witness:
  "\<exists>s t b. handshake demo_env demo_env ''n1:1'' (demo_published, demo_start ''n1'') = (Inr 1, s, t) \<and>
     map_of (cp_peers t) ''n0:1'' = Some b \<and> p_state (deref b t) = READY \<and>
     fake_conn (cp_native s) 1 = Some (p_metadata (deref b t))"
proof -
  from demo_handshake obtain s t where
    run: "handshake demo_env demo_env ''n1:1'' (demo_published, demo_start ''n1'') = (Inr 1, s, t)"
    by (metis prod.collapse)
  from handshake_links_both_ends [OF fake_control.control_store_axioms fake_control.control_store_axioms
      demo_planes_wf(1) _ demo_planes_wf(2) _ run] run
  show ?thesis by (auto simp: demo_planes_sel)
qed

end
