(* ===== verification/Link_Spec.thy ===== *)
theory Link_Spec
  imports Handshake
begin

text \<open>
  What \<^verbatim>\<open>ControlPlane\<close> promises to a remote process, as an automaton: per endpoint there is nothing, or
  a link with its state, the remote connection id and the imported version. The four handlers refine it over
  any native engine, answers included: what the engine refuses is an input of the automaton.
\<close>

section \<open>The automaton\<close>

type_synonym links = "string \<Rightarrow> (peer_state \<times> string \<times> int) option"

definition link_view :: "peer \<Rightarrow> peer_state \<times> string \<times> int" where
  "link_view p = (p_state p, p_remote_connection_id p, p_remote_version p)"

definition links_of :: "'n control \<Rightarrow> links" where
  "links_of s e = map_option (\<lambda>ref. link_view (deref ref s)) (map_of (cp_peers s) e)"

text \<open>What the native engine does of what a request needs: \<open>None\<close> where it grants it, else its exception.\<close>

record verdict =
  vd_create :: "exn option"
  vd_connect :: "exn option"
  vd_import :: "exn option"
  vd_destroy :: "exn option"

text \<open>An offer makes a link unless there is one; with an id it connects a link that is only made.\<close>

definition link_join :: "exn option \<Rightarrow> string \<Rightarrow> string \<Rightarrow> peer_state \<times> string \<times> int \<Rightarrow> links \<Rightarrow> (exn + unit) \<times> links" where
  "link_join refused e i link m = (case link of (state, remote, version) \<Rightarrow>
     if i = [] then (Inl (ValueError (Msg ''unexpected connection identity'')), m)
     else if state = CREATED
     then (case refused of Some x \<Rightarrow> (Inl x, m) | None \<Rightarrow> (Inr (), m(e \<mapsto> (CONNECTED, i, version))))
     else if remote \<noteq> i then (Inl (RuntimeError (Msg ''endpoint already has a different connection'')), m)
     else (Inr (), m))"

definition link_connect :: "verdict \<Rightarrow> string \<Rightarrow> string \<Rightarrow> links \<Rightarrow> (exn + unit) \<times> links" where
  "link_connect v e i m =
     (case m e of
        Some link \<Rightarrow> link_join (vd_connect v) e i link m
      | None \<Rightarrow> (case vd_create v of
          Some x \<Rightarrow> (Inl x, m)
        | None \<Rightarrow> link_join (vd_connect v) e i (CREATED, [], - 1) (m(e \<mapsto> (CREATED, [], - 1)))))"

text \<open>An update counts for the link with its id; a newer version is recorded once its memories are imported.\<close>

definition link_update ::
  "verdict \<Rightarrow> (peer_state \<Rightarrow> peer_state) \<Rightarrow> string \<Rightarrow> string \<Rightarrow> int \<Rightarrow> links \<Rightarrow> (exn + unit) \<times> links" where
  "link_update v f e i new m =
     (case m e of
        None \<Rightarrow> (Inl (ValueError (Msg ''unknown connection'')), m)
      | Some (state, remote, version) \<Rightarrow>
          if i = [] \<or> remote \<noteq> i then (Inl (ValueError (Msg ''unknown connection'')), m)
          else if new \<le> version then (Inr (), m(e \<mapsto> (f state, remote, version)))
          else (case vd_import v of
            Some x \<Rightarrow> (Inl x, m)
          | None \<Rightarrow> (Inr (), m(e \<mapsto> (f state, remote, new)))))"

definition link_close :: "verdict \<Rightarrow> string \<Rightarrow> string \<Rightarrow> links \<Rightarrow> (exn + unit) \<times> links" where
  "link_close v e i m =
     (case m e of
        None \<Rightarrow> (Inr (), m)
      | Some (state, remote, version) \<Rightarrow>
          if remote \<noteq> i then (Inr (), m)
          else (case vd_destroy v of Some x \<Rightarrow> (Inl x, m) | None \<Rightarrow> (Inr (), m(e := None))))"

text \<open>A closed process serves nothing; its own endpoint and the empty one are never linked.\<close>

abbreviation closed_answer :: "exn + unit" where
  "closed_answer \<equiv> Inl (RuntimeError (Msg ''engine is closed''))"

fun link_serve :: "string \<Rightarrow> bool \<Rightarrow> verdict \<Rightarrow> rpc_call \<Rightarrow> links \<Rightarrow> (exn + unit) \<times> links" where
  "link_serve own closed v (CallConnect off) m =
     (if cn_endpoint (of_connection off) \<in> {[], own}
      then (Inl (ValueError (Msg ''a different remote Engine endpoint is required'')), m)
      else if closed then (closed_answer, m)
      else link_connect v (cn_endpoint (of_connection off)) (cn_id (of_connection off)) m)"
| "link_serve own closed v (CallReady up) m =
     (if closed then (closed_answer, m)
      else link_update v (\<lambda>_. READY) (cn_endpoint (up_connection up)) (cn_id (up_connection up))
             (sn_version (up_snapshot up)) m)"
| "link_serve own closed v (CallChanged up) m =
     (if closed then (closed_answer, m)
      else link_update v id (cn_endpoint (up_connection up)) (cn_id (up_connection up))
             (sn_version (up_snapshot up)) m)"
| "link_serve own closed v (CallClose c) m =
     (if closed then (closed_answer, m) else link_close v (cn_endpoint c) (cn_id c) m)"

text \<open>A sequence of requests, with what the engine does of each.\<close>

fun link_run :: "string \<Rightarrow> bool \<Rightarrow> (verdict \<times> rpc_call) list \<Rightarrow> links \<Rightarrow> (exn + unit) list \<times> links" where
  "link_run own closed [] m = ([], m)"
| "link_run own closed ((v, call) # calls) m = (case link_serve own closed v call m of (answer, m') \<Rightarrow>
     (case link_run own closed calls m' of (answers, m'') \<Rightarrow> (answer # answers, m'')))"

section \<open>What the handlers do\<close>

text \<open>Whether a handler returns, or what it raises.\<close>

fun answer_one :: "('n, 'z) control_env_scheme \<Rightarrow> rpc_call \<Rightarrow> 'n control \<Rightarrow> exn + unit" where
  "answer_one E (CallConnect request) s = map_sum id (\<lambda>_. ()) (fst (handle_Connect E request s))"
| "answer_one E (CallReady request) s = map_sum id (\<lambda>_. ()) (fst (handle_Ready E request s))"
| "answer_one E (CallChanged request) s = fst (handle_Changed E request s)"
| "answer_one E (CallClose request) s = fst (handle_Close E request s)"

fun answers :: "('n, 'z) control_env_scheme \<Rightarrow> rpc_call list \<Rightarrow> 'n control \<Rightarrow> (exn + unit) list" where
  "answers E [] s = []"
| "answers E (call # calls) s = answer_one E call s # answers E calls (serve_one E call s)"

text \<open>The calls of the native engine a request leads to, in the states in which they are made.\<close>

definition refusal :: "(exn + 'a) \<times> 'n \<Rightarrow> exn option" where
  "refusal p = (case fst p of Inl x \<Rightarrow> Some x | Inr _ \<Rightarrow> None)"

definition verdict_connect :: "('n, 'z) control_env_scheme \<Rightarrow> offer \<Rightarrow> 'n control \<Rightarrow> exn option" where
  "verdict_connect E off s = (case map_of (cp_peers s) (cn_endpoint (of_connection off)) of
     Some ref \<Rightarrow> refusal (na_connect_peer E (p_handle (deref ref s)) (Bytes (of_metadata off)) (cp_native s))
   | None \<Rightarrow> (case na_create_peer E (cp_native s) of
       (Inl _, n) \<Rightarrow> None
     | (Inr pm, n) \<Rightarrow> refusal (na_connect_peer E (pm_peer pm) (Bytes (of_metadata off)) n)))"

definition verdict_import :: "('n, 'z) control_env_scheme \<Rightarrow> update \<Rightarrow> 'n control \<Rightarrow> exn option" where
  "verdict_import E up s = (case map_of (cp_peers s) (cn_endpoint (up_connection up)) of
     None \<Rightarrow> None
   | Some ref \<Rightarrow> refusal (py_each (\<lambda>md. na_import_remote_memory E (p_handle (deref ref s)) (Bytes md))
       (sn_memories (up_snapshot up)) (cp_native s)))"

definition verdict_destroy :: "('n, 'z) control_env_scheme \<Rightarrow> connection \<Rightarrow> 'n control \<Rightarrow> exn option" where
  "verdict_destroy E c s = (case map_of (cp_peers s) (cn_endpoint c) of
     None \<Rightarrow> None | Some ref \<Rightarrow> refusal (na_destroy_peer E (p_handle (deref ref s)) (cp_native s)))"

fun verdict_of :: "('n, 'z) control_env_scheme \<Rightarrow> rpc_call \<Rightarrow> 'n control \<Rightarrow> verdict" where
  "verdict_of E (CallConnect off) s = \<lparr>vd_create = refusal (na_create_peer E (cp_native s)),
     vd_connect = verdict_connect E off s, vd_import = None, vd_destroy = None\<rparr>"
| "verdict_of E (CallReady up) s =
     \<lparr>vd_create = None, vd_connect = None, vd_import = verdict_import E up s, vd_destroy = None\<rparr>"
| "verdict_of E (CallChanged up) s =
     \<lparr>vd_create = None, vd_connect = None, vd_import = verdict_import E up s, vd_destroy = None\<rparr>"
| "verdict_of E (CallClose c) s =
     \<lparr>vd_create = None, vd_connect = None, vd_import = None, vd_destroy = verdict_destroy E c s\<rparr>"

fun judged :: "('n, 'z) control_env_scheme \<Rightarrow> rpc_call list \<Rightarrow> 'n control \<Rightarrow> (verdict \<times> rpc_call) list" where
  "judged E [] s = []"
| "judged E (call # calls) s = (verdict_of E call s, call) # judged E calls (serve_one E call s)"

section \<open>They refine it\<close>

abbreviation same_plane :: "'n control \<Rightarrow> 'n control \<Rightarrow> bool" where
  "same_plane s t \<equiv> cp_endpoint t = cp_endpoint s \<and> cp_closed t = cp_closed s"

lemma refusal_Inr [simp]: "refusal (Inr x, n) = None"
  by (simp add: refusal_def)

lemma refusal_Inl [simp]: "refusal (Inl e, n) = Some e"
  by (simp add: refusal_def)

lemma links_of_frame [simp]:
  "links_of (s\<lparr>cp_native := n\<rparr>) = links_of s" "links_of (s\<lparr>cp_channels := c\<rparr>) = links_of s"
  by (simp_all add: links_of_def fun_eq_iff)

context control_store
begin

lemma links_of_update:
  assumes s: "wf s" and ref: "registered ref s" and p: "p_endpoint p = p_endpoint (deref ref s)"
  shows "links_of (s\<lparr>cp_native := n, cp_heap := (cp_heap s)(ref := p)\<rparr>) =
    (links_of s)(p_endpoint (deref ref s) \<mapsto> link_view p)"
proof
  fix e
  show "links_of (s\<lparr>cp_native := n, cp_heap := (cp_heap s)(ref := p)\<rparr>) e =
    ((links_of s)(p_endpoint (deref ref s) \<mapsto> link_view p)) e"
    using ref wf_peer(4) [OF s, of e]
    by (cases "map_of (cp_peers s) e") (auto simp: links_of_def registered_def)
qed

lemma create_links:
  assumes s: "wf s" and run: "create_peer E e s = (Inr ref, t)"
  shows "links_of t = (links_of s)(e \<mapsto> (CREATED, [], - 1)) \<and> same_plane s t"
proof -
  show ?thesis
    using create_peer_run [OF run]
  proof (elim disjE exE conjE)
    fix pm n
    assume t: "t = s\<lparr>cp_native := n, cp_peers := AList.update e (cp_next_ref s) (cp_peers s),
        cp_heap := (cp_heap s)(cp_next_ref s := \<lparr>p_handle = pm_peer pm, p_endpoint = e,
          p_metadata = pm_metadata pm, p_connection_id = uuid4_hex E (cp_uuids s),
          p_remote_connection_id = [], p_state = CREATED, p_remote_version = - 1\<rparr>),
        cp_next_ref := Suc (cp_next_ref s), cp_uuids := Suc (cp_uuids s)\<rparr>"
    have "links_of t x = ((links_of s)(e \<mapsto> (CREATED, [], - 1))) x" for x
      using wf_peer(1) [OF s, of x]
      by (cases "map_of (cp_peers s) x") (auto simp: t links_of_def link_view_def dict_get_update)
    then show ?thesis by (auto simp: t)
  qed simp
qed

lemma at_link: "registered ref s \<Longrightarrow> links_of s (p_endpoint (deref ref s)) = Some (link_view (deref ref s))"
  by (simp add: links_of_def registered_def)

lemma connect_native_links:
  assumes s: "wf s" and ref: "registered ref s"
    and off: "cn_endpoint (of_connection off) = p_endpoint (deref ref s)"
    and run: "connect_native E ref off s = (r, t)"
  shows "(r, links_of t) = link_join
      (refusal (na_connect_peer E (p_handle (deref ref s)) (Bytes (of_metadata off)) (cp_native s)))
      (p_endpoint (deref ref s)) (cn_id (of_connection off)) (link_view (deref ref s)) (links_of s) \<and> same_plane s t"
proof (cases "p_state (deref ref s) = CREATED \<and> cn_id (of_connection off) \<noteq> []")
  case True
  obtain x n where native: "na_connect_peer E (p_handle (deref ref s)) (Bytes (of_metadata off)) (cp_native s) = (x, n)"
    by fastforce
  show ?thesis
  proof (cases x)
    case (Inl e)
    with run True native off have "r = Inl e" "t = s\<lparr>cp_native := n\<rparr>"
      by (auto simp: connect_native_def on_native_def py_defs)
    with True native Inl show ?thesis by (simp add: link_join_def link_view_def)
  next
    case (Inr u)
    with run True native off have r: "r = Inr ()" and t: "t = s\<lparr>cp_native := n, cp_heap := (cp_heap s)(ref := (deref ref s)
        \<lparr>p_remote_connection_id := cn_id (of_connection off), p_state := CONNECTED\<rparr>)\<rparr>"
      by (auto simp: connect_native_def on_native_def update_peer_def py_defs)
    show ?thesis
      unfolding t by (subst links_of_update [OF s ref]) (use True native Inr r in \<open>simp_all add: link_join_def link_view_def\<close>)
  qed
next
  case False
  with run off show ?thesis
    by (auto simp: connect_native_def link_join_def link_view_def py_defs split: if_splits)
qed

lemma import_links:
  assumes s: "wf s" and ref: "linked ref s" and run: "import_snapshot E ref sn s = (r, t)"
  shows "(r, links_of t) = (if sn_version sn \<le> p_remote_version (deref ref s) then (Inr (), links_of s)
     else case refusal (py_each (\<lambda>md. na_import_remote_memory E (p_handle (deref ref s)) (Bytes md)) (sn_memories sn)
         (cp_native s)) of
       Some x \<Rightarrow> (Inl x, links_of s)
     | None \<Rightarrow> (Inr (), (links_of s)(p_endpoint (deref ref s) \<mapsto> (p_state (deref ref s),
         p_remote_connection_id (deref ref s), sn_version sn)))) \<and> same_plane s t"
proof -
  have ref': "registered ref s" using ref by simp
  show ?thesis
    using import_snapshot_run [OF run]
  proof (elim disjE exE conjE)
    assume "t = s" "r = Inr ()" "sn_version sn \<le> p_remote_version (deref ref s)"
    then show ?thesis by simp
  next
    fix x n
    assume newer: "p_remote_version (deref ref s) < sn_version sn"
      and each: "py_each (\<lambda>md. na_import_remote_memory E (p_handle (deref ref s)) (Bytes md)) (sn_memories sn)
        (cp_native s) = (x, n)"
      and result: "case x of Inl e \<Rightarrow> r = Inl e \<and> t = s\<lparr>cp_native := n\<rparr>
        | Inr _ \<Rightarrow> r = Inr () \<and> t = s\<lparr>cp_native := n, cp_heap := (cp_heap s)(ref := (deref ref s)
            \<lparr>p_remote_version := sn_version sn\<rparr>)\<rparr>"
    show ?thesis
    proof (cases x)
      case (Inl e)
      with newer each result show ?thesis by simp
    next
      case (Inr u)
      with result have t: "t = s\<lparr>cp_native := n, cp_heap := (cp_heap s)(ref := (deref ref s)
          \<lparr>p_remote_version := sn_version sn\<rparr>)\<rparr>" and r: "r = Inr ()" by simp_all
      show ?thesis
        unfolding t by (subst links_of_update [OF s ref']) (use newer r each Inr in \<open>simp_all add: link_view_def\<close>)
    qed
  qed
qed

lemma handle_Connect_links:
  assumes s: "wf s" and live: "\<not> cp_closed s"
    and e: "cn_endpoint (of_connection off) \<noteq> []" "cn_endpoint (of_connection off) \<noteq> cp_endpoint s"
  shows "(answer_one E (CallConnect off) s, links_of (serve_one E (CallConnect off) s)) =
      link_connect (verdict_of E (CallConnect off) s) (cn_endpoint (of_connection off)) (cn_id (of_connection off))
        (links_of s) \<and> same_plane s (serve_one E (CallConnect off) s)"
proof -
  let ?e = "cn_endpoint (of_connection off)" and ?i = "cn_id (of_connection off)"
  have via: "answer_one E (CallConnect off) s = fst (connect_native E ref off u) \<and>
      serve_one E (CallConnect off) s = snd (connect_native E ref off u)"
    if "get_or_create_peer E ?e s = (Inr ref, u)" for ref u
    using live e that by (cases "connect_native E ref off u"; cases "fst (connect_native E ref off u)")
      (auto simp: handle_Connect_def check_endpoint_def check_open_def py_bind_def py_then_def py_gets_def
        py_raise_if_def py_return_def)
  show ?thesis
  proof (cases "map_of (cp_peers s) ?e")
    case (Some ref)
    then have "get_or_create_peer E ?e s = (Inr ref, s)"
      by (simp add: get_or_create_peer_def py_bind_def py_gets_def py_return_def)
    note t = via [OF this]
    from connect_native_links [OF s wf_registered [OF s Some] _ prod.collapse [symmetric]] wf_peer(4) [OF s Some] t Some
    show ?thesis by (simp add: link_connect_def verdict_connect_def links_of_def)
  next
    case None
    obtain r u where create: "create_peer E ?e s = (r, u)" by fastforce
    with None have get: "get_or_create_peer E ?e s = (r, u)"
      by (simp add: get_or_create_peer_def py_bind_def py_gets_def)
    have none: "links_of s ?e = None" using None by (simp add: links_of_def)
    show ?thesis
      using create_peer_run [OF create]
    proof (elim disjE exE conjE)
      fix x n
      assume "r = Inl x" "na_create_peer E (cp_native s) = (Inl x, n)" "u = s\<lparr>cp_native := n\<rparr>"
      with get live e none show ?thesis
        by (simp add: handle_Connect_def check_endpoint_def check_open_def py_bind_def py_then_def py_gets_def
            py_raise_if_def py_return_def link_connect_def)
    next
      fix pm n
      assume ref: "r = Inr (cp_next_ref s)" and native: "na_create_peer E (cp_native s) = (Inr pm, n)"
        and u: "u = s\<lparr>cp_native := n, cp_peers := AList.update ?e (cp_next_ref s) (cp_peers s),
         cp_heap := (cp_heap s)(cp_next_ref s := \<lparr>p_handle = pm_peer pm, p_endpoint = ?e,
           p_metadata = pm_metadata pm, p_connection_id = uuid4_hex E (cp_uuids s),
           p_remote_connection_id = [], p_state = CREATED, p_remote_version = - 1\<rparr>),
         cp_next_ref := Suc (cp_next_ref s), cp_uuids := Suc (cp_uuids s)\<rparr>"
      note t = via [OF get [unfolded ref]] and created = create_links [OF s create [unfolded ref]]
      have pre: "map_of (cp_peers s) ?e = None \<and> ?e \<noteq> [] \<and> ?e \<noteq> cp_endpoint s" using None e by simp
      note made = guardedD [OF sec_create_peer s pre create]
      have at: "map_of (cp_peers u) ?e = Some (cp_next_ref s)" using made(3) ref by simp
      have new: "p_handle (deref (cp_next_ref s) u) = pm_peer pm" "cp_native u = n"
        "link_view (deref (cp_next_ref s) u) = (CREATED, [], - 1)" by (simp_all add: u link_view_def)
      from connect_native_links [OF made(1) wf_registered [OF made(1) at] _ prod.collapse [symmetric]]
        wf_peer(4) [OF made(1) at] t new created none None native
      show ?thesis by (simp add: link_connect_def verdict_connect_def)
    qed
  qed
qed

text \<open>Looking up a connection finds the link with its id.\<close>

lemma find_connection_links:
  assumes s: "wf s" and run: "find_connection c s = (r, t)"
  shows "t = s \<and> (case r of
      Inl x \<Rightarrow> link_update v f (cn_endpoint c) (cn_id c) new (links_of s) = (Inl x, links_of s)
    | Inr ref \<Rightarrow> linked ref s \<and> p_endpoint (deref ref s) = cn_endpoint c \<and> cn_id c \<noteq> [] \<and>
        p_remote_connection_id (deref ref s) = cn_id c)"
proof (cases r)
  case (Inl x)
  with run show ?thesis
    by (auto simp: find_connection_def py_bind_def py_gets_def py_raise_def py_return_def links_of_def link_update_def
        link_view_def split: option.splits if_splits)
next
  case (Inr ref)
  with run have found: "map_of (cp_peers s) (cn_endpoint c) = Some ref" "cn_id c \<noteq> []"
    "p_remote_connection_id (deref ref s) = cn_id c" "t = s" by (auto simp: find_connection_eq)
  with Inr show ?thesis
    using wf_peer(4) [OF s found(1)] wf_registered [OF s found(1)] wf_state(2) [OF s wf_peer(1) [OF s found(1)]]
    by simp
qed

lemma handle_Changed_links:
  assumes s: "wf s" and live: "\<not> cp_closed s" and run: "handle_Changed E up s = (r, t)"
  shows "(r, links_of t) = link_update (verdict_of E (CallChanged up) s) id (cn_endpoint (up_connection up))
      (cn_id (up_connection up)) (sn_version (up_snapshot up)) (links_of s) \<and> same_plane s t"
proof -
  obtain x u where find: "find_connection (up_connection up) s = (x, u)" by fastforce
  note found = find_connection_links [OF s find, of "verdict_of E (CallChanged up) s" id "sn_version (up_snapshot up)"]
  note defs = handle_Changed_def check_open_def py_bind_def py_then_def py_gets_def py_raise_if_def py_return_def
  show ?thesis
  proof (cases x)
    case (Inl e)
    with run live find found show ?thesis by (simp add: defs)
  next
    case (Inr ref)
    with found have ref: "linked ref s" "p_endpoint (deref ref s) = cn_endpoint (up_connection up)"
      "p_remote_connection_id (deref ref s) = cn_id (up_connection up)" "cn_id (up_connection up) \<noteq> []" by simp_all
    then have link: "map_of (cp_peers s) (cn_endpoint (up_connection up)) = Some ref"
      "links_of s (cn_endpoint (up_connection up)) = Some (link_view (deref ref s))"
      using at_link [of ref s] by (simp_all add: registered_def)
    from run live find found Inr have "import_snapshot E ref (up_snapshot up) s = (r, t)" by (simp add: defs)
    from import_links [OF s ref(1) this] ref(2-4) link show ?thesis
      by (auto simp: link_update_def link_view_def verdict_import_def fun_upd_idem split: if_splits option.splits)
  qed
qed

lemma handle_Ready_links:
  assumes s: "wf s" and live: "\<not> cp_closed s" and run: "handle_Ready E up s = (r, t)"
  shows "(map_sum id (\<lambda>_. ()) r, links_of t) = link_update (verdict_of E (CallReady up) s) (\<lambda>_. READY)
      (cn_endpoint (up_connection up)) (cn_id (up_connection up)) (sn_version (up_snapshot up)) (links_of s) \<and>
    same_plane s t"
proof -
  obtain x u where find: "find_connection (up_connection up) s = (x, u)" by fastforce
  note found = find_connection_links [OF s find, of "verdict_of E (CallReady up) s" "\<lambda>_. READY" "sn_version (up_snapshot up)"]
  note defs = handle_Ready_def check_open_def py_bind_def py_then_def py_gets_def py_raise_if_def py_return_def
  show ?thesis
  proof (cases x)
    case (Inl e)
    with run live find found show ?thesis by (auto simp: defs)
  next
    case (Inr ref)
    with found have ref: "linked ref s" "p_endpoint (deref ref s) = cn_endpoint (up_connection up)"
      "p_remote_connection_id (deref ref s) = cn_id (up_connection up)" "cn_id (up_connection up) \<noteq> []" by simp_all
    then have link: "map_of (cp_peers s) (cn_endpoint (up_connection up)) = Some ref"
      "links_of s (cn_endpoint (up_connection up)) = Some (link_view (deref ref s))"
      using at_link [of ref s] by (simp_all add: registered_def)
    obtain y v where v: "import_snapshot E ref (up_snapshot up) s = (y, v)" by fastforce
    note imported = import_links [OF s ref(1) v] and sec = guardedD [OF sec_import_snapshot s ref(1) v]
    show ?thesis
    proof (cases y)
      case (Inl e)
      with run live find found Inr v have "r = Inl e" "t = v" by (simp_all add: defs)
      with Inl imported ref(2-4) link show ?thesis
        by (auto simp: link_update_def link_view_def verdict_import_def split: if_splits option.splits)
    next
      case (Inr w)
      have reg: "registered ref v" using sec(3) Inr by simp
      let ?p = "(deref ref v)\<lparr>p_state := READY\<rparr>"
      have t: "t = v\<lparr>cp_native := cp_native v, cp_heap := (cp_heap v)(ref := ?p)\<rparr>" and r: "map_sum id (\<lambda>_. ()) r = Inr ()"
        using run live find found \<open>x = Inr ref\<close> Inr v by (auto simp: defs update_peer_def py_modify_def)
      have e: "p_endpoint (deref ref v) = cn_endpoint (up_connection up)"
        using sec(2) ref wf_registered_less [OF s, of ref] by (simp add: evolves_def peer_le_def)
      have "links_of t = (links_of v)(p_endpoint (deref ref v) \<mapsto> link_view ?p)"
        unfolding t by (rule links_of_update [OF sec(1) reg]) simp
      with at_link [OF reg] imported ref(2-4) link e r Inr show ?thesis
        by (auto simp: link_update_def link_view_def verdict_import_def t split: if_splits option.splits)
    qed
  qed
qed

lemma handle_Close_links:
  assumes s: "wf s" and live: "\<not> cp_closed s" and run: "handle_Close E c s = (r, t)"
  shows "(r, links_of t) = link_close (verdict_of E (CallClose c) s) (cn_endpoint c) (cn_id c) (links_of s) \<and>
    same_plane s t"
proof (cases "map_of (cp_peers s) (cn_endpoint c)")
  case None
  with run live show ?thesis
    by (auto simp: handle_Close_def check_open_def py_defs links_of_def link_close_def)
next
  case (Some ref)
  have e: "p_endpoint (deref ref s) = cn_endpoint c" using wf_peer(4) [OF s Some] .
  show ?thesis
  proof (cases "p_remote_connection_id (deref ref s) = cn_id c")
    case True
    with run live Some e have "drop_peer (p_handle (deref ref s)) (cn_endpoint c) s = (r, t)"
      by (simp add: handle_Close_def check_open_def py_bind_def py_gets_def py_then_def py_raise_if_def py_return_def)
    from drop_peer_run [OF s Some this] True Some show ?thesis
      by (auto simp: link_close_def links_of_def link_view_def verdict_destroy_def fun_eq_iff dict_get_delete)
  next
    case False
    with run live Some show ?thesis
      by (auto simp: handle_Close_def check_open_def py_defs links_of_def link_close_def link_view_def)
  qed
qed

lemma serve_one_links:
  assumes s: "wf s"
  shows "(answer_one E call s, links_of (serve_one E call s)) =
      link_serve (cp_endpoint s) (cp_closed s) (verdict_of E call s) call (links_of s) \<and>
    same_plane s (serve_one E call s)"
proof (cases "cp_closed s")
  case True
  then show ?thesis
    by (cases call) (auto simp: handle_Connect_def handle_Ready_def handle_Changed_def handle_Close_def
        check_open_def check_endpoint_def py_defs)
next
  case False
  show ?thesis
  proof (cases call)
    case (CallConnect off)
    show ?thesis
    proof (cases "cn_endpoint (of_connection off) \<in> {[], cp_endpoint s}")
      case True
      with CallConnect show ?thesis by (auto simp: handle_Connect_def check_endpoint_def py_defs)
    next
      case fine: False
      with False handle_Connect_links [OF s False, of off] CallConnect show ?thesis by auto
    qed
  next
    case (CallReady up)
    with False handle_Ready_links [OF s False prod.collapse [symmetric], of up] show ?thesis by simp
  next
    case (CallChanged up)
    with False handle_Changed_links [OF s False prod.collapse [symmetric], of up] show ?thesis by simp
  next
    case (CallClose c)
    with False handle_Close_links [OF s False prod.collapse [symmetric], of c] show ?thesis by simp
  qed
qed

lemma serve_links:
  "wf s \<Longrightarrow> (answers E calls s, links_of (serve E calls s)) =
       link_run (cp_endpoint s) (cp_closed s) (judged E calls s) (links_of s) \<and> same_plane s (serve E calls s)"
proof (induction calls arbitrary: s)
  case (Cons call calls)
  note one = serve_one_links [OF Cons.prems, of call] and wf = sec_serve_one [OF Cons.prems, of call]
  have serve: "serve E (call # calls) s = serve E calls (serve_one E call s)" by (simp add: serve_def)
  from one have "link_serve (cp_endpoint s) (cp_closed s) (verdict_of E call s) call (links_of s) =
    (answer_one E call s, links_of (serve_one E call s))" by simp
  moreover from Cons.IH [of "serve_one E call s"] wf one have
    "link_run (cp_endpoint s) (cp_closed s) (judged E calls (serve_one E call s)) (links_of (serve_one E call s)) =
      (answers E calls (serve_one E call s), links_of (serve E calls (serve_one E call s)))"
    "same_plane s (serve E calls (serve_one E call s))" by simp_all
  ultimately show ?case by (simp add: serve)
qed (simp add: serve_def)

end

text \<open>
  C18: the handlers refine the link automaton. Over any native engine with the contract of peers, whatever it grants
  and refuses, any sequence of requests, valid or not, moves the links of a plane exactly as the automaton does, for
  every endpoint at once, and each handler returns exactly when the automaton grants the request and otherwise raises
  the exception the automaton gives, its own or that of the engine: an offer makes a link and, with an id, connects it; an update with the id of a link
  completes it or records its version once the memories are imported; a close with its id removes it; and every other
  request, as every request to a closed plane, changes nothing.
\<close>

theorem handlers_refine_links:
  assumes "control_store E ok live conn imps" and "control_wf ok live conn s"
  shows "(answers E calls s, links_of (serve E calls s)) =
    link_run (cp_endpoint s) (cp_closed s) (judged E calls s) (links_of s)"
  using control_store.serve_links [OF assms] by simp

lemma demo_plane_links: "links_of demo_plane = [''n1:1'' \<mapsto> (CONNECTED, ''r0'', - 1)]"
  by (auto simp: links_of_def link_view_def demo_peer_def fun_eq_iff)

text \<open>An update that completes a link, an offer that is refused, and a close with a wrong id.\<close>

abbreviation demo_requests :: "rpc_call list" where
  "demo_requests \<equiv> [CallReady \<lparr>up_connection = \<lparr>cn_endpoint = ''n1:1'', cn_id = ''r0''\<rparr>,
       up_snapshot = \<lparr>sn_version = 1, sn_memories = [[5]]\<rparr>\<rparr>,
     CallConnect \<lparr>of_connection = \<lparr>cn_endpoint = ''n1:1'', cn_id = ''r9''\<rparr>, of_metadata = [3]\<rparr>,
     CallClose \<lparr>cn_endpoint = ''n1:1'', cn_id = ''other''\<rparr>]"

lemma demo_judged: "\<exists>v1 v2. judged demo_env demo_requests demo_plane =
    zip [\<lparr>vd_create = None, vd_connect = None, vd_import = None, vd_destroy = None\<rparr>, v1, v2] demo_requests"
proof -
  have "cp_native demo_plane = (fake_init ''n0'')\<lparr>fk_next := 2, fk_peers := [(1, [7])], fk_connected := [(1, [9])]\<rparr>"
    by (simp add: demo_plane_def)
  then show ?thesis
    by (simp add: verdict_import_def fake_import_remote_memory_def fake_id_def fake_init_def py_defs demo_peer_def)
qed

theorem handlers_refine_links_witness:
  "answers demo_env demo_requests demo_plane =
     [Inr (), Inl (RuntimeError (Msg ''endpoint already has a different connection'')), Inr ()] \<and>
   links_of (serve demo_env demo_requests demo_plane) = [''n1:1'' \<mapsto> (READY, ''r0'', 1)]"
proof -
  obtain v1 v2 where judged: "judged demo_env demo_requests demo_plane =
      zip [\<lparr>vd_create = None, vd_connect = None, vd_import = None, vd_destroy = None\<rparr>, v1, v2] demo_requests"
    using demo_judged by blast
  have plane: "\<not> cp_closed demo_plane" "cp_endpoint demo_plane \<noteq> ''n1:1''" by simp_all
  show ?thesis
    using handlers_refine_links [OF fake_control.control_store_axioms demo_plane_wf, of demo_requests]
    unfolding judged using plane
    by (simp add: demo_plane_links link_update_def link_connect_def link_join_def link_close_def)
qed

section \<open>A lost close\<close>

text \<open>
  \<open>disconnect\<close> drops the local peer before it sends its one \<^verbatim>\<open>Close\<close>, and cannot be repeated. When that request
  is lost, the other side keeps the old link: nothing but a close with the old id takes it away, so
  that every later offer, which has a new id, is refused until that side disconnects by itself.
\<close>

definition closes :: "string \<Rightarrow> string \<Rightarrow> rpc_call \<Rightarrow> bool" where
  "closes e i call \<longleftrightarrow> call = CallClose \<lparr>cn_endpoint = e, cn_id = i\<rparr>"

lemma link_stuck:
  assumes "m e = Some (state, i, v)" and "state \<noteq> CREATED" and "\<not> closes e i call"
  shows "\<exists>state' v'. snd (link_serve own closed judge call m) e = Some (state', i, v') \<and> state' \<noteq> CREATED"
proof (cases call)
  case (CallConnect off)
  with assms show ?thesis by (auto simp: link_connect_def link_join_def split: option.splits)
next
  case (CallReady up)
  with assms show ?thesis by (auto simp: link_update_def split: option.splits)
next
  case (CallChanged up)
  with assms show ?thesis by (auto simp: link_update_def split: option.splits)
next
  case (CallClose c)
  with assms(3) have "cn_endpoint c \<noteq> e \<or> cn_id c \<noteq> i" by (auto simp: closes_def)
  with CallClose assms show ?thesis by (auto simp: link_close_def split: option.splits)
qed

lemma links_stuck:
  "m e = Some (state, i, v) \<Longrightarrow> state \<noteq> CREATED \<Longrightarrow> \<forall>(judge, call) \<in> set calls. \<not> closes e i call \<Longrightarrow>
     \<exists>state' v'. snd (link_run own closed calls m) e = Some (state', i, v') \<and> state' \<noteq> CREATED"
proof (induction calls arbitrary: m state v)
  case (Cons c calls)
  obtain judge call where c: "c = (judge, call)" by fastforce
  from link_stuck [where m = m and e = e, OF Cons.prems(1,2), of call own closed judge] Cons.prems(3) obtain state' v' where
    "snd (link_serve own closed judge call m) e = Some (state', i, v')" "state' \<noteq> CREATED" by (auto simp: c)
  from Cons.IH [where m = "snd (link_serve own closed judge call m)", OF this] Cons.prems(3) show ?case
    by (auto simp: c split: prod.splits)
qed simp

lemma judged_calls: "map snd (judged E calls s) = calls"
  by (induction calls arbitrary: s) simp_all

lemma lost_close_blocks_reconnect:
  assumes plane: "control_store E ok live conn imps" and wf: "control_wf ok live conn s" and "\<not> cp_closed s"
    and "links_of s e = Some (state, i, v)" and "state \<noteq> CREATED"
    and "\<forall>call \<in> set calls. \<not> closes e i call" and "j \<noteq> i" and "j \<noteq> []"
  shows "handle_Connect E \<lparr>of_connection = \<lparr>cn_endpoint = e, cn_id = j\<rparr>, of_metadata = md\<rparr> (serve E calls s) =
    (Inl (RuntimeError (Msg ''endpoint already has a different connection'')), serve E calls s)"
proof -
  let ?t = "serve E calls s"
  have t: "control_wf ok live conn ?t" using control_store.sec_serve [OF plane wf] by blast
  note served = control_store.serve_links [OF plane wf, of calls]
  have "call \<in> set calls" if "(judge, call) \<in> set (judged E calls s)" for judge call
    using imageI [OF that, of snd] judged_calls [of E calls s] by (metis list.set_map snd_conv)
  then have "\<forall>(judge, call) \<in> set (judged E calls s). \<not> closes e i call" using assms(6) by blast
  from links_stuck [where m = "links_of s" and e = e, OF assms(4,5) this, of "cp_endpoint s" "cp_closed s"] served
  obtain state' v' where link: "links_of ?t e = Some (state', i, v')" "state' \<noteq> CREATED" by (metis snd_conv)
  then obtain ref where ref: "map_of (cp_peers ?t) e = Some ref" "p_state (deref ref ?t) \<noteq> CREATED"
    "p_remote_connection_id (deref ref ?t) = i" by (auto simp: links_of_def link_view_def)
  with t have "e \<noteq> []" "e \<noteq> cp_endpoint ?t" "p_endpoint (deref ref ?t) = e" by (auto simp: control_wf_def)
  moreover have "\<not> cp_closed ?t" using served assms(3) by simp
  ultimately show ?thesis
    using ref assms(7,8) by (simp add: handle_Connect_def check_endpoint_def check_open_def
        get_or_create_peer_def connect_native_def py_bind_def py_then_def py_gets_def py_raise_if_def
        py_return_def py_raise_def)
qed

end
