(* ===== verification/Meeting.thy ===== *)
theory Meeting
  imports Handshake
begin

text \<open>
  Two processes that connect to each other at the same time, as in
  \<^verbatim>\<open>test_simultaneous_connect_reuses_pending_qps\<close>: each runs \<open>connect\<close>, and its critical sections and the
  handlers of both sides interleave in any order. Requests may time out, be repeated by another \<open>connect\<close>, and
  arrive late or twice. Once nothing fails any more both calls return, and there is one link.
\<close>

section \<open>Turns\<close>

text \<open>Where a call of \<open>connect\<close> stands between its critical sections and the requests it waits for.\<close>

datatype progress =
    Start | Offered nat offer | Answered nat offer | Updated nat update | Served nat snapshot
  | Returned int | Raised exn

text \<open>One turn of a call of the first plane: its next critical section, or the handler of its request on the second.\<close>

fun connect_turn ::
  "('n, 'z) control_env_scheme \<Rightarrow> ('k, 'y) control_env_scheme \<Rightarrow> string \<Rightarrow> progress
     \<Rightarrow> 'n control \<times> 'k control \<Rightarrow> progress \<times> 'n control \<times> 'k control" where
  "connect_turn E F endpoint Start (s, t) = (case connect_begin E endpoint s of
     (Inl e, s') \<Rightarrow> (Raised e, s', t)
   | (Inr (Already handle), s') \<Rightarrow> (Returned handle, s', t)
   | (Inr (Exchange ref offer), s') \<Rightarrow> (Offered ref offer, s', t))"
| "connect_turn E F endpoint (Offered ref offer) (s, t) = (case handle_Connect F offer t of
     (Inl _, t') \<Rightarrow> (Raised RpcError, s, t') | (Inr remote, t') \<Rightarrow> (Answered ref remote, s, t'))"
| "connect_turn E F endpoint (Answered ref remote) (s, t) = (case connect_local E ref remote s of
     (Inl e, s') \<Rightarrow> (Raised e, s', t) | (Inr update, s') \<Rightarrow> (Updated ref update, s', t))"
| "connect_turn E F endpoint (Updated ref update) (s, t) = (case handle_Ready F update t of
     (Inl _, t') \<Rightarrow> (Raised RpcError, s, t') | (Inr snapshot, t') \<Rightarrow> (Served ref snapshot, s, t'))"
| "connect_turn E F endpoint (Served ref snapshot) (s, t) = (case connect_ready E ref snapshot s of
     (Inl e, s') \<Rightarrow> (Raised e, s', t) | (Inr handle, s') \<Rightarrow> (Returned handle, s', t))"
| "connect_turn E F endpoint (Returned handle) (s, t) = (Returned handle, s, t)"
| "connect_turn E F endpoint (Raised e) (s, t) = (Raised e, s, t)"

text \<open>
  Both planes call \<open>connect\<close> with the endpoint of the other. In every event the flag names the side: one turn of
  its call; a new call after the last one, which may have given up at any point, also after its request was
  handled; an offer, or an update with some snapshot, that it sent and that the other side handles late or once
  more. A plane sends updates only when its queue pair is connected.
\<close>

datatype event = Turn bool | Retry bool | LateOffer bool | LateUpdate bool snapshot

definition late_offer :: "('k, 'y) control_env_scheme \<Rightarrow> 'n control \<Rightarrow> 'k control \<Rightarrow> 'k control" where
  "late_offer F s t = (case map_of (cp_peers s) (cp_endpoint t) of
     None \<Rightarrow> t
   | Some a \<Rightarrow> snd (handle_Connect F (offer_of s (deref a s)) t))"

definition late_update :: "('k, 'y) control_env_scheme \<Rightarrow> snapshot \<Rightarrow> 'n control \<Rightarrow> 'k control \<Rightarrow> 'k control" where
  "late_update F sn s t = (case map_of (cp_peers s) (cp_endpoint t) of
     None \<Rightarrow> t
   | Some a \<Rightarrow> if p_state (deref a s) = CREATED then t
       else snd (handle_Ready F \<lparr>up_connection = connection_of s (deref a s), up_snapshot = sn\<rparr> t))"

fun meet ::
  "('n, 'z) control_env_scheme \<Rightarrow> ('k, 'y) control_env_scheme \<Rightarrow> event list
     \<Rightarrow> progress \<times> progress \<times> 'n control \<times> 'k control \<Rightarrow> progress \<times> progress \<times> 'n control \<times> 'k control" where
  "meet E F [] w = w"
| "meet E F (Turn True # es) (p, q, s, t) = (case connect_turn E F (cp_endpoint t) p (s, t) of
     (p', s', t') \<Rightarrow> meet E F es (p', q, s', t'))"
| "meet E F (Turn False # es) (p, q, s, t) = (case connect_turn F E (cp_endpoint s) q (t, s) of
     (q', t', s') \<Rightarrow> meet E F es (p, q', s', t'))"
| "meet E F (Retry True # es) (p, q, s, t) = meet E F es (Start, q, s, t)"
| "meet E F (Retry False # es) (p, q, s, t) = meet E F es (p, Start, s, t)"
| "meet E F (LateOffer True # es) (p, q, s, t) = meet E F es (p, q, s, late_offer F s t)"
| "meet E F (LateOffer False # es) (p, q, s, t) = meet E F es (p, q, late_offer E t s, t)"
| "meet E F (LateUpdate True sn # es) (p, q, s, t) = meet E F es (p, q, s, late_update F sn s t)"
| "meet E F (LateUpdate False sn # es) (p, q, s, t) = meet E F es (p, q, late_update E sn t s, t)"

text \<open>Five turns without the other side make up the undisturbed handshake.\<close>

lemma meet_handshake:
  assumes "handshake E F (cp_endpoint t) (s, t) = (Inr h, s', t')"
  shows "meet E F (replicate 5 (Turn True)) (Start, q, s, t) = (Returned h, q, s', t')"
proof -
  from assms obtain start s1 where start: "connect_begin E (cp_endpoint t) s = (Inr start, s1)"
    by (auto simp: handshake_def py_eqs here_eq)
  with assms show ?thesis
    by (cases start) (auto simp: handshake_def py_eqs here_eq there_eq numeral_eq_Suc)
qed

section \<open>What a turn does to a plane\<close>

text \<open>The peer for an endpoint stays in place and moves forward.\<close>

definition keeps_peer :: "string \<Rightarrow> 'n control \<Rightarrow> 'n control \<Rightarrow> bool" where
  "keeps_peer e s s' \<longleftrightarrow> cp_endpoint s' = cp_endpoint s \<and>
     (\<forall>a. map_of (cp_peers s) e = Some a \<longrightarrow>
        map_of (cp_peers s') e = Some a \<and> peer_le (deref a s) (deref a s'))"

lemma keeps_peer_refl [simp]: "keeps_peer e s s"
  by (simp add: keeps_peer_def)

context control_store
begin

lemma keeps_peerI:
  assumes "wf s" and "evolves s s'"
    and "\<And>a. map_of (cp_peers s) e = Some a \<Longrightarrow> map_of (cp_peers s') e = Some a"
  shows "keeps_peer e s s'"
  using assms wf_peer(1) [OF assms(1)] unfolding keeps_peer_def evolves_def by blast

lemma connect_native_peers: "connect_native E ref off s = (r, t) \<Longrightarrow> cp_peers t = cp_peers s"
  using connect_native_run [of ref off s r t] by auto

lemma connect_local_peers: "connect_local E ref off s = (r, t) \<Longrightarrow> cp_peers t = cp_peers s"
  by (cases r) (auto simp: connect_local_def control_eqs require_peer_eq dest: connect_native_peers)

lemma connect_ready_peers: "connect_ready E ref sn s = (r, t) \<Longrightarrow> cp_peers t = cp_peers s"
  by (cases r) (auto simp: connect_ready_def control_eqs require_peer_eq dest!: import_snapshot_run split: sum.splits)

text \<open>The peer for an endpoint, and the sections of \<open>connect\<close> and its handlers on it.\<close>

lemma begin_step:
  assumes s: "known K S s" "\<not> cp_closed s" and e: "e \<noteq> []" "e \<noteq> cp_endpoint s"
    and run: "connect_begin E e s = (Inr x, s')"
  shows "known K S s' \<and> \<not> cp_closed s' \<and> keeps_peer e s s' \<and> (\<exists>a. map_of (cp_peers s') e = Some a \<and>
    (p_state (deref a s') = READY \<longrightarrow> map_of (cp_peers s) e = Some a \<and> p_state (deref a s) = READY \<and>
       x = Already (p_handle (deref a s'))) \<and>
    (p_state (deref a s') \<noteq> READY \<longrightarrow> x = Exchange a (offer_of s' (deref a s'))))"
proof -
  note one = guardedD(1,2) [OF ksec_connect_begin s(1) TrueI run]
  have two: "\<exists>a. map_of (cp_peers s') e = Some a \<and> (case x of
      Already h \<Rightarrow> h = p_handle (deref a s') \<and> p_state (deref a s') = READY
    | Exchange ref off \<Rightarrow> ref = a \<and> off = offer_of s' (deref a s') \<and> p_state (deref a s') \<noteq> READY) \<and>
    (p_state (deref a s') = READY \<longrightarrow> map_of (cp_peers s) e = Some a \<and> p_state (deref a s) = READY) \<and>
    (\<forall>b. map_of (cp_peers s) e = Some b \<longrightarrow> b = a)"
  proof (cases "map_of (cp_peers s) e")
    case (Some a)
    with run s(2) e show ?thesis
      by (auto simp: connect_begin_def get_or_create_peer_def check_endpoint_def py_eqs check_open_eq dest!: stub_eq
          split: if_splits)
  next
    case None
    with run obtain a u where new: "create_peer E e s = (Inr a, u)" and u: "p_state (deref a u) \<noteq> READY \<Longrightarrow>
        \<exists>c. s' = u\<lparr>cp_channels := c\<rparr> \<and> x = Exchange a (offer_of s' (deref a s'))"
      by (auto simp: connect_begin_def get_or_create_peer_def check_endpoint_def py_eqs check_open_eq dest!: stub_eq
          split: if_splits) blast
    from create_peer_run [OF new] have "p_state (deref a u) = CREATED" by auto
    moreover have "map_of (cp_peers u) e = Some a"
      using guardedD(3) [OF sec_create_peer _ _ new refl] s(1) None e by blast
    ultimately show ?thesis using u None by auto
  qed
  then have "keeps_peer e s s'" using keeps_peerI [of s s' e] s(1) one(2) by blast
  with one s(2) two show ?thesis by (cases x) auto
qed

lemma accept_step:
  assumes s: "known K S s" "\<not> cp_closed s"
    and off: "offered K e off s" "cn_endpoint (of_connection off) = e" "e \<noteq> []" "e \<noteq> cp_endpoint s"
      "cn_id (of_connection off) \<noteq> []"
    and free: "\<And>a. map_of (cp_peers s) e = Some a \<Longrightarrow>
      p_remote_connection_id (deref a s) \<in> {[], cn_id (of_connection off)}"
    and run: "handle_Connect E off s = (Inr remote, s')"
  shows "known K S s' \<and> \<not> cp_closed s' \<and> keeps_peer e s s' \<and> (\<exists>a. map_of (cp_peers s') e = Some a \<and>
    remote = offer_of s' (deref a s') \<and> p_remote_connection_id (deref a s') = cn_id (of_connection off) \<and>
    (p_state (deref a s') = READY \<longrightarrow> map_of (cp_peers s) e = Some a \<and> p_state (deref a s) = READY))"
proof -
  have "offered K (cn_endpoint (of_connection off)) off s" using off by simp
  note one = guardedD(1,2) [OF ksec_handle_Connect s(1) this run]
  from guardedD(3) [OF sec_handle_Connect conjunct1 [OF s(1)] TrueI run refl] obtain a where
    a: "map_of (cp_peers s') e = Some a" "remote = offer_of s' (deref a s')"
      "p_remote_connection_id (deref a s') = cn_id (of_connection off)" using off(2) by blast
  from run off s(2) obtain b u where get: "get_or_create_peer E e s = (Inr b, u)"
    and native: "connect_native E b off u = (Inr (), s')"
    by (auto simp: handle_Connect_def check_endpoint_def py_eqs check_open_eq)
  have "map_of (cp_peers u) e = Some b"
    using guardedD(3) [OF sec_get_or_create_peer conjunct1 [OF s(1)] _ get refl] off by blast
  with a(1) connect_native_peers [OF native] have b: "b = a" by simp
  have kept: "map_of (cp_peers s) e = Some c \<Longrightarrow> c = a \<and> u = s" for c
    using get b by (auto simp: get_or_create_peer_def py_eqs)
  have "p_state (deref a s') = READY \<longrightarrow> p_state (deref a u) = READY"
    using connect_native_run [OF native] b by auto
  moreover have "map_of (cp_peers s) e = None \<Longrightarrow> p_state (deref a u) = CREATED"
    using get b by (auto simp: get_or_create_peer_def py_eqs dest!: create_peer_run)
  ultimately have "p_state (deref a s') = READY \<longrightarrow> map_of (cp_peers s) e = Some a \<and> p_state (deref a s) = READY"
    using kept by (cases "map_of (cp_peers s) e") auto
  moreover have "keeps_peer e s s'"
    using keeps_peerI [of s s' e] s(1) one(2) kept a(1) by blast
  ultimately show ?thesis using one s(2) a by auto
qed

lemma local_step:
  assumes s: "known K S s" "\<not> cp_closed s" and a: "map_of (cp_peers s) e = Some a"
    and remote: "offered K e remote s"
    and run: "connect_local E a remote s = (Inr up, s')"
  shows "known K S s' \<and> \<not> cp_closed s' \<and> keeps_peer e s s' \<and> map_of (cp_peers s') e = Some a \<and>
    up_connection up = connection_of s' (deref a s') \<and> p_state (deref a s') \<noteq> CREATED \<and>
    (p_state (deref a s') = READY \<longrightarrow> p_state (deref a s) = READY)"
proof -
  have made: "made_for e a s" using wf_peer [OF conjunct1 [OF s(1)] a] by (simp add: made_for_def)
  then have less: "a < cp_next_ref s" by (simp add: made_for_def)
  note one = guardedD(1,2) [OF ksec_connect_local s(1) conjI [OF made remote] run]
  note two = guardedD(3) [OF sec_connect_local conjunct1 [OF s(1)] less run refl]
  from run obtain u where "connect_native E a remote s = (Inr u, s')"
    by (auto simp: connect_local_def py_eqs require_peer_eq)
  from connect_native_run [OF this] have "p_state (deref a s') = READY \<longrightarrow> p_state (deref a s) = READY" by auto
  moreover have at: "map_of (cp_peers s') e = Some a" using connect_local_peers [OF run] a by simp
  moreover have "keeps_peer e s s'" using keeps_peerI [of s s' e] s(1) one(2) connect_local_peers [OF run] by simp
  ultimately show ?thesis using one s(2) two by (simp add: connection_of_def)
qed

lemma ready_step:
  assumes s: "known K UNIV s" "\<not> cp_closed s" and b: "map_of (cp_peers s) (cn_endpoint (up_connection up)) = Some b"
    and run: "handle_Ready E up s = (Inr sn, s')"
  shows "known K UNIV s' \<and> \<not> cp_closed s' \<and> keeps_peer (cn_endpoint (up_connection up)) s s' \<and>
    p_state (deref b s') = READY"
proof -
  note one = guardedD [OF ksec_handle_Ready [OF UNIV_I] s(1) TrueI run]
  note same = handle_Ready_peers [OF run]
  from one(3) [OF refl] obtain c where "registered c s'" "known_as (up_connection up) c s'"
    "p_state (deref c s') = READY" by blast
  then have "map_of (cp_peers s') (cn_endpoint (up_connection up)) = Some c" "p_state (deref c s') = READY"
    by (simp_all add: registered_def known_as_def)
  with b same have "p_state (deref b s') = READY" by simp
  moreover have "keeps_peer (cn_endpoint (up_connection up)) s s'"
    using keeps_peerI [of s s'] s(1) one(2) same by simp
  ultimately show ?thesis using one(1,2) s(2) by simp
qed

lemma finish_step:
  assumes s: "known K UNIV s" "\<not> cp_closed s" and a: "map_of (cp_peers s) e = Some a" "p_state (deref a s) \<noteq> CREATED"
    and run: "connect_ready E a sn s = (Inr h, s')"
  shows "known K UNIV s' \<and> \<not> cp_closed s' \<and> keeps_peer e s s' \<and>
    p_state (deref a s') = READY \<and> h = p_handle (deref a s')"
proof -
  have joined: "joined a s" and made: "made_for e a s"
    using wf_peer [OF conjunct1 [OF s(1)] a(1)] a(2) by (simp_all add: joined_def made_for_def)
  have "joined a s \<and> made_for e a s \<and> (e, sn) \<in> UNIV" using joined made by simp
  note one = guardedD(1,2) [OF ksec_connect_ready s(1) this run]
  note two = guardedD(3) [OF sec_connect_ready conjunct1 [OF s(1)] joined run refl]
  have "keeps_peer e s s'" using keeps_peerI [of s s' e] s(1) one(2) connect_ready_peers [OF run] by simp
  then show ?thesis using one s(2) two by simp
qed

end

context obliging_store
begin

lemma connect_native_obliges:
  assumes "wf s" "registered ref s" "cn_endpoint (of_connection off) = p_endpoint (deref ref s)"
    and "cn_id (of_connection off) \<noteq> []" "p_remote_connection_id (deref ref s) \<in> {[], cn_id (of_connection off)}"
    and "qp (of_metadata off)"
  shows "obliges (connect_native E ref off) s"
proof (cases "p_state (deref ref s) = CREATED")
  case True
  with connect_native_returns assms show ?thesis by blast
next
  case False
  then have "p_remote_connection_id (deref ref s) \<noteq> []"
    using wf_state(2) [OF assms(1) wf_registered_less [OF assms(1,2)]] by simp
  with False assms show ?thesis
    by (auto simp: obliges_def connect_native_def py_bind_def py_then_def py_gets_def py_raise_if_def py_return_def)
qed

lemma accept_returns:
  assumes s: "wf s" "\<not> cp_closed s"
    and off: "cn_endpoint (of_connection off) = e" "e \<noteq> []" "e \<noteq> cp_endpoint s" "cn_id (of_connection off) \<noteq> []"
      "qp (of_metadata off)"
    and free: "\<And>a. map_of (cp_peers s) e = Some a \<Longrightarrow>
      p_remote_connection_id (deref a s) \<in> {[], cn_id (of_connection off)}"
  shows "obliges (handle_Connect E off) s"
proof (cases "map_of (cp_peers s) e")
  case None
  with handle_Connect_returns [OF s, of off] off show ?thesis by simp
next
  case (Some a)
  from connect_native_obliges [OF s(1) wf_registered [OF s(1) Some] _ off(4) free [OF Some] off(5)]
    wf_peer(4) [OF s(1) Some] off(1) have "obliges (connect_native E a off) s" by auto
  then have "obliges (py_then (connect_native E a off) (py_gets (\<lambda>s. offer_of s (deref a s)))) s"
    by (intro obliges_then obliges_gets)
  with Some s off show ?thesis
    by (simp add: obliges_def handle_Connect_def check_endpoint_def check_open_def get_or_create_peer_def py_bind_def
        py_then_def py_gets_def py_raise_if_def py_return_def)
qed

lemma local_returns:
  assumes s: "wf s" and a: "map_of (cp_peers s) e = Some a" and off: "cn_endpoint (of_connection off) = e"
    "cn_id (of_connection off) \<noteq> []" "p_remote_connection_id (deref a s) \<in> {[], cn_id (of_connection off)}"
    "qp (of_metadata off)"
  shows "obliges (connect_local E a off) s"
  by (intro connect_local_obliges connect_native_obliges) (use s wf_registered [OF s a] wf_peer(4) [OF s a] off in simp_all)

end

section \<open>The invariant of a meeting\<close>

text \<open>The peer of one plane for the other, and what the other offers.\<close>

abbreviation mine :: "nat \<Rightarrow> 'n control \<Rightarrow> 'k control \<Rightarrow> bool" where
  "mine a s t \<equiv> map_of (cp_peers s) (cp_endpoint t) = Some a"

definition offering :: "'k control \<Rightarrow> 'n control \<Rightarrow> (string \<times> bytes) set" where
  "offering t s = {(p_connection_id (deref b t), p_metadata (deref b t)) | b. mine b t s}"

text \<open>The second plane is connected to the peer of the first.\<close>

definition answered :: "nat \<Rightarrow> 'n control \<Rightarrow> 'k control \<Rightarrow> bool" where
  "answered a s t \<longleftrightarrow> (\<exists>b. mine b t s \<and> p_remote_connection_id (deref b t) = p_connection_id (deref a s))"

fun stands :: "(bytes \<Rightarrow> bool) \<Rightarrow> progress \<Rightarrow> 'n control \<Rightarrow> 'k control \<Rightarrow> bool" where
  "stands mem Start s t = True"
| "stands mem (Offered a off) s t = (mine a s t \<and> off = offer_of s (deref a s))"
| "stands mem (Answered a remote) s t =
     (mine a s t \<and> answered a s t \<and> (\<exists>b. mine b t s \<and> remote = offer_of t (deref b t)))"
| "stands mem (Updated a up) s t = (mine a s t \<and> answered a s t \<and> p_state (deref a s) \<noteq> CREATED \<and>
     up_connection up = connection_of s (deref a s) \<and> list_all mem (sn_memories (up_snapshot up)))"
| "stands mem (Served a sn) s t = (mine a s t \<and> answered a s t \<and> p_state (deref a s) \<noteq> CREATED \<and>
     list_all mem (sn_memories sn))"
| "stands mem (Returned h) s t = (\<exists>a. mine a s t \<and> p_state (deref a s) = READY \<and> h = p_handle (deref a s))"
| "stands mem (Raised e) s t = False"

definition half ::
  "('n \<Rightarrow> bool) \<Rightarrow> ('n \<Rightarrow> int \<Rightarrow> bytes option) \<Rightarrow> ('n \<Rightarrow> int \<Rightarrow> bytes option) \<Rightarrow> ('n \<Rightarrow> int \<Rightarrow> bytes set)
     \<Rightarrow> (bytes \<Rightarrow> bool) \<Rightarrow> (bytes \<Rightarrow> bool) \<Rightarrow> progress \<Rightarrow> 'n control \<Rightarrow> 'k control \<Rightarrow> bool" where
  "half ok live conn imps qp mem p s t \<longleftrightarrow> control_wf ok live conn s \<and> \<not> cp_closed s \<and>
     grounded conn imps (offers_but (cp_endpoint t) (offering t s)) UNIV s \<and>
     (\<forall>a. mine a s t \<longrightarrow> qp (p_metadata (deref a s)) \<and> (p_state (deref a s) = READY \<longrightarrow> answered a s t)) \<and>
     list_all mem (cp_memory_metadata s) \<and> stands mem p s t"

lemma offer_keeps:
  "keeps_peer e s s' \<Longrightarrow> map_of (cp_peers s) e = Some a \<Longrightarrow> offer_of s' (deref a s') = offer_of s (deref a s) \<and>
     connection_of s' (deref a s') = connection_of s (deref a s)"
  by (simp add: keeps_peer_def peer_le_def offer_of_def connection_of_def)

lemma answered_keeps:
  assumes "answered a s t" and "mine a s t" and "p_connection_id (deref a s) \<noteq> []"
    and "keeps_peer (cp_endpoint t) s s'" and "keeps_peer (cp_endpoint s) t t'"
  shows "answered a s' t'"
proof -
  from assms(1) obtain b where b: "mine b t s" "p_remote_connection_id (deref b t) = p_connection_id (deref a s)"
    unfolding answered_def by blast
  from assms(2,4) have a': "peer_le (deref a s) (deref a s')" "cp_endpoint s' = cp_endpoint s"
    by (simp_all add: keeps_peer_def)
  from b(1) assms(5) have b': "mine b t' s" "peer_le (deref b t) (deref b t')" by (simp_all add: keeps_peer_def)
  have "p_remote_connection_id (deref b t') = p_remote_connection_id (deref b t)"
    using b(2) b'(2) assms(3) by (simp add: peer_le_def)
  with a' b(2) b'(1) show ?thesis unfolding answered_def by (auto simp: peer_le_def)
qed

lemma ready_keeps: "peer_le p q \<Longrightarrow> p_state p = READY \<Longrightarrow> p_state q = READY"
  "peer_le p q \<Longrightarrow> p_state p \<noteq> CREATED \<Longrightarrow> p_state q \<noteq> CREATED"
  by (simp add: peer_le_def, cases "p_state p") (auto simp: peer_le_def)

lemma stands_keeps:
  assumes p: "stands mem p s t" and s: "keeps_peer (cp_endpoint t) s s'" and t: "keeps_peer (cp_endpoint s) t t'"
    and id: "\<And>a. mine a s t \<Longrightarrow> p_connection_id (deref a s) \<noteq> []"
  shows "stands mem p s' t'"
proof -
  have mine: "mine a s' t' \<and> peer_le (deref a s) (deref a s')" if "mine a s t" for a
    using that s t by (simp add: keeps_peer_def)
  have other: "mine b t' s'" if "mine b t s" for b
    using that s t by (simp add: keeps_peer_def)
  note still = answered_keeps [OF _ _ id s t] and ready = ready_keeps [OF conjunct2 [OF mine]]
  show ?thesis
  proof (cases p)
    case (Answered a remote)
    with p mine still other offer_keeps [OF t] show ?thesis by fastforce
  next
    case (Returned h)
    with p mine ready show ?thesis by (auto simp: peer_le_def)
  qed (use p mine still ready offer_keeps [OF s] in auto)
qed

lemma offering_keeps:
  "keeps_peer (cp_endpoint t) s s' \<Longrightarrow> keeps_peer (cp_endpoint s) t t' \<Longrightarrow> offering t s \<subseteq> offering t' s'"
  unfolding offering_def keeps_peer_def peer_le_def by fastforce

text \<open>A half survives the moves of the other plane.\<close>

lemma half_other:
  assumes "half ok live conn imps qp mem p s t" and "keeps_peer (cp_endpoint s) t t'"
  shows "half ok live conn imps qp mem p s t'"
proof -
  have wf: "control_wf ok live conn s" using assms(1) by (simp add: half_def)
  then have id: "p_connection_id (deref a s) \<noteq> []" if "mine a s t" for a
    using that by (simp add: control_wf_def)
  have t': "cp_endpoint t' = cp_endpoint t" using assms(2) by (simp add: keeps_peer_def)
  have "grounded conn imps (offers_but (cp_endpoint t') (offering t' s)) UNIV s"
    using assms(1) grounded_mono [OF _ offers_but_mono [OF offering_keeps [OF keeps_peer_refl assms(2)]] subset_refl]
    unfolding t' half_def by blast
  moreover have "stands mem p s t'"
    using assms(1) stands_keeps [OF _ keeps_peer_refl assms(2) id] by (simp add: half_def)
  moreover have "answered a s t'" if "mine a s t'" "p_state (deref a s) = READY" for a
    using assms(1) that answered_keeps [OF _ _ id keeps_peer_refl assms(2)] unfolding half_def t' by blast
  ultimately show ?thesis using assms(1) unfolding half_def t' by blast
qed

text \<open>What a connected peer is connected to.\<close>

lemma half_wired:
  assumes "half ok live conn imps qp mem p s t" and "mine a s t" and "p_state (deref a s) \<noteq> CREATED"
  shows "\<exists>b. mine b t s \<and> p_remote_connection_id (deref a s) = p_connection_id (deref b t) \<and>
    conn (cp_native s) (p_handle (deref a s)) = Some (p_metadata (deref b t))"
  using assms unfolding half_def grounded_def offers_but_def offering_def by fastforce

lemma half_free:
  assumes "half ok live conn imps qp mem p s t" and "mine a s t" and "mine b t s"
  shows "p_remote_connection_id (deref a s) \<in> {[], p_connection_id (deref b t)}"
proof (cases "p_state (deref a s) = CREATED")
  case True
  with assms(1,2) show ?thesis by (simp add: half_def control_wf_def)
next
  case False
  with half_wired [OF assms(1,2)] assms(3) show ?thesis by auto
qed

text \<open>A half after a move of its own plane.\<close>

lemma half_move:
  assumes "half ok live conn imps qp mem p s t" and "keeps_peer (cp_endpoint t) s s'"
    and "control_wf ok live conn s'" "\<not> cp_closed s'"
      "grounded conn imps (offers_but (cp_endpoint t) (offering t s)) UNIV s'"
    and "\<And>a. mine a s' t \<Longrightarrow> qp (p_metadata (deref a s'))" and "cp_memory_metadata s' = cp_memory_metadata s"
    and "\<And>a. mine a s' t \<Longrightarrow> p_state (deref a s') = READY \<Longrightarrow> answered a s' t"
    and "stands mem p' s' t"
  shows "half ok live conn imps qp mem p' s' t"
proof -
  have "offering t s' = offering t s" using assms(2) by (simp add: offering_def keeps_peer_def)
  with assms show ?thesis by (simp add: half_def)
qed

lemma half_stands: "half ok live conn imps qp mem p s t \<Longrightarrow> stands mem p' s t \<Longrightarrow> half ok live conn imps qp mem p' s t"
  by (simp add: half_def)

lemma half_mine: "half ok live conn imps qp mem p s t \<Longrightarrow> mine a s t \<Longrightarrow>
    p_connection_id (deref a s) \<noteq> [] \<and> p_endpoint (deref a s) = cp_endpoint t"
  by (simp add: half_def control_wf_def)

section \<open>One turn\<close>

context obliging_store
begin

abbreviation half_of :: "progress \<Rightarrow> 'n control \<Rightarrow> 'k control \<Rightarrow> bool" where
  "half_of \<equiv> half ok live conn imps qp mem"

lemma begin_half:
  assumes s: "half_of Start s t" and e: "cp_endpoint t \<noteq> []" "cp_endpoint t \<noteq> cp_endpoint s"
  shows "\<exists>r s'. connect_begin E (cp_endpoint t) s = (r, s') \<and> (spent (cp_native s') \<or> (\<exists>x. r = Inr x \<and>
    keeps_peer (cp_endpoint t) s s' \<and>
    half_of (case x of Already h \<Rightarrow> Returned h | Exchange a off \<Rightarrow> Offered a off) s' t))"
proof -
  note parts = s [unfolded half_def]
  obtain r s' where ran: "connect_begin E (cp_endpoint t) s = (r, s')" by fastforce
  have "keeps_peer (cp_endpoint t) s s' \<and>
      half_of (case x of Already h \<Rightarrow> Returned h | Exchange a off \<Rightarrow> Offered a off) s' t" if "r = Inr x" for x
  proof -
    note run = ran [unfolded that]
    from begin_step [OF _ _ e run] parts obtain a where
      s': "known (offers_but (cp_endpoint t) (offering t s)) UNIV s'" "\<not> cp_closed s'" "keeps_peer (cp_endpoint t) s s'"
      and a: "mine a s' t" "p_state (deref a s') = READY \<Longrightarrow> mine a s t \<and> p_state (deref a s) = READY \<and>
          x = Already (p_handle (deref a s'))"
        "p_state (deref a s') \<noteq> READY \<Longrightarrow> x = Exchange a (offer_of s' (deref a s'))" by blast
    have "half_of (case x of Already h \<Rightarrow> Returned h | Exchange a off \<Rightarrow> Offered a off) s' t"
    proof (rule half_move [OF s s'(3)])
      fix b assume "mine b s' t" "p_state (deref b s') = READY"
      with a have "mine b s t" "p_state (deref b s) = READY" by simp_all
      with s s'(3) show "answered b s' t"
        using answered_keeps [OF _ _ conjunct1 [OF half_mine [OF s]] s'(3) keeps_peer_refl] unfolding half_def by blast
    next
      show "stands mem (case x of Already h \<Rightarrow> Returned h | Exchange a off \<Rightarrow> Offered a off) s' t"
        using a by (cases "p_state (deref a s') = READY") auto
    qed (use s' connect_begin_metadata [OF run] peer_well_formed in simp_all)
    with s'(3) show ?thesis by blast
  qed
  with ran obligesD [OF begin_returns [of s "cp_endpoint t"] ran] parts e show ?thesis by blast
qed

lemma accept_half:
  assumes s: "half_of q s t" and t: "half ok' live' conn' imps' qp mem (Offered a off) t s"
    and e: "cp_endpoint t \<noteq> []" "cp_endpoint t \<noteq> cp_endpoint s"
  shows "\<exists>r s'. handle_Connect E off s = (r, s') \<and> (spent (cp_native s') \<or> (\<exists>remote. r = Inr remote \<and>
    keeps_peer (cp_endpoint t) s s' \<and> half_of q s' t \<and>
    (\<exists>b. mine b s' t \<and> remote = offer_of s' (deref b s') \<and>
       p_remote_connection_id (deref b s') = p_connection_id (deref a t))))"
proof -
  note parts = s [unfolded half_def]
  have a: "mine a t s" and off: "off = offer_of t (deref a t)" using t by (simp_all add: half_def)
  have id: "cn_endpoint (of_connection off) = cp_endpoint t" "cn_id (of_connection off) = p_connection_id (deref a t)"
    "cn_id (of_connection off) \<noteq> []" "of_metadata off = p_metadata (deref a t)"
    using half_mine [OF t a] by (simp_all add: off offer_of_def connection_of_def)
  have offered: "offered (offers_but (cp_endpoint t) (offering t s)) (cp_endpoint t) off s"
    using a id by (auto simp: offers_but_def offering_def)
  have free: "p_remote_connection_id (deref b s) \<in> {[], cn_id (of_connection off)}" if "mine b s t" for b
    using half_free [OF s that a] id(2) by simp
  have "qp (of_metadata off)" using t a id(4) by (simp add: half_def)
  from accept_returns [OF _ _ id(1) e id(3) this free] parts have returns: "obliges (handle_Connect E off) s" by blast
  obtain r s' where ran: "handle_Connect E off s = (r, s')" by fastforce
  have "keeps_peer (cp_endpoint t) s s' \<and> half_of q s' t \<and> (\<exists>b. mine b s' t \<and> remote = offer_of s' (deref b s') \<and>
      p_remote_connection_id (deref b s') = p_connection_id (deref a t))" if "r = Inr remote" for remote
  proof -
    note run = ran [unfolded that]
    from accept_step [OF _ _ offered id(1) e id(3) free run] parts obtain b where
      s': "known (offers_but (cp_endpoint t) (offering t s)) UNIV s'" "\<not> cp_closed s'" "keeps_peer (cp_endpoint t) s s'"
      and b: "mine b s' t" "remote = offer_of s' (deref b s')"
        "p_remote_connection_id (deref b s') = cn_id (of_connection off)"
        "p_state (deref b s') = READY \<Longrightarrow> mine b s t \<and> p_state (deref b s) = READY" by blast
    have "half_of q s' t"
    proof (rule half_move [OF s s'(3)])
      fix c assume "mine c s' t" "p_state (deref c s') = READY"
      with b have "mine c s t" "p_state (deref c s) = READY" by simp_all
      with s s'(3) show "answered c s' t"
        using answered_keeps [OF _ _ conjunct1 [OF half_mine [OF s]] s'(3) keeps_peer_refl] unfolding half_def by blast
    next
      show "stands mem q s' t"
        using stands_keeps [OF _ s'(3) keeps_peer_refl conjunct1 [OF half_mine [OF s]]] parts by blast
    qed (use s' handle_Connect_metadata [OF run] peer_well_formed in simp_all)
    with s'(3) b id(2) show ?thesis by auto
  qed
  with ran obligesD [OF returns ran] show ?thesis by blast
qed

lemma local_half:
  assumes s: "half_of (Answered a remote) s t" and t: "half ok' live' conn' imps' qp mem q t s"
  shows "\<exists>r s'. connect_local E a remote s = (r, s') \<and> (spent (cp_native s') \<or> (\<exists>up. r = Inr up \<and>
    keeps_peer (cp_endpoint t) s s' \<and> half_of (Updated a up) s' t))"
proof -
  note parts = s [unfolded half_def]
  from parts obtain b where a: "mine a s t" "answered a s t" and b: "mine b t s" "remote = offer_of t (deref b t)" by auto
  have id: "cn_endpoint (of_connection remote) = cp_endpoint t" "cn_id (of_connection remote) = p_connection_id (deref b t)"
    "cn_id (of_connection remote) \<noteq> []" "of_metadata remote = p_metadata (deref b t)"
    using half_mine [OF t b(1)] by (simp_all add: b(2) offer_of_def connection_of_def)
  have offered: "offered (offers_but (cp_endpoint t) (offering t s)) (cp_endpoint t) remote s"
    using b id by (auto simp: offers_but_def offering_def)
  have "p_remote_connection_id (deref a s) \<in> {[], cn_id (of_connection remote)}"
    using half_free [OF s a(1) b(1)] id(2) by simp
  moreover have "qp (of_metadata remote)" using t b(1) id(4) by (simp add: half_def)
  ultimately have returns: "obliges (connect_local E a remote) s" using local_returns [OF _ a(1) id(1,3)] parts by blast
  obtain r s' where ran: "connect_local E a remote s = (r, s')" by fastforce
  have "keeps_peer (cp_endpoint t) s s' \<and> half_of (Updated a up) s' t" if "r = Inr up" for up
  proof -
    note run = ran [unfolded that]
    note same = connect_local_snapshot [OF run]
    from local_step [OF _ _ a(1) offered run] parts have
      s': "known (offers_but (cp_endpoint t) (offering t s)) UNIV s'" "\<not> cp_closed s'" "keeps_peer (cp_endpoint t) s s'"
      and up: "mine a s' t" "up_connection up = connection_of s' (deref a s')" "p_state (deref a s') \<noteq> CREATED" by blast+
    have still: "answered a s' t"
      by (rule answered_keeps [OF a(2,1) conjunct1 [OF half_mine [OF s a(1)]] s'(3) keeps_peer_refl])
    have "half_of (Updated a up) s' t"
      by (rule half_move [OF s s'(3)]) (use s' up still same parts peer_well_formed in \<open>simp_all add: snapshot_of_def\<close>)
    with s'(3) show ?thesis by blast
  qed
  with ran obligesD [OF returns ran] show ?thesis by blast
qed

lemma ready_half:
  assumes s: "half_of q s t" and t: "half ok' live' conn' imps' qp mem (Updated a up) t s"
  shows "\<exists>r s'. handle_Ready E up s = (r, s') \<and> (spent (cp_native s') \<or> (\<exists>sn. r = Inr sn \<and>
    keeps_peer (cp_endpoint t) s s' \<and> half_of q s' t \<and> list_all mem (sn_memories sn)))"
proof -
  note parts = s [unfolded half_def]
  have a: "mine a t s" "p_state (deref a t) \<noteq> CREATED" and "answered a t s"
    and up: "up_connection up = connection_of t (deref a t)" "list_all mem (sn_memories (up_snapshot up))"
    using t by (simp_all add: half_def)
  then obtain b where b: "mine b s t" "p_remote_connection_id (deref b s) = p_connection_id (deref a t)"
    unfolding answered_def by blast
  have id: "cn_endpoint (up_connection up) = cp_endpoint t" "cn_id (up_connection up) = p_connection_id (deref a t)"
    "cn_id (up_connection up) \<noteq> []" using half_mine [OF t a(1)] by (simp_all add: up connection_of_def)
  have at: "map_of (cp_peers s) (cn_endpoint (up_connection up)) = Some b" using b(1) id(1) by simp
  from handle_Ready_returns [OF _ _ at _ id(3) up(2)] parts b(2) id(2) have returns: "obliges (handle_Ready E up) s" by auto
  obtain r s' where ran: "handle_Ready E up s = (r, s')" by fastforce
  have "keeps_peer (cp_endpoint t) s s' \<and> half_of q s' t \<and> list_all mem (sn_memories sn)" if "r = Inr sn" for sn
  proof -
    note run = ran [unfolded that]
    note same = handle_Ready_snapshot [OF run]
    from ready_step [OF _ _ at run] parts id(1) have
      s': "known (offers_but (cp_endpoint t) (offering t s)) UNIV s'" "\<not> cp_closed s'" "keeps_peer (cp_endpoint t) s s'"
      by auto
    from half_wired [OF t a(1,2)] obtain b' where b': "mine b' s t"
      "p_remote_connection_id (deref a t) = p_connection_id (deref b' s)" by blast
    with b(1) have "answered b s t" using a(1) by (auto simp: answered_def)
    from answered_keeps [OF this b(1) conjunct1 [OF half_mine [OF s b(1)]] s'(3) keeps_peer_refl]
    have still: "answered b s' t" .
    have "half_of q s' t"
    proof (rule half_move [OF s s'(3)])
      fix c assume "mine c s' t"
      moreover have "mine b s' t" using b(1) s'(3) by (simp add: keeps_peer_def)
      ultimately show "answered c s' t" using still by simp
    next
      show "stands mem q s' t"
        using stands_keeps [OF _ s'(3) keeps_peer_refl conjunct1 [OF half_mine [OF s]]] parts by blast
    qed (use s' same peer_well_formed in simp_all)
    with s'(3) same parts show ?thesis by (simp add: snapshot_of_def)
  qed
  with ran obligesD [OF returns ran] show ?thesis by blast
qed

lemma finish_half:
  assumes s: "half_of (Served a sn) s t"
  shows "\<exists>r s'. connect_ready E a sn s = (r, s') \<and> (spent (cp_native s') \<or> (\<exists>h. r = Inr h \<and>
    keeps_peer (cp_endpoint t) s s' \<and> half_of (Returned h) s' t))"
proof -
  note parts = s [unfolded half_def]
  have a: "mine a s t" "p_state (deref a s) \<noteq> CREATED" "answered a s t" "list_all mem (sn_memories sn)" using parts by simp_all
  have wf: "wf s" using parts by blast
  from connect_ready_returns [OF wf _ a(4), of a] wf_registered [OF wf a(1)] a(2)
  have returns: "obliges (connect_ready E a sn) s" by blast
  obtain r s' where ran: "connect_ready E a sn s = (r, s')" by fastforce
  have "keeps_peer (cp_endpoint t) s s' \<and> half_of (Returned h) s' t" if "r = Inr h" for h
  proof -
    note run = ran [unfolded that]
    from finish_step [OF _ _ a(1,2) run] parts have
      s': "known (offers_but (cp_endpoint t) (offering t s)) UNIV s'" "\<not> cp_closed s'" "keeps_peer (cp_endpoint t) s s'"
      and h: "p_state (deref a s') = READY" "h = p_handle (deref a s')" by blast+
    have at: "mine a s' t" using a(1) s'(3) by (simp add: keeps_peer_def)
    have still: "answered a s' t"
      by (rule answered_keeps [OF a(3,1) conjunct1 [OF half_mine [OF s a(1)]] s'(3) keeps_peer_refl])
    have "half_of (Returned h) s' t"
      by (rule half_move [OF s s'(3)]) (use s' at still h connect_ready_metadata [OF run] peer_well_formed in auto)
    with s'(3) show ?thesis by blast
  qed
  with ran obligesD [OF returns ran] show ?thesis by blast
qed

end

context obliging_store
begin

lemma late_offer_half:
  assumes s: "half_of q s t" and t: "half ok' live' conn' imps' qp mem p t s"
    and e: "cp_endpoint t \<noteq> []" "cp_endpoint t \<noteq> cp_endpoint s"
  shows "spent (cp_native (late_offer E t s)) \<or>
    half_of q (late_offer E t s) t \<and> keeps_peer (cp_endpoint t) s (late_offer E t s)"
proof (cases "map_of (cp_peers t) (cp_endpoint s)")
  case None
  with s show ?thesis by (simp add: late_offer_def)
next
  case (Some a)
  have "half ok' live' conn' imps' qp mem (Offered a (offer_of t (deref a t))) t s"
    by (rule half_stands [OF t]) (simp add: Some)
  from accept_half [OF s this e] Some show ?thesis by (auto simp: late_offer_def)
qed

lemma late_update_half:
  assumes s: "half_of q s t" and t: "half ok' live' conn' imps' qp mem p t s" and sn: "list_all mem (sn_memories sn)"
  shows "spent (cp_native (late_update E sn t s)) \<or>
    half_of q (late_update E sn t s) t \<and> keeps_peer (cp_endpoint t) s (late_update E sn t s)"
proof (cases "\<exists>a. mine a t s \<and> p_state (deref a t) \<noteq> CREATED")
  case False
  with s show ?thesis by (auto simp: late_update_def split: option.split)
next
  case True
  then obtain a where a: "mine a t s" "p_state (deref a t) \<noteq> CREATED" by blast
  let ?up = "\<lparr>up_connection = connection_of t (deref a t), up_snapshot = sn\<rparr>"
  show ?thesis
  proof (cases "answered a t s")
    case True
    have "half ok' live' conn' imps' qp mem (Updated a ?up) t s"
      by (rule half_stands [OF t]) (simp add: a True sn)
    from ready_half [OF s this] a show ?thesis by (auto simp: late_update_def)
  next
    case False
    then have "\<exists>e. find_connection (up_connection ?up) s = (Inl e, s)"
      by (auto simp: answered_def find_connection_def connection_of_def py_defs split: option.split)
    then have "snd (handle_Ready E ?up s) = s"
      by (auto simp: handle_Ready_def check_open_def py_bind_def py_then_def py_gets_def py_raise_if_def py_return_def
          py_raise_def)
    with a s show ?thesis by (simp add: late_update_def)
  qed
qed

end

text \<open>How far a call has come: after five turns it is over.\<close>

fun stage :: "progress \<Rightarrow> nat" where
  "stage Start = 0"
| "stage (Offered _ _) = 1"
| "stage (Answered _ _) = 2"
| "stage (Updated _ _) = 3"
| "stage (Served _ _) = 4"
| "stage (Returned _) = 5"
| "stage (Raised _) = 5"

text \<open>A spent engine stays spent.\<close>

context obliging_store
begin

lemma spent_stays:
  "spent (cp_native s) \<Longrightarrow> connect_begin E e s = (r1, s') \<Longrightarrow> spent (cp_native s')"
  "spent (cp_native s) \<Longrightarrow> connect_local E a remote s = (r2, s') \<Longrightarrow> spent (cp_native s')"
  "spent (cp_native s) \<Longrightarrow> connect_ready E a sn s = (r3, s') \<Longrightarrow> spent (cp_native s')"
  "spent (cp_native s) \<Longrightarrow> handle_Connect E off s = (r4, s') \<Longrightarrow> spent (cp_native s')"
  "spent (cp_native s) \<Longrightarrow> handle_Ready E up s = (r5, s') \<Longrightarrow> spent (cp_native s')"
  by (fact spending.keeps_sections [THEN keepsD] spending.keeps_handlers [THEN keepsD])+

lemma spent_late: "spent (cp_native s) \<Longrightarrow> spent (cp_native (late_offer E t s))"
  "spent (cp_native s) \<Longrightarrow> spent (cp_native (late_update E sn t s))"
  using spent_stays(4,5) [OF _ surjective_pairing]
  by (auto simp: late_offer_def late_update_def split: option.split)

end

lemma turn_spent:
  assumes E: "obliging_store E ok live conn imps qp mem spent" and F: "obliging_store F ok' live' conn' imps' qp mem spent'"
    and run: "connect_turn E F e p (s, t) = (p', s', t')"
  shows "(spent (cp_native s) \<longrightarrow> spent (cp_native s')) \<and> (spent' (cp_native t) \<longrightarrow> spent' (cp_native t'))"
  using run
  by (cases p) (auto split: prod.splits sum.splits connect_start.splits
      dest: obliging_store.spent_stays [OF E] obliging_store.spent_stays [OF F])

lemma turn_half:
  assumes E: "obliging_store E ok live conn imps qp mem spent" and F: "obliging_store F ok' live' conn' imps' qp mem spent'"
    and s: "half ok live conn imps qp mem p s t" and t: "half ok' live' conn' imps' qp mem q t s"
    and ends: "cp_endpoint s \<noteq> []" "cp_endpoint t \<noteq> []" "cp_endpoint s \<noteq> cp_endpoint t"
    and run: "connect_turn E F (cp_endpoint t) p (s, t) = (p', s', t')"
  shows "spent (cp_native s') \<or> spent' (cp_native t') \<or>
    half ok live conn imps qp mem p' s' t' \<and> half ok' live' conn' imps' qp mem q t' s' \<and>
    cp_endpoint s' = cp_endpoint s \<and> cp_endpoint t' = cp_endpoint t \<and> min 5 (Suc (stage p)) \<le> stage p'"
proof (cases p)
  case Start
  from obliging_store.begin_half [OF E s [unfolded Start] ends(2) ends(3) [symmetric]] obtain r u where
    call: "connect_begin E (cp_endpoint t) s = (r, u)" and u: "spent (cp_native u) \<or> (\<exists>x. r = Inr x \<and>
      keeps_peer (cp_endpoint t) s u \<and>
      half ok live conn imps qp mem (case x of Already h \<Rightarrow> Returned h | Exchange a off \<Rightarrow> Offered a off) u t)" by blast
  from run Start call have now: "s' = u" "t' = t" by (auto split: sum.splits connect_start.splits)
  from u show ?thesis
  proof (elim disjE exE conjE)
    fix x
    assume x: "r = Inr x" "keeps_peer (cp_endpoint t) s u"
      "half ok live conn imps qp mem (case x of Already h \<Rightarrow> Returned h | Exchange a off \<Rightarrow> Offered a off) u t"
    with run Start call have "p' = (case x of Already h \<Rightarrow> Returned h | Exchange a off \<Rightarrow> Offered a off)" by (cases x) auto
    with x now half_other [OF t x(2)] show ?thesis by (cases x) (simp_all add: Start keeps_peer_def)
  qed (use now in simp)
next
  case (Offered a off)
  from obliging_store.accept_half [OF F t s [unfolded Offered] ends(1,3)] obtain r u where
    call: "handle_Connect F off t = (r, u)" and u: "spent' (cp_native u) \<or> (\<exists>remote. r = Inr remote \<and>
      keeps_peer (cp_endpoint s) t u \<and> half ok' live' conn' imps' qp mem q u s \<and> (\<exists>b. mine b u s \<and>
      remote = offer_of u (deref b u) \<and> p_remote_connection_id (deref b u) = p_connection_id (deref a s)))" by blast
  from run Offered call have now: "s' = s" "t' = u" by (auto split: sum.splits)
  from u show ?thesis
  proof (elim disjE exE conjE)
    fix remote b
    assume x: "r = Inr remote" "keeps_peer (cp_endpoint s) t u" "half ok' live' conn' imps' qp mem q u s"
      and b: "mine b u s" "remote = offer_of u (deref b u)" "p_remote_connection_id (deref b u) = p_connection_id (deref a s)"
    have still: "half ok live conn imps qp mem p s u" by (rule half_other [OF s x(2)])
    moreover have "stands mem (Answered a remote) s u" using still b unfolding Offered half_def by (auto simp: answered_def)
    ultimately have "half ok live conn imps qp mem (Answered a remote) s u" by (rule half_stands)
    with run call x show ?thesis by (auto simp: Offered keeps_peer_def)
  qed (use now in simp)
next
  case (Answered a remote)
  from obliging_store.local_half [OF E s [unfolded Answered] t] obtain r u where
    call: "connect_local E a remote s = (r, u)" and u: "spent (cp_native u) \<or> (\<exists>up. r = Inr up \<and>
      keeps_peer (cp_endpoint t) s u \<and> half ok live conn imps qp mem (Updated a up) u t)" by blast
  with run half_other [OF t, of u] show ?thesis by (auto simp: Answered keeps_peer_def split: sum.splits)
next
  case (Updated a up)
  from obliging_store.ready_half [OF F t s [unfolded Updated]] obtain r u where
    call: "handle_Ready F up t = (r, u)" and u: "spent' (cp_native u) \<or> (\<exists>sn. r = Inr sn \<and>
      keeps_peer (cp_endpoint s) t u \<and> half ok' live' conn' imps' qp mem q u s \<and> list_all mem (sn_memories sn))" by blast
  from run Updated call have now: "s' = s" "t' = u" by (auto split: sum.splits)
  from u show ?thesis
  proof (elim disjE exE conjE)
    fix sn
    assume x: "r = Inr sn" "keeps_peer (cp_endpoint s) t u" "half ok' live' conn' imps' qp mem q u s"
      "list_all mem (sn_memories sn)"
    have still: "half ok live conn imps qp mem p s u" by (rule half_other [OF s x(2)])
    moreover have "stands mem (Served a sn) s u" using still x(4) unfolding Updated half_def by simp
    ultimately have "half ok live conn imps qp mem (Served a sn) s u" by (rule half_stands)
    with run call x show ?thesis by (auto simp: Updated keeps_peer_def)
  qed (use now in simp)
next
  case (Served a sn)
  from obliging_store.finish_half [OF E s [unfolded Served]] obtain r u where
    "connect_ready E a sn s = (r, u)" and "spent (cp_native u) \<or> (\<exists>h. r = Inr h \<and>
      keeps_peer (cp_endpoint t) s u \<and> half ok live conn imps qp mem (Returned h) u t)" by blast
  with run half_other [OF t, of u] show ?thesis by (auto simp: Served keeps_peer_def split: sum.splits)
next
  case (Returned h)
  with run s t show ?thesis by auto
next
  case (Raised e)
  with run s t show ?thesis by auto
qed

lemma meet_append: "meet E F (xs @ ys) w = meet E F ys (meet E F xs w)"
  by (induction E F xs w rule: meet.induct) (auto split: prod.splits)

lemma meet_spent:
  assumes E: "obliging_store E ok live conn imps qp mem spent" and F: "obliging_store F ok' live' conn' imps' qp mem spent'"
  shows "case w of (p, q, s, t) \<Rightarrow> case meet E F events w of (p', q', s', t') \<Rightarrow>
    (spent (cp_native s) \<longrightarrow> spent (cp_native s')) \<and> (spent' (cp_native t) \<longrightarrow> spent' (cp_native t'))"
proof (induction events arbitrary: w)
  case (Cons event events)
  obtain p q s t where w: "w = (p, q, s, t)" by (metis prod.collapse)
  obtain p1 q1 s1 t1 where one: "meet E F [event] (p, q, s, t) = (p1, q1, s1, t1)" by (metis prod.collapse)
  have "(spent (cp_native s) \<longrightarrow> spent (cp_native s1)) \<and> (spent' (cp_native t) \<longrightarrow> spent' (cp_native t1))"
  proof (cases event)
    case (Turn side)
    with one turn_spent [OF E F] turn_spent [OF F E] show ?thesis by (cases side) (auto split: prod.splits)
  next
    case (LateOffer side)
    with one obliging_store.spent_late [OF E] obliging_store.spent_late [OF F] show ?thesis by (cases side) auto
  next
    case (LateUpdate side sn)
    with one obliging_store.spent_late [OF E] obliging_store.spent_late [OF F] show ?thesis by (cases side) auto
  next
    case (Retry side)
    with one show ?thesis by (cases side) auto
  qed
  moreover have "meet E F (event # events) w = meet E F events (p1, q1, s1, t1)"
    using meet_append [of E F "[event]" events w] one w by simp
  ultimately show ?case using Cons.IH [of "(p1, q1, s1, t1)"] by (auto simp: w split: prod.splits)
qed (simp split: prod.split)

text \<open>Both halves, at the ends they have from the start.\<close>

definition meeting ::
  "('n control \<Rightarrow> 'k control \<Rightarrow> bool) \<Rightarrow> ('k control \<Rightarrow> 'n control \<Rightarrow> bool) \<Rightarrow> string \<Rightarrow> string
     \<Rightarrow> 'n control \<Rightarrow> 'k control \<Rightarrow> bool" where
  "meeting here_ok there_ok x y s t \<longleftrightarrow> here_ok s t \<and> there_ok t s \<and> cp_endpoint s = x \<and> cp_endpoint t = y"

text \<open>The snapshots that arrive late are of memories that can be read.\<close>

definition readable :: "(bytes \<Rightarrow> bool) \<Rightarrow> event \<Rightarrow> bool" where
  "readable mem event = (case event of LateUpdate _ sn \<Rightarrow> list_all mem (sn_memories sn) | _ \<Rightarrow> True)"

lemma event_half:
  assumes E: "obliging_store E ok live conn imps qp mem spent" and F: "obliging_store F ok' live' conn' imps' qp mem spent'"
    and w: "meeting (half ok live conn imps qp mem p) (half ok' live' conn' imps' qp mem q) x y s t"
    and ends: "x \<noteq> []" "y \<noteq> []" "x \<noteq> y" and event: "readable mem event"
    and run: "meet E F [event] (p, q, s, t) = (p', q', s', t')"
  shows "spent (cp_native s') \<or> spent' (cp_native t') \<or>
    meeting (half ok live conn imps qp mem p') (half ok' live' conn' imps' qp mem q') x y s' t' \<and>
    (event = Turn True \<longrightarrow> min 5 (Suc (stage p)) \<le> stage p' \<and> q' = q) \<and>
    (event = Turn False \<longrightarrow> min 5 (Suc (stage q)) \<le> stage q' \<and> p' = p)"
proof -
  have s: "half ok live conn imps qp mem p s t" and t: "half ok' live' conn' imps' qp mem q t s"
    and x: "x = cp_endpoint s" and y: "y = cp_endpoint t" using w by (simp_all add: meeting_def)
  note ends = ends [unfolded x y]
  show ?thesis
  proof (cases event)
    case (Turn side)
    show ?thesis
    proof (cases side)
      case True
      obtain p1 s1 t1 where turn: "connect_turn E F (cp_endpoint t) p (s, t) = (p1, s1, t1)" by (metis prod_cases3)
      from turn_half [OF E F s t ends turn] Turn True run turn show ?thesis by (auto simp: meeting_def x y)
    next
      case False
      obtain q1 s1 t1 where turn: "connect_turn F E (cp_endpoint s) q (t, s) = (q1, t1, s1)" by (metis prod_cases3)
      from turn_half [OF F E t s ends(2,1) ends(3) [symmetric] turn] Turn False run turn show ?thesis
        by (auto simp: meeting_def x y)
    qed
  next
    case (Retry side)
    have "half ok live conn imps qp mem Start s t" "half ok' live' conn' imps' qp mem Start t s"
      using half_stands [OF s, of Start] half_stands [OF t, of Start] by simp_all
    with Retry s t run show ?thesis by (cases side) (auto simp: meeting_def x y)
  next
    case (LateOffer side)
    show ?thesis
    proof (cases side)
      case True
      from obliging_store.late_offer_half [OF F t s ends(1,3)] half_other [OF s, of "late_offer F s t"] LateOffer True run
      show ?thesis by (auto simp: meeting_def x y keeps_peer_def)
    next
      case False
      from obliging_store.late_offer_half [OF E s t ends(2) ends(3) [symmetric]] half_other [OF t, of "late_offer E t s"]
        LateOffer False run
      show ?thesis by (auto simp: meeting_def x y keeps_peer_def)
    qed
  next
    case (LateUpdate side sn)
    then have sn: "list_all mem (sn_memories sn)" using event by (simp add: readable_def)
    show ?thesis
    proof (cases side)
      case True
      from obliging_store.late_update_half [OF F t s sn] half_other [OF s, of "late_update F sn s t"] LateUpdate True run
      show ?thesis by (auto simp: meeting_def x y keeps_peer_def)
    next
      case False
      from obliging_store.late_update_half [OF E s t sn] half_other [OF t, of "late_update E sn t s"] LateUpdate False run
      show ?thesis by (auto simp: meeting_def x y keeps_peer_def)
    qed
  qed
qed

lemma meet_half:
  assumes E: "obliging_store E ok live conn imps qp mem spent" and F: "obliging_store F ok' live' conn' imps' qp mem spent'"
    and "meeting (half ok live conn imps qp mem p) (half ok' live' conn' imps' qp mem q) x y s t"
    and "x \<noteq> []" "y \<noteq> []" "x \<noteq> y" and "list_all (readable mem) events"
    and "meet E F events (p, q, s, t) = (p', q', s', t')"
  shows "spent (cp_native s') \<or> spent' (cp_native t') \<or>
    meeting (half ok live conn imps qp mem p') (half ok' live' conn' imps' qp mem q') x y s' t' \<and>
    (set events \<subseteq> range Turn \<longrightarrow> min 5 (stage p + count_list events (Turn True)) \<le> stage p' \<and>
       min 5 (stage q + count_list events (Turn False)) \<le> stage q')"
  using assms(3,7,8)
proof (induction events arbitrary: p q s t)
  case Nil
  then show ?case by simp
next
  case (Cons event events)
  have readable: "readable mem event" and later: "list_all (readable mem) events" using Cons.prems(2) by simp_all
  obtain p1 q1 s1 t1 where one: "meet E F [event] (p, q, s, t) = (p1, q1, s1, t1)" by (metis prod.collapse)
  then have rest: "meet E F events (p1, q1, s1, t1) = (p', q', s', t')"
    using meet_append [of E F "[event]" events "(p, q, s, t)"] Cons.prems(3) by simp
  have sticky: "(spent (cp_native s1) \<longrightarrow> spent (cp_native s')) \<and> (spent' (cp_native t1) \<longrightarrow> spent' (cp_native t'))"
    using meet_spent [OF E F, where w = "(p1, q1, s1, t1)" and events = events] by (simp add: rest)
  from event_half [OF E F Cons.prems(1) assms(4-6) readable one] show ?case
  proof (elim disjE)
    assume step: "meeting (half ok live conn imps qp mem p1) (half ok' live' conn' imps' qp mem q1) x y s1 t1 \<and>
      (event = Turn True \<longrightarrow> min 5 (Suc (stage p)) \<le> stage p1 \<and> q1 = q) \<and>
      (event = Turn False \<longrightarrow> min 5 (Suc (stage q)) \<le> stage q1 \<and> p1 = p)"
    from Cons.IH [OF conjunct1 [OF step] later rest] show ?thesis
    proof (elim disjE)
      assume far: "meeting (half ok live conn imps qp mem p') (half ok' live' conn' imps' qp mem q') x y s' t' \<and>
        (set events \<subseteq> range Turn \<longrightarrow> min 5 (stage p1 + count_list events (Turn True)) \<le> stage p' \<and>
           min 5 (stage q1 + count_list events (Turn False)) \<le> stage q')"
      have "min 5 (stage p + count_list (event # events) (Turn True)) \<le> stage p' \<and>
          min 5 (stage q + count_list (event # events) (Turn False)) \<le> stage q'"
        if "set (event # events) \<subseteq> range Turn"
      proof -
        from that obtain side where "event = Turn side" by auto
        with that step far show ?thesis by (cases side) auto
      qed
      with far show ?thesis by blast
    qed simp_all
  qed (use sticky in simp_all)
qed

lemma half_start:
  assumes "control_store E ok live conn imps" and "control_wf ok live conn s" and "\<not> cp_closed s"
    and "map_of (cp_peers s) (cp_endpoint t) = None" and "list_all mem (cp_memory_metadata s)"
  shows "half ok live conn imps qp mem Start s t"
proof -
  have "grounded conn imps (offers_but (cp_endpoint t) (offering t s)) UNIV s"
    by (rule grounded_mono [OF control_store.grounded_but [OF assms(1,2,4)] offers_but_mono]) simp_all
  with assms show ?thesis by (simp add: half_def)
qed

lemma meet_completes:
  assumes E: "obliging_store E ok live conn imps qp mem spent" and F: "obliging_store F ok' live' conn' imps' qp mem spent'"
    and s: "control_wf ok live conn s" "\<not> cp_closed s" "map_of (cp_peers s) (cp_endpoint t) = None"
    and t: "control_wf ok' live' conn' t" "\<not> cp_closed t" "map_of (cp_peers t) (cp_endpoint s) = None"
    and published: "list_all mem (cp_memory_metadata s)" "list_all mem (cp_memory_metadata t)"
      "list_all (readable mem) history"
    and ends: "cp_endpoint s \<noteq> []" "cp_endpoint t \<noteq> []" "cp_endpoint s \<noteq> cp_endpoint t"
    and turns: "5 \<le> count_list turns True" "5 \<le> count_list turns False"
  shows "\<exists>p q s' t' a b. meet E F (history @ map Turn turns) (Start, Start, s, t) = (p, q, s', t') \<and>
    (spent (cp_native s') \<or> spent' (cp_native t') \<or>
     p = Returned (p_handle (deref a s')) \<and> q = Returned (p_handle (deref b t')) \<and>
     map_of (cp_peers s') (cp_endpoint t) = Some a \<and> map_of (cp_peers t') (cp_endpoint s) = Some b \<and>
     p_state (deref a s') = READY \<and> p_state (deref b t') = READY \<and>
     p_remote_connection_id (deref a s') = p_connection_id (deref b t') \<and>
     p_remote_connection_id (deref b t') = p_connection_id (deref a s') \<and>
     conn (cp_native s') (p_handle (deref a s')) = Some (p_metadata (deref b t')) \<and>
     conn' (cp_native t') (p_handle (deref b t')) = Some (p_metadata (deref a s')))"
proof -
  obtain p0 q0 s0 t0 where before: "meet E F history (Start, Start, s, t) = (p0, q0, s0, t0)" by (metis prod.collapse)
  obtain p q s' t' where run: "meet E F (map Turn turns) (p0, q0, s0, t0) = (p, q, s', t')" by (metis prod.collapse)
  have all: "meet E F (history @ map Turn turns) (Start, Start, s, t) = (p, q, s', t')"
    by (simp add: meet_append before run)
  have sticky: "(spent (cp_native s0) \<longrightarrow> spent (cp_native s')) \<and> (spent' (cp_native t0) \<longrightarrow> spent' (cp_native t'))"
    using meet_spent [OF E F, where w = "(p0, q0, s0, t0)" and events = "map Turn turns"] by (simp add: run)
  show ?thesis
  proof (cases "spent (cp_native s') \<or> spent' (cp_native t')")
    case True
    with all show ?thesis by blast
  next
    case fresh: False
    have "meeting (half ok live conn imps qp mem Start) (half ok' live' conn' imps' qp mem Start) (cp_endpoint s) (cp_endpoint t) s t"
      using half_start [OF obliging_store.axioms(1) [OF E] s published(1)]
        half_start [OF obliging_store.axioms(1) [OF F] t published(2)] by (simp add: meeting_def)
    from meet_half [OF E F this ends published(3) before] sticky fresh have
      w0: "meeting (half ok live conn imps qp mem p0) (half ok' live' conn' imps' qp mem q0) (cp_endpoint s) (cp_endpoint t) s0 t0"
      by blast
    have counts: "count_list (map Turn turns) (Turn side) = count_list turns side" for side
      by (induction turns) auto
    have "list_all (readable mem) (map Turn turns)" by (simp add: list_all_iff readable_def)
    from meet_half [OF E F w0 ends this run] fresh have
      w: "meeting (half ok live conn imps qp mem p) (half ok' live' conn' imps' qp mem q) (cp_endpoint s) (cp_endpoint t) s' t'"
      and far: "set (map Turn turns) \<subseteq> range Turn \<longrightarrow>
        min 5 (stage p0 + count_list (map Turn turns) (Turn True)) \<le> stage p \<and>
        min 5 (stage q0 + count_list (map Turn turns) (Turn False)) \<le> stage q" by blast+
    have halves: "half ok live conn imps qp mem p s' t'" "half ok' live' conn' imps' qp mem q t' s'"
      and same: "cp_endpoint s' = cp_endpoint s" "cp_endpoint t' = cp_endpoint t" using w by (simp_all add: meeting_def)
    have "5 \<le> stage p" "5 \<le> stage q" using far turns counts by auto
    moreover from halves have "\<forall>e. p \<noteq> Raised e" "\<forall>e. q \<noteq> Raised e" by (auto simp: half_def)
    ultimately obtain h k where pq: "p = Returned h" "q = Returned k" by (cases p; cases q) auto
    from halves pq obtain a b where a: "mine a s' t'" "p_state (deref a s') = READY" "h = p_handle (deref a s')"
      and b: "mine b t' s'" "p_state (deref b t') = READY" "k = p_handle (deref b t')" by (auto simp: half_def)
    from half_wired [OF halves(1) a(1)] half_wired [OF halves(2) b(1)] a(1,2) b(1,2) have
      "p_remote_connection_id (deref a s') = p_connection_id (deref b t')"
      "p_remote_connection_id (deref b t') = p_connection_id (deref a s')"
      "conn (cp_native s') (p_handle (deref a s')) = Some (p_metadata (deref b t'))"
      "conn' (cp_native t') (p_handle (deref b t')) = Some (p_metadata (deref a s'))" by auto
    with all pq a b same show ?thesis
      by (intro exI [of _ p] exI [of _ q] exI [of _ s'] exI [of _ t'] exI [of _ a] exI [of _ b]) simp
  qed
qed

text \<open>
  C8: simultaneous connects complete. Let two open planes without a peer for each other, at different nonempty
  endpoints, over engines that understand each other's metadata and do what they are asked for until they run out of
  something, call \<open>connect\<close> with the endpoint of the other at the same time. Whatever happened so far, in whatever
  order the sections of the calls and the handlers of their requests ran, with calls that gave up and were made again
  and with requests that arrived late or more than once: as soon as both calls take five more turns each, in any order,
  both have returned, unless an engine is spent by then. They return the handle of the one peer
  each side has for the other; both peers are ready, hold the connection id of the other, and are connected to the
  metadata of the other.
\<close>

theorem simultaneous_connects_complete:
  assumes E: "obliging_store E ok live conn imps qp mem spent" and F: "obliging_store F ok' live' conn' imps' qp mem spent'"
    and s: "control_wf ok live conn s" "\<not> cp_closed s" "map_of (cp_peers s) (cp_endpoint t) = None"
    and t: "control_wf ok' live' conn' t" "\<not> cp_closed t" "map_of (cp_peers t) (cp_endpoint s) = None"
    and published: "list_all mem (cp_memory_metadata s)" "list_all mem (cp_memory_metadata t)"
      "list_all (readable mem) history"
    and ends: "cp_endpoint s \<noteq> []" "cp_endpoint t \<noteq> []" "cp_endpoint s \<noteq> cp_endpoint t"
    and turns: "5 \<le> count_list turns True" "5 \<le> count_list turns False"
  shows "\<exists>p q s' t' a b. meet E F (history @ map Turn turns) (Start, Start, s, t) = (p, q, s', t') \<and>
    (spent (cp_native s') \<or> spent' (cp_native t') \<or>
     p = Returned (p_handle (deref a s')) \<and> q = Returned (p_handle (deref b t')) \<and>
     map_of (cp_peers s') (cp_endpoint t) = Some a \<and> map_of (cp_peers t') (cp_endpoint s) = Some b \<and>
     p_state (deref a s') = READY \<and> p_state (deref b t') = READY \<and>
     p_remote_connection_id (deref a s') = p_connection_id (deref b t') \<and>
     p_remote_connection_id (deref b t') = p_connection_id (deref a s') \<and>
     conn (cp_native s') (p_handle (deref a s')) = Some (p_metadata (deref b t')) \<and>
     conn' (cp_native t') (p_handle (deref b t')) = Some (p_metadata (deref a s')))"
  by (rule meet_completes [OF assms])

text \<open>Two processes of the tests: the first gives up after its offer was handled, tries again, and the offer arrives twice.\<close>

theorem simultaneous_connects_complete_witness:
  "\<exists>s t a b. meet demo_env demo_env ([Turn True, Turn True, Retry True, Turn False, LateOffer True] @
      map Turn [True, False, True, False, True, False, True, False, True, False])
      (Start, Start, demo_published, demo_start ''n1'') =
      (Returned (p_handle (deref a s)), Returned (p_handle (deref b t)), s, t) \<and>
    fake_conn (cp_native s) (p_handle (deref a s)) = Some (p_metadata (deref b t)) \<and>
    fake_conn (cp_native t) (p_handle (deref b t)) = Some (p_metadata (deref a s))"
proof -
  have ends: "map_of (cp_peers demo_published) (cp_endpoint (demo_start ''n1'')) = None"
    "map_of (cp_peers (demo_start ''n1'')) (cp_endpoint demo_published) = None"
    "cp_endpoint demo_published \<noteq> []" "cp_endpoint (demo_start ''n1'') \<noteq> []"
    "cp_endpoint demo_published \<noteq> cp_endpoint (demo_start ''n1'')"
    "\<not> cp_closed demo_published" "\<not> cp_closed (demo_start ''n1'')"
    by (simp_all add: demo_planes_sel)
  have turns: "5 \<le> count_list [True, False, True, False, True, False, True, False, True, False] True"
    "5 \<le> count_list [True, False, True, False, True, False, True, False, True, False] False" by simp_all
  have published: "list_all (\<lambda>_. True) (cp_memory_metadata demo_published)"
    "list_all (\<lambda>_. True) (cp_memory_metadata (demo_start ''n1''))"
    "list_all (readable (\<lambda>_. True)) [Turn True, Turn True, Retry True, Turn False, LateOffer True]"
    by (simp_all add: list_all_iff readable_def)
  from simultaneous_connects_complete [OF obliging_fake.obliging_store_axioms obliging_fake.obliging_store_axioms
      demo_planes_wf(1) ends(6,1) demo_planes_wf(2) ends(7,2) published ends(3-5) turns]
  show ?thesis by blast
qed

end
