(* ===== verification/Sharing.thy ===== *)
theory Sharing
  imports Handshake
begin

text \<open>
  Registered memory reaches the other processes: \<open>publish\<close> of one plane, each of its requests handled by the plane
  of the process it goes to. When it returns, every process with a ready peer has imported everything published
  (\<^verbatim>\<open>test_registration_is_imported_before_return\<close>).
\<close>

section \<open>One plane and the processes it is connected to\<close>

text \<open>The plane of each other process, by endpoint, and the request \<open>Changed\<close> handled by one of them.\<close>

definition changed_at ::
  "('k, 'y) control_env_scheme \<Rightarrow> string \<Rightarrow> update \<Rightarrow> ('n control \<times> (string \<Rightarrow> 'k control), exn, unit) py" where
  "changed_at F endpoint update = (\<lambda>(s, procs). case handle_Changed F update (procs endpoint) of
     (r, t) \<Rightarrow> (case r of Inl _ \<Rightarrow> Inl RpcError | Inr _ \<Rightarrow> Inr (), s, procs(endpoint := t)))"

text \<open>\<open>publish(metadata)\<close>\<close>

definition publish_peer ::
  "('k, 'y) control_env_scheme \<Rightarrow> snapshot \<Rightarrow> nat \<Rightarrow> ('n control \<times> (string \<Rightarrow> 'k control), exn, unit) py" where
  "publish_peer F snapshot ref =
     py_bind (here (py_gets id)) (\<lambda>s.
     py_then (here (stub (p_endpoint (deref ref s))))
       (changed_at F (p_endpoint (deref ref s))
          \<lparr>up_connection = connection_of s (deref ref s), up_snapshot = snapshot\<rparr>))"

definition publish_all ::
  "('k, 'y) control_env_scheme \<Rightarrow> bytes \<Rightarrow> ('n control \<times> (string \<Rightarrow> 'k control), exn, unit) py" where
  "publish_all F metadata =
     py_bind (here (publish_begin metadata)) (\<lambda>(snapshot, refs). py_each (publish_peer F snapshot) refs)"

text \<open>
  It is the \<open>publish\<close> of one plane, with the answers of the processes: they differ in their endpoints, so each is
  asked once.
\<close>

definition answer_Changed ::
  "('k, 'y) control_env_scheme \<Rightarrow> (string \<Rightarrow> 'k control) \<Rightarrow> string \<Rightarrow> update \<Rightarrow> ('n, unit) control_call" where
  "answer_Changed F procs endpoint update s =
     (case fst (handle_Changed F update (procs endpoint)) of Inl _ \<Rightarrow> Inl RpcError | Inr _ \<Rightarrow> Inr (), s)"

lemma publish_peers_answers:
  assumes "distinct (map (\<lambda>ref. p_endpoint (deref ref s)) refs)"
    and "\<forall>ref \<in> set refs. procs (p_endpoint (deref ref s)) = procs0 (p_endpoint (deref ref s))"
    and "py_each (publish_peer F sn) refs (s, procs) = (r, s', procs')"
  shows "py_each (publish_to (answer_Changed F procs0) sn) refs s = (r, s')"
  using assms
proof (induction refs arbitrary: s procs)
  case Nil
  then show ?case by (simp add: py_return_def)
next
  case (Cons ref refs)
  let ?e = "p_endpoint (deref ref s)"
  let ?up = "\<lparr>up_connection = connection_of s (deref ref s), up_snapshot = sn\<rparr>"
  obtain u c where stub: "stub ?e s = (Inr u, s\<lparr>cp_channels := c\<rparr>)" by (metis prod.collapse stub_eq)
  obtain q t where call: "handle_Changed F ?up (procs ?e) = (q, t)" by (rule prod.exhaust)
  then have answer: "fst (handle_Changed F ?up (procs0 ?e)) = q" using Cons.prems(2) by simp
  let ?s = "s\<lparr>cp_channels := c\<rparr>" and ?procs = "procs(?e := t)"
  have one: "publish_peer F sn ref (s, procs) = (case q of Inl _ \<Rightarrow> Inl RpcError | Inr _ \<Rightarrow> Inr (), ?s, ?procs)"
    "publish_to (answer_Changed F procs0) sn ref s = (case q of Inl _ \<Rightarrow> Inl RpcError | Inr _ \<Rightarrow> Inr (), ?s)"
    using stub call answer by (simp_all add: publish_peer_def publish_to_def changed_at_def answer_Changed_def here_def
        py_zoom_def py_bind_def py_then_def py_gets_def)
  show ?case
  proof (cases q)
    case (Inl x)
    with Cons.prems(3) one show ?thesis by (auto simp: py_then_def py_bind_def)
  next
    case (Inr x)
    with Cons.prems(3) one(1) have rest: "py_each (publish_peer F sn) refs (?s, ?procs) = (r, s', procs')"
      by (simp add: py_then_def py_bind_def)
    have "distinct (map (\<lambda>r. p_endpoint (deref r ?s)) refs)" using Cons.prems(1) by simp
    moreover have "\<forall>r \<in> set refs. ?procs (p_endpoint (deref r ?s)) = procs0 (p_endpoint (deref r ?s))"
      using Cons.prems(1,2) by (auto simp: image_iff fun_upd_other)
    ultimately have "py_each (publish_to (answer_Changed F procs0) sn) refs ?s = (r, s')"
      by (rule Cons.IH [OF _ _ rest])
    with Inr one(2) show ?thesis by (simp add: py_then_def py_bind_def)
  qed
qed

section \<open>The other side\<close>

text \<open>The peer of a process for the publisher, which has the connection id of the publisher's peer.\<close>

definition hears :: "string \<Rightarrow> string \<Rightarrow> int \<Rightarrow> nat \<Rightarrow> 'k control \<Rightarrow> bool" where
  "hears e i v b t \<longleftrightarrow> map_of (cp_peers t) e = Some b \<and> p_remote_connection_id (deref b t) = i \<and>
     p_remote_version (deref b t) = v"

context obliging_store
begin

lemma changed_returns:
  assumes t: "wf t" "\<not> cp_closed t" and b: "hears (cn_endpoint (up_connection up)) (cn_id (up_connection up)) v b t"
    and up: "cn_id (up_connection up) \<noteq> []" "v < sn_version (up_snapshot up)"
    and sound: "sound (sn_memories (up_snapshot up))"
  shows "\<exists>r t'. handle_Changed E up t = (r, t') \<and> (spent (cp_native t') \<or> r = Inr () \<and> wf t' \<and> \<not> cp_closed t' \<and>
    hears (cn_endpoint (up_connection up)) (cn_id (up_connection up)) (sn_version (up_snapshot up)) b t' \<and>
    set (sn_memories (up_snapshot up)) \<subseteq> imps (cp_native t') (p_handle (deref b t')))"
proof -
  have at: "map_of (cp_peers t) (cn_endpoint (up_connection up)) = Some b"
    "p_remote_connection_id (deref b t) = cn_id (up_connection up)" "p_remote_version (deref b t) = v"
    using b by (simp_all add: hears_def)
  have linked: "linked b t" using wf_registered [OF t(1) at(1)] wf_state(2) [OF t(1) wf_peer(1) [OF t(1) at(1)]] at(2) up(1)
    by simp
  obtain x t' where ran: "import_snapshot E b (up_snapshot up) t = (x, t')" by fastforce
  have handled: "handle_Changed E up t = (x, t')"
    using ran t(2) at up(1) by (simp add: handle_Changed_def check_open_def find_connection_def py_bind_def py_then_def
        py_gets_def py_raise_if_def py_return_def)
  show ?thesis
  proof (cases "x = Inr ()")
    case False
    with obligesD [OF import_snapshot_returns [OF t(1) linked sound] ran] handled show ?thesis by auto
  next
    case True
    note run = ran [unfolded True]
    obtain r n where each': "py_each (\<lambda>metadata. na_import_remote_memory E (p_handle (deref b t)) (Bytes metadata))
        (sn_memories (up_snapshot up)) (cp_native t) = (r, n)" by (rule prod.exhaust)
    from import_snapshot_run [OF run] up(2) at(3) each' have r: "r = Inr ()"
      and t': "t' = t\<lparr>cp_native := n, cp_heap := (cp_heap t)(b := (deref b t)
        \<lparr>p_remote_version := sn_version (up_snapshot up)\<rparr>)\<rparr>"
      by (cases r; simp)+
    note each = each' [unfolded r]
    from import_list [OF wf_ok [OF t(1)] each] have
      "set (sn_memories (up_snapshot up)) \<subseteq> imps n (p_handle (deref b t))" by auto
    moreover have "wf t'" using guardedD(1) [OF sec_import_snapshot t(1) linked run] .
    ultimately show ?thesis using t(2) at handled True by (simp add: t' hears_def)
  qed
qed

text \<open>Everything each of the processes needs to take part.\<close>

definition listens :: "string \<Rightarrow> string \<Rightarrow> int \<Rightarrow> 'n control \<Rightarrow> bool" where
  "listens e i n t \<longleftrightarrow> wf t \<and> \<not> cp_closed t \<and> (\<exists>b v. hears e i v b t \<and> v < n)"

text \<open>What it has when the publication returns.\<close>

definition has_all :: "string \<Rightarrow> string \<Rightarrow> snapshot \<Rightarrow> 'n control \<Rightarrow> bool" where
  "has_all e i sn t \<longleftrightarrow> wf t \<and> \<not> cp_closed t \<and> (\<exists>b. hears e i (sn_version sn) b t \<and>
     set (sn_memories sn) \<subseteq> imps (cp_native t) (p_handle (deref b t)))"

lemma publish_peers:
  assumes "distinct (map (\<lambda>ref. p_endpoint (deref ref s)) refs)"
    and "\<And>ref. ref \<in> set refs \<Longrightarrow> p_connection_id (deref ref s) \<noteq> [] \<and>
      listens (cp_endpoint s) (p_connection_id (deref ref s)) (sn_version sn) (procs (p_endpoint (deref ref s)))"
    and "sound (sn_memories sn)"
  shows "\<exists>r c procs'. py_each (publish_peer E sn) refs (s, procs) = (r, s\<lparr>cp_channels := c\<rparr>, procs') \<and>
    ((\<exists>ref \<in> set refs. spent (cp_native (procs' (p_endpoint (deref ref s))))) \<or> r = Inr () \<and>
      (\<forall>ref \<in> set refs. has_all (cp_endpoint s) (p_connection_id (deref ref s)) sn (procs' (p_endpoint (deref ref s))))) \<and>
    (\<forall>e. e \<notin> (\<lambda>ref. p_endpoint (deref ref s)) ` set refs \<longrightarrow> procs' e = procs e)"
  using assms
proof (induction refs arbitrary: s procs)
  case Nil
  have "s = s\<lparr>cp_channels := cp_channels s\<rparr>" by simp
  then show ?case by (auto simp: py_return_def intro!: exI [of _ "cp_channels s"])
next
  case (Cons ref refs)
  let ?e = "p_endpoint (deref ref s)"
  let ?up = "\<lparr>up_connection = connection_of s (deref ref s), up_snapshot = sn\<rparr>"
  from Cons.prems(2) [of ref] obtain b v where
    t: "wf (procs ?e)" "\<not> cp_closed (procs ?e)" "hears (cp_endpoint s) (p_connection_id (deref ref s)) v b (procs ?e)"
    and id: "p_connection_id (deref ref s) \<noteq> []" "v < sn_version sn" by (auto simp: listens_def)
  from changed_returns [OF t(1,2), of ?up v b] t(3) id Cons.prems(3) obtain q t' where
    call: "handle_Changed E ?up (procs ?e) = (q, t')"
    and t': "spent (cp_native t') \<or> q = Inr () \<and> has_all (cp_endpoint s) (p_connection_id (deref ref s)) sn t'"
    by (fastforce simp: connection_of_def has_all_def)
  obtain u c where stub: "stub ?e s = (Inr u, s\<lparr>cp_channels := c\<rparr>)" by (metis prod.collapse stub_eq)
  let ?s = "s\<lparr>cp_channels := c\<rparr>" and ?procs = "procs(?e := t')"
  have one: "publish_peer E sn ref (s, procs) = (case q of Inl _ \<Rightarrow> Inl RpcError | Inr _ \<Rightarrow> Inr (), ?s, ?procs)"
    using stub call by (simp add: publish_peer_def changed_at_def here_def py_zoom_def py_bind_def py_then_def py_gets_def)
  show ?case
  proof (cases q)
    case (Inl x)
    with t' have "spent (cp_native t')" by simp
    moreover have "py_each (publish_peer E sn) (ref # refs) (s, procs) = (Inl RpcError, ?s, ?procs)"
      using one Inl by (simp add: py_then_def py_bind_def)
    ultimately show ?thesis by (intro exI [of _ "Inl RpcError"] exI [of _ c] exI [of _ ?procs]) (simp add: fun_upd_def)
  next
    case (Inr x)
    have "listens (cp_endpoint ?s) (p_connection_id (deref r ?s)) (sn_version sn) (?procs (p_endpoint (deref r ?s)))"
      "p_connection_id (deref r ?s) \<noteq> []" if "r \<in> set refs" for r
      using Cons.prems(1) Cons.prems(2) [of r] that by (auto simp: image_iff fun_upd_other)
    moreover have "distinct (map (\<lambda>r. p_endpoint (deref r ?s)) refs)" using Cons.prems(1) by simp
    ultimately obtain r c' procs' where rest:
      "py_each (publish_peer E sn) refs (?s, ?procs) = (r, ?s\<lparr>cp_channels := c'\<rparr>, procs')"
      "(\<exists>r \<in> set refs. spent (cp_native (procs' (p_endpoint (deref r ?s))))) \<or> r = Inr () \<and>
        (\<forall>r \<in> set refs. has_all (cp_endpoint ?s) (p_connection_id (deref r ?s)) sn (procs' (p_endpoint (deref r ?s))))"
      "\<forall>e. e \<notin> (\<lambda>r. p_endpoint (deref r ?s)) ` set refs \<longrightarrow> procs' e = ?procs e"
      using Cons.IH [of ?s ?procs] Cons.prems(3) by blast
    have "?e \<notin> (\<lambda>r. p_endpoint (deref r s)) ` set refs" using Cons.prems(1) by simp
    with rest(3) have "procs' ?e = t'" by simp
    moreover have "py_each (publish_peer E sn) (ref # refs) (s, procs) = (r, s\<lparr>cp_channels := c'\<rparr>, procs')"
      using one Inr rest(1) by (simp add: py_then_def py_bind_def)
    ultimately show ?thesis using rest(2,3) t'
      by (intro exI [of _ r] exI [of _ c'] exI [of _ procs']) auto
  qed
qed

end

abbreviation ready_refs :: "'n control \<Rightarrow> nat list" where
  "ready_refs s \<equiv> filter (\<lambda>ref. p_state (deref ref s) = READY) (map snd (cp_peers s))"

lemma publish_begin_open:
  "\<not> cp_closed s \<Longrightarrow> publish_begin md s = (Inr (snapshot_of (s\<lparr>cp_memory_metadata := cp_memory_metadata s @ [md]\<rparr>),
     ready_refs s), s\<lparr>cp_memory_metadata := cp_memory_metadata s @ [md]\<rparr>)"
  by (simp add: publish_begin_def check_open_eq py_eqs)

context control_store
begin

lemma ready_endpoints:
  assumes "wf s"
  shows "map (\<lambda>ref. p_endpoint (deref ref s)) (map snd (cp_peers s)) = map fst (cp_peers s)"
    and "ref \<in> snd ` set (cp_peers s) \<longleftrightarrow> map_of (cp_peers s) (p_endpoint (deref ref s)) = Some ref"
proof -
  have d: "distinct (map fst (cp_peers s))" using assms by (simp add: control_wf_def dict_ok_def)
  have in_dict: "map_of (cp_peers s) e = Some a \<longleftrightarrow> (e, a) \<in> set (cp_peers s)" for e a
    using d by (simp add: map_of_eq_Some_iff)
  show "map (\<lambda>ref. p_endpoint (deref ref s)) (map snd (cp_peers s)) = map fst (cp_peers s)"
    using wf_peer(4) [OF assms] in_dict by auto
  show "ref \<in> snd ` set (cp_peers s) \<longleftrightarrow> map_of (cp_peers s) (p_endpoint (deref ref s)) = Some ref"
  proof
    assume "ref \<in> snd ` set (cp_peers s)"
    then obtain e where "map_of (cp_peers s) e = Some ref" using in_dict by auto
    with wf_peer(4) [OF assms this] show "map_of (cp_peers s) (p_endpoint (deref ref s)) = Some ref" by simp
  qed (auto dest!: map_of_SomeD intro: rev_image_eqI)
qed

lemma ready_distinct: "wf s \<Longrightarrow> distinct (map (\<lambda>ref. p_endpoint (deref ref s)) (ready_refs s))"
  by (intro distinct_map_filter) (subst ready_endpoints(1), simp_all add: control_wf_def dict_ok_def)

lemma publish_all_is_publish:
  assumes "wf s" and "publish_all F md (s, procs) = (r, s', procs')"
  shows "publish (answer_Changed F procs) md s = (r, s')"
proof -
  let ?s = "s\<lparr>cp_memory_metadata := cp_memory_metadata s @ [md]\<rparr>"
  have "distinct (map (\<lambda>ref. p_endpoint (deref ref ?s)) (ready_refs s))" using ready_distinct [OF assms(1)] by simp
  note each = publish_peers_answers [OF this, of procs procs F "snapshot_of ?s" r s' procs', simplified]
  show ?thesis
  proof (cases "cp_closed s")
    case True
    then have "publish_begin md s = (Inl (RuntimeError (Msg ''engine is closed'')), s)"
      by (simp add: publish_begin_def check_open_def py_defs)
    with assms(2) show ?thesis
      by (auto simp: publish_all_def publish_def here_def py_zoom_def py_bind_def)
  next
    case False
    with assms(2) each show ?thesis using publish_begin_open [OF False, of md]
      by (simp add: publish_all_def publish_def here_def py_zoom_def py_bind_def)
  qed
qed

end

text \<open>
  C9: registered memory arrives before the registration returns. Let every ready peer of an open plane be the other
  end of a connection: the process at its endpoint is open and has a peer for this plane under the connection id
  of this side, with no version recorded that this plane has not reached; and let the published memories be in the form
  the engines of these processes read. Then \<open>publish\<close> returns, and each of those processes has recorded the version of
  the new snapshot and imported all that this plane ever published on the handle of its peer for this plane, unless one
  of their engines has run out of something by then. In any case the metadata is published and no other process was
  called.
\<close>

theorem published_before_return:
  assumes E: "control_store E ok live conn imps" and F: "obliging_store F ok' live' conn' imps' qp mem spent"
    and s: "control_wf ok live conn s" "\<not> cp_closed s" and readable: "list_all mem (cp_memory_metadata s @ [md])"
    and linked: "\<forall>e a. map_of (cp_peers s) e = Some a \<and> p_state (deref a s) = READY \<longrightarrow>
      control_wf ok' live' conn' (procs e) \<and> \<not> cp_closed (procs e) \<and>
      (\<exists>b. map_of (cp_peers (procs e)) (cp_endpoint s) = Some b \<and>
        p_remote_connection_id (deref b (procs e)) = p_connection_id (deref a s) \<and>
        p_remote_version (deref b (procs e)) \<le> int (length (cp_memory_metadata s)))"
  shows "\<exists>r s' procs'. publish_all F md (s, procs) = (r, s', procs') \<and>
    cp_memory_metadata s' = cp_memory_metadata s @ [md] \<and>
    ((\<exists>e a. map_of (cp_peers s) e = Some a \<and> p_state (deref a s) = READY \<and> spent (cp_native (procs' e))) \<or>
     r = Inr () \<and> (\<forall>e a. map_of (cp_peers s) e = Some a \<and> p_state (deref a s) = READY \<longrightarrow>
      (\<exists>b. map_of (cp_peers (procs' e)) (cp_endpoint s) = Some b \<and>
        p_remote_version (deref b (procs' e)) = int (length (cp_memory_metadata s')) \<and>
        set (cp_memory_metadata s') \<subseteq> imps' (cp_native (procs' e)) (p_handle (deref b (procs' e)))))) \<and>
    (\<forall>e. (\<forall>a. map_of (cp_peers s) e = Some a \<longrightarrow> p_state (deref a s) \<noteq> READY) \<longrightarrow> procs' e = procs e)"
proof -
  let ?s = "s\<lparr>cp_memory_metadata := cp_memory_metadata s @ [md]\<rparr>"
  let ?refs = "ready_refs s"
  have refs: "ref \<in> set ?refs \<longleftrightarrow>
    map_of (cp_peers s) (p_endpoint (deref ref s)) = Some ref \<and> p_state (deref ref s) = READY" for ref
    using control_store.ready_endpoints(2) [OF E s(1), of ref] by auto
  have "distinct (map (\<lambda>ref. p_endpoint (deref ref ?s)) ?refs)"
    using control_store.ready_distinct [OF E s(1)] by simp
  moreover have "p_connection_id (deref ref ?s) \<noteq> [] \<and> obliging_store.listens ok' live' conn' (cp_endpoint ?s)
      (p_connection_id (deref ref ?s)) (sn_version (snapshot_of ?s)) (procs (p_endpoint (deref ref ?s)))"
    if "ref \<in> set ?refs" for ref
  proof -
    from that have at: "map_of (cp_peers s) (p_endpoint (deref ref s)) = Some ref" "p_state (deref ref s) = READY"
      using refs by blast+
    have "p_connection_id (deref ref s) \<noteq> []"
      using control_store.wf_state(1) [OF E s(1) control_store.wf_peer(1) [OF E s(1) at(1)]] .
    with linked [rule_format, OF conjI [OF at]] show ?thesis
      by (auto simp: obliging_store.listens_def [OF F] hears_def snapshot_of_def)
  qed
  moreover have sound: "list_all mem (sn_memories (snapshot_of ?s))" using readable by (simp add: snapshot_of_def)
  ultimately obtain r c procs' where
    run: "py_each (publish_peer F (snapshot_of ?s)) ?refs (?s, procs) = (r, ?s\<lparr>cp_channels := c\<rparr>, procs')"
    and outcome: "(\<exists>ref \<in> set ?refs. spent (cp_native (procs' (p_endpoint (deref ref ?s))))) \<or> r = Inr () \<and>
      (\<forall>ref \<in> set ?refs. obliging_store.has_all ok' live' conn' imps' (cp_endpoint ?s)
        (p_connection_id (deref ref ?s)) (snapshot_of ?s) (procs' (p_endpoint (deref ref ?s))))"
    and others: "\<forall>e. e \<notin> (\<lambda>ref. p_endpoint (deref ref ?s)) ` set ?refs \<longrightarrow> procs' e = procs e"
    using obliging_store.publish_peers [OF F, of ?s ?refs "snapshot_of ?s" procs] sound by blast
  have "publish_all F md (s, procs) = (r, ?s\<lparr>cp_channels := c\<rparr>, procs')"
    using run publish_begin_open [OF s(2), of md] by (simp add: publish_all_def here_def py_zoom_def py_bind_def)
  moreover have "procs' e = procs e" if "\<forall>a. map_of (cp_peers s) e = Some a \<longrightarrow> p_state (deref a s) \<noteq> READY" for e
  proof -
    from that refs have "e \<notin> (\<lambda>ref. p_endpoint (deref ref ?s)) ` set ?refs" by auto
    with others show ?thesis by simp
  qed
  moreover have ref: "a \<in> set ?refs \<and> p_endpoint (deref a s) = e"
    if "map_of (cp_peers s) e = Some a" "p_state (deref a s) = READY" for e a
    using that control_store.wf_peer(4) [OF E s(1)] refs [of a] by auto
  from outcome have "(\<exists>e a. map_of (cp_peers s) e = Some a \<and> p_state (deref a s) = READY \<and> spent (cp_native (procs' e))) \<or>
      r = Inr () \<and> (\<forall>e a. map_of (cp_peers s) e = Some a \<and> p_state (deref a s) = READY \<longrightarrow>
        (\<exists>b. map_of (cp_peers (procs' e)) (cp_endpoint s) = Some b \<and>
          p_remote_version (deref b (procs' e)) = int (length (cp_memory_metadata ?s)) \<and>
          set (cp_memory_metadata ?s) \<subseteq> imps' (cp_native (procs' e)) (p_handle (deref b (procs' e)))))"
  proof
    assume "\<exists>ref \<in> set ?refs. spent (cp_native (procs' (p_endpoint (deref ref ?s))))"
    then show ?thesis using refs by auto
  next
    assume all: "r = Inr () \<and> (\<forall>ref \<in> set ?refs. obliging_store.has_all ok' live' conn' imps' (cp_endpoint ?s)
        (p_connection_id (deref ref ?s)) (snapshot_of ?s) (procs' (p_endpoint (deref ref ?s))))"
    have "\<exists>b. map_of (cp_peers (procs' e)) (cp_endpoint s) = Some b \<and>
        p_remote_version (deref b (procs' e)) = int (length (cp_memory_metadata ?s)) \<and>
        set (cp_memory_metadata ?s) \<subseteq> imps' (cp_native (procs' e)) (p_handle (deref b (procs' e)))"
      if "map_of (cp_peers s) e = Some a" "p_state (deref a s) = READY" for e a
      using all ref [OF that] by (auto simp: obliging_store.has_all_def [OF F] hears_def snapshot_of_def)
    with all show ?thesis by blast
  qed
  ultimately show ?thesis by (intro exI [of _ r] exI [of _ "?s\<lparr>cp_channels := c\<rparr>"] exI [of _ procs']) simp
qed

text \<open>\<open>n0\<close> after its connection to \<open>n1\<close>, publishing a second memory.\<close>

definition demo_shared :: "fake control" where
  "demo_shared = snd (connect_ready demo_env 0 \<lparr>sn_version = 0, sn_memories = []\<rparr> demo_linked)"

lemma demo_finish: "connect_ready demo_env 0 \<lparr>sn_version = 0, sn_memories = []\<rparr> demo_linked = (Inr 1, demo_shared)"
  by (simp add: demo_shared_def demo_state_defs control_run_defs fake_create_peer_def fake_init_def deref_def demo_uuid_def
      decimal_digits del: heap_deref)

lemma demo_shared_sel:
  "cp_peers demo_shared = [(''n1:1'', 0)]" "p_connection_id (deref 0 demo_shared) = ''id0''"
  "cp_endpoint demo_shared = ''n0:1''" "cp_memory_metadata demo_shared = [[5]]" "\<not> cp_closed demo_shared"
  "p_state (deref 0 demo_shared) = READY"
  "p_remote_connection_id (deref 0 demo_served) = ''id0''" "\<not> cp_closed demo_served"
  by (simp_all add: demo_shared_def demo_state_defs control_run_defs fake_create_peer_def fake_init_def deref_def demo_uuid_def
      decimal_digits del: heap_deref)

lemma demo_shared_wf:
  "control_wf fake_ok fake_live fake_conn demo_shared" "control_wf fake_ok fake_live fake_conn demo_served"
proof -
  note begun = guardedD(1) [OF fake_control.sec_connect_begin demo_planes_wf(1) TrueI demo_steps(2)]
  have "(0 :: nat) < cp_next_ref demo_offering" "joined 0 demo_linked"
    by (simp_all add: joined_def demo_state_defs control_run_defs fake_create_peer_def fake_init_def deref_def
        demo_uuid_def decimal_digits del: heap_deref)
  with guardedD(1) [OF fake_control.sec_connect_local begun _ demo_steps(4)]
  show "control_wf fake_ok fake_live fake_conn demo_shared"
    using guardedD(1) [OF fake_control.sec_connect_ready _ _ demo_finish] by blast
  note accepted = guardedD(1) [OF fake_control.sec_handle_Connect demo_planes_wf(2) TrueI demo_steps(3)]
  show "control_wf fake_ok fake_live fake_conn demo_served"
    by (rule guardedD(1) [OF fake_control.sec_handle_Ready accepted TrueI demo_steps(5)])
qed

theorem published_before_return_witness:
  "\<exists>s procs b. publish_all demo_env [6] (demo_shared, \<lambda>_. demo_served) = (Inr (), s, procs) \<and>
    map_of (cp_peers (procs ''n1:1'')) ''n0:1'' = Some b \<and> p_remote_version (deref b (procs ''n1:1'')) = 2 \<and>
    set [[5], [6]] \<subseteq> fake_imps (cp_native (procs ''n1:1'')) (p_handle (deref b (procs ''n1:1'')))"
proof -
  have peer: "\<forall>e a. map_of (cp_peers demo_shared) e = Some a \<and> p_state (deref a demo_shared) = READY \<longrightarrow>
      control_wf fake_ok fake_live fake_conn demo_served \<and> \<not> cp_closed demo_served \<and>
      (\<exists>b. map_of (cp_peers demo_served) (cp_endpoint demo_shared) = Some b \<and>
        p_remote_connection_id (deref b demo_served) = p_connection_id (deref a demo_shared) \<and>
        p_remote_version (deref b demo_served) \<le> int (length (cp_memory_metadata demo_shared)))"
    using demo_shared_wf(2) demo_served_sel by (auto simp: demo_shared_sel split: if_splits)
  have readable: "list_all (\<lambda>_. True) (cp_memory_metadata demo_shared @ [[6]])" by (simp add: list_all_iff)
  from published_before_return [OF fake_control.control_store_axioms obliging_fake.obliging_store_axioms
      demo_shared_wf(1) demo_shared_sel(5) readable, where procs = "\<lambda>_. demo_served", OF peer]
  obtain s procs where run: "publish_all demo_env [6] (demo_shared, \<lambda>_. demo_served) = (Inr (), s, procs)"
    and metadata: "cp_memory_metadata s = cp_memory_metadata demo_shared @ [[6]]"
    and each: "\<And>e a. map_of (cp_peers demo_shared) e = Some a \<and> p_state (deref a demo_shared) = READY \<Longrightarrow>
      \<exists>b. map_of (cp_peers (procs e)) (cp_endpoint demo_shared) = Some b \<and>
        p_remote_version (deref b (procs e)) = int (length (cp_memory_metadata s)) \<and>
        set (cp_memory_metadata s) \<subseteq> fake_imps (cp_native (procs e)) (p_handle (deref b (procs e)))" by blast
  from run metadata each [of "''n1:1''" 0] show ?thesis by (auto simp: demo_shared_sel)
qed

end
