(* ===== verification/Rpc.thy ===== *)
theory Rpc
  imports Handshake
begin

text \<open>
  \<^verbatim>\<open>rdma101/generated/control_pb2_grpc.py\<close>, the client and server code generated from
  \<^verbatim>\<open>rdma101/control.proto\<close>. Between them lie gRPC and protobuf: what they are documented to do is the
  locale \<open>unary_transport\<close>. The methods of the stub, the handlers of the server and the static methods agree
  with the service, and a call on the stub runs the handler of the \<^verbatim>\<open>ControlPlane\<close> that serves the channel.
\<close>

section \<open>Messages\<close>

datatype message_type = EmptyT | SnapshotT | ConnectionT | OfferT | UpdateT

datatype wire = EmptyM | SnapshotM snapshot | ConnectionM connection | OfferM offer | UpdateM update

fun type_of :: "wire \<Rightarrow> message_type" where
  "type_of EmptyM = EmptyT"
| "type_of (SnapshotM _) = SnapshotT"
| "type_of (ConnectionM _) = ConnectionT"
| "type_of (OfferM _) = OfferT"
| "type_of (UpdateM _) = UpdateT"

text \<open>
  The classes protobuf makes of the messages: \<open>T.SerializeToString\<close>, which rejects an object of another class, and
  \<open>T.FromString\<close>.
\<close>

record 'b protobuf =
  SerializeToString :: "message_type \<Rightarrow> wire \<Rightarrow> exn + 'b"
  FromString :: "message_type \<Rightarrow> 'b \<Rightarrow> exn + wire"

text \<open>A version is an unsigned 64-bit number on the wire.\<close>

fun fits_wire :: "wire \<Rightarrow> bool" where
  "fits_wire (SnapshotM sn) = (0 \<le> sn_version sn \<and> sn_version sn < 2 ^ 64)"
| "fits_wire (UpdateM up) = (0 \<le> sn_version (up_snapshot up) \<and> sn_version (up_snapshot up) < 2 ^ 64)"
| "fits_wire _ = True"

definition protobuf_ok :: "'b protobuf \<Rightarrow> bool" where
  "protobuf_ok P \<longleftrightarrow>
     (\<forall>m. fits_wire m \<longrightarrow> (\<exists>b. SerializeToString P (type_of m) m = Inr b \<and> FromString P (type_of m) b = Inr m)) \<and>
     (\<forall>T m b. SerializeToString P T m = Inr b \<longrightarrow> type_of m = T) \<and>
     (\<forall>T b m. FromString P T b = Inr m \<longrightarrow> type_of m = T)"

section \<open>The service\<close>

text \<open>The methods of \<^verbatim>\<open>service Control\<close> with their request and response types.\<close>

definition service_methods :: "(string \<times> message_type \<times> message_type) list" where
  "service_methods =
     [(''Connect'', OfferT, OfferT), (''Ready'', UpdateT, SnapshotT), (''Changed'', UpdateT, EmptyT),
      (''Close'', ConnectionT, EmptyT)]"

section \<open>The generated module\<close>

text \<open>
  What runs when the module is loaded. \<open>lower\<close> is \<^verbatim>\<open>first_version_is_lower\<close> of gRPC, \<open>None\<close> when it cannot be
  imported.
\<close>

definition GRPC_GENERATED_VERSION :: string where
  "GRPC_GENERATED_VERSION = ''1.78.0''"

definition check_grpc_version :: "(string \<Rightarrow> string \<Rightarrow> bool) option \<Rightarrow> string \<Rightarrow> exn + unit" where
  "check_grpc_version lower GRPC_VERSION =
     (let version_not_supported = (case lower of
          Some f \<Rightarrow> f GRPC_VERSION GRPC_GENERATED_VERSION
        | None \<Rightarrow> True)
      in if version_not_supported
         then Inl (RuntimeError (Fmt (''The grpc package installed is at version {},'' @
             '' but the generated code in rdma101/generated/control_pb2_grpc.py depends on'' @
             '' grpcio>={}.'' @ '' Please upgrade your grpc module to grpcio>={}'' @
             '' or downgrade your generated code using grpcio-tools<={}.'')
             [FStr GRPC_VERSION, FStr GRPC_GENERATED_VERSION, FStr GRPC_GENERATED_VERSION, FStr GRPC_VERSION]))
         else Inr ())"

text \<open>
  The class \<^verbatim>\<open>ControlStub\<close>: its attributes, each made by \<open>channel.unary_unary(path, request_serializer,
  response_deserializer, _registered_method)\<close>.
\<close>

record stub_method =
  sm_path :: string
  sm_request :: message_type
  sm_response :: message_type
  sm_registered :: bool

definition ControlStub :: "(string \<times> stub_method) list" where
  "ControlStub =
     [(''Connect'', \<lparr>sm_path = ''/rdma101.Control/Connect'', sm_request = OfferT, sm_response = OfferT,
         sm_registered = True\<rparr>),
      (''Ready'', \<lparr>sm_path = ''/rdma101.Control/Ready'', sm_request = UpdateT, sm_response = SnapshotT,
         sm_registered = True\<rparr>),
      (''Changed'', \<lparr>sm_path = ''/rdma101.Control/Changed'', sm_request = UpdateT, sm_response = EmptyT,
         sm_registered = True\<rparr>),
      (''Close'', \<lparr>sm_path = ''/rdma101.Control/Close'', sm_request = ConnectionT, sm_response = EmptyT,
         sm_registered = True\<rparr>)]"

text \<open>
  The context of a call, and the class \<^verbatim>\<open>ControlServicer\<close>: its four methods are the same. \<^verbatim>\<open>NotImplementedError\<close> is
  a \<^verbatim>\<open>RuntimeError\<close>.
\<close>

record rpc_context =
  rc_code :: "string option"
  rc_details :: "string option"

type_synonym 'k servicer_call = "('k \<times> rpc_context, exn, wire) py"

definition not_implemented :: "wire \<Rightarrow> 'k servicer_call" where
  "not_implemented request =
     py_then (py_modify (\<lambda>(s, c). (s, c\<lparr>rc_code := Some ''UNIMPLEMENTED''\<rparr>)))
    (py_then (py_modify (\<lambda>(s, c). (s, c\<lparr>rc_details := Some ''Method not implemented!''\<rparr>)))
       (py_raise (RuntimeError (Msg ''Method not implemented!''))))"

definition ControlServicer :: "(string \<times> (wire \<Rightarrow> 'k servicer_call)) list" where
  "ControlServicer =
     [(''Connect'', not_implemented), (''Ready'', not_implemented), (''Changed'', not_implemented),
      (''Close'', not_implemented)]"

text \<open>\<open>add_ControlServicer_to_server(servicer, server)\<close>; a server keeps what is registered with it.\<close>

record 'k method_handler =
  mh_behaviour :: "wire \<Rightarrow> 'k servicer_call"
  mh_request :: message_type
  mh_response :: message_type

record 'k server =
  sv_generic :: "(string \<times> (string \<times> 'k method_handler) list) list"
  sv_registered :: "(string \<times> (string \<times> 'k method_handler) list) list"

definition rpc_method_handlers ::
  "(string \<Rightarrow> wire \<Rightarrow> 'k servicer_call) \<Rightarrow> (string \<times> 'k method_handler) list" where
  "rpc_method_handlers servicer =
     [(''Connect'', \<lparr>mh_behaviour = servicer ''Connect'', mh_request = OfferT, mh_response = OfferT\<rparr>),
      (''Ready'', \<lparr>mh_behaviour = servicer ''Ready'', mh_request = UpdateT, mh_response = SnapshotT\<rparr>),
      (''Changed'', \<lparr>mh_behaviour = servicer ''Changed'', mh_request = UpdateT, mh_response = EmptyT\<rparr>),
      (''Close'', \<lparr>mh_behaviour = servicer ''Close'', mh_request = ConnectionT, mh_response = EmptyT\<rparr>)]"

definition add_ControlServicer_to_server ::
  "(string \<Rightarrow> wire \<Rightarrow> 'k servicer_call) \<Rightarrow> 'k server \<Rightarrow> 'k server" where
  "add_ControlServicer_to_server servicer server =
     server\<lparr>sv_generic := sv_generic server @ [(''rdma101.Control'', rpc_method_handlers servicer)],
       sv_registered := sv_registered server @ [(''rdma101.Control'', rpc_method_handlers servicer)]\<rparr>"

text \<open>
  The class \<^verbatim>\<open>Control\<close>: static methods that hand their arguments to \<^verbatim>\<open>grpc.experimental.unary_unary\<close> in its order.
\<close>

record 'c call_arguments =
  ar_options :: "(string \<times> string) list"
  ar_channel_credentials :: "'c option"
  ar_call_credentials :: "'c option"
  ar_insecure :: bool
  ar_compression :: "int option"
  ar_wait_for_ready :: "bool option"
  ar_timeout :: "int option"
  ar_metadata :: "(string \<times> string) list option"

definition default_arguments :: "'c call_arguments" where
  "default_arguments = \<lparr>ar_options = [], ar_channel_credentials = None, ar_call_credentials = None,
     ar_insecure = False, ar_compression = None, ar_wait_for_ready = None, ar_timeout = None, ar_metadata = None\<rparr>"

record 'c direct_call =
  dc_request :: wire
  dc_target :: string
  dc_method :: stub_method
  dc_options :: "(string \<times> string) list"
  dc_channel_credentials :: "'c option"
  dc_insecure :: bool
  dc_call_credentials :: "'c option"
  dc_compression :: "int option"
  dc_wait_for_ready :: "bool option"
  dc_timeout :: "int option"
  dc_metadata :: "(string \<times> string) list option"

definition direct :: "stub_method \<Rightarrow> wire \<Rightarrow> string \<Rightarrow> 'c call_arguments \<Rightarrow> 'c direct_call" where
  "direct m request target a = \<lparr>dc_request = request, dc_target = target, dc_method = m,
     dc_options = ar_options a, dc_channel_credentials = ar_channel_credentials a, dc_insecure = ar_insecure a,
     dc_call_credentials = ar_call_credentials a, dc_compression = ar_compression a,
     dc_wait_for_ready = ar_wait_for_ready a, dc_timeout = ar_timeout a, dc_metadata = ar_metadata a\<rparr>"

definition Control_Connect :: "wire \<Rightarrow> string \<Rightarrow> 'c call_arguments \<Rightarrow> 'c direct_call" where
  "Control_Connect = direct \<lparr>sm_path = ''/rdma101.Control/Connect'', sm_request = OfferT, sm_response = OfferT,
     sm_registered = True\<rparr>"

definition Control_Ready :: "wire \<Rightarrow> string \<Rightarrow> 'c call_arguments \<Rightarrow> 'c direct_call" where
  "Control_Ready = direct \<lparr>sm_path = ''/rdma101.Control/Ready'', sm_request = UpdateT, sm_response = SnapshotT,
     sm_registered = True\<rparr>"

definition Control_Changed :: "wire \<Rightarrow> string \<Rightarrow> 'c call_arguments \<Rightarrow> 'c direct_call" where
  "Control_Changed = direct \<lparr>sm_path = ''/rdma101.Control/Changed'', sm_request = UpdateT, sm_response = EmptyT,
     sm_registered = True\<rparr>"

definition Control_Close :: "wire \<Rightarrow> string \<Rightarrow> 'c call_arguments \<Rightarrow> 'c direct_call" where
  "Control_Close = direct \<lparr>sm_path = ''/rdma101.Control/Close'', sm_request = ConnectionT, sm_response = EmptyT,
     sm_registered = True\<rparr>"

definition Control_methods :: "(string \<times> (wire \<Rightarrow> string \<Rightarrow> 'c call_arguments \<Rightarrow> 'c direct_call)) list" where
  "Control_methods = [(''Connect'', Control_Connect), (''Ready'', Control_Ready), (''Changed'', Control_Changed),
     (''Close'', Control_Close)]"

section \<open>A plane as the servicer\<close>

text \<open>
  \<^verbatim>\<open>class ControlPlane(control_pb2_grpc.ControlServicer)\<close>: a method is looked up in the class, then in its base.
  The plane ignores the context. A handler gets messages of its own class only, because the deserializer it is
  registered with makes them; the branch for any other makes the definitions total.
\<close>

definition on_plane :: "('a \<Rightarrow> wire) \<Rightarrow> ('n, 'a) control_call \<Rightarrow> 'n control servicer_call" where
  "on_plane f m = py_bind (py_zoom fst (\<lambda>t p. (t, snd p)) m) (\<lambda>x. py_return (f x))"

definition wrong_message :: "'k servicer_call" where
  "wrong_message = py_raise (AttributeError ''request'')"

definition plane_methods ::
  "('n, 'z) control_env_scheme \<Rightarrow> (string \<times> (wire \<Rightarrow> 'n control servicer_call)) list" where
  "plane_methods F =
     [(''Connect'', \<lambda>m. case m of OfferM request \<Rightarrow> on_plane OfferM (handle_Connect F request) | _ \<Rightarrow> wrong_message),
      (''Ready'', \<lambda>m. case m of UpdateM request \<Rightarrow> on_plane SnapshotM (handle_Ready F request) | _ \<Rightarrow> wrong_message),
      (''Changed'', \<lambda>m. case m of UpdateM request \<Rightarrow> on_plane (\<lambda>_. EmptyM) (handle_Changed F request)
         | _ \<Rightarrow> wrong_message),
      (''Close'', \<lambda>m. case m of ConnectionM request \<Rightarrow> on_plane (\<lambda>_. EmptyM) (handle_Close F request)
         | _ \<Rightarrow> wrong_message)]"

definition plane_servicer ::
  "('n, 'z) control_env_scheme \<Rightarrow> string \<Rightarrow> wire \<Rightarrow> 'n control servicer_call" where
  "plane_servicer F name =
     (case map_of (plane_methods F) name of
        Some f \<Rightarrow> f
      | None \<Rightarrow> (case map_of ControlServicer name of Some f \<Rightarrow> f | None \<Rightarrow> \<lambda>_. py_raise (AttributeError name)))"

definition plane_server :: "('n, 'z) control_env_scheme \<Rightarrow> 'n control server" where
  "plane_server F = add_ControlServicer_to_server (plane_servicer F) \<lparr>sv_generic = [], sv_registered = []\<rparr>"

section \<open>A call\<close>

text \<open>
  gRPC routes a call by the path \<^verbatim>\<open>/service/method\<close>, gives the handler a new context, and reports to the caller
  whatever failed on the way as an \<^verbatim>\<open>RpcError\<close>.
\<close>

definition routes :: "'k server \<Rightarrow> (string \<times> 'k method_handler) list" where
  "routes server = concat (map (\<lambda>(service, handlers).
     map (\<lambda>(name, h). (''/'' @ service @ ''/'' @ name, h)) handlers) (sv_registered server))"

definition fresh_context :: rpc_context where
  "fresh_context = \<lparr>rc_code = None, rc_details = None\<rparr>"

definition run_handler :: "'b protobuf \<Rightarrow> 'k method_handler \<Rightarrow> 'b \<Rightarrow> ('k \<times> rpc_context, exn, 'b) py" where
  "run_handler P h b =
     py_bind (py_lift (FromString P (mh_request h) b)) (\<lambda>request.
     py_bind (mh_behaviour h request) (\<lambda>response.
       py_lift (SerializeToString P (mh_response h) response)))"

definition stub_call :: "'b protobuf \<Rightarrow> (string \<Rightarrow> 'b \<Rightarrow> ('s, exn, 'b) py) \<Rightarrow> stub_method \<Rightarrow> wire \<Rightarrow> ('s, exn, wire) py" where
  "stub_call P invoke m request =
     py_bind (py_lift (SerializeToString P (sm_request m) request)) (\<lambda>b.
     py_bind (invoke (sm_path m) b) (\<lambda>answer.
       py_lift (FromString P (sm_response m) answer)))"

locale unary_transport =
  fixes P :: "'b protobuf" and server :: "'k server" and invoke :: "string \<Rightarrow> 'b \<Rightarrow> ('k, exn, 'b) py"
  assumes returns: "map_of (routes server) path = Some h \<Longrightarrow>
      run_handler P h b (k, fresh_context) = (Inr answer, k', c) \<Longrightarrow> invoke path b k = (Inr answer, k')"
    and raises: "map_of (routes server) path = Some h \<Longrightarrow>
      run_handler P h b (k, fresh_context) = (Inl e, k', c) \<Longrightarrow> invoke path b k = (Inl RpcError, k')"
    and unknown: "map_of (routes server) path = None \<Longrightarrow> invoke path b k = (Inl RpcError, k)"
begin

text \<open>What a call does when the stub and the handler speak of the same types.\<close>

lemma stub_call_runs:
  assumes "protobuf_ok P" and "map_of (routes server) (sm_path m) = Some h"
    and "sm_request m = type_of request" "mh_request h = type_of request" "sm_response m = mh_response h"
    and "fits_wire request"
    and "mh_behaviour h request (k, fresh_context) = (r, k', c)"
    and "\<And>x. r = Inr x \<Longrightarrow> fits_wire x \<and> type_of x = mh_response h"
  shows "stub_call P invoke m request k =
    (case r of Inl e \<Rightarrow> (Inl RpcError, k') | Inr x \<Rightarrow> (Inr x, k'))"
proof -
  from assms(1,6) obtain b where b: "SerializeToString P (type_of request) request = Inr b"
    "FromString P (type_of request) b = Inr request" unfolding protobuf_ok_def by blast
  show ?thesis
  proof (cases r)
    case (Inl e)
    have "run_handler P h b (k, fresh_context) = (Inl e, k', c)"
      using assms(4,7) b Inl by (simp add: run_handler_def py_defs)
    from raises [OF assms(2) this] b Inl assms(3) show ?thesis by (simp add: stub_call_def py_defs)
  next
    case (Inr x)
    with assms(8) have x: "fits_wire x" "type_of x = mh_response h" by auto
    with assms(1) obtain a where a: "SerializeToString P (mh_response h) x = Inr a" "FromString P (mh_response h) a = Inr x"
      unfolding protobuf_ok_def by metis
    have "run_handler P h b (k, fresh_context) = (Inr a, k', c)"
      using assms(4,7) b a Inr by (simp add: run_handler_def py_defs)
    from returns [OF assms(2) this] a b Inr assms(3,5) show ?thesis by (simp add: stub_call_def py_defs)
  qed
qed

end

text \<open>The transport inside one process, and messages that travel as they are.\<close>

definition loopback :: "'b protobuf \<Rightarrow> 'k server \<Rightarrow> string \<Rightarrow> 'b \<Rightarrow> ('k, exn, 'b) py" where
  "loopback P server path b k =
     (case map_of (routes server) path of
        None \<Rightarrow> (Inl RpcError, k)
      | Some h \<Rightarrow> (case run_handler P h b (k, fresh_context) of
          (Inl _, k', _) \<Rightarrow> (Inl RpcError, k')
        | (Inr answer, k', _) \<Rightarrow> (Inr answer, k')))"

interpretation looped: unary_transport P server "loopback P server" for P server
  by unfold_locales (auto simp: loopback_def)

definition plain_protobuf :: "wire protobuf" where
  "plain_protobuf = \<lparr>SerializeToString = (\<lambda>T m. if type_of m = T then Inr m else Inl (TypeError (Msg ''message''))),
     FromString = (\<lambda>T b. if type_of b = T then Inr b else Inl (RuntimeError (Msg ''Error parsing message'')))\<rparr>"

lemma plain_protobuf_ok: "protobuf_ok plain_protobuf"
  by (simp add: protobuf_ok_def plain_protobuf_def)

section \<open>The calls of a plane\<close>

text \<open>
  What \<^verbatim>\<open>stub.Connect(offer, timeout=...)\<close> and the other three are for the plane that calls: the attribute of the
  stub, and the message that comes back.
\<close>

definition stub_method_named :: "string \<Rightarrow> stub_method" where
  "stub_method_named name = the (map_of ControlStub name)"

definition remote_Connect :: "'b protobuf \<Rightarrow> (string \<Rightarrow> 'b \<Rightarrow> ('s, exn, 'b) py) \<Rightarrow> offer \<Rightarrow> ('s, exn, offer) py" where
  "remote_Connect P invoke request =
     py_bind (stub_call P invoke (stub_method_named ''Connect'') (OfferM request)) (\<lambda>m.
       case m of OfferM x \<Rightarrow> py_return x | _ \<Rightarrow> py_raise RpcError)"

definition remote_Ready :: "'b protobuf \<Rightarrow> (string \<Rightarrow> 'b \<Rightarrow> ('s, exn, 'b) py) \<Rightarrow> update \<Rightarrow> ('s, exn, snapshot) py" where
  "remote_Ready P invoke request =
     py_bind (stub_call P invoke (stub_method_named ''Ready'') (UpdateM request)) (\<lambda>m.
       case m of SnapshotM x \<Rightarrow> py_return x | _ \<Rightarrow> py_raise RpcError)"

definition remote_Changed :: "'b protobuf \<Rightarrow> (string \<Rightarrow> 'b \<Rightarrow> ('s, exn, 'b) py) \<Rightarrow> update \<Rightarrow> ('s, exn, unit) py" where
  "remote_Changed P invoke request =
     py_bind (stub_call P invoke (stub_method_named ''Changed'') (UpdateM request)) (\<lambda>_. py_return ())"

definition remote_Close :: "'b protobuf \<Rightarrow> (string \<Rightarrow> 'b \<Rightarrow> ('s, exn, 'b) py) \<Rightarrow> connection \<Rightarrow> ('s, exn, unit) py" where
  "remote_Close P invoke request =
     py_bind (stub_call P invoke (stub_method_named ''Close'') (ConnectionM request)) (\<lambda>_. py_return ())"

lemmas remote_defs = remote_Connect_def remote_Ready_def remote_Changed_def remote_Close_def

text \<open>A handler that raises gives its caller an \<^verbatim>\<open>RpcError\<close>.\<close>

fun at_caller :: "(exn + 'a) \<times> 's \<Rightarrow> (exn + 'a) \<times> 's" where
  "at_caller (Inl e, s) = (Inl RpcError, s)"
| "at_caller (Inr x, s) = (Inr x, s)"

section \<open>Types\<close>

lemma routes_registered:
  "routes (add_ControlServicer_to_server servicer \<lparr>sv_generic = [], sv_registered = []\<rparr>) =
     map (\<lambda>(name, h). (''/rdma101.Control/'' @ name, h)) (rpc_method_handlers servicer)"
  by (simp add: routes_def add_ControlServicer_to_server_def rpc_method_handlers_def)

lemma stub_call_typed:
  assumes "protobuf_ok P" and "stub_call P invoke m request k = (Inr answer, k')"
  shows "type_of request = sm_request m \<and> type_of answer = sm_response m"
proof -
  from assms(2) obtain b a where "SerializeToString P (sm_request m) request = Inr b"
    "FromString P (sm_response m) a = Inr answer"
    by (auto simp: stub_call_def py_defs split: sum.splits prod.splits)
  with assms(1) show ?thesis by (auto simp: protobuf_ok_def)
qed

lemma run_handler_typed:
  assumes "protobuf_ok P" and "run_handler P h b k = (Inr answer, k')"
  shows "\<exists>request response. FromString P (mh_request h) b = Inr request \<and> type_of request = mh_request h \<and>
    SerializeToString P (mh_response h) response = Inr answer \<and> type_of response = mh_response h"
proof -
  from assms(2) obtain request response where "FromString P (mh_request h) b = Inr request"
    "SerializeToString P (mh_response h) response = Inr answer"
    by (auto simp: run_handler_def py_defs split: sum.splits prod.splits)
  with assms(1) show ?thesis by (auto simp: protobuf_ok_def)
qed

lemma stub_method_cases:
  assumes "(name, m) \<in> set ControlStub"
  obtains "name = ''Connect''" "m = \<lparr>sm_path = ''/rdma101.Control/Connect'', sm_request = OfferT,
      sm_response = OfferT, sm_registered = True\<rparr>"
  | "name = ''Ready''" "m = \<lparr>sm_path = ''/rdma101.Control/Ready'', sm_request = UpdateT,
      sm_response = SnapshotT, sm_registered = True\<rparr>"
  | "name = ''Changed''" "m = \<lparr>sm_path = ''/rdma101.Control/Changed'', sm_request = UpdateT,
      sm_response = EmptyT, sm_registered = True\<rparr>"
  | "name = ''Close''" "m = \<lparr>sm_path = ''/rdma101.Control/Close'', sm_request = ConnectionT,
      sm_response = EmptyT, sm_registered = True\<rparr>"
  using assms unfolding ControlStub_def set_simps insert_iff prod.inject empty_iff by (elim disjE conjE FalseE)

lemma stub_methods_agree:
  assumes "(name, m) \<in> set ControlStub"
  shows "(name, sm_request m, sm_response m) \<in> set service_methods \<and>
    (\<exists>h. map_of (routes (add_ControlServicer_to_server servicer \<lparr>sv_generic = [], sv_registered = []\<rparr>)) (sm_path m) =
        Some h \<and> mh_behaviour h = servicer name \<and> mh_request h = sm_request m \<and> mh_response h = sm_response m) \<and>
    (\<exists>f. map_of Control_methods name = Some f \<and> dc_method (f request target arguments) = m)"
  using assms by (cases rule: stub_method_cases)
    (simp_all add: service_methods_def routes_registered rpc_method_handlers_def Control_methods_def
      Control_Connect_def Control_Ready_def Control_Changed_def Control_Close_def direct_def)

text \<open>
  C23: the generated client and server agree with the service. Every method of the stub is a method of the service,
  with its request and response types, calls the path under which the server registers the method of that name, and
  that handler reads and writes the same types; the static method of that name calls it in the same way; and a call
  that returns was given, and gives, a message of the declared types.
\<close>

theorem rpc_methods_typed:
  assumes "protobuf_ok P" and "(name, m) \<in> set ControlStub"
  shows "(name, sm_request m, sm_response m) \<in> set service_methods \<and>
    (\<exists>h. map_of (routes (add_ControlServicer_to_server servicer \<lparr>sv_generic = [], sv_registered = []\<rparr>)) (sm_path m) =
        Some h \<and> mh_behaviour h = servicer name \<and> mh_request h = sm_request m \<and> mh_response h = sm_response m) \<and>
    (\<exists>f. map_of Control_methods name = Some f \<and> dc_method (f request target arguments) = m) \<and>
    (stub_call P invoke m request k = (Inr answer, k') \<longrightarrow>
       type_of request = sm_request m \<and> type_of answer = sm_response m)"
  using stub_methods_agree [OF assms(2), of servicer request target arguments]
    stub_call_typed [OF assms(1), of invoke m request k answer k'] by blast

section \<open>Calls reach the plane\<close>

text \<open>The plane overrides all methods of the servicer, so none of them is left unimplemented.\<close>

lemma plane_overrides: "map fst (plane_methods F) = map fst ControlServicer"
  by (simp add: plane_methods_def ControlServicer_def)

lemma plane_routes:
  "map_of (routes (plane_server F)) ''/rdma101.Control/Connect'' = Some \<lparr>mh_behaviour = plane_servicer F ''Connect'',
     mh_request = OfferT, mh_response = OfferT\<rparr>"
  "map_of (routes (plane_server F)) ''/rdma101.Control/Ready'' = Some \<lparr>mh_behaviour = plane_servicer F ''Ready'',
     mh_request = UpdateT, mh_response = SnapshotT\<rparr>"
  "map_of (routes (plane_server F)) ''/rdma101.Control/Changed'' = Some \<lparr>mh_behaviour = plane_servicer F ''Changed'',
     mh_request = UpdateT, mh_response = EmptyT\<rparr>"
  "map_of (routes (plane_server F)) ''/rdma101.Control/Close'' = Some \<lparr>mh_behaviour = plane_servicer F ''Close'',
     mh_request = ConnectionT, mh_response = EmptyT\<rparr>"
  by (simp_all add: plane_server_def routes_registered rpc_method_handlers_def)

lemma plane_serves:
  "plane_servicer F ''Connect'' (OfferM off) = on_plane OfferM (handle_Connect F off)"
  "plane_servicer F ''Ready'' (UpdateM up) = on_plane SnapshotM (handle_Ready F up)"
  "plane_servicer F ''Changed'' (UpdateM up) = on_plane (\<lambda>_. EmptyM) (handle_Changed F up)"
  "plane_servicer F ''Close'' (ConnectionM c) = on_plane (\<lambda>_. EmptyM) (handle_Close F c)"
  by (simp_all add: plane_servicer_def plane_methods_def)

lemma on_plane_run: "m t = (r, t') \<Longrightarrow> on_plane f m (t, c) = (map_sum id f r, t', c)"
  by (cases r) (simp_all add: on_plane_def py_zoom_def py_defs)

lemma stub_methods:
  "stub_method_named ''Connect'' = \<lparr>sm_path = ''/rdma101.Control/Connect'', sm_request = OfferT, sm_response = OfferT,
     sm_registered = True\<rparr>"
  "stub_method_named ''Ready'' = \<lparr>sm_path = ''/rdma101.Control/Ready'', sm_request = UpdateT, sm_response = SnapshotT,
     sm_registered = True\<rparr>"
  "stub_method_named ''Changed'' = \<lparr>sm_path = ''/rdma101.Control/Changed'', sm_request = UpdateT, sm_response = EmptyT,
     sm_registered = True\<rparr>"
  "stub_method_named ''Close'' = \<lparr>sm_path = ''/rdma101.Control/Close'', sm_request = ConnectionT, sm_response = EmptyT,
     sm_registered = True\<rparr>"
  by (simp_all add: stub_method_named_def ControlStub_def)

text \<open>The snapshot a handler answers fits as long as fewer than \<open>2 ^ 64\<close> memories are published.\<close>

lemma remote_runs:
  assumes "unary_transport P (plane_server F) invoke" and "protobuf_ok P"
    and "map_of (routes (plane_server F)) (sm_path m) = Some h" and "plane_servicer F name = mh_behaviour h"
    and "sm_request m = type_of request" "mh_request h = type_of request" "sm_response m = mh_response h"
    and "fits_wire request" and "plane_servicer F name request = on_plane f call"
    and "\<And>x. fst (call t) = Inr x \<Longrightarrow> fits_wire (f x) \<and> type_of (f x) = mh_response h"
  shows "stub_call P invoke m request t = (map_sum (\<lambda>_. RpcError) f (fst (call t)), snd (call t))"
proof -
  have "mh_behaviour h request (t, fresh_context) = (map_sum id f (fst (call t)), snd (call t), fresh_context)"
    using on_plane_run [of call t "fst (call t)" "snd (call t)" f fresh_context] assms(4,9) by simp
  from unary_transport.stub_call_runs [OF assms(1-3,5-8) this] assms(10) show ?thesis
    by (cases "fst (call t)") auto
qed

lemma calls_reach:
  assumes "unary_transport P (plane_server F) invoke" and "protobuf_ok P"
    and "fits_wire (UpdateM up)" and "int (length (cp_memory_metadata t)) < 2 ^ 64"
  shows "remote_Connect P invoke off t = at_caller (handle_Connect F off t) \<and>
    remote_Ready P invoke up t = at_caller (handle_Ready F up t) \<and>
    remote_Changed P invoke up t = at_caller (handle_Changed F up t) \<and>
    remote_Close P invoke c t = at_caller (handle_Close F c t)"
proof (intro conjI, goal_cases)
  note run = remote_runs [OF assms(1,2)]
  case 1
  have "stub_call P invoke (stub_method_named ''Connect'') (OfferM off) t =
      (map_sum (\<lambda>_. RpcError) OfferM (fst (handle_Connect F off t)), snd (handle_Connect F off t))"
    by (rule run [where name = "''Connect''"], unfold stub_methods stub_method.simps, rule plane_routes)
      (simp_all add: plane_serves)
  then show ?case
    by (cases "handle_Connect F off t"; cases "fst (handle_Connect F off t)") (simp_all add: remote_defs py_defs)
next
  note run = remote_runs [OF assms(1,2)]
  case 2
  have "stub_call P invoke (stub_method_named ''Ready'') (UpdateM up) t =
      (map_sum (\<lambda>_. RpcError) SnapshotM (fst (handle_Ready F up t)), snd (handle_Ready F up t))"
    by (rule run [where name = "''Ready''"], unfold stub_methods stub_method.simps, rule plane_routes)
      (use assms(3,4) handle_Ready_snapshot [of F up t _ "snd (handle_Ready F up t)"] in
        \<open>auto simp: plane_serves snapshot_of_def prod_eq_iff\<close>)
  then show ?case
    by (cases "handle_Ready F up t"; cases "fst (handle_Ready F up t)") (simp_all add: remote_defs py_defs)
next
  note run = remote_runs [OF assms(1,2)]
  case 3
  have "stub_call P invoke (stub_method_named ''Changed'') (UpdateM up) t =
      (map_sum (\<lambda>_. RpcError) (\<lambda>_. EmptyM) (fst (handle_Changed F up t)), snd (handle_Changed F up t))"
    by (rule run [where name = "''Changed''"], unfold stub_methods stub_method.simps, rule plane_routes)
      (use assms(3) in \<open>simp_all add: plane_serves\<close>)
  then show ?case
    by (cases "handle_Changed F up t"; cases "fst (handle_Changed F up t)") (simp_all add: remote_defs py_defs)
next
  note run = remote_runs [OF assms(1,2)]
  case 4
  have "stub_call P invoke (stub_method_named ''Close'') (ConnectionM c) t =
      (map_sum (\<lambda>_. RpcError) (\<lambda>_. EmptyM) (fst (handle_Close F c t)), snd (handle_Close F c t))"
    by (rule run [where name = "''Close''"], unfold stub_methods stub_method.simps, rule plane_routes)
      (simp_all add: plane_serves)
  then show ?case
    by (cases "handle_Close F c t"; cases "fst (handle_Close F c t)") (simp_all add: remote_defs py_defs)
qed

text \<open>
  C10: calls reach the plane. Over a gRPC channel to a server on which a plane is registered, each of the four calls
  of the stub is the handler of that name of the plane, run once on its state, with the request that was given to the
  stub; the caller gets the handler's answer, and an \<^verbatim>\<open>RpcError\<close> when the handler raised.
\<close>

theorem calls_reach_plane:
  assumes "unary_transport P (plane_server F) invoke" and "protobuf_ok P"
    and "fits_wire (UpdateM up)" and "int (length (cp_memory_metadata t)) < 2 ^ 64"
  shows "remote_Connect P invoke off t = at_caller (handle_Connect F off t) \<and>
    remote_Ready P invoke up t = at_caller (handle_Ready F up t) \<and>
    remote_Changed P invoke up t = at_caller (handle_Changed F up t) \<and>
    remote_Close P invoke c t = at_caller (handle_Close F c t)"
  by (rule calls_reach [OF assms])

text \<open>The handshake of \<^verbatim>\<open>Handshake\<close> with its two requests sent through the stub.\<close>

definition grpc_handshake ::
  "('n, 'z) control_env_scheme \<Rightarrow> 'b protobuf \<Rightarrow> (string \<Rightarrow> 'b \<Rightarrow> ('k control, exn, 'b) py) \<Rightarrow> string
     \<Rightarrow> ('n control \<times> 'k control, exn, int) py" where
  "grpc_handshake E P invoke endpoint =
     py_bind (here (connect_begin E endpoint)) (\<lambda>start. case start of
       Already handle \<Rightarrow> py_return handle
     | Exchange ref offer \<Rightarrow>
         py_bind (there (remote_Connect P invoke offer)) (\<lambda>remote.
         py_bind (here (connect_local E ref remote)) (\<lambda>update.
         py_bind (there (remote_Ready P invoke update)) (\<lambda>snapshot.
           here (connect_ready E ref snapshot)))))"

lemma at_caller_Inr: "at_caller p = (Inr x, t) \<longleftrightarrow> p = (Inr x, t)"
  by (cases p rule: at_caller.cases) auto

lemma grpc_handshake_direct:
  assumes rpc: "unary_transport P (plane_server F) invoke" "protobuf_ok P"
    and s: "int (length (cp_memory_metadata s)) < 2 ^ 64" and t: "int (length (cp_memory_metadata t)) < 2 ^ 64"
  shows "grpc_handshake E P invoke e (s, t) = (Inr h, s', t') \<longleftrightarrow> handshake E F e (s, t) = (Inr h, s', t')"
proof (cases "\<exists>ref off s1. connect_begin E e s = (Inr (Exchange ref off), s1)")
  case True
  then obtain ref off s1 where start: "connect_begin E e s = (Inr (Exchange ref off), s1)" by blast
  have offer: "remote_Connect P invoke off t = at_caller (handle_Connect F off t)"
    using calls_reach [OF rpc _ t, of "\<lparr>up_connection = undefined, up_snapshot = \<lparr>sn_version = 0, sn_memories = []\<rparr>\<rparr>" off] by simp
  have update: "remote_Ready P invoke up t1 = at_caller (handle_Ready F up t1)"
    if "handle_Connect F off t = (Inr remote, t1)" "connect_local E ref remote s1 = (Inr up, s2)" for remote t1 up s2
  proof -
    have "fits_wire (UpdateM up)"
      using connect_local_snapshot [OF that(2)] connect_begin_metadata [OF start] s by (simp add: snapshot_of_def)
    moreover have "int (length (cp_memory_metadata t1)) < 2 ^ 64" using handle_Connect_metadata [OF that(1)] t by simp
    ultimately show ?thesis using calls_reach [OF rpc] by blast
  qed
  from start offer show ?thesis
    by (auto simp: grpc_handshake_def handshake_def py_eqs here_eq there_eq at_caller_Inr update)
next
  case False
  then show ?thesis
    by (auto simp: grpc_handshake_def handshake_def py_eqs here_eq split: connect_start.splits)
qed

text \<open>
  C11: the handshake over gRPC. When each side has published fewer than \<open>2 ^ 64\<close> memories, a \<open>connect\<close> whose
  requests go through the stub and a gRPC channel to the server of the other plane returns what it returns when the
  other plane is called directly, with the same states of both.
\<close>

theorem handshake_over_grpc:
  assumes rpc: "unary_transport P (plane_server F) invoke" "protobuf_ok P"
    and s: "int (length (cp_memory_metadata s)) < 2 ^ 64" and t: "int (length (cp_memory_metadata t)) < 2 ^ 64"
  shows "grpc_handshake E P invoke e (s, t) = (Inr h, s', t') \<longleftrightarrow> handshake E F e (s, t) = (Inr h, s', t')"
  by (rule grpc_handshake_direct [OF assms])

section \<open>Calls of the tests\<close>

text \<open>\<open>n0\<close> calls \<open>n1\<close> as in the demonstration of \<^verbatim>\<open>Network\<close>, here through the stub and a loopback.\<close>

abbreviation demo_invoke :: "string \<Rightarrow> wire \<Rightarrow> (fake control, exn, wire) py" where
  "demo_invoke \<equiv> loopback plain_protobuf (plane_server demo_env)"

lemma demo_stub_call:
  "stub_call plain_protobuf demo_invoke (stub_method_named ''Ready'') (UpdateM demo_update) demo_accepted =
     (Inr (SnapshotM \<lparr>sn_version = 0, sn_memories = []\<rparr>), demo_served)"
proof -
  have "stub_call plain_protobuf demo_invoke (stub_method_named ''Ready'') (UpdateM demo_update) demo_accepted =
      (map_sum (\<lambda>_. RpcError) SnapshotM (fst (handle_Ready demo_env demo_update demo_accepted)),
       snd (handle_Ready demo_env demo_update demo_accepted))"
    by (rule remote_runs [OF looped.unary_transport_axioms plain_protobuf_ok, where name = "''Ready''"],
        unfold stub_methods stub_method.simps, rule plane_routes)
      (simp_all add: plane_serves demo_steps(5), simp add: demo_update_def)
  then show ?thesis by (simp add: demo_steps(5))
qed

theorem rpc_methods_typed_witness:
  "\<exists>h. map_of (routes (plane_server demo_env)) ''/rdma101.Control/Ready'' = Some h \<and> mh_request h = UpdateT \<and>
     type_of (UpdateM demo_update) = mh_request h \<and>
     type_of (SnapshotM \<lparr>sn_version = 0, sn_memories = []\<rparr>) = mh_response h"
proof -
  have "(''Ready'', stub_method_named ''Ready'') \<in> set ControlStub"
    by (simp add: stub_methods ControlStub_def)
  from rpc_methods_typed [OF plain_protobuf_ok this, where servicer = "plane_servicer demo_env"
      and invoke = demo_invoke and request = "UpdateM demo_update" and k = demo_accepted
      and answer = "SnapshotM \<lparr>sn_version = 0, sn_memories = []\<rparr>" and k' = demo_served
      and target = "''n1:1''" and arguments = default_arguments]
  show ?thesis unfolding plane_server_def by (auto simp: demo_stub_call stub_methods)
qed

lemma demo_fits: "fits_wire (UpdateM demo_update)" "int (length (cp_memory_metadata (demo_start h))) < 2 ^ 64"
  "int (length (cp_memory_metadata demo_accepted)) < 2 ^ 64" "int (length (cp_memory_metadata demo_published)) < 2 ^ 64"
  by (simp_all add: demo_state_defs control_run_defs fake_create_peer_def fake_init_def deref_def
      demo_uuid_def decimal_digits del: heap_deref)

theorem calls_reach_plane_witness:
  "remote_Connect plain_protobuf demo_invoke demo_offer (demo_start ''n1'') = (Inr demo_answer, demo_accepted)"
  using calls_reach_plane [OF looped.unary_transport_axioms plain_protobuf_ok demo_fits(1) demo_fits(2) [of "''n1''"],
      where F = demo_env and off = demo_offer] demo_steps(3) by simp

theorem handshake_over_grpc_witness:
  "\<exists>s t. grpc_handshake demo_env plain_protobuf demo_invoke ''n1:1'' (demo_published, demo_start ''n1'') = (Inr 1, s, t)"
proof -
  from demo_handshake obtain s t where
    "handshake demo_env demo_env ''n1:1'' (demo_published, demo_start ''n1'') = (Inr 1, s, t)"
    by (metis prod.collapse)
  with handshake_over_grpc [OF looped.unary_transport_axioms plain_protobuf_ok demo_fits(4) demo_fits(2) [of "''n1''"]]
  show ?thesis by blast
qed

end
