(* ===== verification/Descriptor.thy ===== *)
theory Descriptor
  imports Rpc
begin

text \<open>
  \<^verbatim>\<open>rdma101/generated/control_pb2.py\<close>: the descriptor from which protobuf makes the message classes, and what it
  says of \<^verbatim>\<open>rdma101/control.proto\<close>. A descriptor is a message itself. Its format, the documented wire format of
  protobuf and the field numbers of \<^verbatim>\<open>google/protobuf/descriptor.proto\<close>, is the specification here.
\<close>

section \<open>The wire format\<close>

text \<open>Numbers in groups of seven bits, the lowest first; the top bit of a byte says that more follow.\<close>

fun varint :: "nat \<Rightarrow> bytes" where
  "varint n = (if n < 128 then [of_nat n] else of_nat (n mod 128 + 128) # varint (n div 128))"

fun read_varint :: "bytes \<Rightarrow> (nat \<times> bytes) option" where
  "read_varint [] = None"
| "read_varint (b # bs) =
     (if unat b < 128 then Some (unat b, bs)
      else map_option (\<lambda>(n, rest). (unat b - 128 + 128 * n, rest)) (read_varint bs))"

text \<open>A message is a list of numbered fields: numbers (wire type 0), and blocks with their length (wire type 2).\<close>

datatype payload = Number nat | Block bytes

fun encode_field :: "nat \<times> payload \<Rightarrow> bytes" where
  "encode_field (k, Number n) = varint (8 * k) @ varint n"
| "encode_field (k, Block b) = varint (8 * k + 2) @ varint (length b) @ b"

definition encode_fields :: "(nat \<times> payload) list \<Rightarrow> bytes" where
  "encode_fields fs = concat (map encode_field fs)"

definition read_field :: "bytes \<Rightarrow> ((nat \<times> payload) \<times> bytes) option" where
  "read_field bs = (case read_varint bs of
     None \<Rightarrow> None
   | Some (tag, rest) \<Rightarrow> (case read_varint rest of
       None \<Rightarrow> None
     | Some (n, rest) \<Rightarrow>
         if tag mod 8 = 0 then Some ((tag div 8, Number n), rest)
         else if tag mod 8 = 2 \<and> n \<le> length rest then Some ((tag div 8, Block (take n rest)), drop n rest)
         else None))"

lemma read_varint_shorter: "read_varint bs = Some (n, rest) \<Longrightarrow> length rest < length bs"
  by (induction bs arbitrary: n) (auto split: if_splits simp: less_SucI)

lemma read_field_shorter: "read_field bs = Some (f, rest) \<Longrightarrow> length rest < length bs"
  by (fastforce simp: read_field_def split: option.splits if_splits dest!: read_varint_shorter)

function decode_fields :: "bytes \<Rightarrow> (nat \<times> payload) list option" where
  "decode_fields bs =
     (if bs = [] then Some []
      else case read_field bs of
        None \<Rightarrow> None
      | Some (field, rest) \<Rightarrow> map_option (Cons field) (decode_fields rest))"
  by pat_completeness auto
termination by (relation "measure length") (auto dest: read_field_shorter)

declare varint.simps [simp del] decode_fields.simps [simp del]

lemma unat_byte: "m < 256 \<Longrightarrow> unat (of_nat m :: 8 word) = m"
  by (simp add: unat_of_nat)

lemma read_varint_varint: "read_varint (varint n @ rest) = Some (n, rest)"
proof (induction n arbitrary: rest rule: varint.induct)
  case (1 n)
  show ?case
  proof (cases "n < 128")
    case True
    then show ?thesis by (simp add: varint.simps [of n] unat_of_nat)
  next
    case False
    have "unat (of_nat (n mod 128 + 128) :: 8 word) = n mod 128 + 128" by (rule unat_byte) simp
    with False 1 [OF False, of rest] show ?thesis by (simp add: varint.simps [of n] del: of_nat_add)
  qed
qed

lemma tag_split: "(8 * k) mod 8 = (0 :: nat)" "(8 * k + 2) mod 8 = (2 :: nat)" "(8 * k + 2) div 8 = (k :: nat)"
  by presburger+

lemma read_encode_field: "read_field (encode_field f @ rest) = Some (f, rest)"
  by (cases f rule: encode_field.cases) (simp_all add: read_field_def read_varint_varint tag_split del: add_2_eq_Suc')

lemma encode_field_nonempty: "encode_field f \<noteq> []"
  by (cases f rule: encode_field.cases) (simp_all add: varint.simps)

lemma decode_encode_fields: "decode_fields (encode_fields fs) = Some fs"
  by (induction fs) (simp_all add: encode_fields_def decode_fields.simps encode_field_nonempty read_encode_field)

section \<open>Descriptors\<close>

text \<open>What \<^verbatim>\<open>descriptor.proto\<close> keeps of a file such as \<^verbatim>\<open>control.proto\<close>.\<close>

datatype field_type = TYPE_UINT64 | TYPE_STRING | TYPE_BYTES | TYPE_MESSAGE string

record field_descriptor =
  fd_name :: string
  fd_number :: nat
  fd_repeated :: bool
  fd_type :: field_type

record message_descriptor =
  md_name :: string
  md_fields :: "field_descriptor list"

record method_descriptor =
  me_name :: string
  me_input :: string
  me_output :: string

record service_descriptor =
  sd_name :: string
  sd_methods :: "method_descriptor list"

record file_descriptor =
  fi_name :: string
  fi_package :: string
  fi_messages :: "message_descriptor list"
  fi_services :: "service_descriptor list"
  fi_syntax :: string

text \<open>Their wire format.\<close>

definition text_field :: "nat \<Rightarrow> string \<Rightarrow> nat \<times> payload" where
  "text_field k name = (k, Block (encode_str name))"

fun type_fields :: "field_type \<Rightarrow> (nat \<times> payload) list" where
  "type_fields TYPE_UINT64 = [(5, Number 4)]"
| "type_fields TYPE_STRING = [(5, Number 9)]"
| "type_fields TYPE_BYTES = [(5, Number 12)]"
| "type_fields (TYPE_MESSAGE name) = [(5, Number 11), text_field 6 name]"

definition serialize_field :: "field_descriptor \<Rightarrow> bytes" where
  "serialize_field f = encode_fields ([text_field 1 (fd_name f), (3, Number (fd_number f)),
     (4, Number (if fd_repeated f then 3 else 1))] @ type_fields (fd_type f))"

definition serialize_message :: "message_descriptor \<Rightarrow> bytes" where
  "serialize_message m = encode_fields (text_field 1 (md_name m) # map (\<lambda>f. (2, Block (serialize_field f))) (md_fields m))"

definition serialize_method :: "method_descriptor \<Rightarrow> bytes" where
  "serialize_method m = encode_fields [text_field 1 (me_name m), text_field 2 (me_input m), text_field 3 (me_output m)]"

definition serialize_service :: "service_descriptor \<Rightarrow> bytes" where
  "serialize_service d =
     encode_fields (text_field 1 (sd_name d) # map (\<lambda>m. (2, Block (serialize_method m))) (sd_methods d))"

definition serialize_file :: "file_descriptor \<Rightarrow> bytes" where
  "serialize_file d = encode_fields ([text_field 1 (fi_name d), text_field 2 (fi_package d)] @
     map (\<lambda>m. (4, Block (serialize_message m))) (fi_messages d) @
     map (\<lambda>m. (6, Block (serialize_service m))) (fi_services d) @ [text_field 12 (fi_syntax d)])"

text \<open>Reading them back: of a field that may appear once the last counts, and fields of other numbers are skipped.\<close>

definition last_field :: "(nat \<times> payload) list \<Rightarrow> nat \<Rightarrow> payload option" where
  "last_field fs k = map_of (rev fs) k"

definition text_of :: "(nat \<times> payload) list \<Rightarrow> nat \<Rightarrow> string option" where
  "text_of fs k = (case last_field fs k of Some (Block b) \<Rightarrow> Some (map (\<lambda>w. char_of (unat w)) b) | _ \<Rightarrow> None)"

fun blocks :: "(nat \<times> payload) list \<Rightarrow> nat \<Rightarrow> bytes list" where
  "blocks [] k = []"
| "blocks ((j, Block b) # fs) k = (if j = k then b # blocks fs k else blocks fs k)"
| "blocks (_ # fs) k = blocks fs k"

definition parse_type :: "(nat \<times> payload) list \<Rightarrow> field_type option" where
  "parse_type fs = (case last_field fs 5 of
     Some (Number n) \<Rightarrow>
       if n = 4 then Some TYPE_UINT64 else if n = 9 then Some TYPE_STRING else if n = 12 then Some TYPE_BYTES
       else if n = 11 then map_option TYPE_MESSAGE (text_of fs 6) else None
   | _ \<Rightarrow> None)"

definition parse_field :: "bytes \<Rightarrow> field_descriptor option" where
  "parse_field bs = Option.bind (decode_fields bs) (\<lambda>fs.
     case (text_of fs 1, last_field fs 3, last_field fs 4, parse_type fs) of
       (Some name, Some (Number n), Some (Number label), Some t) \<Rightarrow>
         Some \<lparr>fd_name = name, fd_number = n, fd_repeated = (label = 3), fd_type = t\<rparr>
     | _ \<Rightarrow> None)"

definition parse_message :: "bytes \<Rightarrow> message_descriptor option" where
  "parse_message bs = Option.bind (decode_fields bs) (\<lambda>fs.
     case (text_of fs 1, those (map parse_field (blocks fs 2))) of
       (Some name, Some members) \<Rightarrow> Some \<lparr>md_name = name, md_fields = members\<rparr> | _ \<Rightarrow> None)"

definition parse_method :: "bytes \<Rightarrow> method_descriptor option" where
  "parse_method bs = Option.bind (decode_fields bs) (\<lambda>fs.
     case (text_of fs 1, text_of fs 2, text_of fs 3) of
       (Some name, Some input, Some output) \<Rightarrow> Some \<lparr>me_name = name, me_input = input, me_output = output\<rparr>
     | _ \<Rightarrow> None)"

definition parse_service :: "bytes \<Rightarrow> service_descriptor option" where
  "parse_service bs = Option.bind (decode_fields bs) (\<lambda>fs.
     case (text_of fs 1, those (map parse_method (blocks fs 2))) of
       (Some name, Some members) \<Rightarrow> Some \<lparr>sd_name = name, sd_methods = members\<rparr> | _ \<Rightarrow> None)"

definition parse_file :: "bytes \<Rightarrow> file_descriptor option" where
  "parse_file bs = Option.bind (decode_fields bs) (\<lambda>fs.
     case (text_of fs 1, text_of fs 2, those (map parse_message (blocks fs 4)),
         those (map parse_service (blocks fs 6)), text_of fs 12) of
       (Some name, Some package, Some messages, Some services, Some syntax) \<Rightarrow>
         Some \<lparr>fi_name = name, fi_package = package, fi_messages = messages, fi_services = services, fi_syntax = syntax\<rparr>
     | _ \<Rightarrow> None)"

lemma blocks_append [simp]: "blocks (fs @ gs) k = blocks fs k @ blocks gs k"
  by (induction fs k rule: blocks.induct) auto

lemma blocks_map [simp]: "blocks (map (\<lambda>x. (j, Block (f x))) xs) k = (if j = k then map f xs else [])"
  by (induction xs) auto

lemma blocks_text [simp]: "blocks (text_field j name # fs) k = (if j = k then encode_str name # blocks fs k else blocks fs k)"
  by (simp add: text_field_def)

lemma last_field_Nil [simp]: "last_field [] k = None"
  by (simp add: last_field_def)

lemma last_field_Cons [simp]:
  "last_field (f # fs) k = (case last_field fs k of None \<Rightarrow> if fst f = k then Some (snd f) else None | Some p \<Rightarrow> Some p)"
  by (cases f) (simp add: last_field_def map_add_def split: option.split)

lemma last_field_append [simp]:
  "last_field (fs @ gs) k = (case last_field gs k of None \<Rightarrow> last_field fs k | Some p \<Rightarrow> Some p)"
  by (simp add: last_field_def map_add_def split: option.split)

lemma last_field_map [simp]:
  "j \<noteq> k \<Longrightarrow> last_field (map (\<lambda>x. (j, Block (f x))) xs) k = None"
  by (induction xs) simp_all

lemma text_field_sel [simp]: "fst (text_field k name) = k" "snd (text_field k name) = Block (encode_str name)"
  by (simp_all add: text_field_def)

lemma char_of_word: "char_of (unat (of_char c :: 8 word)) = c"
proof -
  have "unat (of_nat (of_char c) :: 8 word) = of_char c" by (rule unat_byte) (use nat_of_char_less_256 in simp)
  then show ?thesis by (simp only: of_nat_of_char char_of_char)
qed

lemma char_of_encode_str [simp]: "map (\<lambda>w. char_of (unat w)) (encode_str name) = name"
  by (simp add: encode_str_def comp_def char_of_word)

lemma those_map: "(\<And>x. x \<in> set xs \<Longrightarrow> f x = Some (g x)) \<Longrightarrow> those (map f xs) = Some (map g xs)"
  by (induction xs) simp_all

lemma parse_serialize_field [simp]: "parse_field (serialize_field f) = Some f"
  by (cases f; cases "fd_type f")
    (simp_all add: parse_field_def serialize_field_def decode_encode_fields text_of_def parse_type_def)

lemma parse_serialize_message [simp]: "parse_message (serialize_message m) = Some m"
  by (cases m) (simp add: parse_message_def serialize_message_def decode_encode_fields text_of_def comp_def
      those_map [where g = "\<lambda>x. x"])

lemma parse_serialize_method [simp]: "parse_method (serialize_method m) = Some m"
  by (cases m) (simp add: parse_method_def serialize_method_def decode_encode_fields text_of_def)

lemma parse_serialize_service [simp]: "parse_service (serialize_service d) = Some d"
  by (cases d) (simp add: parse_service_def serialize_service_def decode_encode_fields text_of_def comp_def
      those_map [where g = "\<lambda>x. x"])

lemma parse_serialize_file: "parse_file (serialize_file d) = Some d"
  by (cases d) (simp add: parse_file_def serialize_file_def decode_encode_fields text_of_def comp_def
      those_map [where g = "\<lambda>x. x"])

section \<open>The module\<close>

text \<open>The serialized descriptor, and the offsets that are set when protobuf runs in pure Python.\<close>

definition DESCRIPTOR :: bytes where
  "DESCRIPTOR =
    [0x0A, 0x1F] @ encode_str ''rdma101/generated/control.proto'' @ [0x12, 0x07] @ encode_str ''rdma101'' @
    [0x22, 0x07, 0x0A, 0x05] @ encode_str ''Empty'' @ [0x22, 0x2D, 0x0A, 0x08] @ encode_str ''Snapshot'' @
    [0x12, 0x0F, 0x0A, 0x07] @ encode_str ''version'' @
    [0x18, 0x01, 0x20, 0x01, 0x28, 0x04, 0x12, 0x10, 0x0A, 0x08] @ encode_str ''memories'' @
    [0x18, 0x02, 0x20, 0x03, 0x28, 0x0C, 0x22, 0x2A, 0x0A, 0x0A] @ encode_str ''Connection'' @
    [0x12, 0x10, 0x0A, 0x08] @ encode_str ''endpoint'' @
    [0x18, 0x01, 0x20, 0x01, 0x28, 0x09, 0x12, 0x0A, 0x0A, 0x02] @ encode_str ''id'' @
    [0x18, 0x02, 0x20, 0x01, 0x28, 0x09, 0x22, 0x42, 0x0A, 0x05] @ encode_str ''Offer'' @
    [0x12, 0x27, 0x0A, 0x0A] @ encode_str ''connection'' @ [0x18, 0x01, 0x20, 0x01, 0x28, 0x0B, 0x32, 0x13] @
    encode_str ''.rdma101.Connection'' @ [0x12, 0x10, 0x0A, 0x08] @ encode_str ''metadata'' @
    [0x18, 0x02, 0x20, 0x01, 0x28, 0x0C, 0x22, 0x56, 0x0A, 0x06] @ encode_str ''Update'' @
    [0x12, 0x27, 0x0A, 0x0A] @ encode_str ''connection'' @ [0x18, 0x01, 0x20, 0x01, 0x28, 0x0B, 0x32, 0x13] @
    encode_str ''.rdma101.Connection'' @ [0x12, 0x23, 0x0A, 0x08] @ encode_str ''snapshot'' @
    [0x18, 0x02, 0x20, 0x01, 0x28, 0x0B, 0x32, 0x11] @ encode_str ''.rdma101.Snapshot'' @
    [0x32, 0xBB, 0x01, 0x0A, 0x07] @ encode_str ''Control'' @ [0x12, 0x29, 0x0A, 0x07] @
    encode_str ''Connect'' @ [0x12, 0x0E] @ encode_str ''.rdma101.Offer'' @ [0x1A, 0x0E] @
    encode_str ''.rdma101.Offer'' @ [0x12, 0x2B, 0x0A, 0x05] @ encode_str ''Ready'' @ [0x12, 0x0F] @
    encode_str ''.rdma101.Update'' @ [0x1A, 0x11] @ encode_str ''.rdma101.Snapshot'' @
    [0x12, 0x2A, 0x0A, 0x07] @ encode_str ''Changed'' @ [0x12, 0x0F] @ encode_str ''.rdma101.Update'' @
    [0x1A, 0x0E] @ encode_str ''.rdma101.Empty'' @ [0x12, 0x2C, 0x0A, 0x05] @ encode_str ''Close'' @
    [0x12, 0x13] @ encode_str ''.rdma101.Connection'' @ [0x1A, 0x0E] @ encode_str ''.rdma101.Empty'' @
    [0x62, 0x06] @ encode_str ''proto3''"

definition serialized_offsets :: "bool \<Rightarrow> (string \<times> nat \<times> nat) list" where
  "serialized_offsets USE_C_DESCRIPTORS = (if \<not> USE_C_DESCRIPTORS then
     [(''_EMPTY'', 44, 51), (''_SNAPSHOT'', 53, 98), (''_CONNECTION'', 100, 142), (''_OFFER'', 144, 210),
      (''_UPDATE'', 212, 298), (''_CONTROL'', 301, 488)] else [])"

text \<open>
  \<^verbatim>\<open>rdma101/control.proto\<close>. The path is the one \<^verbatim>\<open>generate_rpc.py\<close> gives the file with its option \<^verbatim>\<open>-I\<close>.
\<close>

definition control_proto :: file_descriptor where
  "control_proto = \<lparr>fi_name = ''rdma101/generated/control.proto'', fi_package = ''rdma101'', fi_messages =
     [\<lparr>md_name = ''Empty'', md_fields = []\<rparr>,
      \<lparr>md_name = ''Snapshot'', md_fields =
        [\<lparr>fd_name = ''version'', fd_number = 1, fd_repeated = False, fd_type = TYPE_UINT64\<rparr>,
         \<lparr>fd_name = ''memories'', fd_number = 2, fd_repeated = True, fd_type = TYPE_BYTES\<rparr>]\<rparr>,
      \<lparr>md_name = ''Connection'', md_fields =
        [\<lparr>fd_name = ''endpoint'', fd_number = 1, fd_repeated = False, fd_type = TYPE_STRING\<rparr>,
         \<lparr>fd_name = ''id'', fd_number = 2, fd_repeated = False, fd_type = TYPE_STRING\<rparr>]\<rparr>,
      \<lparr>md_name = ''Offer'', md_fields =
        [\<lparr>fd_name = ''connection'', fd_number = 1, fd_repeated = False, fd_type = TYPE_MESSAGE ''.rdma101.Connection''\<rparr>,
         \<lparr>fd_name = ''metadata'', fd_number = 2, fd_repeated = False, fd_type = TYPE_BYTES\<rparr>]\<rparr>,
      \<lparr>md_name = ''Update'', md_fields =
        [\<lparr>fd_name = ''connection'', fd_number = 1, fd_repeated = False, fd_type = TYPE_MESSAGE ''.rdma101.Connection''\<rparr>,
         \<lparr>fd_name = ''snapshot'', fd_number = 2, fd_repeated = False, fd_type = TYPE_MESSAGE ''.rdma101.Snapshot''\<rparr>]\<rparr>],
     fi_services = [\<lparr>sd_name = ''Control'', sd_methods =
        [\<lparr>me_name = ''Connect'', me_input = ''.rdma101.Offer'', me_output = ''.rdma101.Offer''\<rparr>,
         \<lparr>me_name = ''Ready'', me_input = ''.rdma101.Update'', me_output = ''.rdma101.Snapshot''\<rparr>,
         \<lparr>me_name = ''Changed'', me_input = ''.rdma101.Update'', me_output = ''.rdma101.Empty''\<rparr>,
         \<lparr>me_name = ''Close'', me_input = ''.rdma101.Connection'', me_output = ''.rdma101.Empty''\<rparr>]\<rparr>],
     fi_syntax = ''proto3''\<rparr>"

lemmas serialize_defs = serialize_file_def serialize_service_def serialize_method_def serialize_message_def
  serialize_field_def

lemma serialized: "serialize_file control_proto = DESCRIPTOR"
  by code_simp

lemma parsed: "parse_file DESCRIPTOR = Some control_proto"
  unfolding serialized [symmetric] by (rule parse_serialize_file)

text \<open>The name of the descriptor of a message or service in the globals of the module.\<close>

definition global_name :: "string \<Rightarrow> string" where
  "global_name name = CHR ''_'' # map (\<lambda>c. if 97 \<le> (of_char c :: nat) \<and> (of_char c :: nat) \<le> 122
     then char_of ((of_char c :: nat) - 32) else c) name"

fun type_name :: "message_type \<Rightarrow> string" where
  "type_name EmptyT = ''.rdma101.Empty''"
| "type_name SnapshotT = ''.rdma101.Snapshot''"
| "type_name ConnectionT = ''.rdma101.Connection''"
| "type_name OfferT = ''.rdma101.Offer''"
| "type_name UpdateT = ''.rdma101.Update''"

definition slice :: "nat \<Rightarrow> nat \<Rightarrow> 'a list \<Rightarrow> 'a list" where
  "slice i j xs = take (j - i) (drop i xs)"

lemma offsets: "map (\<lambda>(name, i, j). (name, slice i j DESCRIPTOR)) (serialized_offsets False) =
    map (\<lambda>m. (global_name (md_name m), serialize_message m)) (fi_messages control_proto) @
    map (\<lambda>d. (global_name (sd_name d), serialize_service d)) (fi_services control_proto)"
  by code_simp

text \<open>
  The generated descriptor is that of \<^verbatim>\<open>control.proto\<close>. The bytes that \<^verbatim>\<open>control_pb2.py\<close> hands to protobuf are the
  descriptor of the file, its messages with their fields, numbers and types, and its service, in the wire format of
  protobuf, and they read back as it; the offsets that follow delimit exactly the descriptors of the messages and
  of the service with those names; and its methods are those the generated client and server agree with.
\<close>

lemma descriptor_is_control_proto:
  "DESCRIPTOR = serialize_file control_proto \<and> parse_file DESCRIPTOR = Some control_proto \<and>
   map (\<lambda>(name, i, j). (name, slice i j DESCRIPTOR)) (serialized_offsets False) =
     map (\<lambda>m. (global_name (md_name m), serialize_message m)) (fi_messages control_proto) @
     map (\<lambda>d. (global_name (sd_name d), serialize_service d)) (fi_services control_proto) \<and>
   map (\<lambda>d. (sd_name d, map (\<lambda>m. (me_name m, me_input m, me_output m)) (sd_methods d))) (fi_services control_proto) =
     [(''Control'', map (\<lambda>(name, request, response). (name, type_name request, type_name response)) service_methods)]"
  by (intro conjI) (simp_all add: serialized offsets parsed, simp add: control_proto_def service_methods_def)

section \<open>Messages in the wire format\<close>

text \<open>
  The documented classes for these messages, with the numbers the descriptor gives their fields: scalars that have
  their default are left out, of a scalar that appears again the last counts, and messages that appear again are
  merged. A string is sent in UTF-8; of its characters the model has those of one byte.
\<close>

definition number :: "string \<Rightarrow> string \<Rightarrow> nat" where
  "number message name = (case parse_file DESCRIPTOR of None \<Rightarrow> 0 | Some d \<Rightarrow>
     (case find (\<lambda>m. md_name m = message) (fi_messages d) of None \<Rightarrow> 0 | Some m \<Rightarrow>
       (case find (\<lambda>f. fd_name f = name) (md_fields m) of None \<Rightarrow> 0 | Some f \<Rightarrow> fd_number f)))"

lemma numbers [simp]:
  "number ''Snapshot'' ''version'' = 1" "number ''Snapshot'' ''memories'' = 2"
  "number ''Connection'' ''endpoint'' = 1" "number ''Connection'' ''id'' = 2"
  "number ''Offer'' ''connection'' = 1" "number ''Offer'' ''metadata'' = 2"
  "number ''Update'' ''connection'' = 1" "number ''Update'' ''snapshot'' = 2"
  by (simp_all add: number_def parsed control_proto_def)

fun utf8_text :: "string \<Rightarrow> bytes" where
  "utf8_text [] = []"
| "utf8_text (c # cs) = (let n = of_char c :: nat in
     if n < 128 then of_nat n # utf8_text cs
     else of_nat (192 + n div 64) # of_nat (128 + n mod 64) # utf8_text cs)"

fun parse_utf8 :: "bytes \<Rightarrow> string option" where
  "parse_utf8 [] = Some []"
| "parse_utf8 (a # bs) =
     (if unat a < 128 then map_option (Cons (char_of (unat a))) (parse_utf8 bs)
      else case bs of
        [] \<Rightarrow> None
      | b # cs \<Rightarrow>
          if 194 \<le> unat a \<and> unat a < 196 \<and> 128 \<le> unat b \<and> unat b < 192
          then map_option (Cons (char_of (64 * (unat a - 192) + (unat b - 128)))) (parse_utf8 cs)
          else None)"

definition put_text :: "nat \<Rightarrow> string \<Rightarrow> (nat \<times> payload) list" where
  "put_text k t = (if t = [] then [] else [(k, Block (utf8_text t))])"

definition put_bytes :: "nat \<Rightarrow> bytes \<Rightarrow> (nat \<times> payload) list" where
  "put_bytes k b = (if b = [] then [] else [(k, Block b)])"

definition put_number :: "nat \<Rightarrow> int \<Rightarrow> (nat \<times> payload) list" where
  "put_number k n = (if n = 0 then [] else [(k, Number (nat n))])"

definition put_connection :: "connection \<Rightarrow> (nat \<times> payload) list" where
  "put_connection c = put_text (number ''Connection'' ''endpoint'') (cn_endpoint c) @
     put_text (number ''Connection'' ''id'') (cn_id c)"

definition put_snapshot :: "snapshot \<Rightarrow> (nat \<times> payload) list" where
  "put_snapshot sn = put_number (number ''Snapshot'' ''version'') (sn_version sn) @
     map (\<lambda>b. (number ''Snapshot'' ''memories'', Block b)) (sn_memories sn)"

fun put_message :: "wire \<Rightarrow> (nat \<times> payload) list" where
  "put_message EmptyM = []"
| "put_message (SnapshotM sn) = put_snapshot sn"
| "put_message (ConnectionM c) = put_connection c"
| "put_message (OfferM off) =
     (number ''Offer'' ''connection'', Block (encode_fields (put_connection (of_connection off)))) #
     put_bytes (number ''Offer'' ''metadata'') (of_metadata off)"
| "put_message (UpdateM up) =
     [(number ''Update'' ''connection'', Block (encode_fields (put_connection (up_connection up)))),
      (number ''Update'' ''snapshot'', Block (encode_fields (put_snapshot (up_snapshot up))))]"

text \<open>The way back.\<close>

definition get_text :: "(nat \<times> payload) list \<Rightarrow> nat \<Rightarrow> string option" where
  "get_text fs k = map_option (\<lambda>ts. if ts = [] then [] else last ts) (those (map parse_utf8 (blocks fs k)))"

definition get_bytes :: "(nat \<times> payload) list \<Rightarrow> nat \<Rightarrow> bytes" where
  "get_bytes fs k = (if blocks fs k = [] then [] else last (blocks fs k))"

fun get_number :: "(nat \<times> payload) list \<Rightarrow> nat \<Rightarrow> nat \<Rightarrow> nat" where
  "get_number [] k n = n"
| "get_number ((j, Number m) # fs) k n = get_number fs k (if j = k then m mod 2 ^ 64 else n)"
| "get_number (_ # fs) k n = get_number fs k n"

definition get_message :: "((nat \<times> payload) list \<Rightarrow> 'a option) \<Rightarrow> (nat \<times> payload) list \<Rightarrow> nat \<Rightarrow> 'a option" where
  "get_message get fs k = Option.bind (those (map decode_fields (blocks fs k))) (\<lambda>parts. get (concat parts))"

definition get_connection :: "(nat \<times> payload) list \<Rightarrow> connection option" where
  "get_connection fs =
     (case (get_text fs (number ''Connection'' ''endpoint''), get_text fs (number ''Connection'' ''id'')) of
       (Some endpoint, Some name) \<Rightarrow> Some \<lparr>cn_endpoint = endpoint, cn_id = name\<rparr> | _ \<Rightarrow> None)"

definition get_snapshot :: "(nat \<times> payload) list \<Rightarrow> snapshot option" where
  "get_snapshot fs = Some \<lparr>sn_version = int (get_number fs (number ''Snapshot'' ''version'') 0),
     sn_memories = blocks fs (number ''Snapshot'' ''memories'')\<rparr>"

fun get_wire :: "message_type \<Rightarrow> (nat \<times> payload) list \<Rightarrow> wire option" where
  "get_wire EmptyT fs = Some EmptyM"
| "get_wire SnapshotT fs = map_option SnapshotM (get_snapshot fs)"
| "get_wire ConnectionT fs = map_option ConnectionM (get_connection fs)"
| "get_wire OfferT fs = map_option (\<lambda>c. OfferM \<lparr>of_connection = c,
     of_metadata = get_bytes fs (number ''Offer'' ''metadata'')\<rparr>)
     (get_message get_connection fs (number ''Offer'' ''connection''))"
| "get_wire UpdateT fs =
     (case (get_message get_connection fs (number ''Update'' ''connection''),
         get_message get_snapshot fs (number ''Update'' ''snapshot'')) of
       (Some c, Some sn) \<Rightarrow> Some (UpdateM \<lparr>up_connection = c, up_snapshot = sn\<rparr>) | _ \<Rightarrow> None)"

definition byte_protobuf :: "bytes protobuf" where
  "byte_protobuf = \<lparr>
     SerializeToString = (\<lambda>T m.
       if type_of m \<noteq> T then Inl (TypeError (Msg ''message''))
       else if \<not> fits_wire m then Inl (ValueError (Msg ''Value out of range''))
       else Inr (encode_fields (put_message m))),
     FromString = (\<lambda>T b. case Option.bind (decode_fields b) (get_wire T) of
       None \<Rightarrow> Inl (RuntimeError (Msg ''Error parsing message'')) | Some m \<Rightarrow> Inr m)\<rparr>"

lemma parse_utf8_text: "parse_utf8 (utf8_text t) = Some t"
proof (induction t)
  case (Cons c t)
  have n: "(of_char c :: nat) < 256" by simp
  have "unat (of_nat (192 + of_char c div 64) :: 8 word) = 192 + of_char c div 64"
    "unat (of_nat (128 + of_char c mod 64) :: 8 word) = 128 + of_char c mod 64"
    by (rule unat_byte, use n in linarith)+
  moreover have "(of_char c :: nat) div 64 < 4" using n by linarith
  ultimately show ?case using Cons n by (auto simp: Let_def unat_byte simp del: of_nat_add)
qed simp

lemma get_put_connection: "get_connection (put_connection c) = Some c"
  by (cases c) (simp add: get_connection_def put_connection_def get_text_def put_text_def parse_utf8_text)

lemma get_number_map [simp]: "get_number (map (\<lambda>b. (j, Block (f b))) bs) k n = n"
  by (induction bs) simp_all

lemma get_put_snapshot:
  "0 \<le> sn_version sn \<Longrightarrow> sn_version sn < 2 ^ 64 \<Longrightarrow> get_snapshot (put_snapshot sn) = Some sn"
  by (cases sn) (auto simp: get_snapshot_def put_snapshot_def put_number_def nat_less_iff)

lemma get_put_message: "fits_wire m \<Longrightarrow> get_wire (type_of m) (put_message m) = Some m"
  by (cases m) (auto simp: get_message_def get_bytes_def put_bytes_def decode_encode_fields get_put_connection
      get_put_snapshot)

lemma get_wire_type: "get_wire T fs = Some m \<Longrightarrow> type_of m = T"
  by (cases T) (auto split: option.splits)

lemma byte_protobuf_ok: "protobuf_ok byte_protobuf"
  by (auto simp: protobuf_ok_def byte_protobuf_def decode_encode_fields get_put_message bind_eq_Some_conv
      dest: get_wire_type split: if_splits option.splits)

text \<open>So the planes of the tests connect when what they send travels as bytes.\<close>

lemma demo_handshake_bytes:
  "fst (grpc_handshake demo_env byte_protobuf (loopback byte_protobuf (plane_server demo_env)) ''n1:1''
     (demo_published, demo_start ''n1'')) = Inr 1"
proof -
  obtain s t where run: "handshake demo_env demo_env ''n1:1'' (demo_published, demo_start ''n1'') = (Inr 1, s, t)"
    using demo_handshake by (metis prod.collapse)
  with grpc_handshake_direct [OF looped.unary_transport_axioms byte_protobuf_ok demo_fits(4) demo_fits(2) [of "''n1''"]]
  show ?thesis by (metis fst_conv)
qed

lemma demo_offer_bytes: "SerializeToString byte_protobuf ConnectionT (ConnectionM \<lparr>cn_endpoint = ''n0:1'', cn_id = ''i''\<rparr>) =
    Inr ([0x0A, 4] @ encode_str ''n0:1'' @ [0x12, 1] @ encode_str ''i'')"
  by (simp add: byte_protobuf_def put_connection_def put_text_def encode_fields_def varint.simps encode_str_def Let_def)

end
