(* ===== verification/Granting.thy ===== *)
theory Granting
  imports Stack Sharing Meeting
begin

text \<open>
  Real engines that do what they are asked for. A C library with the contract of \<^verbatim>\<open>transfer_engine.h\<close> whose engines
  grant the calls that contract allows, until they run out of something, makes every \<^verbatim>\<open>NativeEngine\<close> over it an
  \<open>obliging_store\<close>; so the results on handshakes, on simultaneous connects and on publishing speak of planes over
  real engines. An engine in memory behind the adapter is such a library.
\<close>

section \<open>A library that grants what is asked\<close>

text \<open>
  \<open>lspent l h\<close>: the engine \<open>h\<close> has run out of a resource, or there is no such engine any more. Unless it is spent then,
  it creates a peer, it connects a peer that is live and not connected to well-formed metadata of a peer, and it
  imports well-formed metadata of a memory for a connected peer. Its own metadata is well formed. Empty buffers are not.
\<close>

locale granting_library = c_engine C lok peers links imported owner
  for C :: "'l c_api" and lok peers links imported owner +
  fixes qp :: "bytes \<Rightarrow> bool" and mem :: "bytes \<Rightarrow> bool" and lspent :: "'l \<Rightarrow> int \<Rightarrow> bool"
  assumes g_formed: "lok l \<Longrightarrow> peers l h p = Some md \<Longrightarrow> qp md"
    and g_bytes: "qp b \<or> mem b \<Longrightarrow> b \<noteq> []"
    and g_create: "lok l \<Longrightarrow> r101_create_peer C h l = (r1, l') \<Longrightarrow>
      lspent l' h \<or> (\<exists>x. r1 = Inr (R101_OK, x))"
    and g_connect: "lok l \<Longrightarrow> peers l h p \<noteq> None \<Longrightarrow> links l h p = None \<Longrightarrow> qp b \<Longrightarrow>
      r101_connect_peer C h p b l = (r2, l') \<Longrightarrow> lspent l' h \<or> r2 = Inr R101_OK"
    and g_import: "lok l \<Longrightarrow> links l h p \<noteq> None \<Longrightarrow> mem b \<Longrightarrow>
      r101_import_remote_memory C h p b l = (r3, l') \<Longrightarrow> lspent l' h \<or> (\<exists>k. r3 = Inr (R101_OK, k))"
    and g_create_spent: "lspent l h \<Longrightarrow> r101_create_peer C h l = (r1, l') \<Longrightarrow> lspent l' h"
    and g_connect_spent: "lspent l h \<Longrightarrow> r101_connect_peer C h p b l = (r2, l') \<Longrightarrow> lspent l' h"
    and g_import_spent: "lspent l h \<Longrightarrow> r101_import_remote_memory C h p b l = (r3, l') \<Longrightarrow> lspent l' h"
    and g_destroy_spent: "lspent l h \<Longrightarrow> r101_destroy_peer C h p l = (r2, l') \<Longrightarrow> lspent l' h"
begin

definition nspent :: "'l native \<Rightarrow> bool" where
  "nspent n \<longleftrightarrow> lspent (ne_lib n) (ne_handle n)"

lemma native_create_grants:
  assumes n: "nok n" and run: "native_create_peer C n = (r, n')"
  shows "nspent n' \<or> (\<exists>pm. r = Inr pm)"
proof -
  obtain x l where call: "r101_create_peer C (ne_handle n) (ne_lib n) = (x, l)" by fastforce
  have n': "ne_lib n' = l \<and> ne_handle n' = ne_handle n"
    using run call by (auto simp: native_create_peer_def native_call_out_def on_lib_def py_defs
        split: if_splits sum.splits prod.splits)
  from g_create [OF nok_facts(1) [OF n] call] show ?thesis
  proof (elim disjE exE)
    fix y assume y: "x = Inr (R101_OK, y)"
    obtain p a sz where x: "x = Inr (R101_OK, p, a, sz)" using y by (metis surj_pair)
    note lib = c_create_ok [OF nok_facts(1) [OF n] call [unfolded x]]
    then have "p \<notin> ne_peers n" using nok_facts(3) [OF n] by simp
    with run call x lib show ?thesis
      by (auto simp: native_create_peer_def native_call_out_def on_lib_def py_defs)
  qed (simp add: nspent_def n')
qed

lemma native_connect_grants:
  assumes n: "nok n" and p: "nlive n p \<noteq> None" "nconn n p = None" and b: "qp b"
    and run: "native_connect_peer C p (Bytes b) n = (r, n')"
  shows "nspent n' \<or> r = Inr ()"
proof -
  obtain x l where call: "r101_connect_peer C (ne_handle n) p b (ne_lib n) = (x, l)" by fastforce
  have "b \<noteq> []" using b g_bytes by blast
  with run call have "ne_lib n' = l \<and> ne_handle n' = ne_handle n" "x = Inr R101_OK \<Longrightarrow> r = Inr ()"
    by (auto simp: native_connect_peer_def native_call_def on_lib_def py_defs split: if_splits sum.splits)
  with g_connect [OF nok_facts(1) [OF n] _ _ b call] p show ?thesis by (auto simp: nspent_def nviews)
qed

lemma native_import_grants:
  assumes n: "nok n" and p: "nconn n p \<noteq> None" and b: "mem b"
    and run: "native_import_remote_memory C p (Bytes b) n = (r, n')"
  shows "nspent n' \<or> (\<exists>k. r = Inr k)"
proof -
  obtain x l where call: "r101_import_remote_memory C (ne_handle n) p b (ne_lib n) = (x, l)" by fastforce
  have b': "b \<noteq> []" using b g_bytes by blast
  have linked: "links (ne_lib n) (ne_handle n) p \<noteq> None" using p by (simp add: nconn_def)
  have n': "ne_lib n' = l \<and> ne_handle n' = ne_handle n"
    using run call b' by (auto simp: native_import_remote_memory_def native_call_out_def on_lib_def py_defs
        split: if_splits sum.splits prod.splits)
  from g_import [OF nok_facts(1) [OF n] linked b call] show ?thesis
  proof (elim disjE exE)
    fix k assume x: "x = Inr (R101_OK, k)"
    note lib = c_import_ok [OF nok_facts(1) [OF n] call [unfolded x]]
    have "map_of (ne_remote_memories n) k = None \<or> map_of (ne_remote_memories n) k = Some p"
      using nok_facts(4) [OF n, of k] lib by (cases "map_of (ne_remote_memories n) k") auto
    with run call x b' lib show ?thesis
      by (auto simp: native_import_remote_memory_def native_call_out_def on_lib_def py_defs)
  qed (simp add: nspent_def n')
qed

lemma native_keeps_spent:
  "keeps nspent (native_create_peer C)" "keeps nspent (native_connect_peer C p data)"
  "keeps nspent (native_import_remote_memory C p data)" "keeps nspent (native_destroy_peer C p)"
  subgoal
    by (rule keepsI) (auto simp: nspent_def native_create_peer_def native_call_out_def on_lib_def py_defs
        dest: g_create_spent split: if_splits sum.splits prod.splits)
  subgoal
    by (rule keepsI) (cases data; auto simp: nspent_def native_connect_peer_def native_call_def on_lib_def py_defs
        dest: g_connect_spent split: if_splits sum.splits prod.splits)
  subgoal
    by (rule keepsI) (cases data; auto simp: nspent_def native_import_remote_memory_def native_call_out_def on_lib_def
        py_defs dest: g_import_spent split: if_splits sum.splits prod.splits)
  subgoal
    by (rule keepsI) (auto simp: nspent_def native_destroy_peer_def native_call_def on_lib_def py_defs
        dest: g_destroy_spent split: if_splits sum.splits prod.splits)
  done

lemma obliges_natively:
  assumes "\<And>k. uuid k \<noteq> []"
  shows "obliging_store (native_env C uuid) nok nlive nconn nimps qp mem nspent"
proof (intro obliging_store.intro)
  show "control_store (native_env C uuid) nok nlive nconn nimps"
    using engine_plane.axioms(1) [OF real_plane [OF assms]] .
  show "obliging_store_axioms (native_env C uuid) nok nlive nconn qp mem nspent"
  proof
    show "nok n \<Longrightarrow> nlive n h = Some md \<Longrightarrow> qp md" for n h md
      unfolding nlive_def by (rule g_formed [OF nok_facts(1)])
  qed (simp_all add: native_create_grants native_connect_grants native_import_grants native_keeps_spent)
qed

end
section \<open>The engine in memory\<close>

definition library_spent :: "fake \<Rightarrow> int \<Rightarrow> bool" where
  "library_spent l h \<longleftrightarrow> h \<noteq> 1 \<or> 2 ^ 32 \<le> fk_next l"

text \<open>Its entry points, for the one engine there is.\<close>

lemma fake_library_create:
  "r101_create_peer fake_library h l =
    (if h \<noteq> 1 then (Inr (R101_INVALID, 0, 0, 0), l)
     else if 2 ^ 32 \<le> fk_next l then (Inr (R101_NO_MEMORY, 0, 0, 0), l)
     else (case fake_create_peer l of
       (Inl _, l') \<Rightarrow> (Inr (R101_NO_MEMORY, 0, 0, 0), l')
     | (Inr pm, l') \<Rightarrow> (Inr (R101_OK, pm_peer pm, pm_peer pm, 1), l')))"
  by (auto simp: fake_library_def adapter_def c_call_def cpp_create_peer_def memory_cffi_def memory_engine_def
      R101_defs split: prod.split sum.split)

lemma buffer_is_valid: "valid_array 1 1 8 (int (length b)) \<longleftrightarrow> is_buffer b"
  by (cases b) (auto simp: valid_array_def is_buffer_def)

lemma fake_library_connect:
  "r101_connect_peer fake_library h p b l =
    (if p < 0 \<or> 2 ^ 64 \<le> p then (Inl OverflowError, l)
     else if h \<noteq> 1 \<or> p = 0 \<or> \<not> is_buffer b then (Inr R101_INVALID, l)
     else (case fake_connect_peer p (Bytes b) l of
       (Inl _, l') \<Rightarrow> (Inr R101_INVALID, l') | (Inr _, l') \<Rightarrow> (Inr R101_OK, l')))"
  by (auto simp: fake_library_def adapter_def c_call_def c_ints_def cpp_connect_peer_def memory_cffi_def
      memory_engine_def engine_call_def buffer_is_valid apfst_def map_prod_def py_defs split: prod.split sum.split)

lemma fake_library_import:
  "r101_import_remote_memory fake_library h p b l =
    (if p < 0 \<or> 2 ^ 64 \<le> p then (Inl OverflowError, l)
     else if h \<noteq> 1 \<or> p = 0 \<or> \<not> is_buffer b then (Inr (R101_INVALID, 0), l)
     else (case fake_import_remote_memory p (Bytes b) l of
       (Inl _, l') \<Rightarrow> (Inr (R101_INVALID_STATE, 0), l') | (Inr k, l') \<Rightarrow> (Inr (R101_OK, k), l')))"
  by (auto simp: fake_library_def adapter_def c_call_def c_ints_def cpp_import_remote_memory_def memory_cffi_def
      memory_engine_def buffer_is_valid py_defs split: prod.split sum.split)

lemma fake_library_destroy:
  "r101_destroy_peer fake_library h p l =
    (if p < 0 \<or> 2 ^ 64 \<le> p then (Inl OverflowError, l)
     else if h \<noteq> 1 \<or> p = 0 then (Inr R101_INVALID, l)
     else (case fake_destroy_peer p l of
       (Inl _, l') \<Rightarrow> (Inr R101_INVALID, l') | (Inr _, l') \<Rightarrow> (Inr R101_OK, l')))"
  by (auto simp: fake_library_def adapter_def c_call_def c_ints_def cpp_destroy_peer_def memory_cffi_def
      memory_engine_def engine_call_def apfst_def map_prod_def py_defs split: prod.split sum.split)

lemmas fake_library_calls = fake_library_create fake_library_connect fake_library_import fake_library_destroy

text \<open>Its ids only grow.\<close>

lemma fake_next:
  "fake_create_peer l = (r1, l') \<Longrightarrow> fk_next l \<le> fk_next l'"
  "fake_connect_peer p b l = (r2, l') \<Longrightarrow> fk_next l \<le> fk_next l'"
  "fake_import_remote_memory p b l = (r3, l') \<Longrightarrow> fk_next l \<le> fk_next l'"
  "fake_destroy_peer p l = (r2, l') \<Longrightarrow> fk_next l \<le> fk_next l'"
  subgoal using fake_imports_frame(1) by blast
  subgoal using fake_imports_frame(2) by blast
  subgoal by (cases r3; cases b) (auto simp: fake_import_remote_memory_def py_eqs fake_id_eq split: option.splits)
  subgoal by (cases r2) (auto simp: fake_destroy_peer_def fake_eqs)
  done

lemma fake_library_facts:
  assumes "library_ok l"
  shows "tidy l" "library_peers l h p = Some md \<Longrightarrow> h = 1 \<and> 0 < p \<and> p < int (fk_next l) \<and> is_buffer md"
  using assms unfolding library_ok_def tidy_def fake_ok_def
  by (simp_all add: library_peers_def fake_live_def split: if_splits)

interpretation granting_fake: granting_library fake_library library_ok library_peers library_links library_imported
  library_owner is_buffer is_buffer library_spent
proof (intro granting_library.intro granting_library_axioms.intro, goal_cases)
  case 1 show ?case by (rule fake_stack.as_library.c_engine_axioms [folded fake_library_def])
next
  case (2 l h p md) then show ?case using fake_library_facts(2) by blast
next
  case (3 b) then show ?case by (auto simp: is_buffer_def)
next
  case (4 l h r l')
  then show ?case
    by (auto simp: fake_library_create library_spent_def fake_create_peer_def fake_id_def py_defs split: if_splits)
next
  case (5 l h p b r l')
  obtain md where "library_peers l h p = Some md" using 5(2) by auto
  from fake_library_facts(2) [OF 5(1) this] have p: "h = 1" "0 < p" "p < int (fk_next l)" by simp_all
  from 5(5) have l': "fk_next l \<le> fk_next l'"
    by (auto simp: fake_library_connect dest: fake_next split: if_splits prod.splits sum.splits)
  show ?case
  proof (cases "2 ^ 32 \<le> fk_next l")
    case True
    with l' show ?thesis by (simp add: library_spent_def)
  next
    case False
    with p have "p < 2 ^ 64" by simp
    moreover have "map_of (fk_peers l) p \<noteq> None" "map_of (fk_connected l) p = None"
      using 5(2,3) p(1) by (simp_all add: library_views fake_live_def fake_conn_def)
    ultimately show ?thesis using 5(4,5) p by (auto simp: fake_library_connect fake_connect_peer_def py_defs)
  qed
next
  case (6 l h p b r l')
  obtain md where "library_peers l h p = Some md" using fake_stack.x_no_peer [OF 6(1), of h p] 6(2) by auto
  from fake_library_facts(2) [OF 6(1) this] have p: "h = 1" "0 < p" "p < int (fk_next l)" by simp_all
  from 6(4) have l': "fk_next l \<le> fk_next l'"
    by (auto simp: fake_library_import dest: fake_next split: if_splits prod.splits sum.splits)
  show ?case
  proof (cases "2 ^ 32 \<le> fk_next l")
    case True
    with l' show ?thesis by (simp add: library_spent_def)
  next
    case False
    with p have "p < 2 ^ 64" by simp
    moreover have "map_of (fk_connected l) p \<noteq> None" using 6(2) p(1) by (simp add: library_views fake_conn_def)
    ultimately show ?thesis using 6(3,4) p
      by (auto simp: fake_library_import fake_import_remote_memory_def fake_id_def py_defs split: option.splits)
  qed
qed (auto simp: fake_library_calls library_spent_def dest: fake_next split: if_splits prod.splits sum.splits)

section \<open>Two constructed engines\<close>

text \<open>
  C24: two engines connect. Let two applications construct an \<^verbatim>\<open>Engine\<close> each, over C libraries with the documented
  contract that understand each other's metadata and grant what is asked until an engine is spent, and use it in any
  way. While both are open and have no peer for each other, let both call \<open>connect\<close> with the endpoint of the other.
  Whatever happened so far - calls that gave up and were made again, requests that arrived late or twice - when both
  have taken five more turns each, in any order, both calls have returned the handle of a ready peer, and the C
  libraries have connected the two peers to the metadata of each other, unless one of the two engines is spent by then.
\<close>

theorem constructed_engines_connect:
  assumes C: "granting_library C lok peers links imported owner qp mem spent" "lok l" "\<forall>k. uuid k \<noteq> []"
    and D: "granting_library D lok' peers' links' imported' owner' qp mem spent'" "lok' l'" "\<forall>k. uuid' k \<noteq> []"
    and here: "Engine_init C dlopen path config timeout listen advertise add_port start l = Inr e"
      "s = en_control (engine_run (native_env C uuid) ops e)"
    and there: "Engine_init D dlopen' path' config' timeout' listen' advertise' add_port' start' l' = Inr e'"
      "t = en_control (engine_run (native_env D uuid') ops' e')"
    and s: "\<not> cp_closed s" "map_of (cp_peers s) (cp_endpoint t) = None" "list_all mem (cp_memory_metadata s)"
    and t: "\<not> cp_closed t" "map_of (cp_peers t) (cp_endpoint s) = None" "list_all mem (cp_memory_metadata t)"
    and ends: "cp_endpoint s \<noteq> []" "cp_endpoint t \<noteq> []" "cp_endpoint s \<noteq> cp_endpoint t"
    and history: "list_all (readable mem) history"
    and turns: "5 \<le> count_list turns True" "5 \<le> count_list turns False"
  shows "\<exists>p q s' t' a b. meet (native_env C uuid) (native_env D uuid') (history @ map Turn turns) (Start, Start, s, t) =
      (p, q, s', t') \<and>
    (spent (ne_lib (cp_native s')) (ne_handle (cp_native s')) \<or> spent' (ne_lib (cp_native t')) (ne_handle (cp_native t')) \<or>
     p = Returned (p_handle (deref a s')) \<and> q = Returned (p_handle (deref b t')) \<and>
     map_of (cp_peers s') (cp_endpoint t) = Some a \<and> map_of (cp_peers t') (cp_endpoint s) = Some b \<and>
     p_state (deref a s') = READY \<and> p_state (deref b t') = READY \<and>
     p_remote_connection_id (deref a s') = p_connection_id (deref b t') \<and>
     p_remote_connection_id (deref b t') = p_connection_id (deref a s') \<and>
     links (ne_lib (cp_native s')) (ne_handle (cp_native s')) (p_handle (deref a s')) = Some (p_metadata (deref b t')) \<and>
     links' (ne_lib (cp_native t')) (ne_handle (cp_native t')) (p_handle (deref b t')) = Some (p_metadata (deref a s')))"
proof -
  note CE = granting_library.axioms(1) [OF C(1)] and DE = granting_library.axioms(1) [OF D(1)]
  have wf: "control_wf (c_engine.nok lok peers owner) (c_engine.nlive peers) (c_engine.nconn links) s"
    using engine_plane.run_wf [OF c_engine.real_plane [OF CE] c_engine.real_init [OF CE C(2) here(1)]] C(3)
    by (simp add: here(2) engine_wf_def)
  have wf': "control_wf (c_engine.nok lok' peers' owner') (c_engine.nlive peers') (c_engine.nconn links') t"
    using engine_plane.run_wf [OF c_engine.real_plane [OF DE] c_engine.real_init [OF DE D(2) there(1)]] D(3)
    by (simp add: there(2) engine_wf_def)
  have E: "obliging_store (native_env C uuid) (c_engine.nok lok peers owner) (c_engine.nlive peers)
      (c_engine.nconn links) (c_engine.nimps imported) qp mem (granting_library.nspent spent)"
    by (rule granting_library.obliges_natively [OF C(1)]) (simp add: C(3))
  have F: "obliging_store (native_env D uuid') (c_engine.nok lok' peers' owner') (c_engine.nlive peers')
      (c_engine.nconn links') (c_engine.nimps imported') qp mem (granting_library.nspent spent')"
    by (rule granting_library.obliges_natively [OF D(1)]) (simp add: D(3))
  from meet_completes [OF E F wf s(1,2) wf' t(1,2) s(3) t(3) history ends turns] show ?thesis
    by (simp only: granting_library.nspent_def [OF C(1)] granting_library.nspent_def [OF D(1)]
        c_engine.nconn_def [OF CE] c_engine.nconn_def [OF DE])
qed

text \<open>Two engines of the stack over the engine in memory.\<close>

definition memory_plane :: "string \<Rightarrow> fake native control" where
  "memory_plane host = \<lparr>cp_native = \<lparr>ne_lib = fake_init ''library'', ne_handle = 1, ne_memories = [],
       ne_remote_memories = [], ne_batches = [], ne_peers = {}\<rparr>,
     cp_endpoint = host @ '':5'', cp_closed = False, cp_peers = [], cp_heap = (\<lambda>_. blank_peer), cp_next_ref = 0,
     cp_channels = [], cp_memory_metadata = [], cp_uuids = 0\<rparr>"

lemma decimal_five: "decimal 5 = ''5''"
  by code_simp

lemma memory_plane_starts:
  assumes "listen \<in> {''h:0'', ''n:0''}"
  shows "Engine_init fake_library (\<lambda>_. Inr (\<lambda>_. True)) ''lib.so'' NoConfig (Fin 10) listen None (\<lambda>_. Inr 5) None
    (fake_init ''library'') = Inr \<lparr>en_control = memory_plane (take 1 listen), en_timeout = Fin 10\<rparr>"
  using assms
  by (auto simp: Engine_init_def NativeEngine_init_def resolve_config_def library_def FUNCTIONS_eval
      fake_library_starts ControlPlane_init_def rpartition_colon_def isdecimal_def memory_plane_def decimal_five
      is_digit_def parse_decimal_def digit_value_def)

lemma fake_library_bytes: "ffi_bytes fake_library l a n = (case map_of (fk_peers l) a of Some md \<Rightarrow> md | None \<Rightarrow> [0])"
  by (simp add: fake_library_def memory_cffi_def)

lemma memory_turns:
  "case meet (native_env fake_library demo_uuid) (native_env fake_library demo_uuid)
      (map Turn [True, False, True, False, True, False, True, False, True, False])
      (Start, Start, memory_plane ''h'', memory_plane ''n'') of (p, q, s, t) \<Rightarrow>
    \<not> library_spent (ne_lib (cp_native s)) (ne_handle (cp_native s)) \<and>
    \<not> library_spent (ne_lib (cp_native t)) (ne_handle (cp_native t))"
  by (simp add: native_env_def native_create_peer_def native_connect_peer_def native_import_remote_memory_def
      native_call_out_def native_call_def on_lib_def fake_library_calls fake_library_bytes control_run_defs fake_create_peer_def
      fake_init_def deref_def demo_uuid_def decimal_digits memory_plane_def library_spent_def is_buffer_def
      encode_str_def del: heap_deref)

theorem constructed_engines_connect_witness:
  "\<exists>p q s t a b. meet (native_env fake_library demo_uuid) (native_env fake_library demo_uuid)
      (map Turn [True, False, True, False, True, False, True, False, True, False])
      (Start, Start, memory_plane ''h'', memory_plane ''n'') = (p, q, s, t) \<and>
    p = Returned (p_handle (deref a s)) \<and> q = Returned (p_handle (deref b t)) \<and>
    library_links (ne_lib (cp_native s)) 1 (p_handle (deref a s)) = Some (p_metadata (deref b t)) \<and>
    library_links (ne_lib (cp_native t)) 1 (p_handle (deref b t)) = Some (p_metadata (deref a s))"
proof -
  have starts: "Engine_init fake_library (\<lambda>_. Inr (\<lambda>_. True)) ''lib.so'' NoConfig (Fin 10) ''h:0'' None (\<lambda>_. Inr 5) None
      (fake_init ''library'') = Inr \<lparr>en_control = memory_plane ''h'', en_timeout = Fin 10\<rparr>"
    "Engine_init fake_library (\<lambda>_. Inr (\<lambda>_. True)) ''lib.so'' NoConfig (Fin 10) ''n:0'' None (\<lambda>_. Inr 5) None
      (fake_init ''library'') = Inr \<lparr>en_control = memory_plane ''n'', en_timeout = Fin 10\<rparr>"
    using memory_plane_starts [of "''h:0''"] memory_plane_starts [of "''n:0''"] by simp_all
  have runs: "memory_plane h = en_control (engine_run (native_env fake_library demo_uuid) []
      \<lparr>en_control = memory_plane h, en_timeout = Fin 10\<rparr>)" for h
    by (simp add: engine_run_def)
  have ids: "\<forall>k. demo_uuid k \<noteq> []" by (simp add: demo_uuid_def)
  have lib: "library_ok (fake_init ''library'')" by (rule library_ok_init) simp
  have planes: "\<not> cp_closed (memory_plane h)" "map_of (cp_peers (memory_plane h)) e = None"
    "list_all is_buffer (cp_memory_metadata (memory_plane h))" "cp_endpoint (memory_plane h) \<noteq> []" for h e
    by (simp_all add: memory_plane_def)
  have ends: "cp_endpoint (memory_plane ''h'') \<noteq> cp_endpoint (memory_plane ''n'')" by (simp add: memory_plane_def)
  let ?turns = "[True, False, True, False, True, False, True, False, True, False]"
  have turns: "5 \<le> count_list ?turns True" "5 \<le> count_list ?turns False" by simp_all
  note granting = granting_fake.granting_library_axioms
  have history: "list_all (readable is_buffer) []" by simp
  from constructed_engines_connect [OF granting lib ids granting lib ids starts(1) runs starts(2) runs planes(1-3) planes(1-3)
      planes(4,4) ends history turns]
  obtain p q s t a b where run: "meet (native_env fake_library demo_uuid) (native_env fake_library demo_uuid) (map Turn ?turns)
      (Start, Start, memory_plane ''h'', memory_plane ''n'') = (p, q, s, t)"
    and outcome: "library_spent (ne_lib (cp_native s)) (ne_handle (cp_native s)) \<or>
      library_spent (ne_lib (cp_native t)) (ne_handle (cp_native t)) \<or>
      p = Returned (p_handle (deref a s)) \<and> q = Returned (p_handle (deref b t)) \<and>
      library_links (ne_lib (cp_native s)) (ne_handle (cp_native s)) (p_handle (deref a s)) = Some (p_metadata (deref b t)) \<and>
      library_links (ne_lib (cp_native t)) (ne_handle (cp_native t)) (p_handle (deref b t)) = Some (p_metadata (deref a s))"
    unfolding append_Nil by blast
  have "\<not> library_spent (ne_lib (cp_native s)) (ne_handle (cp_native s))"
    "\<not> library_spent (ne_lib (cp_native t)) (ne_handle (cp_native t))"
    using memory_turns unfolding run by simp_all
  moreover from this have "ne_handle (cp_native s) = 1" "ne_handle (cp_native t) = 1" by (simp_all add: library_spent_def)
  ultimately show ?thesis using run outcome by auto
qed

end
