(* ===== verification/Package.thy ===== *)
theory Package
  imports Engine_Facts
begin

text \<open>
  What an application gets from \<^verbatim>\<open>import rdma101\<close>: the names \<^verbatim>\<open>rdma101/__init__.py\<close> exports, and engines that it
  uses in a \<^verbatim>\<open>with\<close> block, which are closed however the block ends.
\<close>

section \<open>Names\<close>

text \<open>The names \<^verbatim>\<open>rdma101/types.py\<close> binds with its classes and unions, and its \<^verbatim>\<open>__all__\<close>.\<close>

definition types_bound :: "string list" where
  "types_bound = [''ErrorCode'', ''MemoryAccess'', ''Config'', ''Write'', ''Read'', ''Send'', ''Recv'', ''WriteImm'',
     ''CompareSwap'', ''FetchAdd'', ''Operation'', ''Request'', ''Message'', ''WriteNotice'', ''ReceiveResult'',
     ''Pending'', ''Completed'', ''Failed'', ''TransferStatus'', ''PeerMetadata'', ''MemoryMetadata'']"

definition types_all :: "string list" where
  "types_all = [''ErrorCode'', ''MemoryAccess'', ''Config'', ''Write'', ''Read'', ''Send'', ''Recv'', ''WriteImm'',
     ''CompareSwap'', ''FetchAdd'', ''Operation'', ''Request'', ''Message'', ''WriteNotice'', ''ReceiveResult'',
     ''Pending'', ''Completed'', ''Failed'', ''TransferStatus'', ''PeerMetadata'', ''MemoryMetadata'']"

text \<open>The imports of the package, module by module, and its \<^verbatim>\<open>__all__\<close>.\<close>

definition package_imports :: "(string \<times> string list) list" where
  "package_imports =
     [(''.engine'', [''Engine'', ''LocalMemory'']),
      (''.native_engine'', [''EngineError'', ''Memory'']),
      (''.types'', [''CompareSwap'', ''Completed'', ''Config'', ''ErrorCode'', ''Failed'', ''FetchAdd'', ''MemoryAccess'',
         ''MemoryMetadata'', ''Message'', ''Operation'', ''PeerMetadata'', ''Pending'', ''Read'', ''ReceiveResult'',
         ''Recv'', ''Request'', ''Send'', ''TransferStatus'', ''Write'', ''WriteImm'', ''WriteNotice''])]"

definition package_all :: "string list" where
  "package_all = [''Engine'', ''EngineError'', ''Memory'', ''LocalMemory'', ''ErrorCode'', ''MemoryAccess'', ''Config'',
     ''Write'', ''Read'', ''Send'', ''Recv'', ''WriteImm'', ''CompareSwap'', ''FetchAdd'', ''Operation'', ''Request'',
     ''Message'', ''WriteNotice'', ''ReceiveResult'', ''Pending'', ''Completed'', ''Failed'', ''TransferStatus'',
     ''PeerMetadata'', ''MemoryMetadata'']"

text \<open>
  Whether \<^verbatim>\<open>from module import names\<close> finds its names, and \<^verbatim>\<open>from module import *\<close>, which raises
  \<^verbatim>\<open>AttributeError\<close> for a name of \<^verbatim>\<open>__all__\<close> that the module does not have.
\<close>

definition imports_found :: "string list \<Rightarrow> string list \<Rightarrow> bool" where
  "imports_found bound names \<longleftrightarrow> list_all (\<lambda>name. name \<in> set bound) names"

definition star_import :: "string list \<Rightarrow> string list \<Rightarrow> exn + string list" where
  "star_import bound names = (case find (\<lambda>name. name \<notin> set bound) names of
     Some name \<Rightarrow> Inl (AttributeError name) | None \<Rightarrow> Inr names)"

definition package_bound :: "string list" where
  "package_bound = concat (map snd package_imports)"

text \<open>The package finds what it imports, and exports just what it imports, all of \<^verbatim>\<open>types.py\<close> included, once.\<close>

lemma package_exports:
  "imports_found types_bound (the (map_of package_imports ''.types''))"
  "star_import types_bound types_all = Inr types_all" "star_import package_bound package_all = Inr package_all"
  "set package_all = set package_bound" "distinct package_all" "set types_all \<subseteq> set package_all"
  by code_simp+

section \<open>With blocks\<close>

text \<open>\<^verbatim>\<open>Engine.endpoint\<close>, and \<^verbatim>\<open>__enter__\<close> and \<^verbatim>\<open>__exit__\<close> of the two classes.\<close>

definition engine_endpoint :: "'n engine \<Rightarrow> string" where
  "engine_endpoint s = cp_endpoint (en_control s)"

definition engine_enter :: "('n, unit) engine_call" where
  "engine_enter = py_return ()"

definition engine_exit ::
  "('n, 'z) control_env_scheme \<Rightarrow> ('n, unit) control_call \<Rightarrow> ('n, unit) engine_call" where
  "engine_exit E drain = engine_close E drain"

definition native_enter :: "('l, unit) native_call" where
  "native_enter = py_return ()"

definition native_exit :: "'l c_api \<Rightarrow> ('l, unit) native_call" where
  "native_exit C = native_close C"

text \<open>
  The \<^verbatim>\<open>with\<close> statement. \<^verbatim>\<open>__exit__\<close> runs however the body ends and returns \<^verbatim>\<open>None\<close>, so that an exception of the
  body goes on; one of its own takes its place.
\<close>

definition with_block :: "('s, 'e, unit) py \<Rightarrow> ('s, 'e, unit) py \<Rightarrow> ('s, 'e, 'a) py \<Rightarrow> ('s, 'e, 'a) py" where
  "with_block enter exit body = py_then enter (\<lambda>s. case body s of
     (r, t) \<Rightarrow> (case exit t of (Inl e, u) \<Rightarrow> (Inl e, u) | (Inr _, u) \<Rightarrow> (r, u)))"

abbreviation with_engine ::
  "'l c_api \<Rightarrow> (nat \<Rightarrow> string) \<Rightarrow> rpc_call list \<Rightarrow> ('l native, 'a) engine_call \<Rightarrow> ('l native, 'a) engine_call" where
  "with_engine C uuid calls \<equiv> with_block engine_enter
     (engine_exit (native_env C uuid) (during (native_env C uuid) calls (Inr ())))"

text \<open>
  A \<^verbatim>\<open>with\<close> block closes its engine. However the body ends, whatever it did, and whichever handlers run while
  the engine closes, the block leaves a closed plane. When the library releases the engine, the block ends as its
  body did and nothing is retained; when it refuses, its error ends the block and the books are what the body left,
  so that the storage stays alive.
\<close>

lemma with_engine_closes:
  assumes "body s = (x, t)" and "with_engine C uuid calls body s = (r, u)"
  shows "cp_closed (en_control u) \<and>
    (case native_close C (cp_native (en_control t)) of
       (Inl e, n) \<Rightarrow> r = Inl e \<and> books (cp_native (en_control u)) = books (cp_native (en_control t))
     | (Inr _, n) \<Rightarrow> r = x \<and> native_closed (cp_native (en_control u)) \<and>
         (books (cp_native (en_control u)) = (0, [], [], [], {}) \<or> native_closed (cp_native (en_control t))))"
proof -
  obtain y n where close: "native_close C (cp_native (en_control t)) = (y, n)" by fastforce
  have u: "cp_closed (en_control u)" "cp_native (en_control u) = n" "r = (case y of Inl e \<Rightarrow> Inl e | Inr _ \<Rightarrow> x)"
    using assms unfolding with_block_def engine_enter_def engine_exit_def close_run
    by (auto simp: close py_then_def py_bind_def py_return_def split: sum.splits)
  show ?thesis
  proof (cases y)
    case (Inl e)
    with close close_raise have "books n = books (cp_native (en_control t))" by blast
    with close u Inl show ?thesis by simp
  next
    case (Inr v)
    with close have "native_closed n" "native_closed (cp_native (en_control t)) \<or> books n = (0, [], [], [], {})"
      by (auto simp: native_close_def native_eqs native_closed_def books_def split: if_splits)
    with close u Inr show ?thesis by auto
  qed
qed

text \<open>A body that raises.\<close>

lemma with_engine_raises:
  "\<exists>u. with_engine demo_lib demo_uuid [] (py_raise OverflowError) demo_engine = (Inl OverflowError :: exn + unit, u) \<and>
     books (cp_native (en_control u)) = (0, [], [], [], {})"
proof -
  have close: "\<exists>n. native_close demo_lib (cp_native (en_control demo_engine)) = (Inr (), n)"
    by (simp add: native_close_def native_call_def on_lib_def check_code_def py_defs demo_engine_def demo_native_def
        demo_lib_def R101_OK_def)
  obtain r u where run: "with_engine demo_lib demo_uuid [] (py_raise OverflowError) demo_engine = (r :: exn + unit, u)"
    by fastforce
  have "\<not> native_closed (cp_native (en_control demo_engine))"
    by (simp add: demo_engine_def demo_native_def native_closed_def)
  with with_engine_closes [OF py_raise_def run] run close show ?thesis by auto
qed

text \<open>The same of a \<^verbatim>\<open>NativeEngine\<close> alone.\<close>

lemma with_native_closes:
  assumes "body s = (x, t)" and "native_close C t = (Inr v, n)"
  shows "with_block native_enter (native_exit C) body s = (x, n)" and "native_closed n"
proof -
  show "with_block native_enter (native_exit C) body s = (x, n)"
    using assms by (simp add: with_block_def native_enter_def native_exit_def py_then_def py_bind_def py_return_def)
  show "native_closed n"
    using assms(2) by (auto simp: native_close_def native_eqs native_closed_def split: if_splits)
qed

end
