(* ===== verification/Shell.thy ===== *)
theory Shell
  imports Complex_Main Types "HOL-Library.List_Lexorder" "HOL-Library.Char_ord"
begin

text \<open>
  What the tools under \<^verbatim>\<open>scripts/\<close> do to the machine they run on. They start processes, read and
  write text files, and print. The machine has files and whatever else processes see and change;
  what a process does is a parameter. A log records what happened in order.
\<close>

section \<open>Exceptions and handlers\<close>

text \<open>
  The exceptions these scripts can see. \<^verbatim>\<open>FileNotFoundError\<close> and \<^verbatim>\<open>ProcessLookupError\<close>
  are \<^verbatim>\<open>OSError\<close>s; \<^verbatim>\<open>SystemExit\<close> comes
  from \<^verbatim>\<open>argparse\<close>; \<open>ParseError\<close> is \<^verbatim>\<open>ElementTree.ParseError\<close>, a subclass of \<^verbatim>\<open>SyntaxError\<close>.
\<close>

datatype failure =
    OSFailure string
  | FileNotFound string
  | ProcessLookupError
  | CalledProcessError int
  | TimeoutExpired
  | ValueFailure string
  | RuntimeFailure string
  | ParseError
  | KeyboardInterrupt
  | SystemExit int

definition is_OSError :: "failure \<Rightarrow> bool" where
  "is_OSError e \<longleftrightarrow> (case e of OSFailure _ \<Rightarrow> True | FileNotFound _ \<Rightarrow> True | ProcessLookupError \<Rightarrow> True
     | _ \<Rightarrow> False)"

text \<open>\<open>try: m except ...: handler\<close>, where \<open>handler e\<close> is \<open>None\<close> when no clause matches \<open>e\<close>.\<close>

definition py_except :: "('s, 'e, 'a) py \<Rightarrow> ('e \<Rightarrow> ('s, 'e, 'a) py option) \<Rightarrow> ('s, 'e, 'a) py" where
  "py_except m handler s =
     (case m s of
        (Inr x, t) \<Rightarrow> (Inr x, t)
      | (Inl e, t) \<Rightarrow> (case handler e of None \<Rightarrow> (Inl e, t) | Some k \<Rightarrow> k t))"

text \<open>\<open>try: m finally: cleanup\<close>; an exception of the cleanup replaces what \<open>m\<close> gave.\<close>

definition py_finally :: "('s, 'e, 'a) py \<Rightarrow> ('s, 'e, unit) py \<Rightarrow> ('s, 'e, 'a) py" where
  "py_finally m cleanup s =
     (case m s of (r, t) \<Rightarrow> (case cleanup t of (Inl e, u) \<Rightarrow> (Inl e, u) | (Inr _, u) \<Rightarrow> (r, u)))"

text \<open>\<open>[f(x) for x in xs]\<close>\<close>

fun py_map :: "('x \<Rightarrow> ('s, 'e, 'a) py) \<Rightarrow> 'x list \<Rightarrow> ('s, 'e, 'a list) py" where
  "py_map f [] = py_return []"
| "py_map f (x # xs) = py_bind (f x) (\<lambda>y. py_bind (py_map f xs) (\<lambda>ys. py_return (y # ys)))"

lemma py_except_eq_Inr:
  "py_except m handler s = (Inr x, u) \<longleftrightarrow> m s = (Inr x, u) \<or>
     (\<exists>e t k. m s = (Inl e, t) \<and> handler e = Some k \<and> k t = (Inr x, u))"
  by (auto simp: py_except_def split: prod.splits sum.splits option.splits)

lemma py_except_eq_Inl:
  "py_except m handler s = (Inl e, u) \<longleftrightarrow>
     (\<exists>x t. m s = (Inl x, t) \<and> (case handler x of None \<Rightarrow> e = x \<and> u = t | Some k \<Rightarrow> k t = (Inl e, u)))"
  by (auto simp: py_except_def split: prod.splits sum.splits option.splits)

lemma py_map_length: "py_map f xs s = (Inr ys, t) \<Longrightarrow> length ys = length xs"
  by (induction xs arbitrary: s ys t) (auto simp: py_eqs)

lemma py_map_all:
  assumes "py_map f xs s = (Inr ys, t)" and "\<And>x s y t. x \<in> set xs \<Longrightarrow> f x s = (Inr y, t) \<Longrightarrow> P x y"
  shows "list_all2 P xs ys"
  using assms by (induction xs arbitrary: s ys t) (force simp: py_eqs)+

section \<open>The machine\<close>

text \<open>A part of an f-string.\<close>

datatype text_part = Txt string | Num int | Rat rat

datatype event =
    Ran "string list"
  | Printed "text_part list"
  | Warned "text_part list"
  | Wrote string string
  | MadeDir string
  | Started int "string list"
  | KilledGroup int
  | Reaped int int
  | Noted "text_part list"

text \<open>Text files by path, everything else, and the log.\<close>

record 'w machine =
  mc_files :: "string \<Rightarrow> string option"
  mc_rest :: 'w
  mc_log :: "event list"

type_synonym ('w, 'a) script = "('w machine, failure, 'a) py"

text \<open>
  What the operating system and the processes do. \<open>h_root\<close> is the repository, \<open>h_platform\<close> is
  \<^verbatim>\<open>sys.platform\<close>, \<open>h_python\<close> is \<^verbatim>\<open>sys.executable\<close>; \<open>h_run command timeout\<close> is \<^verbatim>\<open>subprocess.run\<close>, the
  exit status and the standard output or an exception; \<open>h_write_error\<close> and \<open>h_mkdir_error\<close> are the
  errors of writing a file and of creating a directory, if any.
\<close>

type_synonym 'w os_view = "(string \<Rightarrow> string option) \<times> 'w"

record 'w host =
  h_root :: string
  h_platform :: string
  h_python :: string
  h_run :: "string list \<Rightarrow> int option \<Rightarrow> 'w os_view \<Rightarrow> (failure + int \<times> string) \<times> 'w os_view"
  h_write_error :: "string \<Rightarrow> 'w os_view \<Rightarrow> failure option"
  h_mkdir_error :: "string \<Rightarrow> 'w os_view \<Rightarrow> failure option"

text \<open>\<open>ROOT / path\<close>\<close>

definition in_root :: "('w, 'z) host_scheme \<Rightarrow> string \<Rightarrow> string" where
  "in_root H path = h_root H @ ''/'' @ path"

definition log_event :: "event \<Rightarrow> ('w, unit) script" where
  "log_event x = py_modify (\<lambda>s. s\<lparr>mc_log := mc_log s @ [x]\<rparr>)"

text \<open>\<open>print(...)\<close> and \<open>print(..., file=sys.stderr)\<close>\<close>

definition print_out :: "text_part list \<Rightarrow> ('w, unit) script" where
  "print_out ps = log_event (Printed ps)"

definition print_err :: "text_part list \<Rightarrow> ('w, unit) script" where
  "print_err ps = log_event (Warned ps)"

abbreviation say :: "string \<Rightarrow> ('w, unit) script" where
  "say s \<equiv> print_out [Txt s]"

text \<open>\<open>subprocess.run(command, check=False, timeout=timeout)\<close>\<close>

definition run_output :: "('w, 'z) host_scheme \<Rightarrow> string list \<Rightarrow> int option \<Rightarrow> ('w, int \<times> string) script" where
  "run_output H command timeout s =
     (case h_run H command timeout (mc_files s, mc_rest s) of
        (r, files, rest) \<Rightarrow>
          (r, \<lparr>mc_files = files, mc_rest = rest, mc_log = mc_log s @ [Ran command]\<rparr>))"

definition run_status :: "('w, 'z) host_scheme \<Rightarrow> string list \<Rightarrow> int option \<Rightarrow> ('w, int) script" where
  "run_status H command timeout =
     py_bind (run_output H command timeout) (\<lambda>(status, _). py_return status)"

text \<open>\<open>subprocess.run(command, check=True)\<close> and its output.\<close>

definition run_checked :: "('w, 'z) host_scheme \<Rightarrow> string list \<Rightarrow> ('w, string) script" where
  "run_checked H command =
     py_bind (run_output H command None) (\<lambda>(status, out).
     py_then (py_raise_if (status \<noteq> 0) (CalledProcessError status)) (py_return out))"

definition is_file :: "string \<Rightarrow> ('w, bool) script" where
  "is_file path = py_gets (\<lambda>s. mc_files s path \<noteq> None)"

text \<open>\<open>path.read_text()\<close>, \<open>path.write_text(content)\<close> and \<open>path.mkdir(parents=True, exist_ok=True)\<close>\<close>

definition read_text :: "string \<Rightarrow> ('w, string) script" where
  "read_text path = py_bind (py_gets (\<lambda>s. mc_files s path)) (\<lambda>found. case found of
     None \<Rightarrow> py_raise (FileNotFound path)
   | Some content \<Rightarrow> py_return content)"

definition write_text :: "('w, 'z) host_scheme \<Rightarrow> string \<Rightarrow> string \<Rightarrow> ('w, unit) script" where
  "write_text H path content =
     py_bind (py_gets (\<lambda>s. h_write_error H path (mc_files s, mc_rest s))) (\<lambda>failed. case failed of
       Some e \<Rightarrow> py_raise e
     | None \<Rightarrow> py_modify (\<lambda>s. s\<lparr>mc_files := (mc_files s)(path \<mapsto> content),
         mc_log := mc_log s @ [Wrote path content]\<rparr>))"

definition make_dir :: "('w, 'z) host_scheme \<Rightarrow> string \<Rightarrow> ('w, unit) script" where
  "make_dir H path =
     py_bind (py_gets (\<lambda>s. h_mkdir_error H path (mc_files s, mc_rest s))) (\<lambda>failed. case failed of
       Some e \<Rightarrow> py_raise e
     | None \<Rightarrow> log_event (MadeDir path))"

lemmas shell_defs = log_event_def print_out_def print_err_def run_output_def run_status_def
  run_checked_def is_file_def read_text_def write_text_def make_dir_def

section \<open>Text\<close>

definition string_of_int :: "int \<Rightarrow> string" where
  "string_of_int n = (if n < 0 then ''-'' @ decimal (nat (- n)) else decimal (nat n))"

definition newline :: string where
  "newline = [CHR 0x0A]"

text \<open>\<open>path.parts\<close> of a relative path.\<close>

fun path_parts :: "string \<Rightarrow> string list" where
  "path_parts [] = [[]]"
| "path_parts (c # cs) =
     (if c = CHR ''/'' then [] # path_parts cs
      else (c # hd (path_parts cs)) # tl (path_parts cs))"

text \<open>\<open>separator.join(xs)\<close>\<close>

fun join_with :: "string \<Rightarrow> string list \<Rightarrow> string" where
  "join_with separator [] = []"
| "join_with separator [x] = x"
| "join_with separator (x # y # ys) = x @ separator @ join_with separator (y # ys)"

text \<open>\<open>text.splitlines()\<close> for ASCII text.\<close>

definition is_line_break :: "char \<Rightarrow> bool" where
  "is_line_break c \<longleftrightarrow> of_char c \<in> {10, 11, 12, 13, 28, 29, 30 :: nat}"

function splitlines_from :: "string \<Rightarrow> string \<Rightarrow> string list" where
  "splitlines_from line [] = (if line = [] then [] else [line])"
| "splitlines_from line (c # cs) =
     (if is_line_break c
      then line # splitlines_from []
             (case cs of [] \<Rightarrow> [] | d # ds \<Rightarrow> if of_char c = (13 :: nat) \<and> of_char d = (10 :: nat) then ds else cs)
      else splitlines_from (line @ [c]) cs)"
  by pat_completeness auto

termination
  by (relation "measure (\<lambda>(_, s). length s)") (auto split: list.splits)

definition splitlines :: "string \<Rightarrow> string list" where
  "splitlines s = splitlines_from [] s"

text \<open>\<open>int(text)\<close>: surrounding blanks, a sign, digits with single underscores between them.\<close>

definition is_blank :: "char \<Rightarrow> bool" where
  "is_blank c \<longleftrightarrow> of_char c \<in> {9, 10, 11, 12, 13, 28, 29, 30, 31, 32 :: nat}"

definition strip :: "string \<Rightarrow> string" where
  "strip s = rev (dropWhile is_blank (rev (dropWhile is_blank s)))"

fun digits_value :: "string \<Rightarrow> nat \<Rightarrow> nat option" where
  "digits_value [] n = Some n"
| "digits_value (c # cs) n =
     (if is_digit c then digits_value cs (10 * n + digit_value c)
      else if c = CHR ''_'' then
        (case cs of [] \<Rightarrow> None
         | d # ds \<Rightarrow> if is_digit d then digits_value ds (10 * n + digit_value d) else None)
      else None)"

definition parse_nat :: "string \<Rightarrow> nat option" where
  "parse_nat s = (case s of [] \<Rightarrow> None | c # _ \<Rightarrow> if is_digit c then digits_value s 0 else None)"

definition parse_int :: "string \<Rightarrow> int option" where
  "parse_int text =
     (case strip text of
        [] \<Rightarrow> None
      | c # cs \<Rightarrow>
          if c = CHR ''-'' then map_option (\<lambda>n. - int n) (parse_nat cs)
          else if c = CHR ''+'' then map_option int (parse_nat cs)
          else map_option int (parse_nat (c # cs)))"

section \<open>The log only grows\<close>

text \<open>A script that appends to the log, and only events that satisfy \<open>P\<close>.\<close>

definition logs :: "(event \<Rightarrow> bool) \<Rightarrow> ('w, 'a) script \<Rightarrow> bool" where
  "logs P m \<longleftrightarrow> (\<forall>s r t. m s = (r, t) \<longrightarrow> (\<exists>new. mc_log t = mc_log s @ new \<and> list_all P new))"

named_theorems logs_rules "what scripts log"

lemma logsI: "(\<And>s r t. m s = (r, t) \<Longrightarrow> \<exists>new. mc_log t = mc_log s @ new \<and> list_all P new) \<Longrightarrow> logs P m"
  by (simp add: logs_def)

lemma logsD: "logs P m \<Longrightarrow> m s = (r, t) \<Longrightarrow> \<exists>new. mc_log t = mc_log s @ new \<and> list_all P new"
  by (simp add: logs_def)

lemma logs_simple [logs_rules]:
  "logs P (py_return x)" "logs P (py_raise e)" "logs P (py_gets f)" "logs P (py_raise_if b e)"
  by (auto simp: logs_def py_defs)

lemma logs_event [logs_rules]:
  "P x \<Longrightarrow> logs P (log_event x)" "P (Printed ps) \<Longrightarrow> logs P (print_out ps)"
  "P (Warned ps) \<Longrightarrow> logs P (print_err ps)"
  by (auto simp: logs_def shell_defs)

lemma logs_bind [logs_rules]:
  assumes "logs P m" and "\<And>x. logs P (f x)"
  shows "logs P (py_bind m f)"
proof (rule logsI)
  fix s r u
  assume run: "py_bind m f s = (r, u)"
  obtain x t where first: "m s = (x, t)" by fastforce
  from logsD [OF assms(1) first] obtain new where new: "mc_log t = mc_log s @ new" "list_all P new" by blast
  show "\<exists>new. mc_log u = mc_log s @ new \<and> list_all P new"
  proof (cases x)
    case (Inl e)
    with run first new show ?thesis by (auto simp: py_bind_def)
  next
    case (Inr y)
    with run first have "f y t = (r, u)" by (simp add: py_bind_def)
    from logsD [OF assms(2) this] new show ?thesis by auto
  qed
qed

lemma logs_then [logs_rules]: "logs P m \<Longrightarrow> logs P k \<Longrightarrow> logs P (py_then m k)"
  unfolding py_then_def by (rule logs_bind)

lemma logs_each [logs_rules]: "(\<And>x. logs P (f x)) \<Longrightarrow> logs P (py_each f xs)"
  by (induction xs) (auto intro: logs_rules)

lemma logs_map [logs_rules]: "(\<And>x. logs P (f x)) \<Longrightarrow> logs P (py_map f xs)"
  by (induction xs) (auto intro!: logs_rules)

lemma logs_if [logs_rules]: "logs P m \<Longrightarrow> logs P k \<Longrightarrow> logs P (if b then m else k)"
  by simp

lemma logs_except [logs_rules]:
  assumes "logs P m" and "\<And>e k. handler e = Some k \<Longrightarrow> logs P k"
  shows "logs P (py_except m handler)"
proof (rule logsI)
  fix s r u
  assume run: "py_except m handler s = (r, u)"
  obtain x t where first: "m s = (x, t)" by fastforce
  from logsD [OF assms(1) first] obtain new where new: "mc_log t = mc_log s @ new" "list_all P new" by blast
  show "\<exists>new. mc_log u = mc_log s @ new \<and> list_all P new"
  proof (cases "t = u")
    case True
    with new show ?thesis by blast
  next
    case False
    with run first obtain e k where "handler e = Some k" "k t = (r, u)"
      by (auto simp: py_except_def split: sum.splits option.splits)
    from logsD [OF assms(2) [OF this(1)] this(2)] new show ?thesis by auto
  qed
qed

lemma logs_finally [logs_rules]:
  assumes "logs P m" and "logs P cleanup"
  shows "logs P (py_finally m cleanup)"
proof (rule logsI)
  fix s r u
  assume run: "py_finally m cleanup s = (r, u)"
  obtain x t where first: "m s = (x, t)" by fastforce
  obtain y v where second: "cleanup t = (y, v)" by fastforce
  from run first second have "v = u" by (auto simp: py_finally_def split: sum.splits)
  with logsD [OF assms(1) first] logsD [OF assms(2) second]
  show "\<exists>new. mc_log u = mc_log s @ new \<and> list_all P new" by auto
qed

lemma logs_lift [logs_rules]: "logs P (py_lift x)"
  by (simp add: logs_def)

lemma logs_modify [logs_rules]: "(\<And>s. mc_log (f s) = mc_log s) \<Longrightarrow> logs P (py_modify f)"
  by (auto simp: logs_def)

lemma logs_run [logs_rules]:
  "P (Ran command) \<Longrightarrow> logs P (run_output H command timeout)"
  "P (Ran command) \<Longrightarrow> logs P (run_status H command timeout)"
  "P (Ran command) \<Longrightarrow> logs P (run_checked H command)"
proof -
  assume P: "P (Ran command)"
  show out: "logs P (run_output H command t)" for t
    using P by (auto simp: logs_def run_output_def split: prod.splits)
  show "logs P (run_status H command timeout)" "logs P (run_checked H command)"
    unfolding run_status_def run_checked_def
    by (rule logs_bind [OF out], simp add: logs_rules split_def)+
qed

lemma logs_files [logs_rules]:
  "logs P (is_file path)" "logs P (read_text path)"
  "P (Wrote path content) \<Longrightarrow> logs P (write_text H path content)"
  "P (MadeDir path) \<Longrightarrow> logs P (make_dir H path)"
  by (auto simp: logs_def shell_defs py_defs split: option.splits)

end
