(* ===== verification/Build.thy ===== *)
theory Build
  imports Shell
begin

text \<open>
  \<^verbatim>\<open>scripts/build.py\<close>, \<^verbatim>\<open>scripts/test.py\<close> and \<^verbatim>\<open>scripts/format.py\<close>. The arguments are those
  \<^verbatim>\<open>argparse\<close> hands over; an error it reports is \<open>SystemExit 2\<close>.
\<close>

section \<open>build.py\<close>

definition LIBRARIES :: "(string \<times> string) list" where
  "LIBRARIES = [(''c'', ''build/c/librdma101_c.so''), (''cpp'', ''build/cpp/librdma101_cpp.so''),
     (''rust'', ''build/rust/debug/librdma101_rust.so'')]"

definition build_commands :: "string \<Rightarrow> int \<Rightarrow> string list list" where
  "build_commands language jobs =
     (if language = ''c'' \<or> language = ''cpp''
      then [[''cmake'', ''-S'', ''transfer-engine/'' @ language, ''-B'', ''build/'' @ language],
            [''cmake'', ''--build'', ''build/'' @ language, ''--parallel'', string_of_int jobs]]
      else [[''cargo'', ''build'', ''--manifest-path'', ''transfer-engine/rust/Cargo.toml'',
             ''--target-dir'', ''build/rust'', ''--locked'', ''--jobs'', string_of_int jobs]])"

definition build :: "('w, 'z) host_scheme \<Rightarrow> string \<Rightarrow> int \<Rightarrow> ('w, string) script" where
  "build H language jobs =
     py_then (py_raise_if (h_platform H \<noteq> ''linux'')
                (ValueFailure ''build the Engine inside Linux; see docs/00-environment.md for a Linux VM and RXE setup''))
    (case map_of LIBRARIES language of
       None \<Rightarrow> py_raise (ValueFailure ''choose c, cpp or rust, with a positive job count'')
     | Some library \<Rightarrow>
         py_then (py_raise_if (jobs < 1) (ValueFailure ''choose c, cpp or rust, with a positive job count''))
        (py_then (py_each (run_checked H) (build_commands language jobs))
        (py_bind (is_file (in_root H library)) (\<lambda>there.
         py_then (py_raise_if (\<not> there)
                    (FileNotFound (''build succeeded but did not produce '' @ in_root H library)))
           (py_return (in_root H library))))))"

text \<open>The clauses that \<open>main\<close> of \<^verbatim>\<open>build.py\<close> and \<^verbatim>\<open>test.py\<close> share.\<close>

definition report_failure :: "(int \<Rightarrow> 'a) \<Rightarrow> failure \<Rightarrow> ('w, 'a) script option" where
  "report_failure status e =
     (case e of
        CalledProcessError code \<Rightarrow> Some (py_return (status code))
      | ValueFailure msg \<Rightarrow> Some (py_then (print_err [Txt ''error: '', Txt msg]) (py_raise (SystemExit 2)))
      | OSFailure msg \<Rightarrow> Some (py_then (print_err [Txt ''error: '', Txt msg]) (py_raise (SystemExit 2)))
      | FileNotFound msg \<Rightarrow> Some (py_then (print_err [Txt ''error: '', Txt msg]) (py_raise (SystemExit 2)))
      | ProcessLookupError \<Rightarrow> Some (py_then (print_err [Txt ''error: '']) (py_raise (SystemExit 2)))
      | _ \<Rightarrow> None)"

definition build_main :: "('w, 'z) host_scheme \<Rightarrow> string \<Rightarrow> int \<Rightarrow> ('w, int) script" where
  "build_main H language jobs =
     py_except
       (py_then (py_each (\<lambda>l. py_then (build H l jobs) (py_return ()))
                  (if language = ''all'' then map fst LIBRARIES else [language]))
          (py_return 0))
       (report_failure id)"

section \<open>test.py\<close>

text \<open>\<open>os.execv\<close> replaces the process: the script ends with the new program or with a status.\<close>

datatype ending = Exec "string list" | Exit int

definition forwarded_args :: "string list \<Rightarrow> string list" where
  "forwarded_args args = (if take 1 args = [''--''] then drop 1 args else args)"

definition names_library :: "string \<Rightarrow> bool" where
  "names_library arg \<longleftrightarrow> arg = ''--library'' \<or> take 10 arg = ''--library=''"

definition test_main ::
  "('w, 'z) host_scheme \<Rightarrow> (string list \<Rightarrow> failure option) \<Rightarrow> string \<Rightarrow> string list \<Rightarrow> ('w, ending) script" where
  "test_main H execv_error language pytest_args =
     (let forwarded = forwarded_args pytest_args in
      if list_ex names_library forwarded
      then py_then (print_err [Txt ''the language selects the library; use pytest directly for custom libraries''])
             (py_raise (SystemExit 2))
      else py_except
        (py_bind (build H language 4) (\<lambda>library.
           let argv = [h_python H, ''-m'', ''pytest'', ''--rdma'', ''--library'', library] @ forwarded
           in (case execv_error argv of None \<Rightarrow> py_return (Exec argv) | Some e \<Rightarrow> py_raise e)))
        (report_failure Exit))"

section \<open>format.py\<close>

text \<open>\<open>path.suffix\<close>\<close>

definition path_suffix :: "string \<Rightarrow> string" where
  "path_suffix path =
     (let name = last (path_parts path); tail = takeWhile (\<lambda>c. c \<noteq> CHR ''.'') (rev name)
      in if CHR ''.'' \<in> set name \<and> tail \<noteq> [] \<and> length tail + 1 < length name
         then ''.'' @ rev tail else [])"

definition C_SUFFIXES :: "string list" where
  "C_SUFFIXES = [''.c'', ''.h'']"

definition CPP_SUFFIXES :: "string list" where
  "CPP_SUFFIXES = [''.cc'', ''.cpp'', ''.cxx'', ''.h'', ''.hh'', ''.hpp'', ''.hxx'']"

text \<open>
  \<open>rglob directory\<close> lists the regular files below a directory, relative to the repository. \<open>sorted\<close>
  compares paths part by part.
\<close>

definition format_sources :: "(string \<Rightarrow> string list) \<Rightarrow> string \<Rightarrow> string list" where
  "format_sources rglob language =
     (let suffixes = (if language = ''c'' then C_SUFFIXES else if language = ''cpp'' then CPP_SUFFIXES
                      else C_SUFFIXES @ CPP_SUFFIXES);
          directories = [''tests'', ''scripts''] @
            map (\<lambda>l. ''transfer-engine/'' @ l) (filter (\<lambda>l. language = l \<or> language = ''all'') [''c'', ''cpp''])
      in sort_key path_parts (''transfer-engine/transfer_engine.h'' #
           concat (map (\<lambda>d. filter (\<lambda>p. path_suffix p \<in> set suffixes \<and>
             ''build'' \<notin> set (path_parts p) \<and> ''target'' \<notin> set (path_parts p)) (rglob d)) directories)))"

definition format_commands :: "(string \<Rightarrow> string list) \<Rightarrow> string \<Rightarrow> bool \<Rightarrow> string list list" where
  "format_commands rglob language check =
     (if language \<in> {''c'', ''cpp'', ''all''}
      then [[''clang-format'', ''--style=file''] @ (if check then [''--dry-run'', ''--Werror''] else [''-i'']) @
            format_sources rglob language] else []) @
     (if language \<in> {''rust'', ''all''}
      then [[''cargo'', ''fmt'', ''--manifest-path'', ''transfer-engine/rust/Cargo.toml''] @
            (if check then [''--'', ''--check''] else [])] else []) @
     (if language \<in> {''python'', ''all''}
      then [[''ruff'', ''format''] @ (if check then [''--check''] else []) @ [''.'']] else []) @
     (if language \<in> {''markdown'', ''all''}
      then [[''mdformat''] @ (if check then [''--check''] else []) @ [''README.md'', ''docs'']] else [])"

text \<open>Every command runs, whatever the ones before it answered, unless its program is missing.\<close>

fun run_commands :: "('w, 'z) host_scheme \<Rightarrow> bool \<Rightarrow> string list list \<Rightarrow> ('w, bool) script" where
  "run_commands H failed [] = py_return failed"
| "run_commands H failed (command # commands) =
     py_bind (py_except (run_status H command None) (\<lambda>e. case e of
         FileNotFound _ \<Rightarrow> Some (py_then
           (print_err [Txt ''error: '', Txt (hd command), Txt '' not found; run uv sync --locked and invoke this script with uv run''])
           (py_raise (SystemExit 1)))
       | _ \<Rightarrow> None))
     (\<lambda>status. run_commands H (status \<noteq> 0 \<or> failed) commands)"

definition format_main ::
  "('w, 'z) host_scheme \<Rightarrow> (string \<Rightarrow> string list) \<Rightarrow> string \<Rightarrow> bool \<Rightarrow> ('w, int) script" where
  "format_main H rglob language check =
     py_bind (run_commands H False (format_commands rglob language check)) (\<lambda>failed.
       py_return (of_bool failed))"

section \<open>What a build and a format run do\<close>

lemma run_checked_Inr:
  "run_checked H c s = (Inr out, t) \<Longrightarrow> mc_log t = mc_log s @ [Ran c]"
  by (auto simp: run_checked_def run_output_def py_eqs split: prod.splits sum.splits)

lemma each_checked_Inr:
  "py_each (run_checked H) cs s = (Inr u, t) \<Longrightarrow> mc_log t = mc_log s @ map Ran cs"
  by (induction cs arbitrary: s) (auto simp: py_eqs dest!: run_checked_Inr)

text \<open>A library is returned only when every command of its build succeeded and the file is there.\<close>

lemma build_Inr:
  assumes "build H language jobs s = (Inr path, t)"
  shows "h_platform H = ''linux''" "1 \<le> jobs" "mc_files t path \<noteq> None"
    "\<exists>library. map_of LIBRARIES language = Some library \<and> path = in_root H library"
    "mc_log t = mc_log s @ map Ran (build_commands language jobs)"
  using assms each_checked_Inr
  by (auto simp: build_def py_eqs is_file_def split: option.splits)

text \<open>The reference: the results of running commands one after the other, up to the first exception.\<close>

fun run_all :: "('w, 'z) host_scheme \<Rightarrow> string list list \<Rightarrow> 'w os_view \<Rightarrow> (failure + int) list \<times> 'w os_view" where
  "run_all H [] v = ([], v)"
| "run_all H (c # cs) v =
     (case h_run H c None v of
        (Inl e, v') \<Rightarrow> ([Inl e], v')
      | (Inr (status, _), v') \<Rightarrow> (case run_all H cs v' of (rs, v'') \<Rightarrow> (Inr status # rs, v'')))"

definition exit_status :: "(failure + int) list \<Rightarrow> failure + int" where
  "exit_status results =
     (case find isl results of
        None \<Rightarrow> Inr (if list_all (\<lambda>r. r = Inr 0) results then 0 else 1)
      | Some r \<Rightarrow> Inl (case projl r of FileNotFound _ \<Rightarrow> SystemExit 1 | e \<Rightarrow> e))"

lemma run_commands_all:
  "case run_all H cs (mc_files s, mc_rest s) of (results, files, rest) \<Rightarrow>
     (case run_commands H failed cs s of (r, t) \<Rightarrow>
        mc_files t = files \<and> mc_rest t = rest \<and>
        r = (case exit_status results of Inl e \<Rightarrow> Inl e | Inr n \<Rightarrow> Inr (failed \<or> n \<noteq> 0)))"
proof (induction cs arbitrary: failed s)
  case Nil
  then show ?case by (simp add: exit_status_def py_defs)
next
  case (Cons c cs)
  obtain r files rest where run: "h_run H c None (mc_files s, mc_rest s) = (r, files, rest)"
    by (cases "h_run H c None (mc_files s, mc_rest s)") auto
  show ?case
  proof (cases r)
    case (Inl e)
    with run show ?thesis
      by (cases e) (auto simp: exit_status_def run_status_def run_output_def py_except_def py_defs
          print_err_def log_event_def)
  next
    case (Inr x)
    obtain status out where x: "x = (status, out)" by fastforce
    let ?t = "\<lparr>mc_files = files, mc_rest = rest, mc_log = mc_log s @ [Ran c]\<rparr>"
    from run Inr x have "run_commands H failed (c # cs) s = run_commands H (status \<noteq> 0 \<or> failed) cs ?t"
      by (simp add: run_status_def run_output_def py_except_def py_defs)
    moreover from run Inr x have "run_all H (c # cs) (mc_files s, mc_rest s) =
        (case run_all H cs (files, rest) of (rs, v) \<Rightarrow> (Inr status # rs, v))" by simp
    ultimately show ?thesis
      using Cons.IH [where failed = "status \<noteq> 0 \<or> failed" and s = ?t]
      by (auto simp: exit_status_def split: prod.splits option.splits)
  qed
qed

text \<open>
  \<^verbatim>\<open>format.py\<close> is equivalent to running every formatter of the chosen languages one after the
  other: a failing formatter does not keep the later ones from running, the exit status is 0 just when
  each of them exits with 0 and 1 otherwise, a missing formatter ends the run with exit status 1, and
  any other exception is passed on; the files are left as the formatters leave them.
\<close>

lemma format_runs_every_formatter:
  "case run_all H (format_commands rglob language check) (mc_files s, mc_rest s) of (results, files, rest) \<Rightarrow>
     (case format_main H rglob language check s of (r, t) \<Rightarrow>
        r = exit_status results \<and> mc_files t = files \<and> mc_rest t = rest)"
proof -
  have status: "n = 0 \<or> n = 1" if "exit_status results = Inr n" for results n
    using that by (auto simp: exit_status_def split: option.splits if_splits)
  show ?thesis
    using run_commands_all [where H = H and cs = "format_commands rglob language check" and s = s and failed = False]
    by (auto simp: format_main_def py_bind_def py_return_def split: prod.splits sum.splits dest: status)
qed

end
