(* ===== verification/Grader.thy ===== *)
theory Grader
  imports Build
begin

text \<open>
  \<^verbatim>\<open>scripts/grader.py\<close>: runs every lab against every implementation that was changed and records
  the best score. Scores are exact rationals where the code adds floats.
\<close>

section \<open>Reading reports\<close>

text \<open>An element of a JUnit report: its tag, its attributes and its children.\<close>

datatype xml = Xml (xml_tag: string) (xml_attrib: "(string \<times> string) list") (xml_children: "xml list")

text \<open>\<open>int(suite.attrib.get(name, 0))\<close>\<close>

definition count_of :: "xml \<Rightarrow> string \<Rightarrow> int option" where
  "count_of suite name =
     (case map_of (xml_attrib suite) name of None \<Rightarrow> Some 0 | Some text \<Rightarrow> parse_int text)"

definition find_suite :: "xml \<Rightarrow> xml option" where
  "find_suite report_root =
     (if xml_tag report_root = ''testsuite'' then Some report_root
      else find (\<lambda>x. xml_tag x = ''testsuite'') (xml_children report_root))"

text \<open>The passed and the total number of tests, or the error of a count that is no integer.\<close>

definition suite_result :: "xml \<Rightarrow> failure + int \<times> int" where
  "suite_result suite =
     (case (count_of suite ''tests'', count_of suite ''failures'', count_of suite ''errors'',
            count_of suite ''skipped'') of
        (Some tests, Some failures, Some errors, Some skipped) \<Rightarrow>
          Inr (max 0 (tests - (failures + errors) - skipped), tests)
      | _ \<Rightarrow> Inl (ValueFailure ''invalid literal for int()''))"

section \<open>Running the labs\<close>

record 'w grader_host = "'w host" +
  g_parse_report :: "string \<Rightarrow> 'w os_view \<Rightarrow> failure + xml"
  g_timestamp :: string

definition languages :: "string list" where
  "languages = [''c'', ''cpp'', ''rust'']"

text \<open>The loop of \<open>changed_languages\<close>.\<close>

fun diff_languages :: "('w, 'z) host_scheme \<Rightarrow> string \<Rightarrow> string list \<Rightarrow> string list \<Rightarrow> ('w, string list) script" where
  "diff_languages H root_commit changed [] = py_return changed"
| "diff_languages H root_commit changed (language # rest) =
     py_bind (run_status H [''git'', ''diff'', ''--quiet'', root_commit, ''HEAD'', ''--'',
                ''transfer-engine/'' @ language] None) (\<lambda>status.
       if status = 1 then diff_languages H root_commit (changed @ [language]) rest
       else if status \<noteq> 0 then
         py_raise (RuntimeFailure (''failed to inspect the '' @ language @ '' implementation''))
       else diff_languages H root_commit changed rest)"

definition changed_languages :: "('w, 'z) host_scheme \<Rightarrow> ('w, string list) script" where
  "changed_languages H =
     py_bind (run_checked H [''git'', ''rev-list'', ''--max-parents=0'', ''HEAD'']) (\<lambda>out.
       case splitlines out of
         [root_commit] \<Rightarrow>
           py_bind (diff_languages H root_commit [] languages) (\<lambda>changed.
           py_then (py_raise_if (changed = [])
                      (ValueFailure ''change at least one implementation directory before scoring''))
             (py_return changed))
       | _ \<Rightarrow> py_raise (ValueFailure ''cannot identify the repository's initial template commit''))"

definition lab_command :: "('w, 'z) host_scheme \<Rightarrow> string \<Rightarrow> nat \<Rightarrow> string \<Rightarrow> string list" where
  "lab_command H library lab report =
     [h_python H, ''-m'', ''pytest'', ''tests/engine'', ''--rdma'', ''--library'', library, ''-m'',
      ''lab'' @ decimal lab, ''-q'', ''--junitxml='' @ report]"

text \<open>\<open>ElementTree.parse(report).getroot()\<close>\<close>

definition parse_report :: "('w, 'z) grader_host_scheme \<Rightarrow> string \<Rightarrow> ('w, xml) script" where
  "parse_report H path s = (g_parse_report H path (mc_files s, mc_rest s), s)"

definition run_lab ::
  "('w, 'z) grader_host_scheme \<Rightarrow> string \<Rightarrow> nat \<Rightarrow> string \<Rightarrow> ('w, int \<times> int) script" where
  "run_lab H library lab reports =
     (let report = reports @ ''/lab'' @ decimal lab @ ''.xml'' in
      py_bind (run_status H (lab_command H library lab report) None) (\<lambda>status.
      py_bind (is_file report) (\<lambda>there.
      py_then (py_raise_if (\<not> there) (RuntimeFailure (''lab'' @ decimal lab @
                 '' did not produce a test report (exit '' @ string_of_int status @ '')'')))
     (py_bind (parse_report H report) (\<lambda>report_root.
        case find_suite report_root of
          None \<Rightarrow> py_raise (RuntimeFailure (''lab'' @ decimal lab @ '' produced an invalid test report''))
        | Some suite \<Rightarrow> py_lift (suite_result suite))))))"

text \<open>\<open>sum(100 * passed / total for passed, total in results[1:] if total)\<close>\<close>

definition earned :: "(int \<times> int) list \<Rightarrow> rat" where
  "earned results =
     sum_list (map (\<lambda>(passed, tests). 100 * of_int passed / of_int tests)
       (filter (\<lambda>(_, tests). tests \<noteq> 0) (drop 1 results)))"

definition assessment_failed :: "failure \<Rightarrow> bool" where
  "assessment_failed e \<longleftrightarrow> is_OSError e \<or>
     (case e of RuntimeFailure _ \<Rightarrow> True | ValueFailure _ \<Rightarrow> True | CalledProcessError _ \<Rightarrow> True | _ \<Rightarrow> False)"

definition score_language ::
  "('w, 'z) grader_host_scheme \<Rightarrow> string \<Rightarrow> string \<Rightarrow> ('w, rat \<times> (int \<times> int) list) script" where
  "score_language H language output =
     (let reports = output @ ''/reports/'' @ language in
      py_then (make_dir H reports)
     (py_bind (py_except
        (py_bind (build H language 4) (\<lambda>library.
           py_map (\<lambda>lab. run_lab H library lab reports) [0..<9]))
        (\<lambda>e. if assessment_failed e
             then Some (py_then (print_err [Txt language, Txt '': unable to complete assessment''])
                          (py_return (replicate 9 (0, 1))))
             else None))
      (\<lambda>results.
        py_then (print_out [Txt language, Txt '': '', Rat (earned results), Txt ''/800''])
          (py_return (earned results, results)))))"

section \<open>The grade record\<close>

type_synonym assessment = "string \<times> rat \<times> (int \<times> int) list"

text \<open>\<open>max(assessments, key=lambda assessment: assessment[1])\<close>: the first of the best.\<close>

fun best :: "assessment \<Rightarrow> assessment list \<Rightarrow> assessment" where
  "best a [] = a"
| "best a (b # bs) = (if fst (snd a) < fst (snd b) then best b bs else best a bs)"

definition lab_line :: "nat \<Rightarrow> int \<times> int \<Rightarrow> string" where
  "lab_line lab = (\<lambda>(passed, tests).
     ''Lab'' @ decimal lab @ '': '' @ string_of_int passed @ ''/'' @ string_of_int tests)"

definition join_lines :: "string list \<Rightarrow> string" where
  "join_lines lines = concat (map (\<lambda>l. l @ newline) lines)"

definition grade_text :: "string \<Rightarrow> (int \<times> int) list \<Rightarrow> string" where
  "grade_text language results =
     join_lines ((''Language: '' @ language) # map2 lab_line [0..<length results] results)"

definition latest_text :: "string \<Rightarrow> string" where
  "latest_text score_file = [CHR ''{''] @ [CHR 0x22] @ ''rdma'' @ [CHR 0x22] @ '':'' @ [CHR 0x22] @ score_file @
     [CHR 0x22] @ [CHR ''}''] @ newline"

text \<open>\<open>[(language, *score_language(language, args.output)) for language in changed_languages()]\<close>\<close>

definition assess :: "('w, 'z) grader_host_scheme \<Rightarrow> string \<Rightarrow> string list \<Rightarrow> ('w, assessment list) script" where
  "assess H output changed = py_map (\<lambda>language. py_bind (score_language H language output) (\<lambda>(e, results).
     py_return (language, e, results))) changed"

definition grader_main :: "('w, 'z) grader_host_scheme \<Rightarrow> string \<Rightarrow> ('w, int) script" where
  "grader_main H output =
     py_bind (changed_languages H) (\<lambda>changed.
     py_bind (assess H output changed) (\<lambda>assessments.
     case best (hd assessments) (tl assessments) of (language, e, results) \<Rightarrow>
       let score_file = g_timestamp H @ ''.txt'' in
       py_then (write_text H (output @ ''/'' @ score_file) (grade_text language results))
      (py_then (write_text H (output @ ''/latest.json'') (latest_text score_file))
      (py_then (print_out [Txt ''RDMA score: '', Rat e, Txt ''/800 using '', Txt language, Txt '' (Lab 0 is not scored)''])
         (py_return 0)))))"

section \<open>Scores\<close>

text \<open>A report whose counts are what pytest counts: natural numbers.\<close>

definition counts_ok :: "xml \<Rightarrow> bool" where
  "counts_ok report_root \<longleftrightarrow>
     (case find_suite report_root of None \<Rightarrow> True
      | Some suite \<Rightarrow> list_all (\<lambda>name. case count_of suite name of None \<Rightarrow> True | Some n \<Rightarrow> 0 \<le> n)
          [''tests'', ''failures'', ''errors'', ''skipped''])"

definition result_ok :: "int \<times> int \<Rightarrow> bool" where
  "result_ok = (\<lambda>(passed, tests). 0 \<le> passed \<and> passed \<le> tests)"

lemma run_lab_result:
  assumes "run_lab H library lab reports s = (Inr result, t)"
    and "\<And>path v x. g_parse_report H path v = Inr x \<Longrightarrow> counts_ok x"
  shows "result_ok result"
proof -
  from assms(1) obtain v report x suite where
    x: "g_parse_report H report v = Inr x" "find_suite x = Some suite" "suite_result suite = Inr result"
    by (auto simp: run_lab_def Let_def py_eqs parse_report_def split: option.splits)
  with assms(2) [OF x(1)] show ?thesis
    by (auto simp: counts_ok_def suite_result_def result_ok_def split: option.splits)
qed

lemma score_of_result:
  assumes "result_ok (passed, tests)" and "tests \<noteq> 0"
  shows "0 \<le> (100 * of_int passed / of_int tests :: rat)" "100 * of_int passed / of_int tests \<le> (100 :: rat)"
  using assms by (auto simp: result_ok_def field_simps)

lemma sum_list_bounds:
  fixes xs :: "rat list"
  assumes "\<And>x. x \<in> set xs \<Longrightarrow> 0 \<le> x \<and> x \<le> b"
  shows "0 \<le> sum_list xs \<and> sum_list xs \<le> of_nat (length xs) * b"
  using assms by (induction xs) (fastforce simp: algebra_simps)+

lemma earned_bounds:
  assumes "list_all result_ok results" and "length results = 9"
  shows "0 \<le> earned results" "earned results \<le> 800"
proof -
  let ?rs = "filter (\<lambda>(_, tests). tests \<noteq> 0) (drop 1 results)"
  let ?score = "\<lambda>(passed, tests). 100 * of_int passed / of_int tests :: rat"
  have "0 \<le> x \<and> x \<le> 100" if "x \<in> set (map ?score ?rs)" for x
    using that assms(1) score_of_result by (fastforce simp: list_all_iff dest: in_set_dropD)
  then have "0 \<le> sum_list (map ?score ?rs) \<and>
      sum_list (map ?score ?rs) \<le> of_nat (length (map ?score ?rs)) * 100"
    by (rule sum_list_bounds)
  then have sum: "0 \<le> earned results" "earned results \<le> of_nat (length ?rs) * 100"
    by (simp_all add: earned_def)
  show "0 \<le> earned results" by (rule sum)
  have "length ?rs \<le> 8" using length_filter_le [of _ "drop 1 results"] assms(2) by fastforce
  then have "of_nat (length ?rs) * 100 \<le> (800 :: rat)"
    using of_nat_mono [of "length ?rs" 8, where 'a = rat] by simp
  with sum(2) show "earned results \<le> 800" by simp
qed

lemma score_language_Inr:
  assumes "score_language H language output s = (Inr (e, results), t)"
    and "\<And>path v x. g_parse_report H path v = Inr x \<Longrightarrow> counts_ok x"
  shows "e = earned results" "length results = 9" "list_all result_ok results"
proof -
  have zeros: "list_all result_ok (replicate 9 (0, 1))" by (simp add: list_all_iff result_ok_def)
  have labs: "length rs = 9 \<and> list_all result_ok rs"
    if "py_map (\<lambda>lab. run_lab H library lab reports) [0..<9] u = (Inr rs, v)" for library reports u rs v
  proof -
    have "list_all2 (\<lambda>_. result_ok) [0..<9] rs"
      using py_map_all [OF that, where P = "\<lambda>_. result_ok"] run_lab_result assms(2) by blast
    then show ?thesis using py_map_length [OF that] by (auto simp: list_all2_conv_all_nth list_all_length)
  qed
  from assms(1) have "e = earned results" "results = replicate 9 (0, 1) \<or>
      (\<exists>library reports u v. py_map (\<lambda>lab. run_lab H library lab reports) [0..<9] u = (Inr results, v))"
    by (auto simp: score_language_def Let_def py_eqs py_except_eq_Inr split: if_splits)
  with zeros labs show "e = earned results" "length results = 9" "list_all result_ok results" by auto
qed

text \<open>
  C27: a language's score lies between 0 and 800, whatever fails on the way: with reports that count
  natural numbers of tests, a score that is returned is the sum over the labs 1 to 8 of 100 times the
  share of passed tests, one result per lab, and no result has more passed tests than tests.
\<close>

theorem score_in_range:
  assumes "score_language H language output s = (Inr (e, results), t)"
    and "\<And>path v x. g_parse_report H path v = Inr x \<Longrightarrow> counts_ok x"
  shows "0 \<le> e \<and> e \<le> 800 \<and> e = earned results \<and> length results = 9 \<and> list_all result_ok results"
  using score_language_Inr [OF assms] earned_bounds by simp

text \<open>
  A malformed report is not among the failures that count as 0: it ends the whole run, and no language
  gets a record.
\<close>

lemma malformed_report_aborts:
  assumes "make_dir H (output @ ''/reports/'' @ language) s = (Inr (), t)"
    and "build H language 4 t = (Inr library, u)"
    and "run_lab H library 0 (output @ ''/reports/'' @ language) u = (Inl ParseError, v)"
  shows "score_language H language output s = (Inl ParseError, v)"
  using assms by (simp add: score_language_def Let_def py_bind_def py_then_def py_except_def
      assessment_failed_def is_OSError_def upt_conv_Cons)

text \<open>
  A run that dies before it writes its report is graded by the report an earlier run left in the
  output directory, whatever its exit status.
\<close>

lemma stale_report_counts:
  assumes "h_run H (lab_command H library lab (reports @ ''/lab'' @ decimal lab @ ''.xml'')) None
      (mc_files s, mc_rest s) = (Inr (status, out), mc_files s, rest)"
    and "mc_files s (reports @ ''/lab'' @ decimal lab @ ''.xml'') = Some old"
    and "g_parse_report H (reports @ ''/lab'' @ decimal lab @ ''.xml'') (mc_files s, rest) = Inr report_root"
    and "find_suite report_root = Some suite"
  shows "fst (run_lab H library lab reports s) = suite_result suite"
  using assms by (simp add: run_lab_def Let_def shell_defs py_defs parse_report_def)

section \<open>The record\<close>

lemma best_max:
  "best a bs \<in> set (a # bs) \<and> (\<forall>x \<in> set (a # bs). fst (snd x) \<le> fst (snd (best a bs)))"
proof (induction bs arbitrary: a)
  case (Cons b bs)
  show ?case
  proof (cases "fst (snd a) < fst (snd b)")
    case True
    with Cons.IH [of b] show ?thesis by fastforce
  next
    case False
    with Cons.IH [of a] show ?thesis by fastforce
  qed
qed simp

lemma diff_languages_subset:
  "diff_languages H c changed ls s = (Inr result, t) \<Longrightarrow>
     set changed \<subseteq> set result \<and> set result \<subseteq> set changed \<union> set ls"
proof (induction ls arbitrary: changed s)
  case (Cons l ls)
  from Cons.prems obtain status u where
    "status = 1 \<and> diff_languages H c (changed @ [l]) ls u = (Inr result, t) \<or>
     diff_languages H c changed ls u = (Inr result, t)"
    by (auto simp: py_eqs split: if_splits)
  with Cons.IH show ?case by fastforce
qed simp

lemma changed_languages_Inr:
  assumes "changed_languages H s = (Inr changed, t)"
  shows "changed \<noteq> []" "set changed \<subseteq> set languages"
proof -
  from assms obtain c u where "diff_languages H c [] languages u = (Inr changed, t)" and "changed \<noteq> []"
    by (simp only: changed_languages_def py_bind_eq_Inr, elim exE conjE) (auto simp: py_eqs split: list.splits)
  with diff_languages_subset [OF this(1)] show "changed \<noteq> []" "set changed \<subseteq> set languages" by simp_all
qed

lemma assess_languages:
  assumes "assess H output changed s = (Inr assessments, t)"
  shows "map fst assessments = changed"
proof -
  have "list_all2 (\<lambda>language a. fst a = language) changed assessments"
    using assms unfolding assess_def
    by (rule py_map_all) (auto simp: py_eqs split: prod.splits)
  then show ?thesis by (auto simp: list_all2_conv_all_nth intro: nth_equalityI)
qed

lemma write_text_Inr:
  "write_text H path content s = (Inr u, t) \<Longrightarrow> mc_files t = (mc_files s)(path \<mapsto> content)"
  by (auto simp: write_text_def py_eqs split: option.splits)

text \<open>
  C28: the grade record. When the grader returns it returns 0, it assessed every changed language, of
  which there is at least one, and the record it wrote names a language whose score no other exceeds,
  with that language's own results; \<^verbatim>\<open>latest.json\<close> points to the record.
\<close>

theorem grade_record_is_best:
  assumes "grader_main H output s = (Inr status, t)"
  shows "\<exists>changed u assessments v language e results.
    changed_languages H s = (Inr changed, u) \<and> changed \<noteq> [] \<and> set changed \<subseteq> set languages \<and>
    assess H output changed u = (Inr assessments, v) \<and> map fst assessments = changed \<and>
    (language, e, results) \<in> set assessments \<and> (\<forall>(_, e', _) \<in> set assessments. e' \<le> e) \<and>
    status = 0 \<and> mc_files t = (mc_files v)(output @ ''/'' @ g_timestamp H @ ''.txt'' \<mapsto> grade_text language results,
      output @ ''/latest.json'' \<mapsto> latest_text (g_timestamp H @ ''.txt''))"
proof -
  from assms obtain changed u assessments v where
    changed: "changed_languages H s = (Inr changed, u)" and all: "assess H output changed u = (Inr assessments, v)"
    by (auto simp: grader_main_def py_eqs)
  obtain language e results where best: "best (hd assessments) (tl assessments) = (language, e, results)"
    by (cases "best (hd assessments) (tl assessments)")
  note changed_ok = changed_languages_Inr [OF changed] and names = assess_languages [OF all]
  then have "assessments = hd assessments # tl assessments" by (cases assessments) auto
  with best_max [of "hd assessments" "tl assessments"] best have
    max: "(language, e, results) \<in> set assessments" "\<forall>(_, e', _) \<in> set assessments. e' \<le> e" by auto
  from assms changed all best obtain w x where
    "write_text H (output @ ''/'' @ g_timestamp H @ ''.txt'') (grade_text language results) v = (Inr (), w)"
    "write_text H (output @ ''/latest.json'') (latest_text (g_timestamp H @ ''.txt'')) w = (Inr (), x)"
    "status = 0" "mc_files t = mc_files x"
    by (auto simp: grader_main_def py_eqs Let_def print_out_def log_event_def)
  then have "status = 0 \<and> mc_files t = (mc_files v)(output @ ''/'' @ g_timestamp H @ ''.txt'' \<mapsto> grade_text language results,
      output @ ''/latest.json'' \<mapsto> latest_text (g_timestamp H @ ''.txt''))"
    by (auto dest!: write_text_Inr)
  with changed changed_ok all names max show ?thesis by blast
qed

section \<open>A graded repository\<close>

text \<open>
  Only the C++ engine was changed, everything builds, and every lab passes one test of two.
\<close>

definition demo_grader :: "unit grader_host" where
  "demo_grader = \<lparr>h_root = ''r'', h_platform = ''linux'', h_python = ''python'',
     h_run = (\<lambda>c _ v. (Inr (if last c = ''transfer-engine/cpp'' then 1 else 0, ''c0ffee''), v)),
     h_write_error = (\<lambda>_ _. None), h_mkdir_error = (\<lambda>_ _. None),
     g_parse_report = (\<lambda>_ _. Inr (Xml ''testsuites'' []
       [Xml ''testsuite'' [(''tests'', ''2''), (''failures'', ''1'')] []])),
     g_timestamp = ''now''\<rparr>"

definition demo_machine :: "unit machine" where
  "demo_machine = \<lparr>mc_files = (\<lambda>_. Some []), mc_rest = (), mc_log = []\<rparr>"

lemma demo_suite: "suite_result (Xml ''testsuite'' [(''tests'', ''2''), (''failures'', ''1'')] []) = Inr (1, 2)"
  by (simp add: suite_result_def count_of_def parse_int_def strip_def is_blank_def parse_nat_def is_digit_def
      digit_value_def)

lemma demo_reports: "g_parse_report demo_grader path v = Inr x \<Longrightarrow> counts_ok x"
  by (auto simp: demo_grader_def counts_ok_def find_suite_def count_of_def parse_int_def strip_def is_blank_def
      parse_nat_def is_digit_def digit_value_def)

abbreviation all_present :: "'w machine \<Rightarrow> bool" where
  "all_present s \<equiv> mc_files s = (\<lambda>_. Some [])"

lemma demo_run: "all_present s \<Longrightarrow> \<exists>t. run_output demo_grader c None s =
    (Inr (if last c = ''transfer-engine/cpp'' then 1 else 0, ''c0ffee''), t) \<and> all_present t"
  by (simp add: run_output_def demo_grader_def)

lemma demo_lab: "all_present s \<Longrightarrow> \<exists>t. run_lab demo_grader library lab reports s = (Inr (1, 2), t) \<and> all_present t"
  by (auto simp: run_lab_def Let_def demo_grader_def run_status_def run_output_def is_file_def parse_report_def
      find_suite_def demo_suite py_defs lab_command_def)

lemma demo_labs:
  "all_present s \<Longrightarrow> \<exists>t. py_map (\<lambda>lab. run_lab demo_grader library lab reports) labs s =
     (Inr (replicate (length labs) (1, 2)), t) \<and> all_present t"
proof (induction labs arbitrary: s)
  case (Cons lab labs)
  from demo_lab [OF Cons.prems, of library lab reports] obtain t where
    t: "run_lab demo_grader library lab reports s = (Inr (1, 2), t)" "all_present t" by blast
  with Cons.IH [OF t(2)] show ?case by (auto simp: py_defs)
qed (simp add: py_defs)

lemma demo_writes: "h_write_error demo_grader = (\<lambda>_ _. None)"
  by (simp add: demo_grader_def)

lemma four_jobs: "string_of_int 4 = ''4''"
  by code_simp

lemma demo_build: "all_present s \<Longrightarrow> \<exists>p t. build demo_grader ''cpp'' 4 s = (Inr p, t) \<and> all_present t"
  by (simp add: build_def LIBRARIES_def build_commands_def run_checked_def run_output_def demo_grader_def
      is_file_def py_defs four_jobs)

lemma demo_score:
  assumes "all_present s"
  shows "\<exists>t. score_language demo_grader ''cpp'' output s = (Inr (400, replicate 9 (1, 2)), t) \<and> all_present t"
proof -
  have mkdir: "h_mkdir_error demo_grader = (\<lambda>_ _. None)" by (simp add: demo_grader_def)
  let ?s = "s\<lparr>mc_log := mc_log s @ [MadeDir (output @ ''/reports/cpp'')]\<rparr>"
  have "all_present ?s" using assms by simp
  from demo_build [OF this] obtain p t where t: "build demo_grader ''cpp'' 4 ?s = (Inr p, t)" "all_present t" by blast
  from demo_labs [OF t(2), of p "output @ ''/reports/cpp''" "[0..<9]"] obtain u where
    u: "py_map (\<lambda>lab. run_lab demo_grader p lab (output @ ''/reports/cpp'')) [0..<9] t =
      (Inr (replicate 9 (1, 2)), u)" "all_present u" by auto
  have "earned (replicate 9 (1, 2)) = 400" by (simp add: earned_def numeral_eq_Suc)
  with t u show ?thesis
    by (simp add: score_language_def Let_def make_dir_def mkdir py_except_def py_defs print_out_def log_event_def)
qed

theorem score_in_range_witness:
  "\<exists>t. score_language demo_grader ''cpp'' ''out'' demo_machine = (Inr (400, replicate 9 (1, 2)), t) \<and>
     (0::rat) \<le> 400 \<and> (400::rat) \<le> 800 \<and> length (replicate 9 (1::int, 2::int)) = 9"
proof -
  have "all_present demo_machine" by (simp add: demo_machine_def)
  from demo_score [OF this] obtain t where
    run: "score_language demo_grader ''cpp'' ''out'' demo_machine = (Inr (400, replicate 9 (1, 2)), t)" by blast
  have "0 \<le> (400::rat) \<and> (400::rat) \<le> 800 \<and> 400 = earned (replicate 9 (1, 2)) \<and>
      length (replicate 9 (1::int, 2::int)) = 9 \<and> list_all result_ok (replicate 9 (1, 2))"
    by (rule score_in_range [OF run]) (rule demo_reports)
  with run show ?thesis by blast
qed

lemma demo_changed: "all_present s \<Longrightarrow>
  \<exists>t. changed_languages demo_grader s = (Inr [''cpp''], t) \<and> all_present t"
  by (simp add: changed_languages_def run_checked_def run_status_def run_output_def demo_grader_def languages_def
      splitlines_def is_line_break_def py_defs)

theorem grade_record_is_best_witness:
  "\<exists>t. grader_main demo_grader ''out'' demo_machine = (Inr 0, t) \<and>
     mc_files t ''out/now.txt'' = Some (grade_text ''cpp'' (replicate 9 (1, 2)))"
proof -
  have "all_present demo_machine" by (simp add: demo_machine_def)
  from demo_changed [OF this] obtain u where
    changed: "changed_languages demo_grader demo_machine = (Inr [''cpp''], u)" "all_present u" by blast
  from demo_score [OF changed(2)] obtain v where
    score: "score_language demo_grader ''cpp'' ''out'' u = (Inr (400, replicate 9 (1, 2)), v)" "all_present v" by blast
  have all: "assess demo_grader ''out'' [''cpp''] u = (Inr [(''cpp'', 400, replicate 9 (1, 2))], v)"
    using score by (simp add: assess_def py_defs)
  have "\<exists>t. grader_main demo_grader ''out'' demo_machine = (Inr 0, t)"
    using changed(1) all demo_writes
    by (simp add: grader_main_def py_bind_def py_then_def py_gets_def py_modify_def py_return_def write_text_def
        print_out_def log_event_def Let_def)
  then obtain t where run: "grader_main demo_grader ''out'' demo_machine = (Inr 0, t)" by blast
  from grade_record_is_best [OF run] changed(1) all run show ?thesis
    by (auto simp: demo_grader_def)
qed

end
