(* ===== verification/Doctor.thy ===== *)
theory Doctor
  imports Shell
begin

text \<open>
  \<^verbatim>\<open>scripts/doctor.py\<close>: reports the RDMA devices of a machine and, with \<^verbatim>\<open>--check\<close>, builds and
  runs a separate two-process WRITE check.
\<close>

section \<open>The machine it looks at\<close>

text \<open>
  \<open>d_popen\<close>, \<open>d_wait\<close> and \<open>d_killpg\<close> are \<^verbatim>\<open>subprocess.Popen\<close>, \<^verbatim>\<open>Popen.wait\<close> and \<^verbatim>\<open>os.killpg\<close>;
  \<open>d_read\<close> reads a file of \<^verbatim>\<open>/sys\<close> or \<^verbatim>\<open>/etc\<close>, \<open>d_glob\<close> lists the names in a directory, \<open>d_which\<close>
  finds a program. \<open>d_cxx\<close> is the split value of \<^verbatim>\<open>CXX\<close>, \<open>d_temporary\<close> the directory
  \<^verbatim>\<open>TemporaryDirectory\<close> creates.
\<close>

record 'w doctor_host = "'w host" +
  d_popen :: "string list \<Rightarrow> 'w os_view \<Rightarrow> (failure + int) \<times> 'w os_view"
  d_wait :: "int \<Rightarrow> int option \<Rightarrow> 'w os_view \<Rightarrow> (failure + int) \<times> 'w os_view"
  d_killpg :: "int \<Rightarrow> 'w os_view \<Rightarrow> (failure + unit) \<times> 'w os_view"
  d_read :: "string \<Rightarrow> 'w os_view \<Rightarrow> failure + string"
  d_glob :: "string \<Rightarrow> 'w os_view \<Rightarrow> string list"
  d_which :: "string \<Rightarrow> 'w os_view \<Rightarrow> bool"
  d_cxx :: "string list"
  d_temporary :: "string \<Rightarrow> 'w os_view \<Rightarrow> failure + string"
  d_platform_line :: string
  d_memlock :: "int \<times> int"
  d_now :: string
  d_python_version :: string
  d_netdev :: "string option"

record arguments =
  arg_check :: bool
  arg_report :: "string option"
  arg_device :: "string option"
  arg_port :: int
  arg_gid_index :: "int option"
  arg_timeout :: int

definition observe :: "('w os_view \<Rightarrow> 'a) \<Rightarrow> ('w, 'a) script" where
  "observe f = py_gets (\<lambda>s. f (mc_files s, mc_rest s))"

definition act :: "('w os_view \<Rightarrow> (failure + 'a) \<times> 'w os_view) \<Rightarrow> ('a \<Rightarrow> event list) \<Rightarrow> ('w, 'a) script" where
  "act f events s =
     (case f (mc_files s, mc_rest s) of
        (r, files, rest) \<Rightarrow> (r, \<lparr>mc_files = files, mc_rest = rest,
          mc_log = mc_log s @ (case r of Inl _ \<Rightarrow> [] | Inr x \<Rightarrow> events x)\<rparr>))"

section \<open>The device report\<close>

definition read_value :: "('w, 'z) doctor_host_scheme \<Rightarrow> string \<Rightarrow> ('w, string) script" where
  "read_value H path =
     py_except (py_bind (observe (d_read H path)) (\<lambda>r. case r of
         Inl e \<Rightarrow> py_raise e | Inr text \<Rightarrow> py_return (strip text)))
       (\<lambda>e. if is_OSError e then Some (py_return ''unavailable'') else None)"

definition soft_failure :: "failure \<Rightarrow> bool" where
  "soft_failure e \<longleftrightarrow> is_OSError e \<or> e = TimeoutExpired"

definition list_devices :: "('w, 'z) doctor_host_scheme \<Rightarrow> string list \<Rightarrow> ('w, unit) script" where
  "list_devices H command =
     py_bind (observe (d_which H (hd command))) (\<lambda>present.
       if present
       then py_then (print_out [Txt ''$ '', Txt (join_with '' '' command)])
           (py_except
             (py_bind (run_status H command (Some 5)) (\<lambda>status.
                if status \<noteq> 0 then print_out [Txt ''exit status '', Num status] else py_return ()))
             (\<lambda>e. if soft_failure e then Some (print_out [Txt ''could not run '', Txt (hd command)]) else None))
       else print_out [Txt ''missing tool: '', Txt (hd command)])"

definition ZERO_GID :: string where
  "ZERO_GID = ''0000:0000:0000:0000:0000:0000:0000:0000''"

definition report_gid :: "('w, 'z) doctor_host_scheme \<Rightarrow> string \<Rightarrow> string \<Rightarrow> ('w, unit) script" where
  "report_gid H port gid =
     py_bind (read_value H (port @ ''/gids/'' @ gid)) (\<lambda>value.
       if value = ZERO_GID then py_return ()
       else py_bind (read_value H (port @ ''/gid_attrs/types/'' @ gid)) (\<lambda>kind.
            py_bind (read_value H (port @ ''/gid_attrs/ndevs/'' @ gid)) (\<lambda>netdev.
              print_out [Txt ''  GID '', Txt gid, Txt '': '', Txt value, Txt ''; '', Txt kind,
                Txt ''; netdev='', Txt netdev])))"

text \<open>\<open>sorted(..., key=lambda p: int(p.name))\<close> raises when a name is no integer.\<close>

definition sorted_gids :: "string list \<Rightarrow> failure + string list" where
  "sorted_gids names =
     (if list_all (\<lambda>n. parse_int n \<noteq> None) names
      then Inr (sort_key (\<lambda>n. the (parse_int n)) names)
      else Inl (ValueFailure ''invalid literal for int()''))"

definition report_port :: "('w, 'z) doctor_host_scheme \<Rightarrow> string \<Rightarrow> string \<Rightarrow> ('w, unit) script" where
  "report_port H device port =
     (let path = ''/sys/class/infiniband/'' @ device @ ''/ports/'' @ port in
      py_bind (read_value H (path @ ''/state'')) (\<lambda>state.
      py_bind (read_value H (path @ ''/link_layer'')) (\<lambda>layer.
      py_then (print_out [Txt device, Txt '' port '', Txt port, Txt '': '', Txt state, Txt '', '', Txt layer])
     (py_bind (observe (d_glob H (path @ ''/gids''))) (\<lambda>names.
      py_bind (py_lift (sorted_gids names)) (\<lambda>gids.
        py_each (report_gid H path) gids))))))"

definition report_device :: "('w, 'z) doctor_host_scheme \<Rightarrow> string \<Rightarrow> ('w, unit) script" where
  "report_device H device =
     py_bind (observe (d_glob H (''/sys/class/infiniband/'' @ device @ ''/ports''))) (\<lambda>ports.
       py_each (report_port H device) (sort ports))"

definition device_report :: "('w, 'z) doctor_host_scheme \<Rightarrow> ('w, int) script" where
  "device_report H =
     py_then (print_out [Txt (d_platform_line H)])
    (if h_platform H \<noteq> ''linux''
     then py_then (say ''Engine development and tests require Linux with an RDMA device (RXE is sufficient).'')
         (py_then (say ''See docs/00-environment.md for a Linux VM / RXE setup.'') (py_return 2))
     else
       py_then (print_out [Txt ''memlock soft='', Num (fst (d_memlock H)), Txt '', hard='',
                  Num (snd (d_memlock H)), Txt '' bytes (-1 means unlimited)''])
      (py_bind (observe (d_glob H ''/dev/infiniband'')) (\<lambda>verbs.
       py_then (print_out [Txt ''uverbs devices: '', Txt (if verbs = [] then ''NONE'' else join_with '', '' verbs)])
      (py_then (py_each (list_devices H) [[''ibv_devices''], [''rdma'', ''link'', ''show'']])
      (py_bind (observe (d_glob H ''/sys/class/infiniband'')) (\<lambda>names.
       py_then (py_each (report_device H) (sort names))
         (py_return (if names \<noteq> [] then 0 else 1))))))))"

section \<open>Running the probe\<close>

definition kill_group :: "('w, 'z) doctor_host_scheme \<Rightarrow> int \<Rightarrow> ('w, unit) script" where
  "kill_group H pid =
     py_except (act (d_killpg H pid) (\<lambda>_. [KilledGroup pid]))
       (\<lambda>e. if e = ProcessLookupError then Some (log_event (KilledGroup pid)) else None)"

definition wait_process :: "('w, 'z) doctor_host_scheme \<Rightarrow> int \<Rightarrow> int option \<Rightarrow> ('w, int) script" where
  "wait_process H pid timeout = act (d_wait H pid timeout) (\<lambda>status. [Reaped pid status])"

definition run_command :: "('w, 'z) doctor_host_scheme \<Rightarrow> string list \<Rightarrow> int \<Rightarrow> ('w, unit) script" where
  "run_command H command timeout =
     py_bind (act (d_popen H command) (\<lambda>pid. [Started pid command])) (\<lambda>pid.
       py_finally
         (py_bind (wait_process H pid (Some timeout)) (\<lambda>result.
            py_raise_if (result \<noteq> 0) (CalledProcessError result)))
         (py_then (kill_group H pid)
            (py_bind (wait_process H pid None) (\<lambda>_. py_return ()))))"

text \<open>\<open>binary.replace(output)\<close>, and the removal of the temporary directory.\<close>

definition replace_file :: "string \<Rightarrow> string \<Rightarrow> ('w, unit) script" where
  "replace_file source target =
     py_bind (read_text source) (\<lambda>content.
       py_modify (\<lambda>s. s\<lparr>mc_files := (mc_files s)(source := None, target := Some content)\<rparr>))"

definition remove_tree :: "string \<Rightarrow> ('w, unit) script" where
  "remove_tree directory =
     py_modify (\<lambda>s. s\<lparr>mc_files := (\<lambda>path.
       if take (length directory + 1) path = directory @ ''/'' then None else mc_files s path)\<rparr>)"

definition compile_command :: "('w, 'z) doctor_host_scheme \<Rightarrow> string \<Rightarrow> string list" where
  "compile_command H binary = d_cxx H @ [''-std=c++17'', ''-O0'', ''-g'', ''-Wall'', ''-Wextra'', ''-Werror'',
     ''-Wpedantic'', in_root H ''scripts/rdma_check.cpp'', ''-libverbs'', ''-o'', binary]"

definition build_probe :: "('w, 'z) doctor_host_scheme \<Rightarrow> string \<Rightarrow> ('w, string) script" where
  "build_probe H directory =
     (let output = directory @ ''/rdma_check'' in
      py_then (make_dir H directory)
     (py_bind (py_bind (observe (d_temporary H directory)) py_lift) (\<lambda>temporary.
      py_finally
        (let binary = temporary @ ''/rdma_check'' in
         py_then (run_command H (compile_command H binary) 60)
        (py_then (replace_file binary output)
           (py_return output)))
        (remove_tree temporary))))"

section \<open>The saved report\<close>

definition write_note :: "text_part list \<Rightarrow> ('w, unit) script" where
  "write_note ps = log_event (Noted ps)"

definition report_commands :: "string list list" where
  "report_commands =
     [[''uname'', ''-a''],
      [''dpkg-query'', ''-W'', ''rdma-core'', ''libibverbs1'', ''ibverbs-providers'', ''ibverbs-utils'', ''perftest''],
      [''cc'', ''--version''], [''cmake'', ''--version''], [''uv'', ''--version''], [''rustc'', ''-Vv''],
      [''git'', ''rev-parse'', ''HEAD''], [''git'', ''status'', ''--short'']]"

definition probe_command :: "('w, 'z) doctor_host_scheme \<Rightarrow> string list" where
  "probe_command H = [h_python H, in_root H ''scripts/doctor.py'']"

text \<open>One command of the report: its status, if it ran.\<close>

definition note_command :: "('w, 'z) doctor_host_scheme \<Rightarrow> string list \<Rightarrow> ('w, int option) script" where
  "note_command H command =
     py_then (write_note [Txt ''$ '', Txt (join_with '' '' command)])
       (py_except
         (py_bind (run_status H command (Some 15)) (\<lambda>status.
          py_then (if status \<noteq> 0 then write_note [Txt ''exit status '', Num status] else py_return ())
            (py_return (Some status))))
         (\<lambda>e. if soft_failure e then Some (py_then (write_note [Txt ''unavailable'']) (py_return None)) else None))"

definition option_text :: "string option \<Rightarrow> string" where
  "option_text x = (case x of None \<Rightarrow> ''None'' | Some s \<Rightarrow> s)"

text \<open>\<open>path.parent\<close> of an absolute path.\<close>

definition parent_of :: "string \<Rightarrow> string" where
  "parent_of path = rev (tl (dropWhile (\<lambda>c. c \<noteq> CHR ''/'') (rev path)))"

text \<open>\<open>path\<close> is the resolved path; the words of a command are not quoted here.\<close>

definition save_report :: "('w, 'z) doctor_host_scheme \<Rightarrow> string \<Rightarrow> arguments \<Rightarrow> ('w, int) script" where
  "save_report H path args =
     py_then (make_dir H (parent_of path))
    (py_then (write_text H path [])
    (py_then (write_note [Txt ''RDMA environment report: '', Txt (d_now H)])
    (py_bind (read_value H ''/etc/os-release'') (\<lambda>release.
     py_then (write_note [Txt release])
    (py_then (write_note [Txt ''Python: '', Txt (d_python_version H), Txt '' Executable: '', Txt (h_python H)])
    (py_then (write_note [Txt ''Selected device='', Txt (option_text (arg_device args)),
               Txt '', port='', Num (arg_port args), Txt '', gid_index='',
               Txt (option_text (map_option string_of_int (arg_gid_index args))),
               Txt '', netdev='', Txt (option_text (d_netdev H))])
    (py_then (py_each (\<lambda>command. py_bind (note_command H command) (\<lambda>_. py_return ())) report_commands)
    (py_bind (note_command H (probe_command H)) (\<lambda>status.
     py_then (print_out [Txt ''Environment report saved to '', Txt path])
       (py_return (case status of None \<Rightarrow> 1 | Some n \<Rightarrow> n)))))))))))"

section \<open>main\<close>

text \<open>The exceptions of a part of the body carry the value \<open>stage\<close> has there.\<close>

definition at_stage :: "string \<Rightarrow> ('s, 'e, 'a) py \<Rightarrow> ('s, string \<times> 'e, 'a) py" where
  "at_stage stage m s = (case m s of (Inl e, t) \<Rightarrow> (Inl (stage, e), t) | (Inr x, t) \<Rightarrow> (Inr x, t))"

definition argument_error :: "arguments \<Rightarrow> string option" where
  "argument_error args =
     (if \<not> (1 \<le> arg_port args \<and> arg_port args \<le> 255) then Some ''--port must be between 1 and 255''
      else if \<not> (case arg_gid_index args of None \<Rightarrow> True | Some g \<Rightarrow> 0 \<le> g \<and> g \<le> 255)
      then Some ''--gid-index must be between 0 and 255''
      else if \<not> (1 \<le> arg_timeout args \<and> arg_timeout args \<le> 3600)
      then Some ''--timeout must be between 1 and 3600 seconds''
      else if arg_check args \<and> (arg_device args = None \<or> arg_device args = Some [] \<or> arg_gid_index args = None)
      then Some ''--check requires --device and --gid-index, or R101_DEVICE and R101_GID_INDEX''
      else None)"

definition check_command :: "string \<Rightarrow> arguments \<Rightarrow> string list" where
  "check_command binary args =
     [binary, the (arg_device args), string_of_int (arg_port args),
      string_of_int (the (arg_gid_index args)), string_of_int (arg_timeout args)]"

definition PASS :: string where
  "PASS = ''[PASS] Resource access, RC connection and 4096-byte WRITE with data/guard checks.''"

definition doctor_check :: "('w, 'z) doctor_host_scheme \<Rightarrow> arguments \<Rightarrow> ('w machine, string \<times> failure, int) py" where
  "doctor_check H args =
     py_then (at_stage ''build'' (say ''[build] Compiling scripts/rdma_check.cpp with the installed libibverbs''))
    (py_bind (at_stage ''build'' (build_probe H (in_root H ''build/doctor''))) (\<lambda>binary.
       at_stage ''communication''
        (py_then (print_out [Txt ''[check] device='', Txt (the (arg_device args)), Txt '' port='', Num (arg_port args),
                    Txt '' gid_index='', Num (the (arg_gid_index args)), Txt '' timeout='', Num (arg_timeout args), Txt ''s''])
        (py_then (run_command H (check_command binary args) (arg_timeout args))
        (py_then (say PASS)
        (py_then (say ''Other RDMA operations, cross-host networking and performance: NOT CHECKED.'')
           (py_return 0)))))))"

definition doctor_body :: "('w, 'z) doctor_host_scheme \<Rightarrow> arguments \<Rightarrow> ('w machine, string \<times> failure, int) py" where
  "doctor_body H args =
     (case arg_report args of
        Some path \<Rightarrow> at_stage ''save report'' (save_report H path args)
      | None \<Rightarrow>
          py_bind (at_stage ''device report'' (device_report H)) (\<lambda>result.
            if result \<noteq> 0
            then py_then (at_stage ''device report''
                   (say ''[FAIL] Linux with a visible RDMA device is required; transfer NOT CHECKED.''))
                 (py_return result)
            else if \<not> arg_check args
            then py_then (at_stage ''device report''
                   (say ''Report only; resource access and transfer NOT CHECKED. Use --check next.''))
                 (py_return 0)
            else doctor_check H args))"

definition doctor_failed :: "string \<times> failure \<Rightarrow> ('w, int) script option" where
  "doctor_failed x =
     (case x of (stage, e) \<Rightarrow>
        if e = TimeoutExpired
        then Some (py_then (print_out [Txt ''[FAIL] '', Txt stage, Txt '' timed out; see the last stage printed by each process.''])
               (py_return 1))
        else (case e of
          CalledProcessError status \<Rightarrow>
            Some (py_then (print_out [Txt ''[FAIL] '', Txt stage, Txt '' exited with status '', Num status,
                    Txt ''; see diagnostics above.'']) (py_return 1))
        | KeyboardInterrupt \<Rightarrow>
            Some (py_then (print_out [Txt ''[STOP] Interrupted during '', Txt stage, Txt ''; child processes stopped.''])
                    (py_return 130))
        | _ \<Rightarrow>
            if is_OSError e then Some (py_then (print_out [Txt ''[FAIL] '', Txt stage]) (py_return 1)) else None))"

definition doctor_main :: "('w, 'z) doctor_host_scheme \<Rightarrow> arguments \<Rightarrow> ('w, int) script" where
  "doctor_main H args =
     (case argument_error args of
        Some message \<Rightarrow> py_then (print_err [Txt message]) (py_raise (SystemExit 2))
      | None \<Rightarrow> (\<lambda>s. case doctor_body H args s of
            (Inr status, t) \<Rightarrow> (Inr status, t)
          | (Inl x, t) \<Rightarrow> (case doctor_failed x of None \<Rightarrow> (Inl (snd x), t) | Some k \<Rightarrow> k t)))"

section \<open>No process outlives the tool\<close>

lemma act_eq:
  "act f events s = (Inr x, t) \<longleftrightarrow> (\<exists>files rest. f (mc_files s, mc_rest s) = (Inr x, files, rest) \<and>
     t = \<lparr>mc_files = files, mc_rest = rest, mc_log = mc_log s @ events x\<rparr>)"
  "act f events s = (Inl e, t) \<longleftrightarrow> (\<exists>files rest. f (mc_files s, mc_rest s) = (Inl e, files, rest) \<and>
     t = \<lparr>mc_files = files, mc_rest = rest, mc_log = mc_log s\<rparr>)"
  by (auto simp: act_def split: prod.splits)

text \<open>What the body of \<open>run_command\<close> logs, and its cleanup.\<close>

lemma wait_log:
  assumes "py_bind (wait_process H pid timeout) (\<lambda>result. py_raise_if (result \<noteq> 0) (CalledProcessError result)) s = (r, t)"
  shows "\<exists>first. mc_log t = mc_log s @ first \<and> (\<forall>e \<in> set first. \<exists>st. e = Reaped pid st) \<and> (r = Inr () \<longrightarrow> first = [Reaped pid 0])"
  using assms
  by (cases r) (auto simp: wait_process_def py_eqs act_eq intro: exI [of _ "[]"])

lemma kill_group_log:
  assumes "kill_group H pid s = (r, t)"
  shows "(r = Inr () \<and> mc_log t = mc_log s @ [KilledGroup pid]) \<or>
    (\<exists>e. r = Inl e \<and> e \<noteq> ProcessLookupError \<and> fst (d_killpg H pid (mc_files s, mc_rest s)) = Inl e \<and> mc_log t = mc_log s)"
proof (cases "d_killpg H pid (mc_files s, mc_rest s)")
  case (fields x files rest)
  with assms show ?thesis
    by (cases x) (auto simp: kill_group_def py_except_def act_def log_event_def py_defs split: if_splits)
qed

lemma cleanup_log:
  assumes run: "py_then (kill_group H pid) (py_bind (wait_process H pid None) (\<lambda>_. py_return ())) s = (r, t)"
  shows "r = Inr () \<Longrightarrow> \<exists>st. mc_log t = mc_log s @ [KilledGroup pid, Reaped pid st]"
  using assms by (auto simp: py_eqs wait_process_def act_eq dest!: kill_group_log)

lemma run_command_cases:
  assumes "run_command H command timeout s = (r, t)"
  shows "(\<exists>e. r = Inl e \<and> mc_log t = mc_log s) \<or>
    (\<exists>pid u first r0 c. mc_log u = mc_log s @ [Started pid command] @ first \<and>
       (\<forall>e \<in> set first. \<exists>st. e = Reaped pid st) \<and> (r0 = Inr () \<longrightarrow> first = [Reaped pid 0]) \<and>
       py_then (kill_group H pid) (py_bind (wait_process H pid None) (\<lambda>_. py_return ())) u = (c, t) \<and>
       r = (case c of Inl e \<Rightarrow> Inl e | Inr _ \<Rightarrow> r0))"
proof (cases "act (d_popen H command) (\<lambda>pid. [Started pid command]) s")
  case (Pair x u0)
  show ?thesis
  proof (cases x)
    case (Inl e)
    with assms Pair show ?thesis by (auto simp: run_command_def py_bind_def act_eq)
  next
    case (Inr pid)
    obtain r0 u where wait: "py_bind (wait_process H pid (Some timeout))
        (\<lambda>result. py_raise_if (result \<noteq> 0) (CalledProcessError result)) u0 = (r0, u)" by fastforce
    obtain c v where clean: "py_then (kill_group H pid) (py_bind (wait_process H pid None) (\<lambda>_. py_return ())) u = (c, v)"
      by fastforce
    from assms Pair Inr wait clean have "t = v \<and> r = (case c of Inl e \<Rightarrow> Inl e | Inr _ \<Rightarrow> r0)"
      by (auto simp: run_command_def py_bind_eq_Inr [of "act _ _"] py_bind_eq_Inl [of "act _ _"] py_finally_def
          py_bind_Inr split: sum.splits)
    moreover from Pair Inr have "mc_log u0 = mc_log s @ [Started pid command]" by (auto simp: act_eq)
    moreover obtain first where "mc_log u = mc_log u0 @ first" "\<forall>e \<in> set first. \<exists>st. e = Reaped pid st"
      "r0 = Inr () \<longrightarrow> first = [Reaped pid 0]" using wait_log [OF wait] by blast
    ultimately show ?thesis using clean
      by (intro disjI2 exI [of _ pid] exI [of _ u] exI [of _ first] exI [of _ r0] exI [of _ c]) simp
  qed
qed

lemma run_command_Inr:
  assumes "run_command H command timeout s = (Inr (), t)"
  shows "\<exists>pid st. mc_log t = mc_log s @ [Started pid command, Reaped pid 0, KilledGroup pid, Reaped pid st]"
  using run_command_cases [OF assms]
proof (elim disjE exE conjE)
  fix pid u first r0 c
  assume log: "mc_log u = mc_log s @ [Started pid command] @ first" and ok: "r0 = Inr () \<longrightarrow> first = [Reaped pid 0]"
    and clean: "py_then (kill_group H pid) (py_bind (wait_process H pid None) (\<lambda>_. py_return ())) u = (c, t)"
    and r: "Inr () = (case c of Inl e \<Rightarrow> Inl e | Inr _ \<Rightarrow> r0)"
  from r have c: "c = Inr ()" by (cases c) simp_all
  with r have "r0 = Inr ()" by simp
  from cleanup_log [OF clean c] obtain st where "mc_log t = mc_log u @ [KilledGroup pid, Reaped pid st]" by blast
  with log ok \<open>r0 = Inr ()\<close> show ?thesis by (intro exI [of _ pid] exI [of _ st]) simp
qed simp

text \<open>
  C25: how a command that \<open>run_command\<close> started ends, on every path. When the process cannot be started, nothing
  is left behind. Otherwise, whether the wait returned a status or raised, a timeout and Ctrl-C included, the group
  of the process is killed, or gone, and the process is waited for, and only then does \<open>run_command\<close> end: it returns
  when the status was 0, raises \<^verbatim>\<open>CalledProcessError\<close> with another status, and else raises what the first wait raised.
  Only the cleanup itself can leave the process behind, when killing the group is refused or the last wait is
  interrupted, and this is what \<open>run_command\<close> then raises.
\<close>

theorem probe_always_reaped:
  "case run_command H command timeout s of (r, t) \<Rightarrow>
     (case d_popen H command (mc_files s, mc_rest s) of
        (Inl e, _) \<Rightarrow> r = Inl e \<and> mc_log t = mc_log s
      | (Inr pid, running) \<Rightarrow> (case d_wait H pid (Some timeout) running of (first, waited) \<Rightarrow>
          (let log = mc_log s @ [Started pid command] @ (case first of Inl _ \<Rightarrow> [] | Inr n \<Rightarrow> [Reaped pid n]);
               ended = (case first of Inl e \<Rightarrow> Inl e | Inr n \<Rightarrow> if n = 0 then Inr () else Inl (CalledProcessError n))
           in (case d_killpg H pid waited of (killed, after) \<Rightarrow>
             if killed \<notin> {Inr (), Inl ProcessLookupError}
             then r = killed \<and> mc_log t = log
             else (case d_wait H pid None after of
                 (Inl e, _) \<Rightarrow> r = Inl e \<and> mc_log t = log @ [KilledGroup pid]
               | (Inr st, _) \<Rightarrow> r = ended \<and> mc_log t = log @ [KilledGroup pid, Reaped pid st])))))"
proof -
  obtain x files rest where popen: "d_popen H command (mc_files s, mc_rest s) = (x, files, rest)" by (metis prod.collapse)
  show ?thesis
  proof (cases x)
    case (Inl e)
    with popen show ?thesis by (simp add: run_command_def act_def py_defs)
  next
    case (Inr pid)
    obtain first files1 rest1 where wait: "d_wait H pid (Some timeout) (files, rest) = (first, files1, rest1)"
      by (metis prod.collapse)
    let ?log = "mc_log s @ [Started pid command] @ (case first of Inl _ \<Rightarrow> [] | Inr n \<Rightarrow> [Reaped pid n])"
    let ?u = "\<lparr>mc_files = files1, mc_rest = rest1, mc_log = ?log\<rparr>"
    let ?ended = "case first of Inl e \<Rightarrow> Inl e | Inr n \<Rightarrow> if n = 0 then Inr () else Inl (CalledProcessError n)"
    have run: "run_command H command timeout s =
        (case py_then (kill_group H pid) (py_bind (wait_process H pid None) (\<lambda>_. py_return ())) ?u of
           (Inl e, v) \<Rightarrow> (Inl e, v) | (Inr _, v) \<Rightarrow> (?ended, v))"
      using popen wait Inr
      by (cases first) (auto simp: run_command_def wait_process_def act_def py_finally_def py_defs split: prod.split sum.split)
    obtain killed files2 rest2 where kill: "d_killpg H pid (files1, rest1) = (killed, files2, rest2)" by (metis prod.collapse)
    obtain last files3 rest3 where final: "d_wait H pid None (files2, rest2) = (last, files3, rest3)" by (metis prod.collapse)
    show ?thesis
      unfolding run using popen wait kill final Inr
      by (cases killed; cases last)
        (auto simp: kill_group_def wait_process_def act_def py_except_def log_event_def py_defs)
  qed
qed

section \<open>The verdict\<close>

lemma device_report_status: "device_report H s = (Inr status, t) \<Longrightarrow> status \<in> {0, 1, 2}"
  by (auto simp: device_report_def py_eqs split: if_splits)

lemma at_stage_eq:
  "at_stage g m s = (Inr x, t) \<longleftrightarrow> m s = (Inr x, t)"
  "at_stage g m s = (Inl y, t) \<longleftrightarrow> (\<exists>e. m s = (Inl e, t) \<and> y = (g, e))"
  by (auto simp: at_stage_def split: prod.splits sum.splits)

lemma say_eq: "say x s = (r, t) \<longleftrightarrow> r = Inr () \<and> t = s\<lparr>mc_log := mc_log s @ [Printed [Txt x]]\<rparr>"
  by (auto simp: print_out_def log_event_def)

lemma print_out_eq: "print_out ps s = (r, t) \<longleftrightarrow> r = Inr () \<and> t = s\<lparr>mc_log := mc_log s @ [Printed ps]\<rparr>"
  by (auto simp: print_out_def log_event_def)

lemma logs_act: "(\<And>x. list_all P (events x)) \<Longrightarrow> logs P (act f events)"
  by (auto simp: logs_def act_def split: prod.splits sum.splits)

lemma run_command_logs: "logs (\<lambda>_. True) (run_command H command timeout)"
  unfolding run_command_def wait_process_def kill_group_def
  by (auto intro!: logs_rules logs_act split: if_splits)

text \<open>A build that returns has compiled the probe into its temporary directory and moved it to the output file.\<close>

lemma build_probe_Inr:
  assumes "build_probe H directory s = (Inr binary, t)"
  shows "\<exists>temporary c pid st content. binary = directory @ ''/rdma_check'' \<and>
    d_temporary H directory (mc_files s, mc_rest s) = Inr temporary \<and>
    run_command H (compile_command H (temporary @ ''/rdma_check'')) 60 (s\<lparr>mc_log := mc_log s @ [MadeDir directory]\<rparr>) =
      (Inr (), c) \<and>
    mc_log t = mc_log s @ [MadeDir directory, Started pid (compile_command H (temporary @ ''/rdma_check'')),
      Reaped pid 0, KilledGroup pid, Reaped pid st] \<and>
    mc_files c (temporary @ ''/rdma_check'') = Some content \<and>
    mc_files t = (\<lambda>path. if take (length temporary + 1) path = temporary @ ''/'' then None
      else ((mc_files c)(temporary @ ''/rdma_check'' := None, directory @ ''/rdma_check'' := Some content)) path)"
proof -
  let ?s = "s\<lparr>mc_log := mc_log s @ [MadeDir directory]\<rparr>"
  from assms obtain temporary where temporary: "d_temporary H directory (mc_files s, mc_rest s) = Inr temporary"
    and body: "py_finally (py_then (run_command H (compile_command H (temporary @ ''/rdma_check'')) 60)
        (py_then (replace_file (temporary @ ''/rdma_check'') (directory @ ''/rdma_check''))
          (py_return (directory @ ''/rdma_check'')))) (remove_tree temporary) ?s = (Inr binary, t)"
    unfolding build_probe_def Let_def
    by (auto simp: py_eqs make_dir_def log_event_def observe_def eq_commute [of "Inr _" "d_temporary _ _ _"]
        split: option.splits)
  from body obtain c content where ran: "run_command H (compile_command H (temporary @ ''/rdma_check'')) 60 ?s = (Inr (), c)"
    and content: "mc_files c (temporary @ ''/rdma_check'') = Some content"
    and moved: "binary = directory @ ''/rdma_check''" "mc_log t = mc_log c"
      "mc_files t = (\<lambda>path. if take (length temporary + 1) path = temporary @ ''/'' then None
        else ((mc_files c)(temporary @ ''/rdma_check'' := None, directory @ ''/rdma_check'' := Some content)) path)"
    by (auto simp: py_finally_def remove_tree_def replace_file_def read_text_def py_defs
        cong: if_cong split: prod.splits sum.splits option.splits)
  from run_command_Inr [OF ran] obtain pid st where "mc_log c = mc_log s @ [MadeDir directory,
      Started pid (compile_command H (temporary @ ''/rdma_check'')), Reaped pid 0, KilledGroup pid, Reaped pid st]"
    by auto
  with temporary ran content moved show ?thesis by (intro exI conjI; assumption?) simp_all
qed

text \<open>The file a run of the probe starts from is the one the compiler has just written.\<close>

definition probe_built :: "('w, 'z) doctor_host_scheme \<Rightarrow> 'w machine \<Rightarrow> string \<Rightarrow> 'w machine \<Rightarrow> bool" where
  "probe_built H s temporary w \<longleftrightarrow>
     (\<exists>c content. run_command H (compile_command H (temporary @ ''/rdma_check'')) 60 s = (Inr (), c) \<and>
        mc_files c (temporary @ ''/rdma_check'') = Some content \<and>
        mc_files w (in_root H ''build/doctor/rdma_check'') = Some content)"

text \<open>A check that returns has built the probe, run it to a successful end, and says so last.\<close>

definition check_log :: "('w, 'z) doctor_host_scheme \<Rightarrow> arguments \<Rightarrow> string \<Rightarrow> int \<Rightarrow> int \<Rightarrow> int \<Rightarrow> int \<Rightarrow> event list" where
  "check_log H args temporary compiler st1 probe st2 =
    [Printed [Txt ''[build] Compiling scripts/rdma_check.cpp with the installed libibverbs''],
     MadeDir (in_root H ''build/doctor''),
     Started compiler (compile_command H (temporary @ ''/rdma_check'')), Reaped compiler 0, KilledGroup compiler,
     Reaped compiler st1,
     Printed [Txt ''[check] device='', Txt (the (arg_device args)), Txt '' port='', Num (arg_port args),
       Txt '' gid_index='', Num (the (arg_gid_index args)), Txt '' timeout='', Num (arg_timeout args), Txt ''s''],
     Started probe (check_command (in_root H ''build/doctor/rdma_check'') args), Reaped probe 0, KilledGroup probe,
     Reaped probe st2, Printed [Txt PASS],
     Printed [Txt ''Other RDMA operations, cross-host networking and performance: NOT CHECKED.'']]"

lemma doctor_check_Inr:
  assumes "doctor_check H args s = (Inr status, t)"
    and temporary: "\<And>d v name. d_temporary H d v = Inr name \<Longrightarrow> \<exists>x. name = d @ ''/.compile-'' @ x"
  shows "status = 0 \<and> (\<exists>u tmp w v p st1 q st2.
    mc_files u = mc_files s \<and> probe_built H u tmp w \<and>
    run_command H (check_command (in_root H ''build/doctor/rdma_check'') args) (arg_timeout args) w = (Inr (), v) \<and>
    mc_log t = mc_log s @ check_log H args tmp p st1 q st2)"
proof -
  let ?dir = "in_root H ''build/doctor''" and ?out = "in_root H ''build/doctor/rdma_check''"
  let ?s = "s\<lparr>mc_log := mc_log s @ [Printed [Txt ''[build] Compiling scripts/rdma_check.cpp with the installed libibverbs'']]\<rparr>"
  let ?line = "Printed [Txt ''[check] device='', Txt (the (arg_device args)), Txt '' port='', Num (arg_port args),
       Txt '' gid_index='', Num (the (arg_gid_index args)), Txt '' timeout='', Num (arg_timeout args), Txt ''s'']"
  from assms(1) obtain binary v w where
    probe: "build_probe H ?dir ?s = (Inr binary, v)" and
    w: "run_command H (check_command binary args) (arg_timeout args) (v\<lparr>mc_log := mc_log v @ [?line]\<rparr>) = (Inr (), w)" and
    t: "status = 0" "mc_log t = mc_log w @ [Printed [Txt PASS],
      Printed [Txt ''Other RDMA operations, cross-host networking and performance: NOT CHECKED.'']]"
    unfolding doctor_check_def by (auto simp: py_eqs at_stage_eq print_out_eq)
  have out: "?dir @ ''/rdma_check'' = ?out" by (simp add: in_root_def)
  from build_probe_Inr [OF probe, unfolded out] obtain tmp c p st1 content where
    binary: "binary = ?out" and tmp: "d_temporary H ?dir (mc_files ?s, mc_rest ?s) = Inr tmp" and
    ran: "run_command H (compile_command H (tmp @ ''/rdma_check'')) 60 (?s\<lparr>mc_log := mc_log ?s @ [MadeDir ?dir]\<rparr>) = (Inr (), c)" and
    log: "mc_log v = mc_log ?s @ [MadeDir ?dir, Started p (compile_command H (tmp @ ''/rdma_check'')), Reaped p 0,
      KilledGroup p, Reaped p st1]" and
    content: "mc_files c (tmp @ ''/rdma_check'') = Some content" and
    files: "mc_files v = (\<lambda>path. if take (length tmp + 1) path = tmp @ ''/'' then None
      else ((mc_files c)(tmp @ ''/rdma_check'' := None, ?out := Some content)) path)"
    by blast
  from temporary [OF tmp] obtain x where "tmp = ?dir @ ''/.compile-'' @ x" by blast
  then have "mc_files v ?out = Some content" using files by (simp add: in_root_def)
  with ran content have built: "probe_built H (?s\<lparr>mc_log := mc_log ?s @ [MadeDir ?dir]\<rparr>) tmp (v\<lparr>mc_log := mc_log v @ [?line]\<rparr>)"
    unfolding probe_built_def by auto
  from run_command_Inr [OF w] obtain q st2 where "mc_log w = (mc_log v @ [?line]) @
      [Started q (check_command binary args), Reaped q 0, KilledGroup q, Reaped q st2]" by auto
  with t log binary have "mc_log t = mc_log s @ check_log H args tmp p st1 q st2" by (simp add: check_log_def)
  moreover have "mc_files (?s\<lparr>mc_log := mc_log ?s @ [MadeDir ?dir]\<rparr>) = mc_files s" by simp
  moreover note t(1) built w [unfolded binary]
  ultimately show ?thesis by blast
qed

text \<open>
  C26: the verdict of \<^verbatim>\<open>doctor.py --check\<close>. It exits with 0 only after the device report found an
  RDMA device, the compiler then built \<^verbatim>\<open>scripts/rdma_check.cpp\<close> in a temporary directory and exited with 0, and
  \<^verbatim>\<open>build/doctor/rdma_check\<close>, which held what the compiler had left there, ran with the selected device, port, GID
  index and timeout and exited with 0; the log of the check is exactly that, and ends with the pass line. Otherwise it
  exits with 1, 2 or 130, or with an error of the arguments. \<^verbatim>\<open>TemporaryDirectory\<close> creates its directory in the
  given one, under the given prefix.
\<close>

theorem doctor_verdict:
  assumes "doctor_main H args s = (Inr status, t)" and "arg_check args" and "arg_report args = None"
    and "\<And>d v name. d_temporary H d v = Inr name \<Longrightarrow> \<exists>x. name = d @ ''/.compile-'' @ x"
  shows "argument_error args = None \<and> status \<in> {0, 1, 2, 130} \<and> (status \<noteq> 0 \<or>
    (\<exists>u a temporary w v p st1 q st2. device_report H s = (Inr 0, u) \<and>
      mc_files a = mc_files u \<and> probe_built H a temporary w \<and>
      run_command H (check_command (in_root H ''build/doctor/rdma_check'') args) (arg_timeout args) w = (Inr (), v) \<and>
      mc_log t = mc_log u @ check_log H args temporary p st1 q st2))"
proof -
  have none: "argument_error args = None"
    using assms(1) by (auto simp: doctor_main_def py_eqs split: option.splits)
  have failed: "status \<in> {1, 130}" if "doctor_failed x = Some k" "k u = (Inr status, t)" for x k u
    using that by (auto simp: doctor_failed_def py_eqs print_out_eq split: prod.splits if_splits failure.splits)
  have rest: "(\<exists>u. device_report H s = (Inr 0, u) \<and> doctor_check H args u = (Inr status, t)) \<or>
      (status \<noteq> 0 \<and> (\<exists>u. device_report H s = (Inr status, u)))" if "doctor_body H args s = (Inr status, t)"
    using that assms(2,3) by (auto simp: doctor_body_def py_eqs at_stage_eq split: if_splits)
  from assms(1) none consider "doctor_body H args s = (Inr status, t)" |
    x u k where "doctor_failed x = Some k" "k u = (Inr status, t)"
    by (auto simp: doctor_main_def split: prod.splits sum.splits option.splits)
  then show ?thesis
  proof cases
    case 1
    from rest [OF 1] show ?thesis
    proof (elim disjE exE conjE)
      fix u
      assume report: "device_report H s = (Inr 0, u)" and "doctor_check H args u = (Inr status, t)"
      from doctor_check_Inr [OF this(2) assms(4)] report none show ?thesis by fastforce
    next
      fix u
      assume "status \<noteq> 0" "device_report H s = (Inr status, u)"
      with device_report_status [OF this(2)] none show ?thesis by auto
    qed
  next
    case 2
    with failed [OF 2] none show ?thesis by auto
  qed
qed

section \<open>A machine with a device\<close>

definition demo_doctor :: "unit doctor_host" where
  "demo_doctor = \<lparr>h_root = ''r'', h_platform = ''linux'', h_python = ''python'',
     h_run = (\<lambda>_ _ v. (Inr (0, []), v)), h_write_error = (\<lambda>_ _. None), h_mkdir_error = (\<lambda>_ _. None),
     d_popen = (\<lambda>_ v. (Inr 7, v)), d_wait = (\<lambda>_ _ v. (Inr 0, v)), d_killpg = (\<lambda>_ v. (Inl ProcessLookupError, v)),
     d_read = (\<lambda>_ _. Inr []), d_glob = (\<lambda>p _. if p = ''/sys/class/infiniband'' then [''rxe0''] else []),
     d_which = (\<lambda>_ _. False), d_cxx = [''c++''], d_temporary = (\<lambda>d _. Inr (d @ ''/.compile-t'')),
     d_platform_line = ''Linux'', d_memlock = (- 1, - 1), d_now = ''now'', d_python_version = ''3'',
     d_netdev = None\<rparr>"

definition demo_arguments :: arguments where
  "demo_arguments = \<lparr>arg_check = True, arg_report = None, arg_device = Some ''rxe0'', arg_port = 1,
     arg_gid_index = Some 0, arg_timeout = 30\<rparr>"

definition demo_linux :: "unit machine" where
  "demo_linux = \<lparr>mc_files = (\<lambda>_. Some []), mc_rest = (), mc_log = []\<rparr>"

theorem doctor_verdict_witness:
  "\<exists>u a temporary w v t p st1 q st2. doctor_main demo_doctor demo_arguments demo_linux = (Inr 0, t) \<and>
     device_report demo_doctor demo_linux = (Inr 0, u) \<and> probe_built demo_doctor a temporary w \<and>
     run_command demo_doctor (check_command (in_root demo_doctor ''build/doctor/rdma_check'') demo_arguments) 30 w = (Inr (), v) \<and>
     mc_log t = mc_log u @ check_log demo_doctor demo_arguments temporary p st1 q st2"
proof -
  obtain u where report: "device_report demo_doctor demo_linux = (Inr 0, u)" "mc_files u = (\<lambda>_. Some [])"
    by (simp add: device_report_def list_devices_def report_device_def observe_def print_out_def log_event_def
        demo_doctor_def demo_linux_def py_defs)
  have "fst (doctor_check demo_doctor demo_arguments u) = Inr 0"
    using report(2)
    by (simp add: doctor_check_def build_probe_def run_command_def wait_process_def kill_group_def act_def
        py_finally_def py_except_def py_defs log_event_def print_out_def at_stage_def make_dir_def observe_def
        replace_file_def remove_tree_def read_text_def Let_def demo_doctor_def)
  then obtain v where "doctor_check demo_doctor demo_arguments u = (Inr 0, v)" by (metis prod.collapse)
  with report have "fst (doctor_main demo_doctor demo_arguments demo_linux) = Inr 0"
    by (simp add: doctor_main_def argument_error_def doctor_body_def demo_arguments_def at_stage_def py_defs)
  then obtain t where run: "doctor_main demo_doctor demo_arguments demo_linux = (Inr 0, t)"
    by (metis prod.collapse)
  have "\<exists>x. name = d @ ''/.compile-'' @ x" if "d_temporary demo_doctor d view = Inr name" for d view name
    using that by (auto simp: demo_doctor_def)
  from doctor_verdict [OF run _ _ this] show ?thesis using run
    by (fastforce simp: demo_arguments_def)
qed

end
