(* ===== verification/Generate.thy ===== *)
theory Generate
  imports Shell
begin

text \<open>
  \<^verbatim>\<open>scripts/generate_rust_bindings.py\<close> and \<^verbatim>\<open>scripts/generate_rpc.py\<close>: they regenerate source files
  from a shared description, or with \<^verbatim>\<open>--check\<close> tell whether the files in the repository are the ones
  that would be generated.
\<close>

section \<open>Comparing with the repository\<close>

text \<open>
  One file of the loop both scripts share: it is stale when it is missing or has another content. The
  printed difference is left out.
\<close>

definition check_file :: "('w, 'z) host_scheme \<Rightarrow> string \<Rightarrow> string \<Rightarrow> ('w, bool) script" where
  "check_file H name source =
     py_bind (is_file (in_root H name)) (\<lambda>there.
       if \<not> there then py_then (print_out [Txt ''Missing '', Txt name]) (py_return True)
       else py_bind (read_text (in_root H name)) (\<lambda>existing.
         if existing \<noteq> source
         then py_then (print_out [Txt ''generated '', Txt name]) (py_return True)
         else py_return False))"

fun check_files :: "('w, 'z) host_scheme \<Rightarrow> bool \<Rightarrow> (string \<times> string) list \<Rightarrow> ('w, bool) script" where
  "check_files H stale [] = py_return stale"
| "check_files H stale ((name, source) # rest) =
     py_bind (check_file H name source) (\<lambda>differs. check_files H (stale \<or> differs) rest)"

definition verdict :: "string \<Rightarrow> bool \<Rightarrow> ('w, int) script" where
  "verdict script stale =
     (if stale
      then py_then (print_err [Txt ''Generated files need updating; run: uv run --locked python '', Txt script])
             (py_return 1)
      else py_then (say ''Generated files are up to date'') (py_return 0))"

section \<open>generate_rust_bindings.py\<close>

text \<open>
  A node of Clang's syntax tree. \<open>b_parse_ast\<close> is \<^verbatim>\<open>json.loads(...)["inner"]\<close>; \<open>b_filter\<close> runs a
  process that reads the given text; \<open>b_clang\<close> and \<open>b_bindgen\<close> are the split values of \<^verbatim>\<open>CLANG\<close> and
  \<^verbatim>\<open>BINDGEN\<close>; \<open>b_temporary\<close> is the directory \<^verbatim>\<open>TemporaryDirectory\<close> creates.
\<close>

record node =
  nd_kind :: string
  nd_name :: "string option"
  nd_type :: string

record 'w binding_host = "'w host" +
  b_parse_ast :: "string \<Rightarrow> failure + node list"
  b_filter :: "string list \<Rightarrow> string \<Rightarrow> 'w os_view \<Rightarrow> (failure + int \<times> string) \<times> 'w os_view"
  b_clang :: "string list"
  b_bindgen :: "string list"
  b_temporary :: string

definition HEADER :: "('w, 'z) host_scheme \<Rightarrow> string" where
  "HEADER H = in_root H ''transfer-engine/transfer_engine.h''"

definition BINDGEN_VERSION :: string where
  "BINDGEN_VERSION = ''0.72.1''"

definition starts_with :: "string \<Rightarrow> string \<Rightarrow> bool" where
  "starts_with prefix s \<longleftrightarrow> take (length prefix) s = prefix"

definition is_api_function :: "node \<Rightarrow> bool" where
  "is_api_function n \<longleftrightarrow> nd_kind n = ''FunctionDecl'' \<and>
     starts_with ''r101_'' (case nd_name n of None \<Rightarrow> [] | Some name \<Rightarrow> name)"

text \<open>A dict comprehension: the last declaration of a name counts, at the place of the first.\<close>

definition api_functions :: "node list \<Rightarrow> (string, string) dict" where
  "api_functions nodes =
     fold (\<lambda>n d. AList.update (the (nd_name n)) (nd_type n) d) (filter is_api_function nodes) []"

definition declarations :: "('w, 'z) binding_host_scheme \<Rightarrow> ('w, (string, string) dict) script" where
  "declarations H =
     py_bind (run_checked H (b_clang H @ [''-x'', ''c'', ''-std=c11'', ''-Xclang'', ''-ast-dump=json'',
                ''-fsyntax-only'', HEADER H])) (\<lambda>out.
     py_bind (py_lift (b_parse_ast H out)) (\<lambda>nodes.
       py_return (api_functions nodes)))"

text \<open>\<open>text.replace("(", new, 1)\<close>\<close>

fun replace_first :: "char \<Rightarrow> string \<Rightarrow> string \<Rightarrow> string" where
  "replace_first x new [] = []"
| "replace_first x new (c # cs) = (if c = x then new @ cs else c # replace_first x new cs)"

definition signature :: "string \<times> string \<Rightarrow> string" where
  "signature = (\<lambda>(name, qual_type).
     replace_first (CHR ''('') (''(*'' @ name @ ''_signature)('') qual_type)"

definition quote :: string where "quote = [CHR 0x22]"

definition wrapper_text :: "('w, 'z) host_scheme \<Rightarrow> (string, string) dict \<Rightarrow> string" where
  "wrapper_text H functions =
     ''#include '' @ quote @ HEADER H @ quote @ newline @
     concat (map (\<lambda>f. ''typedef '' @ signature f @ '';'' @ newline) functions)"

definition bindgen_command :: "('w, 'z) binding_host_scheme \<Rightarrow> string \<Rightarrow> string list" where
  "bindgen_command H wrapper = b_bindgen H @ [wrapper, ''--allowlist-type'', ''r101_.*'',
     ''--allowlist-var'', ''R101_.*'', ''--generate'', ''types,vars'', ''--rust-target'', ''1.77'',
     ''--no-layout-tests'', ''--no-doc-comments'', ''--no-derive-debug'', ''--no-prepend-enum-name'',
     ''--disable-header-comment'', ''--'', ''-std=c11'']"

definition decorate :: "(string, string) dict \<Rightarrow> string \<Rightarrow> string" where
  "decorate functions source =
     ''// Generated from transfer-engine/transfer_engine.h by scripts/generate_rust_bindings.py.'' @ newline @
     ''// Do not edit; regenerate with bindgen '' @ BINDGEN_VERSION @ ''.'' @ newline @
     ''#![allow(non_camel_case_types, dead_code)]'' @ newline @ source @
     newline @ ''// Check every exported function against its C signature.'' @ newline @
     concat (map (\<lambda>(name, _). ''const _: '' @ name @ ''_signature = Some(crate::ffi::'' @ name @ '');'' @ newline)
       functions)"

definition filter_text ::
  "('w, 'z) binding_host_scheme \<Rightarrow> string list \<Rightarrow> string \<Rightarrow> ('w, string) script" where
  "filter_text H command input =
     py_bind (\<lambda>s. case b_filter H command input (mc_files s, mc_rest s) of
         (r, files, rest) \<Rightarrow> (r, \<lparr>mc_files = files, mc_rest = rest, mc_log = mc_log s @ [Ran command]\<rparr>))
     (\<lambda>(status, out). py_then (py_raise_if (status \<noteq> 0) (CalledProcessError status)) (py_return out))"

definition rust_bindings ::
  "('w, 'z) binding_host_scheme \<Rightarrow> (string, string) dict \<Rightarrow> ('w, string) script" where
  "rust_bindings H functions =
     py_bind (run_checked H (b_bindgen H @ [''--version''])) (\<lambda>version.
     py_then (py_raise_if (strip version \<noteq> ''bindgen '' @ BINDGEN_VERSION)
                (RuntimeFailure (''expected bindgen '' @ BINDGEN_VERSION @ '', got '' @ strip version)))
    (let wrapper = b_temporary H @ ''/wrapper.h'' in
     py_bind (py_finally
         (py_then (write_text H wrapper (wrapper_text H functions))
            (run_checked H (bindgen_command H wrapper)))
         (py_modify (\<lambda>s. s\<lparr>mc_files := (mc_files s)(wrapper := None)\<rparr>))) (\<lambda>source.
       filter_text H [''rustfmt'', ''--edition'', ''2021''] (decorate functions source))))"

definition BINDINGS :: string where
  "BINDINGS = ''transfer-engine/rust/src/bindings.rs''"

definition generate_rust_main :: "('w, 'z) binding_host_scheme \<Rightarrow> bool \<Rightarrow> ('w, int) script" where
  "generate_rust_main H check =
     py_bind (declarations H) (\<lambda>api.
     py_bind (rust_bindings H api) (\<lambda>source.
       let generated = [(BINDINGS, source)] in
       if check
       then py_bind (check_files H False generated) (verdict ''scripts/generate_rust_bindings.py'')
       else py_then (py_each (\<lambda>(name, source).
                py_then (write_text H (in_root H name) source) (print_out [Txt ''Generated '', Txt name])) generated)
              (py_return 0)))"

section \<open>generate_rpc.py\<close>

text \<open>
  \<open>p_protoc arguments\<close> is \<^verbatim>\<open>protoc.main\<close>, which writes the modules below the directories it is given;
  \<open>p_rglob directory\<close> lists the Python files below a directory, relative to it.
\<close>

record 'w rpc_host = "'w host" +
  p_protoc :: "string list \<Rightarrow> 'w os_view \<Rightarrow> (failure + int) \<times> 'w os_view"
  p_rglob :: "string \<Rightarrow> 'w os_view \<Rightarrow> string list"
  p_temporary :: string

definition protoc_arguments :: "('w, 'z) host_scheme \<Rightarrow> string \<Rightarrow> string list" where
  "protoc_arguments H directory =
     [''grpc_tools.protoc'', ''-Irdma101/generated='' @ in_root H ''rdma101'', ''--python_out='' @ directory,
      ''--grpc_python_out='' @ directory, in_root H ''rdma101/control.proto'']"

definition generate :: "('w, 'z) rpc_host_scheme \<Rightarrow> string \<Rightarrow> ('w, int) script" where
  "generate H directory =
     py_then (make_dir H (directory @ ''/rdma101/generated''))
       (\<lambda>s. case p_protoc H (protoc_arguments H directory) (mc_files s, mc_rest s) of
          (r, files, rest) \<Rightarrow> (r, \<lparr>mc_files = files, mc_rest = rest,
             mc_log = mc_log s @ [Ran (protoc_arguments H directory)]\<rparr>))"

text \<open>\<open>generated.read_text()\<close> of each module, checked in the order of the sorted paths.\<close>

fun check_modules ::
  "('w, 'z) host_scheme \<Rightarrow> string \<Rightarrow> bool \<Rightarrow> string list \<Rightarrow> ('w, bool) script" where
  "check_modules H directory stale [] = py_return stale"
| "check_modules H directory stale (name # names) =
     py_bind (is_file (in_root H name)) (\<lambda>there.
       if \<not> there
       then py_then (print_out [Txt ''Missing '', Txt name]) (check_modules H directory True names)
       else py_bind (read_text (directory @ ''/'' @ name)) (\<lambda>source.
            py_bind (check_file H name source) (\<lambda>differs.
              check_modules H directory (stale \<or> differs) names)))"

definition generate_rpc_main :: "('w, 'z) rpc_host_scheme \<Rightarrow> bool \<Rightarrow> ('w, int) script" where
  "generate_rpc_main H check =
     (if \<not> check
      then py_bind (generate H (h_root H)) (\<lambda>result.
           py_then (if result = 0 then say ''Generated rdma101/generated'' else py_return ())
             (py_return result))
      else py_bind (py_finally
          (py_bind (generate H (p_temporary H)) (\<lambda>result.
             if result \<noteq> 0 then py_return (Inl result)
             else py_bind (py_gets (\<lambda>s. p_rglob H (p_temporary H) (mc_files s, mc_rest s))) (\<lambda>names.
                  py_bind (check_modules H (p_temporary H) False (sort_key path_parts names)) (\<lambda>stale.
                    py_return (Inr stale)))))
          (py_modify (\<lambda>s. s\<lparr>mc_files := (\<lambda>path.
             if starts_with (p_temporary H @ ''/'') path then None else mc_files s path)\<rparr>)))
        (\<lambda>outcome. case outcome of
             Inl result \<Rightarrow> py_return result
           | Inr stale \<Rightarrow> verdict ''scripts/generate_rpc.py'' stale))"

section \<open>What a check answers\<close>

lemma check_file_exact:
  "\<exists>t. check_file H name source s = (Inr (mc_files s (in_root H name) \<noteq> Some source), t) \<and>
     mc_files t = mc_files s \<and> mc_rest t = mc_rest s"
  by (cases "mc_files s (in_root H name)")
    (auto simp: check_file_def is_file_def read_text_def print_out_def log_event_def py_defs)

lemma check_files_exact:
  "\<exists>t. check_files H stale files s =
     (Inr (stale \<or> (\<exists>(name, source) \<in> set files. mc_files s (in_root H name) \<noteq> Some source)), t) \<and>
     mc_files t = mc_files s"
proof (induction files arbitrary: stale s)
  case (Cons f files)
  obtain name source where f: "f = (name, source)" by fastforce
  from check_file_exact [of H name source s] obtain t where
    t: "check_file H name source s = (Inr (mc_files s (in_root H name) \<noteq> Some source), t)" "mc_files t = mc_files s"
    by blast
  with Cons.IH [of "stale \<or> mc_files s (in_root H name) \<noteq> Some source" t] show ?case
    by (auto simp: f py_bind_def)
qed (simp add: py_defs)

lemma verdict_exact:
  "\<exists>t. verdict script stale s = (Inr (if stale then 1 else 0), t) \<and> mc_files t = mc_files s"
  by (simp add: verdict_def print_err_def print_out_def log_event_def py_defs)

text \<open>The Rust bindings: a check compares the one generated file and writes nothing to the repository.\<close>

lemma bindings_check_exact:
  assumes "declarations H s = (Inr api, u)" and "rust_bindings H api u = (Inr source, v)"
  shows "\<exists>t. generate_rust_main H True s =
    (Inr (if mc_files v (in_root H BINDINGS) = Some source then 0 else 1), t) \<and> mc_files t = mc_files v"
proof -
  from check_files_exact [of H False "[(BINDINGS, source)]" v] obtain w where
    w: "check_files H False [(BINDINGS, source)] v = (Inr (mc_files v (in_root H BINDINGS) \<noteq> Some source), w)"
      "mc_files w = mc_files v" by auto
  with assms verdict_exact [of "''scripts/generate_rust_bindings.py''" "mc_files v (in_root H BINDINGS) \<noteq> Some source" w]
  show ?thesis by (auto simp: generate_rust_main_def py_bind_def Let_def simp del: check_files.simps)
qed

lemma check_modules_exact:
  assumes "\<forall>n \<in> set names. mc_files s (directory @ ''/'' @ n) \<noteq> None"
  shows "\<exists>t. check_modules H directory stale names s =
     (Inr (stale \<or> (\<exists>n \<in> set names. mc_files s (in_root H n) \<noteq> mc_files s (directory @ ''/'' @ n))), t) \<and>
     mc_files t = mc_files s"
  using assms
proof (induction names arbitrary: stale s)
  case (Cons n names)
  then obtain source where source: "mc_files s (directory @ ''/'' @ n) = Some source" by auto
  let ?present = "mc_files s (in_root H n) \<noteq> None"
  let ?differs = "mc_files s (in_root H n) \<noteq> Some source"
  have "\<exists>t. check_modules H directory stale (n # names) s = check_modules H directory (stale \<or> ?differs) names t \<and>
      mc_files t = mc_files s"
  proof (cases ?present)
    case True
    from check_file_exact [of H n source s] obtain t where
      "check_file H n source s = (Inr ?differs, t)" "mc_files t = mc_files s" by blast
    with True source show ?thesis
      by (intro exI [of _ t]) (simp add: is_file_def read_text_def py_bind_def py_gets_def py_return_def)
  next
    case False
    then show ?thesis
      by (simp add: is_file_def print_out_def log_event_def py_defs)
        (rule exI [of _ "s\<lparr>mc_log := mc_log s @ [Printed [Txt ''Missing '', Txt n]]\<rparr>"], simp)
  qed
  then obtain t where t: "check_modules H directory stale (n # names) s =
      check_modules H directory (stale \<or> ?differs) names t" "mc_files t = mc_files s" by blast
  have "\<forall>n \<in> set names. mc_files t (directory @ ''/'' @ n) \<noteq> None" using Cons.prems t(2) by simp
  from Cons.IH [OF this, of "stale \<or> ?differs"] t source show ?case by auto
qed (simp add: py_defs)

text \<open>
  C34: \<^verbatim>\<open>generate_rpc.py --check\<close> answers exactly whether the repository holds what would be generated.
  When the generator succeeds, the exit status is 0 if every module it produced is in the repository
  with the same content and 1 otherwise, and apart from the temporary directory, which is gone, the
  files are as the generator left them: a check repairs nothing.
\<close>

theorem rpc_check_exact:
  assumes "generate H (p_temporary H) s = (Inr 0, u)"
    and "\<forall>n \<in> set (p_rglob H (p_temporary H) (mc_files u, mc_rest u)). mc_files u (p_temporary H @ ''/'' @ n) \<noteq> None"
  shows "\<exists>t. generate_rpc_main H True s =
    (Inr (if \<forall>n \<in> set (p_rglob H (p_temporary H) (mc_files u, mc_rest u)).
            mc_files u (in_root H n) = mc_files u (p_temporary H @ ''/'' @ n) then 0 else 1), t) \<and>
    mc_files t = (\<lambda>path. if starts_with (p_temporary H @ ''/'') path then None else mc_files u path)"
proof -
  let ?tmp = "p_temporary H"
  let ?names = "p_rglob H ?tmp (mc_files u, mc_rest u)"
  let ?stale = "\<exists>n \<in> set ?names. mc_files u (in_root H n) \<noteq> mc_files u (?tmp @ ''/'' @ n)"
  from check_modules_exact [of "sort_key path_parts ?names" u ?tmp H False] assms(2) obtain v where
    v: "check_modules H ?tmp False (sort_key path_parts ?names) u = (Inr ?stale, v)" "mc_files v = mc_files u"
    by auto
  let ?w = "v\<lparr>mc_files := \<lambda>path. if starts_with (?tmp @ ''/'') path then None else mc_files v path\<rparr>"
  from verdict_exact [of "''scripts/generate_rpc.py''" ?stale ?w] obtain t where
    "verdict ''scripts/generate_rpc.py'' ?stale ?w = (Inr (if ?stale then 1 else 0), t)" "mc_files t = mc_files ?w"
    by blast
  moreover have "generate_rpc_main H True s = verdict ''scripts/generate_rpc.py'' ?stale ?w"
    using assms(1) v
    by (simp add: generate_rpc_main_def py_bind_def py_finally_def py_gets_def py_return_def py_modify_def)
  ultimately show ?thesis using v(2) by (cases ?stale) auto
qed

text \<open>A repository whose only module is up to date.\<close>

definition demo_rpc :: "unit rpc_host" where
  "demo_rpc = \<lparr>h_root = ''r'', h_platform = ''linux'', h_python = ''python'',
     h_run = (\<lambda>_ _ v. (Inr (0, []), v)), h_write_error = (\<lambda>_ _. None), h_mkdir_error = (\<lambda>_ _. None),
     p_protoc = (\<lambda>_ (files, w). (Inr 0, files(''t/a.py'' \<mapsto> ''x''), w)), p_rglob = (\<lambda>_ _. [''a.py'']), p_temporary = ''t''\<rparr>"

definition demo_repository :: "unit machine" where
  "demo_repository = \<lparr>mc_files = [''r/a.py'' \<mapsto> ''x''], mc_rest = (), mc_log = []\<rparr>"

theorem rpc_check_exact_witness:
  "\<exists>t. generate_rpc_main demo_rpc True demo_repository = (Inr 0, t) \<and> mc_files t ''t/a.py'' = None"
proof -
  let ?u = "\<lparr>mc_files = [''r/a.py'' \<mapsto> ''x'', ''t/a.py'' \<mapsto> ''x''], mc_rest = (),
    mc_log = [MadeDir ''t/rdma101/generated'', Ran (protoc_arguments demo_rpc ''t'')]\<rparr>"
  have "generate demo_rpc (p_temporary demo_rpc) demo_repository = (Inr 0, ?u)"
    by (simp add: generate_def make_dir_def log_event_def py_defs demo_rpc_def demo_repository_def
        protoc_arguments_def in_root_def)
  from rpc_check_exact [OF this] show ?thesis
    by (auto simp: demo_rpc_def in_root_def starts_with_def)
qed

end
