(* ===== verification/Spec2Isabelle.thy ===== *)
theory Spec2Isabelle
  imports Rust_Adapter Link_Spec Meeting Sharing Descriptor Granting Package Grader Doctor Generate
begin

text \<open>
  A model of the Python side of \<^verbatim>\<open>rdma101-labs\<close>, a course repository in which an application moves
  memory between processes over RDMA, and the theorems that make it correct.

  \<^bold>\<open>The program.\<close> An application holds an \<^verbatim>\<open>Engine\<close> (\<^verbatim>\<open>rdma101/engine.py\<close>). It owns a \<^verbatim>\<open>NativeEngine\<close>
  (\<^verbatim>\<open>rdma101/native_engine.py\<close>), the bookkeeping around a C library with the interface
  \<^verbatim>\<open>transfer-engine/transfer_engine.h\<close>, and a \<^verbatim>\<open>ControlPlane\<close> (\<^verbatim>\<open>rdma101/control.py\<close>), a gRPC server and
  client with the messages of \<^verbatim>\<open>rdma101/control.proto\<close>. \<open>connect\<close> makes a native peer, offers its
  metadata to another process, connects to the metadata that comes back, and swaps snapshots of the
  published memories; \<open>register_local_memory\<close> registers storage and publishes it to the ready peers;
  \<open>transfer\<close> submits requests and waits for their statuses. The tools under \<^verbatim>\<open>scripts/\<close> build, test,
  format, grade, diagnose and regenerate.

  \<^bold>\<open>How it is modelled.\<close> A Python call is a state transformer that returns or raises and keeps the
  writes made before it raised (\<open>py\<close> of \<^verbatim>\<open>Prelude\<close>). Objects that are shared, the \<^verbatim>\<open>Peer\<close>s of a control
  plane, live in a store and are named by references, so what a thread sees after it took the lock
  again is what the others left there. Dictionaries are association lists in insertion order.
  Exceptions are values with their texts. Numbers that cross the C boundary are words.

  \<^bold>\<open>The theories.\<close>

  \<^item> \<^verbatim>\<open>Prelude\<close>: the effect of a call, its combinators, triples, transition contracts (\<open>guarded\<close>),
    dictionaries, decimal numerals.
  \<^item> \<^verbatim>\<open>Types\<close>: \<^verbatim>\<open>rdma101/types.py\<close>. \<^verbatim>\<open>Bindings\<close>: \<^verbatim>\<open>rdma101/bindings.py\<close> with the constants and functions of
    the header.
  \<^item> \<^verbatim>\<open>Memory\<close>, \<^verbatim>\<open>Encoding\<close>, \<^verbatim>\<open>Native_Engine\<close>: \<^verbatim>\<open>rdma101/native_engine.py\<close>, which are its storage, its
    conversions, and the class \<^verbatim>\<open>NativeEngine\<close> over the parameter \<open>c_api\<close>. \<^verbatim>\<open>Native_Facts\<close>: what its
    books guarantee whatever the library does.
  \<^item> \<^verbatim>\<open>Ffi\<close>, \<^verbatim>\<open>Adapter\<close>: \<^verbatim>\<open>transfer-engine/cpp/ffi.cpp\<close>, its conversions and its entry points, over the
    parameter \<open>cpp_engine\<close> for the class of \<^verbatim>\<open>transfer-engine/cpp/engine.hpp\<close>; that the conversions invert
    those of Python, and that requests and statuses reach the other side.
  \<^item> \<^verbatim>\<open>Native_Interface\<close>: what the control plane and the engine use of a native engine, with the
    contracts \<open>peer_store\<close> and \<open>engine_store\<close>. \<^verbatim>\<open>Fake_Native\<close>: \<^verbatim>\<open>FakeNativeEngine\<close> of
    \<^verbatim>\<open>tests/internal/conftest.py\<close>, which keeps them.
  \<^item> \<^verbatim>\<open>Control\<close>: \<^verbatim>\<open>rdma101/control.py\<close>, every method cut at its remote calls into the critical sections
    under \<^verbatim>\<open>_state_lock\<close>. \<^verbatim>\<open>Control_Invariants\<close>: the invariant \<open>control_wf\<close> and the relation \<open>evolves\<close> of
    every section. \<^verbatim>\<open>Kept\<close>: what all of them leave alone. \<^verbatim>\<open>Control_Facts\<close>: each operation and each handler on every branch.
  \<^item> \<^verbatim>\<open>Grounding\<close>, \<^verbatim>\<open>Network\<close>: any number of processes and their messages, with the pairing of queue
    pairs and the origin of imported memories. \<^verbatim>\<open>Handshake\<close>: two processes that connect undisturbed.
    \<^verbatim>\<open>Meeting\<close>: two processes that connect to each other at once. \<^verbatim>\<open>Sharing\<close>: a process that publishes to those it
    is connected to. \<^verbatim>\<open>Link_Spec\<close>: the handlers as an
    abstract automaton, answers included, over any native engine. \<^verbatim>\<open>Rpc\<close>: \<^verbatim>\<open>rdma101/generated/control_pb2_grpc.py\<close>, the stub and the server between two
    planes, over the contracts of gRPC (\<open>unary_transport\<close>) and protobuf (\<open>protobuf_ok\<close>). \<^verbatim>\<open>Descriptor\<close>: the serialized
    descriptor of \<^verbatim>\<open>rdma101/generated/control_pb2.py\<close> against \<^verbatim>\<open>rdma101/control.proto\<close>, and the messages in the wire
    format it describes, which keep the contract of protobuf.
  \<^item> \<^verbatim>\<open>Engine\<close>, \<^verbatim>\<open>Engine_Facts\<close>: \<^verbatim>\<open>rdma101/engine.py\<close>. \<^verbatim>\<open>Native_Contract\<close>: the contract the header
    documents for the C library (\<open>c_engine\<close>), and that a \<open>NativeEngine\<close> over it is an \<open>engine_store\<close>,
    so all that is proved of the control plane and the engine holds of the real classes. \<^verbatim>\<open>Stack\<close>: that the
    adapter over a C++ engine with the contract of \<^verbatim>\<open>engine.hpp\<close> (\<open>cpp_contract\<close>) is a \<open>c_engine\<close>. \<^verbatim>\<open>Granting\<close>:
    that \<open>NativeEngine\<close> over a \<open>c_engine\<close> which grants what is asked is an \<open>obliging_store\<close>, and two constructed engines
    that connect.
    \<^verbatim>\<open>Rust_Adapter\<close>: \<^verbatim>\<open>transfer-engine/rust/src/ffi.rs\<close> over the interface of \<^verbatim>\<open>rust/src/engine.rs\<close>
    (\<open>rust_engine\<close>), and that it makes the library the C++ adapter makes. \<^verbatim>\<open>Package\<close>: the exports of
    \<^verbatim>\<open>rdma101/__init__.py\<close> and \<^verbatim>\<open>with\<close> blocks over engines.
  \<^item> \<^verbatim>\<open>Shell\<close>: the machine the tools run on. \<^verbatim>\<open>Build\<close>: \<^verbatim>\<open>scripts/build.py\<close>, \<^verbatim>\<open>scripts/test.py\<close>,
    \<^verbatim>\<open>scripts/format.py\<close>. \<^verbatim>\<open>Grader\<close>: \<^verbatim>\<open>scripts/grader.py\<close>. \<^verbatim>\<open>Doctor\<close>: \<^verbatim>\<open>scripts/doctor.py\<close>. \<^verbatim>\<open>Generate\<close>:
    \<^verbatim>\<open>scripts/generate_rpc.py\<close>, \<^verbatim>\<open>scripts/generate_rust_bindings.py\<close>.
\<close>

text \<open>
  \<^bold>\<open>Concurrency.\<close> A critical section is atomic. A single plane is run against its environment:
  \<open>during E calls reply\<close> is a remote call in which the handlers \<open>calls\<close> run on this plane before it
  answers \<open>reply\<close>, both arbitrary; \<open>others\<close> of a \<open>world\<close> is what other threads do to an engine
  between two polls of \<open>wait\<close>. Whatever is stable under \<open>evolves\<close> holds across all of them. Outgoing
  operations of one engine do not overlap, because \<^verbatim>\<open>_resource_lock\<close> serializes them. A \<open>network\<close>
  holds one process per endpoint and every message ever sent: a step delivers any of them, so messages
  are delayed, reordered and repeated, an undelivered one is lost, and a caller may give up at any
  time. The notices of one \<open>publish\<close> are sent together.

  \<^bold>\<open>What is proved.\<close>

  \<^item> Waiting: with a clock that advances by the slept millisecond between readings, \<open>wait\<close> with a
    finite timeout \<open>\<tau>\<close> returns within \<open>1000 * \<tau> + 2\<close> readings of the clock, and times out only with a pending
    task at or past its deadline, after exactly the polls that saw a pending task before the deadline. The loop is a \<open>partial_function\<close>, so that it returns is part of the
    theorem. \<open>transfer\<close> frees its batch before it reports a failed task and keeps it on a timeout.
  \<^item> Connecting: a \<open>connect\<close> that returns gives a live native peer, connected and stored for the
    endpoint; in every reachable network a connected peer is wired to the queue pair the other process
    made for this one, and imported memories were published by it; an undisturbed handshake completes
    and links both ends; two planes that connect to each other at once, in any interleaving, end up with one
    peer each, wired to the other, after at most five turns of each call; a \<open>publish\<close> returns, with everything
    published imported by every process with a ready peer. That these calls return is proved over engines that grant
    what is asked until they are spent (\<open>obliging_store\<close>): each says \<open>unless an engine is spent by then\<close>, and
    \<^verbatim>\<open>Granting\<close> shows them of real engines over the C boundary.
  \<^item> The generated RPC code: it agrees with the service in names, paths and types, its calls run the handlers of
    the plane that serves the channel, and a handshake over it is the handshake of two planes; the descriptor in it is
    that of \<^verbatim>\<open>control.proto\<close>, byte for byte.
  \<^item> Every run: peers stay well formed, move forward only and are not revived; a closed engine has
    none; \<open>NativeEngine\<close> never returns a null handle nor one that is still in use, whatever the library answers, and keeps
    registered storage until the library confirmed its release.
  \<^item> Handlers: each on every branch, and together as the automaton of \<^verbatim>\<open>Link_Spec\<close>.
  \<^item> The C boundary: the engine behind the adapter sees the requests Python was given and Python the
    statuses the engine reports; result codes survive; the adapter turns the contract of the C++ class into that
    of the C header; the Rust adapter answers every call as the C++ one would over the same engine; storage is aligned and writes stay inside it.
  \<^item> Tools: scores lie between 0 and 800 and the record names the best language; \<open>run_command\<close> kills
    and reaps the process group it started however it ends, unless its cleanup itself raises; \<^verbatim>\<open>doctor.py --check\<close>
    passes only a probe it built and ran; \<^verbatim>\<open>generate_rpc.py --check\<close> reports what it should and changes nothing; every formatter runs.

  \<^bold>\<open>Parameters.\<close> The C library (\<open>c_api\<close>) or the C++ or Rust engine behind it (\<open>cpp_engine\<close>, \<open>rust_engine\<close>), CFFI and where it
  allocates, \<^verbatim>\<open>uuid4\<close>, the clock, the gRPC transport (\<open>invoke\<close>), the protobuf classes (\<open>protobuf\<close>), the bound port, and for the
  tools the processes, the file system errors, the parser of test reports and \<^verbatim>\<open>argparse\<close>. Their assumed behaviour stands in the locales \<open>peer_store\<close>, \<open>engine_store\<close>,
  \<open>c_engine\<close>, \<open>cpp_contract\<close>, \<open>obliging_store\<close> and \<open>granting_library\<close> or in hypotheses. The last two ask for progress:
  an engine that is not \<open>spent\<close> (out of a resource or closed, which lasts) creates a peer, connects a live peer to
  well-formed metadata and imports well-formed metadata for a connected one; what is well formed is a parameter, and
  all else, as empty metadata, may be refused. The locales \<open>planes\<close>, \<open>control_store\<close> and \<open>engine_plane\<close> combine them. \<open>unary_transport\<close> is interpreted on a loopback. They are interpreted on
  the test double of \<^verbatim>\<open>Fake_Native\<close>. By sublocales \<open>engine_store\<close> holds of \<open>NativeEngine\<close> over any \<open>c_engine\<close>, and
  \<open>c_engine\<close> of the adapter over any \<open>cpp_contract\<close>, which is interpreted on an engine in memory, as is
  \<open>granting_library\<close> on the library the adapter makes of it.
  \<open>native_keeps\<close>, what every native call preserves, is interpreted on \<open>NativeEngine\<close>.

  \<^bold>\<open>Simplifications.\<close> Scores, times and timeouts are exact rationals, so that nothing is said of rounding.
  Strings are lists of 8-bit characters. The wire format has no limit on the size of a message. Deadlines of remote calls are any failure at any time. The
  tools keep what they print as parts of a message, without its layout; the texts of some of their
  exceptions and the differences \<^verbatim>\<open>--check\<close> prints are left out.

  \<^bold>\<open>Not modelled.\<close> The engines in C++ and Rust (\<^verbatim>\<open>engine.cpp\<close>, \<^verbatim>\<open>engine.rs\<close>) are skeletons for the students,
  in which every operation answers that it is not implemented (\<open>skeleton\<close> of \<^verbatim>\<open>Stack\<close>, \<open>rust_skeleton\<close> of
  \<^verbatim>\<open>Rust_Adapter\<close>); a finished one is a parameter. A C++ exception that reaches the adapter ends the process, and the model stops short of it.
  What protobuf does with the descriptor of \<^verbatim>\<open>control_pb2.py\<close> when it is loaded is its own, and \<^verbatim>\<open>rust/src/bindings.rs\<close>
  holds generated declarations. The probes \<^verbatim>\<open>rdma_check.cpp\<close> and
  \<^verbatim>\<open>verbs_probe.c\<close> are device input and output, and the test suites are tests.
\<close>

end
